theory Spec2Isabelle
  imports Main "HOL-Library.Word" "HOL-Library.Monad_Syntax"
begin

unbundle bit_operations_syntax

section \<open>Primitive types\<close>

text \<open>
  The value categories of an expression (\<open>LocalType\<close>) and the width and signedness of a
  memory access (\<open>MemType\<close>). The builder (tf-builder.cc) spells the constants
  \<open>kAstI32\<close>, \<open>kMemI32\<close>; the test runner spells the same constants \<open>kAstInt32\<close>,
  \<open>kAstFloat32\<close>, so both spellings are provided.
\<close>

datatype LocalType = kAstStmt | kAstI32 | kAstI64 | kAstF32 | kAstF64 | kAstEnd

abbreviation kAstInt32 :: LocalType where "kAstInt32 \<equiv> kAstI32"
abbreviation kAstInt64 :: LocalType where "kAstInt64 \<equiv> kAstI64"
abbreviation kAstFloat32 :: LocalType where "kAstFloat32 \<equiv> kAstF32"
abbreviation kAstFloat64 :: LocalType where "kAstFloat64 \<equiv> kAstF64"

datatype MemType =
    kMemI8 | kMemU8 | kMemI16 | kMemU16 | kMemI32 | kMemU32
  | kMemI64 | kMemU64 | kMemF32 | kMemF64

section \<open>Function environment and \<open>WasmRunner::AllocateLocal\<close>\<close>

text \<open>
  A function signature carries its parameter and return types; \<open>parameter_count\<close> is the
  number of parameters.
\<close>

record FunctionSig =
  params :: "LocalType list"
  returns :: "LocalType list"

definition parameter_count :: "FunctionSig \<Rightarrow> nat" where
  "parameter_count sg = length (params sg)"

text \<open>
  The per-function environment. The counters are unsigned 32-bit fields
  (\<open>init_env\<close> stores \<open>static_cast<unsigned>(sig->parameter_count())\<close> in
  \<open>total_locals\<close>), so they are words and \<open>++\<close> wraps.
\<close>

record FunctionEnv =
  sig :: FunctionSig
  local_int32_count :: "32 word"
  local_int64_count :: "32 word"
  local_float32_count :: "32 word"
  local_float64_count :: "32 word"
  total_locals :: "32 word"

definition init_env :: "FunctionSig \<Rightarrow> FunctionEnv" where
  "init_env sg =
     \<lparr> sig = sg,
       local_int32_count = 0,
       local_int64_count = 0,
       local_float32_count = 0,
       local_float64_count = 0,
       total_locals = word_of_nat (parameter_count sg) \<rparr>"

text \<open>
  \<open>AllocateLocal\<close>: \<open>result\<close> is a 32-bit \<open>int\<close> that starts at the parameter count and
  is advanced by the counter of the requested type only (each of the three \<open>if\<close>s is
  tried in turn; none is taken for \<open>kAstInt64\<close>). \<open>CHECK_EQ(result, b)\<close> compares the
  \<open>int\<close> with the byte it was truncated to; when they differ the process is aborted,
  which is the result \<open>None\<close>.
\<close>

definition AllocateLocal :: "LocalType \<Rightarrow> FunctionEnv \<Rightarrow> (8 word \<times> FunctionEnv) option" where
  "AllocateLocal type env =
     (let result0 = (word_of_nat (parameter_count (sig env)) :: 32 word);
          (result1, env1) =
             (if type = kAstInt32
              then (result0 + local_int32_count env,
                    env\<lparr>local_int32_count := local_int32_count env + 1\<rparr>)
              else (result0, env));
          (result2, env2) =
             (if type = kAstFloat32
              then (result1 + local_float32_count env1,
                    env1\<lparr>local_float32_count := local_float32_count env1 + 1\<rparr>)
              else (result1, env1));
          (result3, env3) =
             (if type = kAstFloat64
              then (result2 + local_float64_count env2,
                    env2\<lparr>local_float64_count := local_float64_count env2 + 1\<rparr>)
              else (result2, env2));
          env4 = env3\<lparr>total_locals := total_locals env3 + 1\<rparr>;
          b = (ucast result3 :: 8 word)
      in if sint result3 = uint b then Some (b, env4) else None)"

text \<open>The signature \<open>(i32) \<rightarrow> i32\<close> of \<open>CommonSignatures::sig_i_i\<close>.\<close>

definition sig_i_i :: FunctionSig where
  "sig_i_i = \<lparr> params = [kAstInt32], returns = [kAstInt32] \<rparr>"

section \<open>The IR graph\<close>

text \<open>Trap reasons and their messages (\<open>TrapReason\<close>, \<open>kTrapMessages\<close>).\<close>

datatype TrapReason =
    kTrapUnreachable | kTrapMemOutOfBounds | kTrapDivByZero | kTrapDivUnrepresentable
  | kTrapRemByZero | kTrapFloatUnrepresentable | kTrapFuncInvalid | kTrapFuncSigMismatch

fun kTrapMessages :: "TrapReason \<Rightarrow> string" where
  "kTrapMessages kTrapUnreachable = ''unreachable''"
| "kTrapMessages kTrapMemOutOfBounds = ''memory access out of bounds''"
| "kTrapMessages kTrapDivByZero = ''divide by zero''"
| "kTrapMessages kTrapDivUnrepresentable = ''divide result unrepresentable''"
| "kTrapMessages kTrapRemByZero = ''remainder by zero''"
| "kTrapMessages kTrapFloatUnrepresentable = ''integer result unrepresentable''"
| "kTrapMessages kTrapFuncInvalid = ''invalid function''"
| "kTrapMessages kTrapFuncSigMismatch = ''function signature mismatch''"

definition all_reasons :: "TrapReason list" where
  "all_reasons =
     [kTrapUnreachable, kTrapMemOutOfBounds, kTrapDivByZero, kTrapDivUnrepresentable,
      kTrapRemByZero, kTrapFloatUnrepresentable, kTrapFuncInvalid, kTrapFuncSigMismatch]"

datatype MachineType =
    kMachInt8 | kMachInt16 | kMachInt32 | kMachInt64
  | kMachUint8 | kMachUint16 | kMachUint32 | kMachUint64
  | kMachFloat32 | kMachFloat64 | kMachAnyTagged

text \<open>\<open>MachineTypeFor(MemType)\<close>; the \<open>default: UNREACHABLE()\<close> arm has no enum value.\<close>

fun MachineTypeFor :: "MemType \<Rightarrow> MachineType" where
  "MachineTypeFor kMemI8 = kMachInt8"
| "MachineTypeFor kMemI16 = kMachInt16"
| "MachineTypeFor kMemI32 = kMachInt32"
| "MachineTypeFor kMemI64 = kMachInt64"
| "MachineTypeFor kMemU8 = kMachUint8"
| "MachineTypeFor kMemU16 = kMachUint16"
| "MachineTypeFor kMemU32 = kMachUint32"
| "MachineTypeFor kMemU64 = kMachUint64"
| "MachineTypeFor kMemF64 = kMachFloat64"
| "MachineTypeFor kMemF32 = kMachFloat32"

text \<open>
  The operators of the machine-operator builder that the builder names, grouped by the
  type they work on so that each enumeration stays small.
\<close>

datatype Word32Operator =
    Int32Add | Int32Sub | Int32Mul | Int32Div | Uint32Div | Int32Mod | Uint32Mod
  | Word32And | Word32Or | Word32Xor | Word32Shl | Word32Shr | Word32Sar | Word32Equal
  | Int32LessThan | Int32LessThanOrEqual | Uint32LessThan | Uint32LessThanOrEqual
  | Word32Clz | Word32Ctz | Word32Popcnt

datatype Word64Operator =
    Int64Add | Int64Sub | Int64Mul | Int64Div | Uint64Div | Int64Mod | Uint64Mod
  | Word64And | Word64Or | Word64Xor | Word64Shl | Word64Shr | Word64Sar | Word64Equal
  | Int64LessThan | Int64LessThanOrEqual | Uint64LessThan | Uint64LessThanOrEqual
  | Word64Clz | Word64Ctz | Word64Popcnt

datatype Float32Operator =
    Float32Add | Float32Sub | Float32Mul | Float32Div | Float32Equal | Float32LessThan
  | Float32LessThanOrEqual | Float32Min | Float32Max | Float32Abs | Float32Sqrt
  | Float32RoundDown | Float32RoundUp | Float32RoundTruncate | Float32RoundTiesEven

datatype Float64Operator =
    Float64Add | Float64Sub | Float64Mul | Float64Div | Float64Equal | Float64LessThan
  | Float64LessThanOrEqual | Float64Min | Float64Max | Float64Abs | Float64Sqrt
  | Float64RoundDown | Float64RoundUp | Float64RoundTruncate | Float64RoundTiesEven
  | Float64ExtractHighWord32 | Float64InsertHighWord32

datatype ConvertOperator =
    ChangeFloat64ToInt32 | ChangeFloat64ToUint32 | TruncateFloat64ToFloat32
  | ChangeInt32ToFloat64 | ChangeUint32ToFloat64 | ChangeFloat32ToFloat64
  | BitcastInt32ToFloat32 | BitcastFloat32ToInt32 | TruncateInt64ToInt32
  | ChangeInt32ToInt64 | ChangeUint32ToUint64 | RoundInt64ToFloat32 | RoundUint64ToFloat32
  | RoundInt64ToFloat64 | RoundUint64ToFloat64 | BitcastInt64ToFloat64
  | BitcastFloat64ToInt64

datatype BranchHint = kNone | kTrue | kFalse

text \<open>
  The operator of a node: the common operators the builder uses, constants (floating
  point constants by their bit pattern, heap constants by a printed name), the machine
  operators, and memory accesses with their machine type.
\<close>

datatype Operator =
    Start nat | End nat | Parameter nat
  | Branch BranchHint | IfTrue | IfFalse | Merge nat | Loop nat
  | Phi MachineType nat | EffectPhi nat
  | Return | Throw | Call string
  | Int32Constant "32 word" | Int64Constant "64 word"
  | Float32Constant "32 word" | Float64Constant "64 word"
  | IntPtrConstant "64 word" | HeapConstant string | ExternalConstant string
  | CEntryStubConstant nat | EmptyFrameState
  | W32 Word32Operator | W64 Word64Operator
  | F32 Float32Operator | F64 Float64Operator | Conv ConvertOperator
  | Load MachineType | Store MachineType
  | CheckedLoad MachineType | CheckedStore MachineType

text \<open>
  A node has an operator and an ordered list of inputs. A \<open>TFNode*\<close> is the position of
  the node in the graph's node list; \<open>NewNode\<close> appends.
\<close>

record TFNode =
  node_op :: Operator
  node_inputs :: "nat list"

text \<open>
  The optional operators of the machine-operator builder (\<open>m->Word32Ctz().IsSupported()\<close>
  and the like) and the compile-time switch \<open>WASM_64\<close>.
\<close>

record Target =
  WASM_64 :: bool
  Word32Ctz_IsSupported :: bool
  Word32Popcnt_IsSupported :: bool
  Word64Ctz_IsSupported :: bool
  Word64Popcnt_IsSupported :: bool
  Float32Min_IsSupported :: bool
  Float32Max_IsSupported :: bool
  Float64Min_IsSupported :: bool
  Float64Max_IsSupported :: bool
  Float32RoundDown_IsSupported :: bool
  Float32RoundUp_IsSupported :: bool
  Float32RoundTruncate_IsSupported :: bool
  Float32RoundTiesEven_IsSupported :: bool
  Float64RoundDown_IsSupported :: bool
  Float64RoundUp_IsSupported :: bool
  Float64RoundTruncate_IsSupported :: bool
  Float64RoundTiesEven_IsSupported :: bool

text \<open>
  The part of the module environment the builder reads here: the bounds of linear
  memory (64-bit \<open>uintptr_t\<close> addresses), the asm.js flag, and whether a module context
  is attached.
\<close>

record ModuleEnv =
  mem_start :: "64 word"
  mem_end :: "64 word"
  asm_js :: bool
  context_is_null :: bool

text \<open>
  The builder together with its graph and its trap helper. \<open>control\<close> and \<open>effect\<close>
  are the values \<open>*control\<close> and \<open>*effect\<close> of the two cursors. \<open>traps\<close> is
  initialised to null pointers by the helper's constructor; \<open>effects\<close> is not
  initialised, so it is a total function holding whatever was there.
\<close>

record TFBuilder =
  nodes :: "TFNode list"
  graph_start :: nat
  graph_end :: "nat option"
  target :: Target
  module :: "ModuleEnv option"
  mem_buffer :: "nat option"
  mem_size :: "nat option"
  control :: nat
  effect :: nat
  traps :: "TrapReason \<Rightarrow> nat option"
  effects :: "TrapReason \<Rightarrow> nat"

definition NewNode :: "Operator \<Rightarrow> nat list \<Rightarrow> TFBuilder \<Rightarrow> nat \<times> TFBuilder" where
  "NewNode opr ins s =
     (length (nodes s), s\<lparr>nodes := nodes s @ [\<lparr>node_op = opr, node_inputs = ins\<rparr>]\<rparr>)"

text \<open>
  Constants of the graph. The graph's cache of canonical constant nodes is not part of
  these sources; every request makes a node.
\<close>

definition Int32Constant_node :: "32 word \<Rightarrow> TFBuilder \<Rightarrow> nat \<times> TFBuilder" where
  "Int32Constant_node v s = NewNode (Int32Constant v) [] s"

definition Int64Constant_node :: "64 word \<Rightarrow> TFBuilder \<Rightarrow> nat \<times> TFBuilder" where
  "Int64Constant_node v s = NewNode (Int64Constant v) [] s"

definition String :: "string \<Rightarrow> TFBuilder \<Rightarrow> nat \<times> TFBuilder" where
  "String str s = NewNode (HeapConstant str) [] s"

text \<open>
  \<open>Int32Matcher\<close> and \<open>Int64Matcher\<close>: the value of a node that is an integer constant
  (\<open>HasValue()\<close> is \<open>Some\<close>). Reading through a pointer that is not a node of the graph
  is undefined in the source; the matcher then has no value.
\<close>

definition Int32Matcher :: "TFBuilder \<Rightarrow> nat \<Rightarrow> 32 word option" where
  "Int32Matcher s n =
     (if n < length (nodes s)
      then (case node_op (nodes s ! n) of Int32Constant v \<Rightarrow> Some v | _ \<Rightarrow> None)
      else None)"

definition Int64Matcher :: "TFBuilder \<Rightarrow> nat \<Rightarrow> 64 word option" where
  "Int64Matcher s n =
     (if n < length (nodes s)
      then (case node_op (nodes s ! n) of Int64Constant v \<Rightarrow> Some v | _ \<Rightarrow> None)
      else None)"

text \<open>
  \<open>ResizeMergeOrPhi\<close> of the common-operator builder: the same operator with another
  input count; any other operator is \<open>UNREACHABLE()\<close>.
\<close>

fun ResizeMergeOrPhi :: "Operator \<Rightarrow> nat \<Rightarrow> Operator option" where
  "ResizeMergeOrPhi (Phi t k) n = Some (Phi t n)"
| "ResizeMergeOrPhi (EffectPhi k) n = Some (EffectPhi n)"
| "ResizeMergeOrPhi (Merge k) n = Some (Merge n)"
| "ResizeMergeOrPhi (Loop k) n = Some (Loop n)"
| "ResizeMergeOrPhi _ n = None"

text \<open>
  \<open>AppendToMerge\<close>: append \<open>from\<close> to the inputs of \<open>merge\<close> and resize its operator to
  the new input count. A pointer that is not a node of the graph, or an operator that
  cannot be resized, aborts (\<open>None\<close>).
\<close>

definition AppendToMerge :: "nat \<Rightarrow> nat \<Rightarrow> TFBuilder \<Rightarrow> TFBuilder option" where
  "AppendToMerge merge from s =
     (if merge < length (nodes s) then
        (let nd = nodes s ! merge;
             ins = node_inputs nd @ [from];
             new_size = length ins
         in case ResizeMergeOrPhi (node_op nd) new_size of
              None \<Rightarrow> None
            | Some opr \<Rightarrow>
                Some (s\<lparr>nodes := (nodes s)[merge := \<lparr>node_op = opr, node_inputs = ins\<rparr>]\<rparr>))
      else None)"

text \<open>
  \<open>AppendToPhi\<close>: \<open>new_size\<close> is the input count before the insertion (the value inputs
  and the control input), \<open>from\<close> is inserted before the last input, and the operator is
  resized to \<open>new_size\<close>. A phi with no input has no position \<open>InputCount() - 1\<close>.
\<close>

definition AppendToPhi :: "nat \<Rightarrow> nat \<Rightarrow> nat \<Rightarrow> TFBuilder \<Rightarrow> TFBuilder option" where
  "AppendToPhi merge phi from s =
     (if phi < length (nodes s) \<and> node_inputs (nodes s ! phi) \<noteq> [] then
        (let nd = nodes s ! phi;
             new_size = length (node_inputs nd);
             ins = butlast (node_inputs nd) @ [from, last (node_inputs nd)]
         in case ResizeMergeOrPhi (node_op nd) new_size of
              None \<Rightarrow> None
            | Some opr \<Rightarrow>
                Some (s\<lparr>nodes := (nodes s)[phi := \<lparr>node_op = opr, node_inputs = ins\<rparr>]\<rparr>))
      else None)"

text \<open>
  \<open>MergeControlToEnd\<close>: with an end node, the node is appended to its inputs and the end
  operator is set to the new input count; without one, an \<open>End(1)\<close> node is made.
\<close>

definition MergeControlToEnd :: "nat \<Rightarrow> TFBuilder \<Rightarrow> TFBuilder option" where
  "MergeControlToEnd n s =
     (case graph_end s of
        Some e \<Rightarrow>
          (if e < length (nodes s) then
             (let ins = node_inputs (nodes s ! e) @ [n]
              in Some (s\<lparr>nodes := (nodes s)[e := \<lparr>node_op = End (length ins),
                                                      node_inputs = ins\<rparr>]\<rparr>))
           else None)
      | None \<Rightarrow>
          (let (e, s1) = NewNode (End 1) [n] s in Some (s1\<lparr>graph_end := Some e\<rparr>)))"

section \<open>The trap helper\<close>

text \<open>
  \<open>BuildTrapCode\<close>: the trap block of a reason, made at its first trap site. The
  runtime function \<open>Runtime::kThrow\<close> takes one argument and returns one value. The
  \<open>if (false)\<close> arm that would end the block with a \<open>Throw\<close> is never taken.
\<close>

definition BuildTrapCode :: "TrapReason \<Rightarrow> TFBuilder \<Rightarrow> TFBuilder option" where
  "BuildTrapCode reason s =
     (let (exception, s1) = String (kTrapMessages reason) s;
          (m, s2) = NewNode (Merge 1) [control s1] s1;
          s3 = s2\<lparr>control := m, traps := (traps s2)(reason := Some m)\<rparr>;
          (e, s4) = NewNode (EffectPhi 1) [effect s3, control s3] s3;
          s5 = s4\<lparr>effect := e, effects := (effects s4)(reason := e)\<rparr>;
          s6 = (case module s5 of
                  None \<Rightarrow> s5
                | Some mdl \<Rightarrow>
                    if context_is_null mdl then s5
                    else
                      (let (i0, a1) = NewNode (CEntryStubConstant 1) [] s5;
                           (i2, a2) = NewNode (ExternalConstant ''Runtime::kThrow'') [] a1;
                           (i3, a3) = Int32Constant_node 1 a2;
                           (i4, a4) = NewNode (HeapConstant ''context'') [] a3;
                           (i5, a5) = NewNode EmptyFrameState [] a4;
                           (node, a6) = NewNode (Call ''Runtime::kThrow'')
                                          [i0, exception, i2, i3, i4, i5, effect a5, control a5] a5
                       in a6\<lparr>control := node, effect := node\<rparr>));
          (dead, s7) = Int32Constant_node 0xdeadbeef s6;
          (ret_dead, s8) = NewNode Return [dead, effect s7, control s7] s7
      in MergeControlToEnd ret_dead s8)"

text \<open>
  \<open>ConnectTrap\<close>: the first site of a reason builds its trap block; a later site
  connects the current control and effect to the existing block.
\<close>

definition ConnectTrap :: "TrapReason \<Rightarrow> TFBuilder \<Rightarrow> TFBuilder option" where
  "ConnectTrap reason s =
     (case traps s reason of
        None \<Rightarrow> BuildTrapCode reason s
      | Some t \<Rightarrow>
          do { s1 \<leftarrow> AppendToMerge t (control s) s;
               AppendToPhi t (effects s1 reason) (effect s1) s1 })"


text \<open>
  \<open>AddTrapIf\<close>: a branch on \<open>cond\<close> at the current control; the trap side is connected
  to the trap block of \<open>reason\<close>, the other side becomes the control, and the effect is
  set back to what it was.
\<close>

definition AddTrapIf :: "TrapReason \<Rightarrow> nat \<Rightarrow> bool \<Rightarrow> TFBuilder \<Rightarrow> TFBuilder option" where
  "AddTrapIf reason cond iftrue s =
     (let before = effect s;
          hint = (if iftrue then kFalse else kTrue);
          (branch, s1) = NewNode (Branch hint) [cond, control s] s;
          (if_true, s2) = NewNode IfTrue [branch] s1;
          (if_false, s3) = NewNode IfFalse [branch] s2;
          s4 = s3\<lparr>control := (if iftrue then if_true else if_false)\<rparr>
      in do { s5 \<leftarrow> ConnectTrap reason s4;
              Some (s5\<lparr>control := (if iftrue then if_false else if_true),
                        effect := before\<rparr>) })"

definition AddTrapIfTrue :: "TrapReason \<Rightarrow> nat \<Rightarrow> TFBuilder \<Rightarrow> TFBuilder option" where
  "AddTrapIfTrue reason cond s = AddTrapIf reason cond True s"

definition AddTrapIfFalse :: "TrapReason \<Rightarrow> nat \<Rightarrow> TFBuilder \<Rightarrow> TFBuilder option" where
  "AddTrapIfFalse reason cond s = AddTrapIf reason cond False s"

text \<open>
  \<open>TrapIfEq32\<close>: for a constant that differs from \<open>val\<close> no check is made and the
  graph's start node is returned; otherwise the check is made (on the node itself when
  \<open>val\<close> is 0, on a comparison with \<open>val\<close> otherwise) and the new control is returned.
\<close>

definition TrapIfEq32 ::
  "TrapReason \<Rightarrow> nat \<Rightarrow> 32 word \<Rightarrow> TFBuilder \<Rightarrow> (nat \<times> TFBuilder) option" where
  "TrapIfEq32 reason node val s =
     (if (case Int32Matcher s node of Some v \<Rightarrow> v \<noteq> val | None \<Rightarrow> False)
      then Some (graph_start s, s)
      else do {
        s3 \<leftarrow> (if val = 0 then AddTrapIfFalse reason node s
               else (let (c, s1) = Int32Constant_node val s;
                         (eq, s2) = NewNode (W32 Word32Equal) [node, c] s1
                     in AddTrapIfTrue reason eq s2));
        Some (control s3, s3) })"

definition ZeroCheck32 :: "TrapReason \<Rightarrow> nat \<Rightarrow> TFBuilder \<Rightarrow> (nat \<times> TFBuilder) option" where
  "ZeroCheck32 reason node s = TrapIfEq32 reason node 0 s"

definition TrapIfEq64 ::
  "TrapReason \<Rightarrow> nat \<Rightarrow> 64 word \<Rightarrow> TFBuilder \<Rightarrow> (nat \<times> TFBuilder) option" where
  "TrapIfEq64 reason node val s =
     (if (case Int64Matcher s node of Some v \<Rightarrow> v \<noteq> val | None \<Rightarrow> False)
      then Some (graph_start s, s)
      else do {
        s3 \<leftarrow> (let (c, s1) = Int64Constant_node val s;
                   (eq, s2) = NewNode (W64 Word64Equal) [node, c] s1
               in AddTrapIfTrue reason eq s2);
        Some (control s3, s3) })"

definition ZeroCheck64 :: "TrapReason \<Rightarrow> nat \<Rightarrow> TFBuilder \<Rightarrow> (nat \<times> TFBuilder) option" where
  "ZeroCheck64 reason node s = TrapIfEq64 reason node 0 s"

section \<open>Opcodes and the opcode table\<close>

text \<open>
  The expression opcodes that \<open>Binop\<close>, \<open>Unop\<close> and \<open>WasmOpcodes::IsSupported\<close> name,
  grouped by the type they work on; \<open>WasmOpcode\<close> is their union. Every other opcode
  of the enumeration (statements, constants, locals, memory accesses, calls) is
  \<open>kExprOther\<close> with its byte value: the three functions send all of them to their
  \<open>default\<close> arm.
\<close>

datatype I32Opcode =
    kExprI32Add | kExprI32Sub | kExprI32Mul | kExprI32DivS | kExprI32DivU
  | kExprI32RemS | kExprI32RemU | kExprI32And | kExprI32Ior | kExprI32Xor
  | kExprI32Shl | kExprI32ShrU | kExprI32ShrS | kExprI32Eq | kExprI32Ne
  | kExprI32LtS | kExprI32LeS | kExprI32LtU | kExprI32LeU
  | kExprI32GtS | kExprI32GeS | kExprI32GtU | kExprI32GeU
  | kExprI32Clz | kExprI32Ctz | kExprI32Popcnt

datatype I64Opcode =
    kExprI64Add | kExprI64Sub | kExprI64Mul | kExprI64DivS | kExprI64DivU
  | kExprI64RemS | kExprI64RemU | kExprI64And | kExprI64Ior | kExprI64Xor
  | kExprI64Shl | kExprI64ShrU | kExprI64ShrS | kExprI64Ror | kExprI64Rol
  | kExprI64Eq | kExprI64Ne
  | kExprI64LtS | kExprI64LeS | kExprI64LtU | kExprI64LeU
  | kExprI64GtS | kExprI64GeS | kExprI64GtU | kExprI64GeU
  | kExprI64Clz | kExprI64Ctz | kExprI64Popcnt

datatype F32Opcode =
    kExprF32CopySign | kExprF32Add | kExprF32Sub | kExprF32Mul | kExprF32Div
  | kExprF32Eq | kExprF32Ne | kExprF32Lt | kExprF32Ge | kExprF32Gt | kExprF32Le
  | kExprF32Min | kExprF32Max | kExprF32Abs | kExprF32Neg | kExprF32Sqrt
  | kExprF32Floor | kExprF32Ceil | kExprF32Trunc | kExprF32NearestInt

datatype F64Opcode =
    kExprF64CopySign | kExprF64Add | kExprF64Sub | kExprF64Mul | kExprF64Div
  | kExprF64Eq | kExprF64Ne | kExprF64Lt | kExprF64Le | kExprF64Gt | kExprF64Ge
  | kExprF64Min | kExprF64Max | kExprF64Abs | kExprF64Neg | kExprF64Sqrt
  | kExprF64Floor | kExprF64Ceil | kExprF64Trunc | kExprF64NearestInt

datatype ConvOpcode =
    kExprBoolNot
  | kExprI32SConvertF64 | kExprI32UConvertF64 | kExprF32ConvertF64
  | kExprF64SConvertI32 | kExprF64UConvertI32
  | kExprF32SConvertI32 | kExprF32UConvertI32
  | kExprI32SConvertF32 | kExprI32UConvertF32 | kExprF64ConvertF32
  | kExprF32ReinterpretI32 | kExprI32ReinterpretF32
  | kExprI32ConvertI64 | kExprI64SConvertI32 | kExprI64UConvertI32
  | kExprF32SConvertI64 | kExprF32UConvertI64
  | kExprF64SConvertI64 | kExprF64UConvertI64
  | kExprF64ReinterpretI64 | kExprI64ReinterpretF64
  | kExprI64SConvertF32 | kExprI64SConvertF64
  | kExprI64UConvertF32 | kExprI64UConvertF64
  | kExprResizeMemH

datatype WasmOpcode =
    I32 I32Opcode | I64 I64Opcode | F32op F32Opcode | F64op F64Opcode
  | Cnv ConvOpcode | kExprOther nat

text \<open>
  \<open>WasmOpcodes::IsSupported\<close>: the opcodes listed under \<open>#if !WASM_64\<close> are unsupported
  on a 32-bit target only; the others of the list are unsupported on every target.
\<close>

definition IsSupported :: "Target \<Rightarrow> WasmOpcode \<Rightarrow> bool" where
  "IsSupported tg opcode =
     (case opcode of
        I64 kExprI64Add \<Rightarrow> WASM_64 tg
      | I64 kExprI64Sub \<Rightarrow> WASM_64 tg
      | I64 kExprI64Mul \<Rightarrow> WASM_64 tg
      | I64 kExprI64DivS \<Rightarrow> WASM_64 tg
      | I64 kExprI64DivU \<Rightarrow> WASM_64 tg
      | I64 kExprI64RemS \<Rightarrow> WASM_64 tg
      | I64 kExprI64RemU \<Rightarrow> WASM_64 tg
      | I64 kExprI64And \<Rightarrow> WASM_64 tg
      | I64 kExprI64Ior \<Rightarrow> WASM_64 tg
      | I64 kExprI64Xor \<Rightarrow> WASM_64 tg
      | I64 kExprI64Shl \<Rightarrow> WASM_64 tg
      | I64 kExprI64ShrU \<Rightarrow> WASM_64 tg
      | I64 kExprI64ShrS \<Rightarrow> WASM_64 tg
      | I64 kExprI64Ror \<Rightarrow> WASM_64 tg
      | I64 kExprI64Rol \<Rightarrow> WASM_64 tg
      | I64 kExprI64Eq \<Rightarrow> WASM_64 tg
      | I64 kExprI64Ne \<Rightarrow> WASM_64 tg
      | I64 kExprI64LtS \<Rightarrow> WASM_64 tg
      | I64 kExprI64LeS \<Rightarrow> WASM_64 tg
      | I64 kExprI64LtU \<Rightarrow> WASM_64 tg
      | I64 kExprI64LeU \<Rightarrow> WASM_64 tg
      | I64 kExprI64GtS \<Rightarrow> WASM_64 tg
      | I64 kExprI64GeS \<Rightarrow> WASM_64 tg
      | I64 kExprI64GtU \<Rightarrow> WASM_64 tg
      | I64 kExprI64GeU \<Rightarrow> WASM_64 tg
      | Cnv kExprI32ConvertI64 \<Rightarrow> WASM_64 tg
      | Cnv kExprI64SConvertI32 \<Rightarrow> WASM_64 tg
      | Cnv kExprI64UConvertI32 \<Rightarrow> WASM_64 tg
      | Cnv kExprF64ReinterpretI64 \<Rightarrow> WASM_64 tg
      | Cnv kExprI64ReinterpretF64 \<Rightarrow> WASM_64 tg
      | Cnv kExprResizeMemH \<Rightarrow> WASM_64 tg
      | I32 kExprI32Clz \<Rightarrow> False
      | I32 kExprI32Ctz \<Rightarrow> False
      | I32 kExprI32Popcnt \<Rightarrow> False
      | I64 kExprI64Clz \<Rightarrow> False
      | I64 kExprI64Ctz \<Rightarrow> False
      | I64 kExprI64Popcnt \<Rightarrow> False
      | F32op kExprF32Min \<Rightarrow> False
      | F32op kExprF32Max \<Rightarrow> False
      | F32op kExprF32CopySign \<Rightarrow> False
      | F32op kExprF32Ceil \<Rightarrow> False
      | F32op kExprF32Floor \<Rightarrow> False
      | F32op kExprF32Trunc \<Rightarrow> False
      | F32op kExprF32NearestInt \<Rightarrow> False
      | F64op kExprF64Min \<Rightarrow> False
      | F64op kExprF64Max \<Rightarrow> False
      | F64op kExprF64CopySign \<Rightarrow> False
      | F64op kExprF64Ceil \<Rightarrow> False
      | F64op kExprF64Floor \<Rightarrow> False
      | F64op kExprF64Trunc \<Rightarrow> False
      | F64op kExprF64NearestInt \<Rightarrow> False
      | Cnv kExprI64SConvertF32 \<Rightarrow> False
      | Cnv kExprI64SConvertF64 \<Rightarrow> False
      | Cnv kExprI64UConvertF32 \<Rightarrow> False
      | Cnv kExprI64UConvertF64 \<Rightarrow> False
      | Cnv kExprF32SConvertI64 \<Rightarrow> False
      | Cnv kExprF32UConvertI64 \<Rightarrow> False
      | Cnv kExprF64SConvertI64 \<Rightarrow> False
      | Cnv kExprF64UConvertI64 \<Rightarrow> False
      | _ \<Rightarrow> True)"

text \<open>
  \<open>UnsupportedOpcode\<close> ends in \<open>V8_Fatal\<close> on both of its paths: it yields no operator.
\<close>

definition UnsupportedOpcode :: "Target \<Rightarrow> WasmOpcode \<Rightarrow> Operator option" where
  "UnsupportedOpcode tg opcode = (if IsSupported tg opcode then None else None)"

section \<open>Arithmetic: \<open>Binop\<close> and \<open>Unop\<close>\<close>

definition kMinInt :: "32 word" where
  "kMinInt = 0x80000000"

definition kMinInt64 :: "64 word" where
  "kMinInt64 = 0x8000000000000000"

text \<open>
  \<open>TFBuilder::Branch\<close>: a branch on \<open>cond\<close> at the current control with its two
  projections; the result is the branch, \<open>*true_node\<close> and \<open>*false_node\<close>.
\<close>

definition Branch_node :: "nat \<Rightarrow> TFBuilder \<Rightarrow> nat \<times> nat \<times> nat \<times> TFBuilder" where
  "Branch_node cond s =
     (let (branch, s1) = NewNode (Branch kNone) [cond, control s] s;
          (true_node, s2) = NewNode IfTrue [branch] s1;
          (false_node, s3) = NewNode IfFalse [branch] s2
      in (branch, true_node, false_node, s3))"

text \<open>
  Modelled from the spec: \<open>compiler::Diamond\<close> is declared in src/compiler/diamond.h,
  which is not among these sources. The remainder case needs a branch on the condition
  with an if-true and an if-false projection, a merge of the two, and a phi over the
  merge that selects the first value on the true side and the second on the false side
  (the spec: signed remainder by -1 is short-circuited to 0 without dividing). The
  diamond is not chained to the builder's control: its branch hangs off the start node.
\<close>

record Diamond_nodes =
  branch :: nat
  if_true :: nat
  if_false :: nat
  merge :: nat

definition Diamond :: "nat \<Rightarrow> TFBuilder \<Rightarrow> Diamond_nodes \<times> TFBuilder" where
  "Diamond cond s =
     (let (b, s1) = NewNode (Branch kNone) [cond, graph_start s] s;
          (t, s2) = NewNode IfTrue [b] s1;
          (f, s3) = NewNode IfFalse [b] s2;
          (m, s4) = NewNode (Merge 2) [t, f] s3
      in (\<lparr>branch = b, if_true = t, if_false = f, merge = m\<rparr>, s4))"

definition Diamond_Phi ::
  "Diamond_nodes \<Rightarrow> MachineType \<Rightarrow> nat \<Rightarrow> nat \<Rightarrow> TFBuilder \<Rightarrow> nat \<times> TFBuilder" where
  "Diamond_Phi d machine_type tv fv s = NewNode (Phi machine_type 2) [tv, fv, merge d] s"

text \<open>
  \<open>Binop\<close>, \<open>Unop\<close>, \<open>Invert\<close> and the lowerings \<open>MakeF32CopySign\<close>, \<open>MakeF64CopySign\<close>,
  \<open>MakeI32Ctz\<close>, \<open>MakeI64Ctz\<close>, \<open>MakeI32Popcnt\<close>, \<open>MakeI64Popcnt\<close> call one another.
  They are defined together as one function \<open>Build\<close> on a datatype of calls, one
  constructor for each member function with its arguments, by recursion on a bound on
  the depth of the calls: a call of \<open>f(args)\<close> in the source is \<open>Build fuel (Call_f args)\<close>,
  and the bound running out is the result \<open>None\<close>.

  In a cascade of nested calls the arguments are built left to right, innermost first.
  A case inside \<open>#if WASM_64\<close> exists on a 64-bit target only; elsewhere the opcode
  reaches the \<open>default\<close> arm. \<open>std::swap(left, right)\<close> is the exchanged input list.
\<close>

datatype BuilderCall =
    Call_Binop WasmOpcode nat nat
  | Call_Unop WasmOpcode nat
  | Call_Invert nat
  | Call_MakeF32CopySign nat nat
  | Call_MakeF64CopySign nat nat
  | Call_MakeI32Ctz nat
  | Call_MakeI64Ctz nat
  | Call_MakeI32Popcnt nat
  | Call_MakeI64Popcnt nat

primrec Build :: "nat \<Rightarrow> BuilderCall \<Rightarrow> TFBuilder \<Rightarrow> (nat \<times> TFBuilder) option" where
  "Build 0 call s = None"
| "Build (Suc fuel) call s =
     (case call of
        Call_Binop opcode left right \<Rightarrow>
          (case opcode of
             I32 i32 \<Rightarrow>
               (case i32 of
                  kExprI32Add \<Rightarrow>
                    Some (NewNode (W32 Int32Add) [left, right] s)
                | kExprI32Sub \<Rightarrow>
                    Some (NewNode (W32 Int32Sub) [left, right] s)
                | kExprI32Mul \<Rightarrow>
                    Some (NewNode (W32 Int32Mul) [left, right] s)
                | kExprI32DivS \<Rightarrow>
                    do { (zc, s1) \<leftarrow> ZeroCheck32 kTrapDivByZero right s;
                         let before = control s1;
                         let (m1, s2) = Int32Constant_node (- 1) s1;
                         let (eq, s3) = NewNode (W32 Word32Equal) [right, m1] s2;
                         let (branch, denom_is_m1, denom_is_not_m1, s4) = Branch_node eq s3;
                         let s5 = s4\<lparr>control := denom_is_m1\<rparr>;
                         (tc, s6) \<leftarrow> TrapIfEq32 kTrapDivUnrepresentable left kMinInt s5;
                         let s7 = (if control s6 \<noteq> denom_is_m1
                                   then (let (mrg, a1) = NewNode (Merge 2) [denom_is_not_m1, control s6] s6
                                         in a1\<lparr>control := mrg\<rparr>)
                                   else s6\<lparr>control := before\<rparr>);
                         Some (NewNode (W32 Int32Div) [left, right, control s7] s7) }
                | kExprI32DivU \<Rightarrow>
                    do { (zc, s1) \<leftarrow> ZeroCheck32 kTrapDivByZero right s;
                         Some (NewNode (W32 Uint32Div) [left, right, zc] s1) }
                | kExprI32RemS \<Rightarrow>
                    do { (zc, s1) \<leftarrow> ZeroCheck32 kTrapRemByZero right s;
                         let (m1, s2) = Int32Constant_node (- 1) s1;
                         let (eq, s3) = NewNode (W32 Word32Equal) [right, m1] s2;
                         let (d, s4) = Diamond eq s3;
                         let (rem, s5) = NewNode (W32 Int32Mod) [left, right, if_false d] s4;
                         let (zero, s6) = Int32Constant_node 0 s5;
                         Some (Diamond_Phi d kMachInt32 zero rem s6) }
                | kExprI32RemU \<Rightarrow>
                    do { (zc, s1) \<leftarrow> ZeroCheck32 kTrapRemByZero right s;
                         Some (NewNode (W32 Uint32Mod) [left, right, zc] s1) }
                | kExprI32And \<Rightarrow>
                    Some (NewNode (W32 Word32And) [left, right] s)
                | kExprI32Ior \<Rightarrow>
                    Some (NewNode (W32 Word32Or) [left, right] s)
                | kExprI32Xor \<Rightarrow>
                    Some (NewNode (W32 Word32Xor) [left, right] s)
                | kExprI32Shl \<Rightarrow>
                    Some (NewNode (W32 Word32Shl) [left, right] s)
                | kExprI32ShrU \<Rightarrow>
                    Some (NewNode (W32 Word32Shr) [left, right] s)
                | kExprI32ShrS \<Rightarrow>
                    Some (NewNode (W32 Word32Sar) [left, right] s)
                | kExprI32Eq \<Rightarrow>
                    Some (NewNode (W32 Word32Equal) [left, right] s)
                | kExprI32Ne \<Rightarrow>
                    do { (eq, s1) \<leftarrow> Build fuel (Call_Binop (I32 kExprI32Eq) left right) s;
                         Build fuel (Call_Invert eq) s1 }
                | kExprI32LtS \<Rightarrow>
                    Some (NewNode (W32 Int32LessThan) [left, right] s)
                | kExprI32LeS \<Rightarrow>
                    Some (NewNode (W32 Int32LessThanOrEqual) [left, right] s)
                | kExprI32LtU \<Rightarrow>
                    Some (NewNode (W32 Uint32LessThan) [left, right] s)
                | kExprI32LeU \<Rightarrow>
                    Some (NewNode (W32 Uint32LessThanOrEqual) [left, right] s)
                | kExprI32GtS \<Rightarrow>
                    Some (NewNode (W32 Int32LessThan) [right, left] s)
                | kExprI32GeS \<Rightarrow>
                    Some (NewNode (W32 Int32LessThanOrEqual) [right, left] s)
                | kExprI32GtU \<Rightarrow>
                    Some (NewNode (W32 Uint32LessThan) [right, left] s)
                | kExprI32GeU \<Rightarrow>
                    Some (NewNode (W32 Uint32LessThanOrEqual) [right, left] s)
                | _ \<Rightarrow>
                    do { opr \<leftarrow> UnsupportedOpcode (target s) opcode;
                         Some (NewNode opr [left, right] s) })
           | I64 i64 \<Rightarrow>
               (if WASM_64 (target s)
                then (case i64 of
                        kExprI64Add \<Rightarrow>
                          Some (NewNode (W64 Int64Add) [left, right] s)
                      | kExprI64Sub \<Rightarrow>
                          Some (NewNode (W64 Int64Sub) [left, right] s)
                      | kExprI64Mul \<Rightarrow>
                          Some (NewNode (W64 Int64Mul) [left, right] s)
                      | kExprI64DivS \<Rightarrow>
                          do { (zc, s1) \<leftarrow> ZeroCheck64 kTrapDivByZero right s;
                               let before = control s1;
                               let (m1, s2) = Int64Constant_node (- 1) s1;
                               let (eq, s3) = NewNode (W64 Word64Equal) [right, m1] s2;
                               let (branch, denom_is_m1, denom_is_not_m1, s4) = Branch_node eq s3;
                               let s5 = s4\<lparr>control := denom_is_m1\<rparr>;
                               (tc, s6) \<leftarrow> TrapIfEq64 kTrapDivUnrepresentable left kMinInt64 s5;
                               let s7 = (if control s6 \<noteq> denom_is_m1
                                         then (let (mrg, a1) = NewNode (Merge 2) [denom_is_not_m1, control s6] s6
                                               in a1\<lparr>control := mrg\<rparr>)
                                         else s6\<lparr>control := before\<rparr>);
                               Some (NewNode (W64 Int64Div) [left, right, control s7] s7) }
                      | kExprI64DivU \<Rightarrow>
                          do { (zc, s1) \<leftarrow> ZeroCheck64 kTrapDivByZero right s;
                               Some (NewNode (W64 Uint64Div) [left, right, zc] s1) }
                      | kExprI64RemS \<Rightarrow>
                          do { (zc, s1) \<leftarrow> ZeroCheck64 kTrapRemByZero right s;
                               let (m1, s2) = Int64Constant_node (- 1) s1;
                               let (eq, s3) = NewNode (W64 Word64Equal) [right, m1] s2;
                               let (d, s4) = Diamond eq s3;
                               let (rem, s5) = NewNode (W64 Int64Mod) [left, right, if_false d] s4;
                               let (zero, s6) = Int64Constant_node 0 s5;
                               Some (Diamond_Phi d kMachInt64 zero rem s6) }
                      | kExprI64RemU \<Rightarrow>
                          do { (zc, s1) \<leftarrow> ZeroCheck64 kTrapRemByZero right s;
                               Some (NewNode (W64 Uint64Mod) [left, right, zc] s1) }
                      | kExprI64And \<Rightarrow>
                          Some (NewNode (W64 Word64And) [left, right] s)
                      | kExprI64Ior \<Rightarrow>
                          Some (NewNode (W64 Word64Or) [left, right] s)
                      | kExprI64Xor \<Rightarrow>
                          Some (NewNode (W64 Word64Xor) [left, right] s)
                      | kExprI64Shl \<Rightarrow>
                          Some (NewNode (W64 Word64Shl) [left, right] s)
                      | kExprI64ShrU \<Rightarrow>
                          Some (NewNode (W64 Word64Shr) [left, right] s)
                      | kExprI64ShrS \<Rightarrow>
                          Some (NewNode (W64 Word64Sar) [left, right] s)
                      | kExprI64Eq \<Rightarrow>
                          Some (NewNode (W64 Word64Equal) [left, right] s)
                      | kExprI64Ne \<Rightarrow>
                          do { (eq, s1) \<leftarrow> Build fuel (Call_Binop (I64 kExprI64Eq) left right) s;
                               Build fuel (Call_Invert eq) s1 }
                      | kExprI64LtS \<Rightarrow>
                          Some (NewNode (W64 Int64LessThan) [left, right] s)
                      | kExprI64LeS \<Rightarrow>
                          Some (NewNode (W64 Int64LessThanOrEqual) [left, right] s)
                      | kExprI64LtU \<Rightarrow>
                          Some (NewNode (W64 Uint64LessThan) [left, right] s)
                      | kExprI64LeU \<Rightarrow>
                          Some (NewNode (W64 Uint64LessThanOrEqual) [left, right] s)
                      | kExprI64GtS \<Rightarrow>
                          Some (NewNode (W64 Int64LessThan) [right, left] s)
                      | kExprI64GeS \<Rightarrow>
                          Some (NewNode (W64 Int64LessThanOrEqual) [right, left] s)
                      | kExprI64GtU \<Rightarrow>
                          Some (NewNode (W64 Uint64LessThan) [right, left] s)
                      | kExprI64GeU \<Rightarrow>
                          Some (NewNode (W64 Uint64LessThanOrEqual) [right, left] s)
                      | _ \<Rightarrow>
                          do { opr \<leftarrow> UnsupportedOpcode (target s) opcode;
                               Some (NewNode opr [left, right] s) })
                else do { opr \<leftarrow> UnsupportedOpcode (target s) opcode;
                          Some (NewNode opr [left, right] s) })
           | F32op f32 \<Rightarrow>
               (case f32 of
                  kExprF32CopySign \<Rightarrow>
                    Build fuel (Call_MakeF32CopySign left right) s
                | kExprF32Add \<Rightarrow>
                    Some (NewNode (F32 Float32Add) [left, right] s)
                | kExprF32Sub \<Rightarrow>
                    Some (NewNode (F32 Float32Sub) [left, right] s)
                | kExprF32Mul \<Rightarrow>
                    Some (NewNode (F32 Float32Mul) [left, right] s)
                | kExprF32Div \<Rightarrow>
                    Some (NewNode (F32 Float32Div) [left, right] s)
                | kExprF32Eq \<Rightarrow>
                    Some (NewNode (F32 Float32Equal) [left, right] s)
                | kExprF32Ne \<Rightarrow>
                    do { (eq, s1) \<leftarrow> Build fuel (Call_Binop (F32op kExprF32Eq) left right) s;
                         Build fuel (Call_Invert eq) s1 }
                | kExprF32Lt \<Rightarrow>
                    Some (NewNode (F32 Float32LessThan) [left, right] s)
                | kExprF32Ge \<Rightarrow>
                    Some (NewNode (F32 Float32LessThanOrEqual) [right, left] s)
                | kExprF32Gt \<Rightarrow>
                    Some (NewNode (F32 Float32LessThan) [right, left] s)
                | kExprF32Le \<Rightarrow>
                    Some (NewNode (F32 Float32LessThanOrEqual) [left, right] s)
                | kExprF32Min \<Rightarrow>
                    (if Float32Min_IsSupported (target s)
                     then Some (NewNode (F32 Float32Min) [left, right] s)
                     else do { opr \<leftarrow> UnsupportedOpcode (target s) opcode;
                               Some (NewNode opr [left, right] s) })
                | kExprF32Max \<Rightarrow>
                    (if Float32Max_IsSupported (target s)
                     then Some (NewNode (F32 Float32Max) [left, right] s)
                     else do { opr \<leftarrow> UnsupportedOpcode (target s) opcode;
                               Some (NewNode opr [left, right] s) })
                | _ \<Rightarrow>
                    do { opr \<leftarrow> UnsupportedOpcode (target s) opcode;
                         Some (NewNode opr [left, right] s) })
           | F64op f64 \<Rightarrow>
               (case f64 of
                  kExprF64CopySign \<Rightarrow>
                    Build fuel (Call_MakeF64CopySign left right) s
                | kExprF64Add \<Rightarrow>
                    Some (NewNode (F64 Float64Add) [left, right] s)
                | kExprF64Sub \<Rightarrow>
                    Some (NewNode (F64 Float64Sub) [left, right] s)
                | kExprF64Mul \<Rightarrow>
                    Some (NewNode (F64 Float64Mul) [left, right] s)
                | kExprF64Div \<Rightarrow>
                    Some (NewNode (F64 Float64Div) [left, right] s)
                | kExprF64Eq \<Rightarrow>
                    Some (NewNode (F64 Float64Equal) [left, right] s)
                | kExprF64Ne \<Rightarrow>
                    do { (eq, s1) \<leftarrow> Build fuel (Call_Binop (F64op kExprF64Eq) left right) s;
                         Build fuel (Call_Invert eq) s1 }
                | kExprF64Lt \<Rightarrow>
                    Some (NewNode (F64 Float64LessThan) [left, right] s)
                | kExprF64Le \<Rightarrow>
                    Some (NewNode (F64 Float64LessThanOrEqual) [left, right] s)
                | kExprF64Gt \<Rightarrow>
                    Some (NewNode (F64 Float64LessThan) [right, left] s)
                | kExprF64Ge \<Rightarrow>
                    Some (NewNode (F64 Float64LessThanOrEqual) [right, left] s)
                | kExprF64Min \<Rightarrow>
                    (if Float64Min_IsSupported (target s)
                     then Some (NewNode (F64 Float64Min) [left, right] s)
                     else do { opr \<leftarrow> UnsupportedOpcode (target s) opcode;
                               Some (NewNode opr [left, right] s) })
                | kExprF64Max \<Rightarrow>
                    (if Float64Max_IsSupported (target s)
                     then Some (NewNode (F64 Float64Max) [left, right] s)
                     else do { opr \<leftarrow> UnsupportedOpcode (target s) opcode;
                               Some (NewNode opr [left, right] s) })
                | _ \<Rightarrow>
                    do { opr \<leftarrow> UnsupportedOpcode (target s) opcode;
                         Some (NewNode opr [left, right] s) })
           | _ \<Rightarrow>
               do { opr \<leftarrow> UnsupportedOpcode (target s) opcode;
                    Some (NewNode opr [left, right] s) })
      | Call_Unop opcode input \<Rightarrow>
          (case opcode of
             Cnv cnv \<Rightarrow>
               (case cnv of
                  kExprBoolNot \<Rightarrow>
                    (let (zero, s1) = Int32Constant_node 0 s
                     in Some (NewNode (W32 Word32Equal) [input, zero] s1))
                | kExprI32SConvertF64 \<Rightarrow>
                    Some (NewNode (Conv ChangeFloat64ToInt32) [input] s)
                | kExprI32UConvertF64 \<Rightarrow>
                    Some (NewNode (Conv ChangeFloat64ToUint32) [input] s)
                | kExprF32ConvertF64 \<Rightarrow>
                    Some (NewNode (Conv TruncateFloat64ToFloat32) [input] s)
                | kExprF64SConvertI32 \<Rightarrow>
                    Some (NewNode (Conv ChangeInt32ToFloat64) [input] s)
                | kExprF64UConvertI32 \<Rightarrow>
                    Some (NewNode (Conv ChangeUint32ToFloat64) [input] s)
                | kExprF32SConvertI32 \<Rightarrow>
                    (let (mid, s1) = NewNode (Conv ChangeInt32ToFloat64) [input] s
                     in Some (NewNode (Conv TruncateFloat64ToFloat32) [mid] s1))
                | kExprF32UConvertI32 \<Rightarrow>
                    (let (mid, s1) = NewNode (Conv ChangeUint32ToFloat64) [input] s
                     in Some (NewNode (Conv TruncateFloat64ToFloat32) [mid] s1))
                | kExprI32SConvertF32 \<Rightarrow>
                    (let (mid, s1) = NewNode (Conv ChangeFloat32ToFloat64) [input] s
                     in Some (NewNode (Conv ChangeFloat64ToInt32) [mid] s1))
                | kExprI32UConvertF32 \<Rightarrow>
                    (let (mid, s1) = NewNode (Conv ChangeFloat32ToFloat64) [input] s
                     in Some (NewNode (Conv ChangeFloat64ToUint32) [mid] s1))
                | kExprF64ConvertF32 \<Rightarrow>
                    Some (NewNode (Conv ChangeFloat32ToFloat64) [input] s)
                | kExprF32ReinterpretI32 \<Rightarrow>
                    Some (NewNode (Conv BitcastInt32ToFloat32) [input] s)
                | kExprI32ReinterpretF32 \<Rightarrow>
                    Some (NewNode (Conv BitcastFloat32ToInt32) [input] s)
                | kExprI32ConvertI64 \<Rightarrow>
                    (if WASM_64 (target s)
                     then Some (NewNode (Conv TruncateInt64ToInt32) [input] s)
                     else do { opr \<leftarrow> UnsupportedOpcode (target s) opcode;
                               Some (NewNode opr [input] s) })
                | kExprI64SConvertI32 \<Rightarrow>
                    (if WASM_64 (target s)
                     then Some (NewNode (Conv ChangeInt32ToInt64) [input] s)
                     else do { opr \<leftarrow> UnsupportedOpcode (target s) opcode;
                               Some (NewNode opr [input] s) })
                | kExprI64UConvertI32 \<Rightarrow>
                    (if WASM_64 (target s)
                     then Some (NewNode (Conv ChangeUint32ToUint64) [input] s)
                     else do { opr \<leftarrow> UnsupportedOpcode (target s) opcode;
                               Some (NewNode opr [input] s) })
                | kExprF32SConvertI64 \<Rightarrow>
                    (if WASM_64 (target s)
                     then Some (NewNode (Conv RoundInt64ToFloat32) [input] s)
                     else do { opr \<leftarrow> UnsupportedOpcode (target s) opcode;
                               Some (NewNode opr [input] s) })
                | kExprF32UConvertI64 \<Rightarrow>
                    (if WASM_64 (target s)
                     then Some (NewNode (Conv RoundUint64ToFloat32) [input] s)
                     else do { opr \<leftarrow> UnsupportedOpcode (target s) opcode;
                               Some (NewNode opr [input] s) })
                | kExprF64SConvertI64 \<Rightarrow>
                    (if WASM_64 (target s)
                     then Some (NewNode (Conv RoundInt64ToFloat64) [input] s)
                     else do { opr \<leftarrow> UnsupportedOpcode (target s) opcode;
                               Some (NewNode opr [input] s) })
                | kExprF64UConvertI64 \<Rightarrow>
                    (if WASM_64 (target s)
                     then Some (NewNode (Conv RoundUint64ToFloat64) [input] s)
                     else do { opr \<leftarrow> UnsupportedOpcode (target s) opcode;
                               Some (NewNode opr [input] s) })
                | kExprF64ReinterpretI64 \<Rightarrow>
                    (if WASM_64 (target s)
                     then Some (NewNode (Conv BitcastInt64ToFloat64) [input] s)
                     else do { opr \<leftarrow> UnsupportedOpcode (target s) opcode;
                               Some (NewNode opr [input] s) })
                | kExprI64ReinterpretF64 \<Rightarrow>
                    (if WASM_64 (target s)
                     then Some (NewNode (Conv BitcastFloat64ToInt64) [input] s)
                     else do { opr \<leftarrow> UnsupportedOpcode (target s) opcode;
                               Some (NewNode opr [input] s) })
                | _ \<Rightarrow>
                    do { opr \<leftarrow> UnsupportedOpcode (target s) opcode;
                         Some (NewNode opr [input] s) })
           | F32op f32 \<Rightarrow>
               (case f32 of
                  kExprF32Abs \<Rightarrow>
                    Some (NewNode (F32 Float32Abs) [input] s)
                | kExprF32Neg \<Rightarrow>
                    (let (zero, s1) = NewNode (Float32Constant 0) [] s
                     in Some (NewNode (F32 Float32Sub) [zero, input] s1))
                | kExprF32Sqrt \<Rightarrow>
                    Some (NewNode (F32 Float32Sqrt) [input] s)
                | kExprF32Floor \<Rightarrow>
                    (if Float32RoundDown_IsSupported (target s)
                     then Some (NewNode (F32 Float32RoundDown) [input] s)
                     else do { opr \<leftarrow> UnsupportedOpcode (target s) opcode;
                               Some (NewNode opr [input] s) })
                | kExprF32Ceil \<Rightarrow>
                    (if Float32RoundUp_IsSupported (target s)
                     then Some (NewNode (F32 Float32RoundUp) [input] s)
                     else do { opr \<leftarrow> UnsupportedOpcode (target s) opcode;
                               Some (NewNode opr [input] s) })
                | kExprF32Trunc \<Rightarrow>
                    (if Float32RoundTruncate_IsSupported (target s)
                     then Some (NewNode (F32 Float32RoundTruncate) [input] s)
                     else do { opr \<leftarrow> UnsupportedOpcode (target s) opcode;
                               Some (NewNode opr [input] s) })
                | kExprF32NearestInt \<Rightarrow>
                    (if Float32RoundTiesEven_IsSupported (target s)
                     then Some (NewNode (F32 Float32RoundTiesEven) [input] s)
                     else do { opr \<leftarrow> UnsupportedOpcode (target s) opcode;
                               Some (NewNode opr [input] s) })
                | _ \<Rightarrow>
                    do { opr \<leftarrow> UnsupportedOpcode (target s) opcode;
                         Some (NewNode opr [input] s) })
           | F64op f64 \<Rightarrow>
               (case f64 of
                  kExprF64Abs \<Rightarrow>
                    Some (NewNode (F64 Float64Abs) [input] s)
                | kExprF64Neg \<Rightarrow>
                    (let (zero, s1) = NewNode (Float64Constant 0) [] s
                     in Some (NewNode (F64 Float64Sub) [zero, input] s1))
                | kExprF64Sqrt \<Rightarrow>
                    Some (NewNode (F64 Float64Sqrt) [input] s)
                | kExprF64Floor \<Rightarrow>
                    (if Float64RoundDown_IsSupported (target s)
                     then Some (NewNode (F64 Float64RoundDown) [input] s)
                     else do { opr \<leftarrow> UnsupportedOpcode (target s) opcode;
                               Some (NewNode opr [input] s) })
                | kExprF64Ceil \<Rightarrow>
                    (if Float64RoundUp_IsSupported (target s)
                     then Some (NewNode (F64 Float64RoundUp) [input] s)
                     else do { opr \<leftarrow> UnsupportedOpcode (target s) opcode;
                               Some (NewNode opr [input] s) })
                | kExprF64Trunc \<Rightarrow>
                    (if Float64RoundTruncate_IsSupported (target s)
                     then Some (NewNode (F64 Float64RoundTruncate) [input] s)
                     else do { opr \<leftarrow> UnsupportedOpcode (target s) opcode;
                               Some (NewNode opr [input] s) })
                | kExprF64NearestInt \<Rightarrow>
                    (if Float64RoundTiesEven_IsSupported (target s)
                     then Some (NewNode (F64 Float64RoundTiesEven) [input] s)
                     else do { opr \<leftarrow> UnsupportedOpcode (target s) opcode;
                               Some (NewNode opr [input] s) })
                | _ \<Rightarrow>
                    do { opr \<leftarrow> UnsupportedOpcode (target s) opcode;
                         Some (NewNode opr [input] s) })
           | I32 i32 \<Rightarrow>
               (case i32 of
                  kExprI32Clz \<Rightarrow>
                    Some (NewNode (W32 Word32Clz) [input] s)
                | kExprI32Ctz \<Rightarrow>
                    (if Word32Ctz_IsSupported (target s)
                     then Some (NewNode (W32 Word32Ctz) [input] s)
                     else Build fuel (Call_MakeI32Ctz input) s)
                | kExprI32Popcnt \<Rightarrow>
                    (if Word32Popcnt_IsSupported (target s)
                     then Some (NewNode (W32 Word32Popcnt) [input] s)
                     else Build fuel (Call_MakeI32Popcnt input) s)
                | _ \<Rightarrow>
                    do { opr \<leftarrow> UnsupportedOpcode (target s) opcode;
                         Some (NewNode opr [input] s) })
           | I64 i64 \<Rightarrow>
               (if WASM_64 (target s)
                then (case i64 of
                        kExprI64Clz \<Rightarrow>
                          Some (NewNode (W64 Word64Clz) [input] s)
                      | kExprI64Ctz \<Rightarrow>
                          (if Word64Ctz_IsSupported (target s)
                           then Some (NewNode (W64 Word64Ctz) [input] s)
                           else Build fuel (Call_MakeI64Ctz input) s)
                      | kExprI64Popcnt \<Rightarrow>
                          (if Word64Popcnt_IsSupported (target s)
                           then Some (NewNode (W64 Word64Popcnt) [input] s)
                           else Build fuel (Call_MakeI64Popcnt input) s)
                      | _ \<Rightarrow>
                          do { opr \<leftarrow> UnsupportedOpcode (target s) opcode;
                               Some (NewNode opr [input] s) })
                else do { opr \<leftarrow> UnsupportedOpcode (target s) opcode;
                          Some (NewNode opr [input] s) })
           | _ \<Rightarrow>
               do { opr \<leftarrow> UnsupportedOpcode (target s) opcode;
                    Some (NewNode opr [input] s) })
      | Call_Invert node \<Rightarrow>
          Build fuel (Call_Unop (Cnv kExprBoolNot) node) s
      | Call_MakeF32CopySign left right \<Rightarrow>
          do { (l, s1) \<leftarrow> Build fuel (Call_Unop (Cnv kExprI32ReinterpretF32) left) s;
               let (c1, s2) = Int32Constant_node 0x7fffffff s1;
               (a, s3) \<leftarrow> Build fuel (Call_Binop (I32 kExprI32And) l c1) s2;
               (r, s4) \<leftarrow> Build fuel (Call_Unop (Cnv kExprI32ReinterpretF32) right) s3;
               let (c2, s5) = Int32Constant_node 0x80000000 s4;
               (b, s6) \<leftarrow> Build fuel (Call_Binop (I32 kExprI32And) r c2) s5;
               (ior, s7) \<leftarrow> Build fuel (Call_Binop (I32 kExprI32Ior) a b) s6;
               Build fuel (Call_Unop (Cnv kExprF32ReinterpretI32) ior) s7 }
      | Call_MakeF64CopySign left right \<Rightarrow>
          (if WASM_64 (target s)
           then do { (l, s1) \<leftarrow> Build fuel (Call_Unop (Cnv kExprI64ReinterpretF64) left) s;
                     let (c1, s2) = Int64Constant_node 0x7fffffffffffffff s1;
                     (a, s3) \<leftarrow> Build fuel (Call_Binop (I64 kExprI64And) l c1) s2;
                     (r, s4) \<leftarrow> Build fuel (Call_Unop (Cnv kExprI64ReinterpretF64) right) s3;
                     let (c2, s5) = Int64Constant_node 0x8000000000000000 s4;
                     (b, s6) \<leftarrow> Build fuel (Call_Binop (I64 kExprI64And) r c2) s5;
                     (ior, s7) \<leftarrow> Build fuel (Call_Binop (I64 kExprI64Ior) a b) s6;
                     Build fuel (Call_Unop (Cnv kExprF64ReinterpretI64) ior) s7 }
           else do { let (high_word_left, s1) = NewNode (F64 Float64ExtractHighWord32) [left] s;
                     let (high_word_right, s2) = NewNode (F64 Float64ExtractHighWord32) [right] s1;
                     let (c1, s3) = Int32Constant_node 0x7fffffff s2;
                     (a, s4) \<leftarrow> Build fuel (Call_Binop (I32 kExprI32And) high_word_left c1) s3;
                     let (c2, s5) = Int32Constant_node 0x80000000 s4;
                     (b, s6) \<leftarrow> Build fuel (Call_Binop (I32 kExprI32And) high_word_right c2) s5;
                     (new_high_word, s7) \<leftarrow> Build fuel (Call_Binop (I32 kExprI32Ior) a b) s6;
                     Some (NewNode (F64 Float64InsertHighWord32) [left, new_high_word] s7) })
      | Call_MakeI32Ctz input \<Rightarrow>
          do { let (c1, s1) = Int32Constant_node 1 s;
               (h1, s2) \<leftarrow> Build fuel (Call_Binop (I32 kExprI32Shl) input c1) s1;
               (r1, s3) \<leftarrow> Build fuel (Call_Binop (I32 kExprI32Ior) input h1) s2;
               let (c2, s4) = Int32Constant_node 2 s3;
               (h2, s5) \<leftarrow> Build fuel (Call_Binop (I32 kExprI32Shl) r1 c2) s4;
               (r2, s6) \<leftarrow> Build fuel (Call_Binop (I32 kExprI32Ior) r1 h2) s5;
               let (c4, s7) = Int32Constant_node 4 s6;
               (h4, s8) \<leftarrow> Build fuel (Call_Binop (I32 kExprI32Shl) r2 c4) s7;
               (r4, s9) \<leftarrow> Build fuel (Call_Binop (I32 kExprI32Ior) r2 h4) s8;
               let (c8, s10) = Int32Constant_node 8 s9;
               (h8, s11) \<leftarrow> Build fuel (Call_Binop (I32 kExprI32Shl) r4 c8) s10;
               (r8, s12) \<leftarrow> Build fuel (Call_Binop (I32 kExprI32Ior) r4 h8) s11;
               let (c16, s13) = Int32Constant_node 16 s12;
               (h16, s14) \<leftarrow> Build fuel (Call_Binop (I32 kExprI32Shl) r8 c16) s13;
               (r16, s15) \<leftarrow> Build fuel (Call_Binop (I32 kExprI32Ior) r8 h16) s14;
               let (ones, s16) = Int32Constant_node 0xffffffff s15;
               (x, s17) \<leftarrow> Build fuel (Call_Binop (I32 kExprI32Xor) ones r16) s16;
               Build fuel (Call_MakeI32Popcnt x) s17 }
      | Call_MakeI64Ctz input \<Rightarrow>
          do { let (c1, s1) = Int64Constant_node 1 s;
               (h1, s2) \<leftarrow> Build fuel (Call_Binop (I64 kExprI64Shl) input c1) s1;
               (r1, s3) \<leftarrow> Build fuel (Call_Binop (I64 kExprI64Ior) input h1) s2;
               let (c2, s4) = Int64Constant_node 2 s3;
               (h2, s5) \<leftarrow> Build fuel (Call_Binop (I64 kExprI64Shl) r1 c2) s4;
               (r2, s6) \<leftarrow> Build fuel (Call_Binop (I64 kExprI64Ior) r1 h2) s5;
               let (c4, s7) = Int64Constant_node 4 s6;
               (h4, s8) \<leftarrow> Build fuel (Call_Binop (I64 kExprI64Shl) r2 c4) s7;
               (r4, s9) \<leftarrow> Build fuel (Call_Binop (I64 kExprI64Ior) r2 h4) s8;
               let (c8, s10) = Int64Constant_node 8 s9;
               (h8, s11) \<leftarrow> Build fuel (Call_Binop (I64 kExprI64Shl) r4 c8) s10;
               (r8, s12) \<leftarrow> Build fuel (Call_Binop (I64 kExprI64Ior) r4 h8) s11;
               let (c16, s13) = Int64Constant_node 16 s12;
               (h16, s14) \<leftarrow> Build fuel (Call_Binop (I64 kExprI64Shl) r8 c16) s13;
               (r16, s15) \<leftarrow> Build fuel (Call_Binop (I64 kExprI64Ior) r8 h16) s14;
               let (c32, s16) = Int64Constant_node 32 s15;
               (h32, s17) \<leftarrow> Build fuel (Call_Binop (I64 kExprI64Shl) r16 c32) s16;
               (r32, s18) \<leftarrow> Build fuel (Call_Binop (I64 kExprI64Ior) r16 h32) s17;
               let (ones, s19) = Int64Constant_node 0xffffffffffffffff s18;
               (x, s20) \<leftarrow> Build fuel (Call_Binop (I64 kExprI64Xor) ones r32) s19;
               Build fuel (Call_MakeI64Popcnt x) s20 }
      | Call_MakeI32Popcnt input \<Rightarrow>
          do { let (c1, s1) = Int32Constant_node 1 s;
               (h1, s2) \<leftarrow> Build fuel (Call_Binop (I32 kExprI32ShrU) input c1) s1;
               let (m1, s3) = Int32Constant_node 0x55555555 s2;
               (a1, s4) \<leftarrow> Build fuel (Call_Binop (I32 kExprI32And) h1 m1) s3;
               let (n1, s5) = Int32Constant_node 0x55555555 s4;
               (b1, s6) \<leftarrow> Build fuel (Call_Binop (I32 kExprI32And) input n1) s5;
               (r1, s7) \<leftarrow> Build fuel (Call_Binop (I32 kExprI32Add) a1 b1) s6;
               let (c2, s8) = Int32Constant_node 2 s7;
               (h2, s9) \<leftarrow> Build fuel (Call_Binop (I32 kExprI32ShrU) r1 c2) s8;
               let (m2, s10) = Int32Constant_node 0x33333333 s9;
               (a2, s11) \<leftarrow> Build fuel (Call_Binop (I32 kExprI32And) h2 m2) s10;
               let (n2, s12) = Int32Constant_node 0x33333333 s11;
               (b2, s13) \<leftarrow> Build fuel (Call_Binop (I32 kExprI32And) r1 n2) s12;
               (r2, s14) \<leftarrow> Build fuel (Call_Binop (I32 kExprI32Add) a2 b2) s13;
               let (c4, s15) = Int32Constant_node 4 s14;
               (h4, s16) \<leftarrow> Build fuel (Call_Binop (I32 kExprI32ShrU) r2 c4) s15;
               let (m4, s17) = Int32Constant_node 0x0f0f0f0f s16;
               (a4, s18) \<leftarrow> Build fuel (Call_Binop (I32 kExprI32And) h4 m4) s17;
               let (n4, s19) = Int32Constant_node 0x0f0f0f0f s18;
               (b4, s20) \<leftarrow> Build fuel (Call_Binop (I32 kExprI32And) r2 n4) s19;
               (r4, s21) \<leftarrow> Build fuel (Call_Binop (I32 kExprI32Add) a4 b4) s20;
               let (c8, s22) = Int32Constant_node 8 s21;
               (h8, s23) \<leftarrow> Build fuel (Call_Binop (I32 kExprI32ShrU) r4 c8) s22;
               let (m8, s24) = Int32Constant_node 0x00ff00ff s23;
               (a8, s25) \<leftarrow> Build fuel (Call_Binop (I32 kExprI32And) h8 m8) s24;
               let (n8, s26) = Int32Constant_node 0x00ff00ff s25;
               (b8, s27) \<leftarrow> Build fuel (Call_Binop (I32 kExprI32And) r4 n8) s26;
               (r8, s28) \<leftarrow> Build fuel (Call_Binop (I32 kExprI32Add) a8 b8) s27;
               let (c16, s29) = Int32Constant_node 16 s28;
               (h16, s30) \<leftarrow> Build fuel (Call_Binop (I32 kExprI32ShrU) r8 c16) s29;
               let (m16, s31) = Int32Constant_node 0x0000ffff s30;
               (a16, s32) \<leftarrow> Build fuel (Call_Binop (I32 kExprI32And) h16 m16) s31;
               let (n16, s33) = Int32Constant_node 0x0000ffff s32;
               (b16, s34) \<leftarrow> Build fuel (Call_Binop (I32 kExprI32And) r8 n16) s33;
               Build fuel (Call_Binop (I32 kExprI32Add) a16 b16) s34 }
      | Call_MakeI64Popcnt input \<Rightarrow>
          do { let (c1, s1) = Int64Constant_node 1 s;
               (h1, s2) \<leftarrow> Build fuel (Call_Binop (I64 kExprI64ShrU) input c1) s1;
               let (m1, s3) = Int64Constant_node 0x5555555555555555 s2;
               (a1, s4) \<leftarrow> Build fuel (Call_Binop (I64 kExprI64And) h1 m1) s3;
               let (n1, s5) = Int64Constant_node 0x5555555555555555 s4;
               (b1, s6) \<leftarrow> Build fuel (Call_Binop (I64 kExprI64And) input n1) s5;
               (r1, s7) \<leftarrow> Build fuel (Call_Binop (I64 kExprI64Add) a1 b1) s6;
               let (c2, s8) = Int64Constant_node 2 s7;
               (h2, s9) \<leftarrow> Build fuel (Call_Binop (I64 kExprI64ShrU) r1 c2) s8;
               let (m2, s10) = Int64Constant_node 0x3333333333333333 s9;
               (a2, s11) \<leftarrow> Build fuel (Call_Binop (I64 kExprI64And) h2 m2) s10;
               let (n2, s12) = Int64Constant_node 0x3333333333333333 s11;
               (b2, s13) \<leftarrow> Build fuel (Call_Binop (I64 kExprI64And) r1 n2) s12;
               (r2, s14) \<leftarrow> Build fuel (Call_Binop (I64 kExprI64Add) a2 b2) s13;
               let (c4, s15) = Int64Constant_node 4 s14;
               (h4, s16) \<leftarrow> Build fuel (Call_Binop (I64 kExprI64ShrU) r2 c4) s15;
               let (m4, s17) = Int64Constant_node 0x0f0f0f0f0f0f0f0f s16;
               (a4, s18) \<leftarrow> Build fuel (Call_Binop (I64 kExprI64And) h4 m4) s17;
               let (n4, s19) = Int64Constant_node 0x0f0f0f0f0f0f0f0f s18;
               (b4, s20) \<leftarrow> Build fuel (Call_Binop (I64 kExprI64And) r2 n4) s19;
               (r4, s21) \<leftarrow> Build fuel (Call_Binop (I64 kExprI64Add) a4 b4) s20;
               let (c8, s22) = Int64Constant_node 8 s21;
               (h8, s23) \<leftarrow> Build fuel (Call_Binop (I64 kExprI64ShrU) r4 c8) s22;
               let (m8, s24) = Int64Constant_node 0x00ff00ff00ff00ff s23;
               (a8, s25) \<leftarrow> Build fuel (Call_Binop (I64 kExprI64And) h8 m8) s24;
               let (n8, s26) = Int64Constant_node 0x00ff00ff00ff00ff s25;
               (b8, s27) \<leftarrow> Build fuel (Call_Binop (I64 kExprI64And) r4 n8) s26;
               (r8, s28) \<leftarrow> Build fuel (Call_Binop (I64 kExprI64Add) a8 b8) s27;
               let (c16, s29) = Int64Constant_node 16 s28;
               (h16, s30) \<leftarrow> Build fuel (Call_Binop (I64 kExprI64ShrU) r8 c16) s29;
               let (m16, s31) = Int64Constant_node 0x0000ffff0000ffff s30;
               (a16, s32) \<leftarrow> Build fuel (Call_Binop (I64 kExprI64And) h16 m16) s31;
               let (n16, s33) = Int64Constant_node 0x0000ffff0000ffff s32;
               (b16, s34) \<leftarrow> Build fuel (Call_Binop (I64 kExprI64And) r8 n16) s33;
               (r16, s35) \<leftarrow> Build fuel (Call_Binop (I64 kExprI64Add) a16 b16) s34;
               let (c32, s36) = Int64Constant_node 32 s35;
               (h32, s37) \<leftarrow> Build fuel (Call_Binop (I64 kExprI64ShrU) r16 c32) s36;
               let (m32, s38) = Int64Constant_node 0x00000000ffffffff s37;
               (a32, s39) \<leftarrow> Build fuel (Call_Binop (I64 kExprI64And) h32 m32) s38;
               let (n32, s40) = Int64Constant_node 0x00000000ffffffff s39;
               (b32, s41) \<leftarrow> Build fuel (Call_Binop (I64 kExprI64And) r16 n32) s40;
               Build fuel (Call_Binop (I64 kExprI64Add) a32 b32) s41 })"

text \<open>
  The member functions under their own names. No chain of calls among them is longer
  than four (\<open>Unop\<close>, \<open>MakeI32Ctz\<close>, \<open>MakeI32Popcnt\<close>, \<open>Binop\<close>), which is the bound
  given to \<open>Build\<close> here.
\<close>

definition Binop :: "WasmOpcode \<Rightarrow> nat \<Rightarrow> nat \<Rightarrow> TFBuilder \<Rightarrow> (nat \<times> TFBuilder) option" where
  "Binop opcode left right s = Build 4 (Call_Binop opcode left right) s"

definition Unop :: "WasmOpcode \<Rightarrow> nat \<Rightarrow> TFBuilder \<Rightarrow> (nat \<times> TFBuilder) option" where
  "Unop opcode input s = Build 4 (Call_Unop opcode input) s"

definition Invert :: "nat \<Rightarrow> TFBuilder \<Rightarrow> (nat \<times> TFBuilder) option" where
  "Invert node s = Build 4 (Call_Invert node) s"

definition MakeF32CopySign :: "nat \<Rightarrow> nat \<Rightarrow> TFBuilder \<Rightarrow> (nat \<times> TFBuilder) option" where
  "MakeF32CopySign left right s = Build 4 (Call_MakeF32CopySign left right) s"

definition MakeF64CopySign :: "nat \<Rightarrow> nat \<Rightarrow> TFBuilder \<Rightarrow> (nat \<times> TFBuilder) option" where
  "MakeF64CopySign left right s = Build 4 (Call_MakeF64CopySign left right) s"

definition MakeI32Ctz :: "nat \<Rightarrow> TFBuilder \<Rightarrow> (nat \<times> TFBuilder) option" where
  "MakeI32Ctz input s = Build 4 (Call_MakeI32Ctz input) s"

definition MakeI64Ctz :: "nat \<Rightarrow> TFBuilder \<Rightarrow> (nat \<times> TFBuilder) option" where
  "MakeI64Ctz input s = Build 4 (Call_MakeI64Ctz input) s"

definition MakeI32Popcnt :: "nat \<Rightarrow> TFBuilder \<Rightarrow> (nat \<times> TFBuilder) option" where
  "MakeI32Popcnt input s = Build 4 (Call_MakeI32Popcnt input) s"

definition MakeI64Popcnt :: "nat \<Rightarrow> TFBuilder \<Rightarrow> (nat \<times> TFBuilder) option" where
  "MakeI64Popcnt input s = Build 4 (Call_MakeI64Popcnt input) s"

section \<open>Linear memory\<close>

text \<open>
  Modelled from the spec: \<open>WasmOpcodes::MemSize\<close> is declared in wasm-opcodes.h, which is
  not among these sources; the spec calls it the width of the access in bytes.
\<close>

fun WasmOpcodes_MemSize :: "MemType \<Rightarrow> nat" where
  "WasmOpcodes_MemSize kMemI8 = 1"
| "WasmOpcodes_MemSize kMemU8 = 1"
| "WasmOpcodes_MemSize kMemI16 = 2"
| "WasmOpcodes_MemSize kMemU16 = 2"
| "WasmOpcodes_MemSize kMemI32 = 4"
| "WasmOpcodes_MemSize kMemU32 = 4"
| "WasmOpcodes_MemSize kMemI64 = 8"
| "WasmOpcodes_MemSize kMemU64 = 8"
| "WasmOpcodes_MemSize kMemF32 = 4"
| "WasmOpcodes_MemSize kMemF64 = 8"

definition kMaxUInt32 :: int where
  "kMaxUInt32 = 0xffffffff"

text \<open>
  \<open>TFBuilder::MemBuffer\<close> and \<open>TFBuilder::MemSize\<close>: the constant for offset 0 is made
  once and kept. Addresses are 64-bit \<open>uintptr_t\<close> values; the size is cast to a 32-bit
  \<open>int\<close>. A null \<open>module\<close> cannot be read: the process ends.
\<close>

definition MemBuffer :: "32 word \<Rightarrow> TFBuilder \<Rightarrow> (nat \<times> TFBuilder) option" where
  "MemBuffer offset s =
     (if offset = 0 then
        (case mem_buffer s of
           Some n \<Rightarrow> Some (n, s)
         | None \<Rightarrow>
             (case module s of
                None \<Rightarrow> None
              | Some mdl \<Rightarrow>
                  (let (n, s1) = NewNode (IntPtrConstant (mem_start mdl)) [] s
                   in Some (n, s1\<lparr>mem_buffer := Some n\<rparr>))))
      else
        (case module s of
           None \<Rightarrow> None
         | Some mdl \<Rightarrow> Some (NewNode (IntPtrConstant (mem_start mdl + ucast offset)) [] s)))"

definition MemSize :: "32 word \<Rightarrow> TFBuilder \<Rightarrow> (nat \<times> TFBuilder) option" where
  "MemSize offset s =
     (case module s of
        None \<Rightarrow> None
      | Some mdl \<Rightarrow>
          (let size = (ucast (mem_end mdl - mem_start mdl) :: 32 word) in
           if offset = 0 then
             (case mem_size s of
                Some n \<Rightarrow> Some (n, s)
              | None \<Rightarrow>
                  (let (n, s1) = Int32Constant_node size s
                   in Some (n, s1\<lparr>mem_size := Some n\<rparr>)))
           else Some (Int32Constant_node (size + offset) s)))"

text \<open>
  \<open>BoundsCheckMem\<close>. \<open>size\<close> is a \<open>ptrdiff_t\<close> (64 bits, signed), \<open>offset\<close> a \<open>uint32_t\<close>
  and \<open>memsize\<close> a byte: \<open>offset >= size\<close> compares the two as 64-bit signed values,
  \<open>offset + memsize\<close> is a 32-bit unsigned sum (it wraps) that is then compared with
  \<open>size\<close>, and \<open>limit\<close> is the 64-bit difference stored in a \<open>size_t\<close>. A failed
  \<open>CHECK\<close> aborts.
\<close>

definition BoundsCheckMem :: "MemType \<Rightarrow> nat \<Rightarrow> 32 word \<Rightarrow> TFBuilder \<Rightarrow> TFBuilder option" where
  "BoundsCheckMem memtype index offset s =
     (case module s of
        None \<Rightarrow> None
      | Some mdl \<Rightarrow>
          if mem_end mdl < mem_start mdl then None
          else
            (let size = sint (mem_end mdl - mem_start mdl);
                 memsize = WasmOpcodes_MemSize memtype
             in if uint offset \<ge> size \<or> uint (offset + word_of_nat memsize) \<ge> size
                then (let (cond, s1) = Int32Constant_node 0 s
                      in AddTrapIfFalse kTrapMemOutOfBounds cond s1)
                else
                  (let limit = (size - uint offset - int memsize) mod 2 ^ 64
                   in if limit \<le> kMaxUInt32
                      then (let (lim, s1) = Int32Constant_node (word_of_int limit) s;
                                (cond, s2) = NewNode (W32 Uint32LessThanOrEqual) [index, lim] s1
                            in AddTrapIfFalse kTrapMemOutOfBounds cond s2)
                      else None)))"

text \<open>
  \<open>LoadMem\<close> and \<open>StoreMem\<close>: a checked access under asm.js semantics, a bounds check
  followed by a plain access otherwise. An i64 load narrower than 8 bytes is extended.
\<close>

definition LoadMem ::
  "LocalType \<Rightarrow> MemType \<Rightarrow> nat \<Rightarrow> 32 word \<Rightarrow> TFBuilder \<Rightarrow> (nat \<times> TFBuilder) option" where
  "LoadMem type memtype index offset s =
     do { (load, s3) \<leftarrow>
            (if (case module s of None \<Rightarrow> False | Some mdl \<Rightarrow> asm_js mdl)
             then do { (buf, s1) \<leftarrow> MemBuffer 0 s;
                       (sz, s2) \<leftarrow> MemSize 0 s1;
                       Some (NewNode (CheckedLoad (MachineTypeFor memtype))
                               [buf, index, sz, effect s2, control s2] s2) }
             else do { s1 \<leftarrow> BoundsCheckMem memtype index offset s;
                       (buf, s2) \<leftarrow> MemBuffer offset s1;
                       Some (NewNode (Load (MachineTypeFor memtype))
                               [buf, index, effect s2, control s2] s2) });
          let s4 = s3\<lparr>effect := load\<rparr>;
          if type = kAstI64 \<and> WasmOpcodes_MemSize memtype < 8
          then (let sign_extend = (memtype = kMemI8 \<or> memtype = kMemI16 \<or> memtype = kMemI32)
                in if sign_extend
                   then Some (NewNode (Conv ChangeInt32ToInt64) [load] s4)
                   else Some (NewNode (Conv ChangeUint32ToUint64) [load] s4))
          else Some (load, s4) }"

definition StoreMem ::
  "MemType \<Rightarrow> nat \<Rightarrow> 32 word \<Rightarrow> nat \<Rightarrow> TFBuilder \<Rightarrow> (nat \<times> TFBuilder) option" where
  "StoreMem memtype index offset val s =
     do { (store, s3) \<leftarrow>
            (if (case module s of None \<Rightarrow> False | Some mdl \<Rightarrow> asm_js mdl)
             then do { (buf, s1) \<leftarrow> MemBuffer 0 s;
                       (sz, s2) \<leftarrow> MemSize 0 s1;
                       Some (NewNode (CheckedStore (MachineTypeFor memtype))
                               [buf, index, sz, val, effect s2, control s2] s2) }
             else do { s1 \<leftarrow> BoundsCheckMem memtype index offset s;
                       (buf, s2) \<leftarrow> MemBuffer offset s1;
                       Some (NewNode (Store (MachineTypeFor memtype))
                               [buf, index, val, effect s2, control s2] s2) });
          Some (store, s3\<lparr>effect := store\<rparr>) }"

section \<open>Well-formed builder states\<close>

text \<open>
  The predicates below describe the states the trap helper keeps the builder in. The end
  pointer, once set, points to an \<open>End\<close> node. A materialised trap reason owns a \<open>Merge\<close>
  node and an \<open>EffectPhi\<close> node of the graph whose operators count their inputs, and no
  two reasons share a node. \<open>is_variadic\<close> marks the operators whose nodes grow after
  they are made.
\<close>

fun is_End :: "Operator \<Rightarrow> bool" where
  "is_End (End k) = True"
| "is_End _ = False"

fun is_variadic :: "Operator \<Rightarrow> bool" where
  "is_variadic (Merge k) = True"
| "is_variadic (Loop k) = True"
| "is_variadic (Phi t k) = True"
| "is_variadic (EffectPhi k) = True"
| "is_variadic (End k) = True"
| "is_variadic _ = False"

definition end_ok :: "TFBuilder \<Rightarrow> bool" where
  "end_ok s = (case graph_end s of None \<Rightarrow> True
               | Some e \<Rightarrow> e < length (nodes s) \<and> is_End (node_op (nodes s ! e)))"

definition trap_ok :: "TFBuilder \<Rightarrow> TrapReason \<Rightarrow> bool" where
  "trap_ok s r =
     (case traps s r of
        None \<Rightarrow> True
      | Some t \<Rightarrow>
          t < length (nodes s) \<and>
          node_op (nodes s ! t) = Merge (length (node_inputs (nodes s ! t))) \<and>
          effects s r < length (nodes s) \<and>
          node_inputs (nodes s ! effects s r) \<noteq> [] \<and>
          node_op (nodes s ! effects s r)
            = EffectPhi (length (node_inputs (nodes s ! effects s r)) - 1) \<and>
          list_all (\<lambda>r'. r' = r \<or> traps s r' = None \<or>
                          (traps s r' \<noteq> Some t \<and> effects s r' \<noteq> effects s r)) all_reasons)"

definition builder_wf :: "TFBuilder \<Rightarrow> bool" where
  "builder_wf s = (end_ok s \<and> list_all (trap_ok s) all_reasons)"

text \<open>
  The control inputs of the trap block of a reason, and the effect inputs of its effect
  phi (all inputs of the phi but the last, which is the merge); both empty while the
  reason has no block.
\<close>

definition trap_inputs :: "TFBuilder \<Rightarrow> TrapReason \<Rightarrow> nat list" where
  "trap_inputs s r =
     (case traps s r of None \<Rightarrow> [] | Some t \<Rightarrow> node_inputs (nodes s ! t))"

definition trap_effects :: "TFBuilder \<Rightarrow> TrapReason \<Rightarrow> nat list" where
  "trap_effects s r =
     (case traps s r of None \<Rightarrow> []
      | Some t \<Rightarrow> butlast (node_inputs (nodes s ! effects s r)))"

text \<open>
  The nodes \<open>BuildTrapCode\<close> appends for a reason when the graph has \<open>l\<close> nodes and the
  cursors are \<open>c\<close> and \<open>e\<close>: with a module context the runtime call is part of the block.
\<close>

definition has_context :: "TFBuilder \<Rightarrow> bool" where
  "has_context s = (case module s of None \<Rightarrow> False | Some mdl \<Rightarrow> \<not> context_is_null mdl)"

definition trap_block :: "bool \<Rightarrow> TrapReason \<Rightarrow> nat \<Rightarrow> nat \<Rightarrow> nat \<Rightarrow> TFNode list" where
  "trap_block ctx r l c e =
     [\<lparr>node_op = HeapConstant (kTrapMessages r), node_inputs = []\<rparr>,
      \<lparr>node_op = Merge 1, node_inputs = [c]\<rparr>,
      \<lparr>node_op = EffectPhi 1, node_inputs = [e, l + 1]\<rparr>] @
     (if ctx then
        [\<lparr>node_op = CEntryStubConstant 1, node_inputs = []\<rparr>,
         \<lparr>node_op = ExternalConstant ''Runtime::kThrow'', node_inputs = []\<rparr>,
         \<lparr>node_op = Int32Constant 1, node_inputs = []\<rparr>,
         \<lparr>node_op = HeapConstant ''context'', node_inputs = []\<rparr>,
         \<lparr>node_op = EmptyFrameState, node_inputs = []\<rparr>,
         \<lparr>node_op = Call ''Runtime::kThrow'',
          node_inputs = [l + 3, l, l + 4, l + 5, l + 6, l + 7, l + 2, l + 1]\<rparr>,
         \<lparr>node_op = Int32Constant 0xdeadbeef, node_inputs = []\<rparr>,
         \<lparr>node_op = Return, node_inputs = [l + 9, l + 8, l + 8]\<rparr>]
      else
        [\<lparr>node_op = Int32Constant 0xdeadbeef, node_inputs = []\<rparr>,
         \<lparr>node_op = Return, node_inputs = [l + 3, l + 2, l + 1]\<rparr>])"

definition trap_block_ret :: "bool \<Rightarrow> nat \<Rightarrow> nat" where
  "trap_block_ret ctx l = (if ctx then l + 10 else l + 4)"

definition trap_block_cursor :: "bool \<Rightarrow> nat \<Rightarrow> nat \<times> nat" where
  "trap_block_cursor ctx l = (if ctx then (l + 8, l + 8) else (l + 1, l + 2))"

section \<open>Sequences of builder steps\<close>

text \<open>
  A function build, seen from the trap helper: a sequence of trap sites (\<open>AddTrapIf\<close>
  and \<open>Unreachable\<close>) between which the builder makes other nodes and moves its cursors
  to nodes of the graph.
\<close>

datatype BuildStep =
    TrapSite TrapReason nat bool
  | UnreachableSite
  | PlainNode Operator "nat list"
  | SetControl nat
  | SetEffect nat



fun step_reason :: "BuildStep \<Rightarrow> TrapReason option" where
  "step_reason (TrapSite reason cond iftrue) = Some reason"
| "step_reason UnreachableSite = Some kTrapUnreachable"
| "step_reason _ = None"

definition trap_sites :: "TrapReason \<Rightarrow> BuildStep list \<Rightarrow> nat" where
  "trap_sites r sts = length (filter (\<lambda>st. step_reason st = Some r) sts)"

section \<open>Example builders\<close>

text \<open>
  A 64-bit target without the optional machine operators, and a builder for a function
  of two parameters right after \<open>Start\<close>: the start node, the two parameter nodes, a
  32-bit and a 64-bit constant 7, both cursors on the start node, no trap block yet. The
  second example attaches a module with 32 bytes of linear memory and no context.
\<close>

definition target64 :: Target where
  "target64 =
     \<lparr> WASM_64 = True,
       Word32Ctz_IsSupported = False, Word32Popcnt_IsSupported = False,
       Word64Ctz_IsSupported = False, Word64Popcnt_IsSupported = False,
       Float32Min_IsSupported = False, Float32Max_IsSupported = False,
       Float64Min_IsSupported = False, Float64Max_IsSupported = False,
       Float32RoundDown_IsSupported = False, Float32RoundUp_IsSupported = False,
       Float32RoundTruncate_IsSupported = False, Float32RoundTiesEven_IsSupported = False,
       Float64RoundDown_IsSupported = False, Float64RoundUp_IsSupported = False,
       Float64RoundTruncate_IsSupported = False, Float64RoundTiesEven_IsSupported = False \<rparr>"

definition example_builder :: TFBuilder where
  "example_builder =
     \<lparr> nodes = [\<lparr>node_op = Start 2, node_inputs = []\<rparr>,
                \<lparr>node_op = Parameter 0, node_inputs = [0]\<rparr>,
                \<lparr>node_op = Parameter 1, node_inputs = [0]\<rparr>,
                \<lparr>node_op = Int32Constant 7, node_inputs = []\<rparr>,
                \<lparr>node_op = Int64Constant 7, node_inputs = []\<rparr>],
       graph_start = 0,
       graph_end = None,
       target = target64,
       module = None,
       mem_buffer = None,
       mem_size = None,
       control = 0,
       effect = 0,
       traps = (\<lambda>r. None),
       effects = (\<lambda>r. 0) \<rparr>"

definition example_module :: ModuleEnv where
  "example_module =
     \<lparr> mem_start = 0x1000, mem_end = 0x1020, asm_js = False, context_is_null = True \<rparr>"

definition example_memory_builder :: TFBuilder where
  "example_memory_builder = example_builder\<lparr>module := Some example_module\<rparr>"


section \<open>Reading the graph\<close>

text \<open>
  \<open>is_node s n opr ins\<close>: node \<open>n\<close> of the graph has operator \<open>opr\<close> and inputs \<open>ins\<close>.

  \<open>trap_check s reason b cond iftrue ctl\<close>: the three nodes that \<open>AddTrapIf\<close> makes for
  one check are in the graph at \<open>b\<close>, \<open>b + 1\<close>, \<open>b + 2\<close> (the branch on \<open>cond\<close> under control
  \<open>ctl\<close> and its two projections), and the projection on which the check fires (\<open>IfTrue\<close>
  when \<open>iftrue\<close>, \<open>IfFalse\<close> otherwise) is an input of the merge of the trap block of
  \<open>reason\<close>. The other projection is where the code goes on.
\<close>

definition is_node :: "TFBuilder \<Rightarrow> nat \<Rightarrow> Operator \<Rightarrow> nat list \<Rightarrow> bool" where
  "is_node s n opr ins =
     (n < length (nodes s) \<and> nodes s ! n = \<lparr>node_op = opr, node_inputs = ins\<rparr>)"

definition trap_check ::
  "TFBuilder \<Rightarrow> TrapReason \<Rightarrow> nat \<Rightarrow> nat \<Rightarrow> bool \<Rightarrow> nat \<Rightarrow> bool" where
  "trap_check s reason b cond iftrue ctl =
     (is_node s b (Branch (if iftrue then kFalse else kTrue)) [cond, ctl] \<and>
      is_node s (b + 1) IfTrue [b] \<and>
      is_node s (b + 2) IfFalse [b] \<and>
      (b + (if iftrue then 1 else 2)) \<in> set (trap_inputs s reason))"

text \<open>
  \<open>builder_extends s s'\<close>: what the builder's functions do to a graph. Nodes are added
  at the end; a node whose inputs can grow (a merge, a phi, the end node) stays such a
  node, every other node stays as it is; the merge of a trap block loses no input.
\<close>

definition builder_extends :: "TFBuilder \<Rightarrow> TFBuilder \<Rightarrow> bool" where
  "builder_extends s s' =
     (length (nodes s) \<le> length (nodes s') \<and>
      list_all (\<lambda>n. if is_variadic (node_op (nodes s ! n))
                     then is_variadic (node_op (nodes s' ! n))
                     else nodes s' ! n = nodes s ! n) [0..<length (nodes s)] \<and>
      list_all (\<lambda>r. set (trap_inputs s r) \<subseteq> set (trap_inputs s' r)) all_reasons \<and>
      graph_start s' = graph_start s \<and> target s' = target s \<and> module s' = module s)"

text \<open>
  The control inputs of a node. TurboFan orders the inputs of a node as values, then
  effects, then controls: a branch has one value input and one control input, a
  projection and a merge have control inputs only, and the integer division and
  remainder operators are given their control as a third input after the two values.

  \<open>control_paths_pass s d k n\<close>: following control inputs backwards from node \<open>n\<close>, every
  path comes to node \<open>d\<close> within \<open>k\<close> steps, so control reaches \<open>n\<close> only through \<open>d\<close>.
\<close>

definition control_inputs :: "TFNode \<Rightarrow> nat list" where
  "control_inputs n =
     (case node_op n of
        Branch h \<Rightarrow> drop 1 (node_inputs n)
      | IfTrue \<Rightarrow> node_inputs n
      | IfFalse \<Rightarrow> node_inputs n
      | Merge k \<Rightarrow> node_inputs n
      | Loop k \<Rightarrow> node_inputs n
      | W32 w \<Rightarrow> drop 2 (node_inputs n)
      | W64 w \<Rightarrow> drop 2 (node_inputs n)
      | _ \<Rightarrow> [])"

primrec control_paths_pass :: "TFBuilder \<Rightarrow> nat \<Rightarrow> nat \<Rightarrow> nat \<Rightarrow> bool" where
  "control_paths_pass s d 0 n = (n = d)"
| "control_paths_pass s d (Suc k) n =
     (n = d \<or>
      (n < length (nodes s) \<and> control_inputs (nodes s ! n) \<noteq> [] \<and>
       list_all (control_paths_pass s d k) (control_inputs (nodes s ! n))))"

text \<open>
  The bounds check as the specification words it, to be compared with \<open>BoundsCheckMem\<close>:
  for a memory of \<open>size\<close> bytes, a static offset \<open>off\<close> and an access of \<open>w\<close> bytes the
  condition of the check is the constant false exactly when
  \<open>off \<ge> size\<close> or \<open>off + w > size\<close>.
\<close>

definition spec_check_is_constant_false :: "int \<Rightarrow> int \<Rightarrow> int \<Rightarrow> bool" where
  "spec_check_is_constant_false sz off w = (off \<ge> sz \<or> off + w > sz)"

section \<open>The lowered sequences\<close>

text \<open>
  The nodes that the lowerings add to a graph of \<open>L\<close> nodes, in closed form; the lemmas
  \<open>Build_MakeI32Popcnt\<close>, \<open>Build_MakeI32Ctz\<close>, \<open>Build_MakeI64Popcnt\<close>, \<open>Build_MakeI64Ctz\<close>,
  \<open>Build_MakeF32CopySign\<close> and \<open>Build_MakeF64CopySign\<close> prove that these are the nodes
  the functions make. One round of the population count adds the two halves of the
  value selected by a mask; one round of the bit smear ors the value with itself shifted
  left.
\<close>

definition popcnt32_round :: "32 word \<Rightarrow> 32 word \<Rightarrow> nat \<Rightarrow> nat \<Rightarrow> TFNode list" where
  "popcnt32_round c m L x =
     [\<lparr>node_op = Int32Constant c, node_inputs = []\<rparr>,
      \<lparr>node_op = W32 Word32Shr, node_inputs = [x, L]\<rparr>,
      \<lparr>node_op = Int32Constant m, node_inputs = []\<rparr>,
      \<lparr>node_op = W32 Word32And, node_inputs = [L + 1, L + 2]\<rparr>,
      \<lparr>node_op = Int32Constant m, node_inputs = []\<rparr>,
      \<lparr>node_op = W32 Word32And, node_inputs = [x, L + 4]\<rparr>,
      \<lparr>node_op = W32 Int32Add, node_inputs = [L + 3, L + 5]\<rparr>]"

definition smear32_round :: "32 word \<Rightarrow> nat \<Rightarrow> nat \<Rightarrow> TFNode list" where
  "smear32_round c L x =
     [\<lparr>node_op = Int32Constant c, node_inputs = []\<rparr>,
      \<lparr>node_op = W32 Word32Shl, node_inputs = [x, L]\<rparr>,
      \<lparr>node_op = W32 Word32Or, node_inputs = [x, L + 1]\<rparr>]"

definition MakeI32Popcnt_nodes :: "nat \<Rightarrow> nat \<Rightarrow> TFNode list" where
  "MakeI32Popcnt_nodes L x =
     popcnt32_round 1 0x55555555 L x @
     popcnt32_round 2 0x33333333 (L + 7) (L + 6) @
     popcnt32_round 4 0x0f0f0f0f (L + 14) (L + 13) @
     popcnt32_round 8 0x00ff00ff (L + 21) (L + 20) @
     popcnt32_round 16 0x0000ffff (L + 28) (L + 27)"

definition MakeI32Ctz_nodes :: "nat \<Rightarrow> nat \<Rightarrow> TFNode list" where
  "MakeI32Ctz_nodes L x =
     smear32_round 1 L x @
     smear32_round 2 (L + 3) (L + 2) @
     smear32_round 4 (L + 6) (L + 5) @
     smear32_round 8 (L + 9) (L + 8) @
     smear32_round 16 (L + 12) (L + 11) @
     [\<lparr>node_op = Int32Constant 0xffffffff, node_inputs = []\<rparr>,
      \<lparr>node_op = W32 Word32Xor, node_inputs = [L + 15, L + 14]\<rparr>] @
     MakeI32Popcnt_nodes (L + 17) (L + 16)"

definition popcnt64_round :: "64 word \<Rightarrow> 64 word \<Rightarrow> nat \<Rightarrow> nat \<Rightarrow> TFNode list" where
  "popcnt64_round c m L x =
     [\<lparr>node_op = Int64Constant c, node_inputs = []\<rparr>,
      \<lparr>node_op = W64 Word64Shr, node_inputs = [x, L]\<rparr>,
      \<lparr>node_op = Int64Constant m, node_inputs = []\<rparr>,
      \<lparr>node_op = W64 Word64And, node_inputs = [L + 1, L + 2]\<rparr>,
      \<lparr>node_op = Int64Constant m, node_inputs = []\<rparr>,
      \<lparr>node_op = W64 Word64And, node_inputs = [x, L + 4]\<rparr>,
      \<lparr>node_op = W64 Int64Add, node_inputs = [L + 3, L + 5]\<rparr>]"

definition smear64_round :: "64 word \<Rightarrow> nat \<Rightarrow> nat \<Rightarrow> TFNode list" where
  "smear64_round c L x =
     [\<lparr>node_op = Int64Constant c, node_inputs = []\<rparr>,
      \<lparr>node_op = W64 Word64Shl, node_inputs = [x, L]\<rparr>,
      \<lparr>node_op = W64 Word64Or, node_inputs = [x, L + 1]\<rparr>]"

definition MakeI64Popcnt_nodes :: "nat \<Rightarrow> nat \<Rightarrow> TFNode list" where
  "MakeI64Popcnt_nodes L x =
     popcnt64_round 1 0x5555555555555555 L x @
     popcnt64_round 2 0x3333333333333333 (L + 7) (L + 6) @
     popcnt64_round 4 0x0f0f0f0f0f0f0f0f (L + 14) (L + 13) @
     popcnt64_round 8 0x00ff00ff00ff00ff (L + 21) (L + 20) @
     popcnt64_round 16 0x0000ffff0000ffff (L + 28) (L + 27) @
     popcnt64_round 32 0x00000000ffffffff (L + 35) (L + 34)"

definition MakeI64Ctz_nodes :: "nat \<Rightarrow> nat \<Rightarrow> TFNode list" where
  "MakeI64Ctz_nodes L x =
     smear64_round 1 L x @
     smear64_round 2 (L + 3) (L + 2) @
     smear64_round 4 (L + 6) (L + 5) @
     smear64_round 8 (L + 9) (L + 8) @
     smear64_round 16 (L + 12) (L + 11) @
     smear64_round 32 (L + 15) (L + 14) @
     [\<lparr>node_op = Int64Constant 0xffffffffffffffff, node_inputs = []\<rparr>,
      \<lparr>node_op = W64 Word64Xor, node_inputs = [L + 18, L + 17]\<rparr>] @
     MakeI64Popcnt_nodes (L + 20) (L + 19)"

definition MakeF32CopySign_nodes :: "nat \<Rightarrow> nat \<Rightarrow> nat \<Rightarrow> TFNode list" where
  "MakeF32CopySign_nodes L left right =
     [\<lparr>node_op = Conv BitcastFloat32ToInt32, node_inputs = [left]\<rparr>,
      \<lparr>node_op = Int32Constant 0x7fffffff, node_inputs = []\<rparr>,
      \<lparr>node_op = W32 Word32And, node_inputs = [L, L + 1]\<rparr>,
      \<lparr>node_op = Conv BitcastFloat32ToInt32, node_inputs = [right]\<rparr>,
      \<lparr>node_op = Int32Constant 0x80000000, node_inputs = []\<rparr>,
      \<lparr>node_op = W32 Word32And, node_inputs = [L + 3, L + 4]\<rparr>,
      \<lparr>node_op = W32 Word32Or, node_inputs = [L + 2, L + 5]\<rparr>,
      \<lparr>node_op = Conv BitcastInt32ToFloat32, node_inputs = [L + 6]\<rparr>]"

definition MakeF64CopySign_nodes :: "bool \<Rightarrow> nat \<Rightarrow> nat \<Rightarrow> nat \<Rightarrow> TFNode list" where
  "MakeF64CopySign_nodes wasm64 L left right =
     (if wasm64 then
        [\<lparr>node_op = Conv BitcastFloat64ToInt64, node_inputs = [left]\<rparr>,
         \<lparr>node_op = Int64Constant 0x7fffffffffffffff, node_inputs = []\<rparr>,
         \<lparr>node_op = W64 Word64And, node_inputs = [L, L + 1]\<rparr>,
         \<lparr>node_op = Conv BitcastFloat64ToInt64, node_inputs = [right]\<rparr>,
         \<lparr>node_op = Int64Constant 0x8000000000000000, node_inputs = []\<rparr>,
         \<lparr>node_op = W64 Word64And, node_inputs = [L + 3, L + 4]\<rparr>,
         \<lparr>node_op = W64 Word64Or, node_inputs = [L + 2, L + 5]\<rparr>,
         \<lparr>node_op = Conv BitcastInt64ToFloat64, node_inputs = [L + 6]\<rparr>]
      else
        [\<lparr>node_op = F64 Float64ExtractHighWord32, node_inputs = [left]\<rparr>,
         \<lparr>node_op = F64 Float64ExtractHighWord32, node_inputs = [right]\<rparr>,
         \<lparr>node_op = Int32Constant 0x7fffffff, node_inputs = []\<rparr>,
         \<lparr>node_op = W32 Word32And, node_inputs = [L, L + 2]\<rparr>,
         \<lparr>node_op = Int32Constant 0x80000000, node_inputs = []\<rparr>,
         \<lparr>node_op = W32 Word32And, node_inputs = [L + 1, L + 4]\<rparr>,
         \<lparr>node_op = W32 Word32Or, node_inputs = [L + 3, L + 5]\<rparr>,
         \<lparr>node_op = F64 Float64InsertHighWord32, node_inputs = [left, L + 6]\<rparr>])"

text \<open>
  The operators the lowerings are made of: integer constants, the bitwise operators,
  the shifts, the addition, the bit casts and the access to the high word of a float64.
\<close>

fun is_lowering_op :: "Operator \<Rightarrow> bool" where
  "is_lowering_op (Int32Constant v) = True"
| "is_lowering_op (Int64Constant v) = True"
| "is_lowering_op (W32 w) =
     (w = Word32And \<or> w = Word32Or \<or> w = Word32Xor \<or> w = Word32Shl \<or> w = Word32Shr \<or>
      w = Int32Add)"
| "is_lowering_op (W64 w) =
     (w = Word64And \<or> w = Word64Or \<or> w = Word64Xor \<or> w = Word64Shl \<or> w = Word64Shr \<or>
      w = Int64Add)"
| "is_lowering_op (Conv c) =
     (c = BitcastFloat32ToInt32 \<or> c = BitcastInt32ToFloat32 \<or>
      c = BitcastFloat64ToInt64 \<or> c = BitcastInt64ToFloat64)"
| "is_lowering_op (F64 f) = (f = Float64ExtractHighWord32 \<or> f = Float64InsertHighWord32)"
| "is_lowering_op _ = False"

text \<open>
  What \<open>Unop\<close> and \<open>Binop\<close> do with an opcode that \<open>IsSupported\<close> reports as unsupported,
  as a table: the one node with the machine operator of the opcode (\<open>Primitive\<close>), a
  lowered sequence (\<open>Lowered\<close>), or the end of the process (\<open>Fatal\<close>). The section on
  opcodes reported as unsupported proves the table of the two functions.
\<close>

datatype Outcome = Primitive Operator | Lowered | Fatal

definition Unop_outcome :: "Target \<Rightarrow> WasmOpcode \<Rightarrow> Outcome" where
  "Unop_outcome tg opcode =
     (case opcode of
        I32 kExprI32Clz \<Rightarrow> Primitive (W32 Word32Clz)
      | I32 kExprI32Ctz \<Rightarrow>
          if Word32Ctz_IsSupported tg then Primitive (W32 Word32Ctz) else Lowered
      | I32 kExprI32Popcnt \<Rightarrow>
          if Word32Popcnt_IsSupported tg then Primitive (W32 Word32Popcnt) else Lowered
      | I64 kExprI64Clz \<Rightarrow>
          if WASM_64 tg then Primitive (W64 Word64Clz) else Fatal
      | I64 kExprI64Ctz \<Rightarrow>
          if WASM_64 tg
          then (if Word64Ctz_IsSupported tg then Primitive (W64 Word64Ctz) else Lowered)
          else Fatal
      | I64 kExprI64Popcnt \<Rightarrow>
          if WASM_64 tg
          then (if Word64Popcnt_IsSupported tg then Primitive (W64 Word64Popcnt) else Lowered)
          else Fatal
      | F32op kExprF32Floor \<Rightarrow>
          if Float32RoundDown_IsSupported tg then Primitive (F32 Float32RoundDown) else Fatal
      | F32op kExprF32Ceil \<Rightarrow>
          if Float32RoundUp_IsSupported tg then Primitive (F32 Float32RoundUp) else Fatal
      | F32op kExprF32Trunc \<Rightarrow>
          if Float32RoundTruncate_IsSupported tg then Primitive (F32 Float32RoundTruncate)
          else Fatal
      | F32op kExprF32NearestInt \<Rightarrow>
          if Float32RoundTiesEven_IsSupported tg then Primitive (F32 Float32RoundTiesEven)
          else Fatal
      | F64op kExprF64Floor \<Rightarrow>
          if Float64RoundDown_IsSupported tg then Primitive (F64 Float64RoundDown) else Fatal
      | F64op kExprF64Ceil \<Rightarrow>
          if Float64RoundUp_IsSupported tg then Primitive (F64 Float64RoundUp) else Fatal
      | F64op kExprF64Trunc \<Rightarrow>
          if Float64RoundTruncate_IsSupported tg then Primitive (F64 Float64RoundTruncate)
          else Fatal
      | F64op kExprF64NearestInt \<Rightarrow>
          if Float64RoundTiesEven_IsSupported tg then Primitive (F64 Float64RoundTiesEven)
          else Fatal
      | Cnv kExprF32SConvertI64 \<Rightarrow>
          if WASM_64 tg then Primitive (Conv RoundInt64ToFloat32) else Fatal
      | Cnv kExprF32UConvertI64 \<Rightarrow>
          if WASM_64 tg then Primitive (Conv RoundUint64ToFloat32) else Fatal
      | Cnv kExprF64SConvertI64 \<Rightarrow>
          if WASM_64 tg then Primitive (Conv RoundInt64ToFloat64) else Fatal
      | Cnv kExprF64UConvertI64 \<Rightarrow>
          if WASM_64 tg then Primitive (Conv RoundUint64ToFloat64) else Fatal
      | _ \<Rightarrow> Fatal)"

definition Binop_outcome :: "Target \<Rightarrow> WasmOpcode \<Rightarrow> Outcome" where
  "Binop_outcome tg opcode =
     (case opcode of
        F32op kExprF32Min \<Rightarrow>
          if Float32Min_IsSupported tg then Primitive (F32 Float32Min) else Fatal
      | F32op kExprF32Max \<Rightarrow>
          if Float32Max_IsSupported tg then Primitive (F32 Float32Max) else Fatal
      | F32op kExprF32CopySign \<Rightarrow> Lowered
      | F64op kExprF64Min \<Rightarrow>
          if Float64Min_IsSupported tg then Primitive (F64 Float64Min) else Fatal
      | F64op kExprF64Max \<Rightarrow>
          if Float64Max_IsSupported tg then Primitive (F64 Float64Max) else Fatal
      | F64op kExprF64CopySign \<Rightarrow> Lowered
      | _ \<Rightarrow> Fatal)"

text \<open>
  \<open>lowered_from s res\<close>: the call returned, kept the nodes of \<open>s\<close> and added at least one
  node, all with operators of the lowerings. \<open>outcome_holds\<close> reads an entry of the table
  against a result.
\<close>

definition lowered_from :: "TFBuilder \<Rightarrow> (nat \<times> TFBuilder) option \<Rightarrow> bool" where
  "lowered_from s res =
     (case res of
        None \<Rightarrow> False
      | Some (n, s') \<Rightarrow>
          length (nodes s) < length (nodes s') \<and>
          take (length (nodes s)) (nodes s') = nodes s \<and>
          list_all (\<lambda>nd. is_lowering_op (node_op nd)) (drop (length (nodes s)) (nodes s')))"

definition outcome_holds ::
  "Outcome \<Rightarrow> TFBuilder \<Rightarrow> nat list \<Rightarrow> (nat \<times> TFBuilder) option \<Rightarrow> bool" where
  "outcome_holds oc s ins res =
     (case oc of
        Primitive p \<Rightarrow> res = Some (NewNode p ins s)
      | Lowered \<Rightarrow> lowered_from s res
      | Fatal \<Rightarrow> res = None)"

section \<open>The value of a graph of 32-bit integer arithmetic\<close>

text \<open>
  Modelled from the spec: the machine operators are defined in src/compiler, which is
  not among these sources. Their meaning is the one of the C operators that the spec
  and the comments of \<open>MakeI32Ctz\<close> and \<open>MakeI32Popcnt\<close> give for the lowered graphs
  (\<open>value << 1\<close>, \<open>value >> 1\<close> on an unsigned value, \<open>|\<close>, \<open>&\<close>, \<open>+\<close>, XOR), on 32-bit words;
  a shift takes its count modulo 32. The operators that are given no value here
  (division, comparisons, the counting operators) evaluate to \<open>None\<close>.

  \<open>eval_nodes env vs nds\<close> evaluates the nodes \<open>nds\<close> in the order of their creation,
  after the values \<open>vs\<close> of the nodes before them: a constant is its value, a binary
  operator is applied to the values of its two inputs, and every other node (a
  parameter, say) has the value that \<open>env\<close> gives to its position. \<open>eval_graph\<close> evaluates
  a whole graph.
\<close>

definition eval_W32 :: "Word32Operator \<Rightarrow> 32 word \<Rightarrow> 32 word \<Rightarrow> 32 word option" where
  "eval_W32 w x y =
     (case w of
        Int32Add \<Rightarrow> Some (x + y)
      | Int32Sub \<Rightarrow> Some (x - y)
      | Int32Mul \<Rightarrow> Some (x * y)
      | Word32And \<Rightarrow> Some (x AND y)
      | Word32Or \<Rightarrow> Some (x OR y)
      | Word32Xor \<Rightarrow> Some (x XOR y)
      | Word32Shl \<Rightarrow> Some (push_bit (unat (y AND 31)) x)
      | Word32Shr \<Rightarrow> Some (drop_bit (unat (y AND 31)) x)
      | _ \<Rightarrow> None)"

definition eval_node :: "(nat \<Rightarrow> 32 word option) \<Rightarrow> 32 word option list \<Rightarrow> TFNode \<Rightarrow> 32 word option" where
  "eval_node env vs nd =
     (case node_op nd of
        Int32Constant v \<Rightarrow> Some v
      | W32 w \<Rightarrow>
          (case node_inputs nd of
             [a, b] \<Rightarrow>
               (if a < length vs \<and> b < length vs
                then (case (vs ! a, vs ! b) of
                        (Some x, Some y) \<Rightarrow> eval_W32 w x y
                      | _ \<Rightarrow> None)
                else None)
           | _ \<Rightarrow> None)
      | _ \<Rightarrow> env (length vs))"

primrec eval_nodes ::
  "(nat \<Rightarrow> 32 word option) \<Rightarrow> 32 word option list \<Rightarrow> TFNode list \<Rightarrow> 32 word option list" where
  "eval_nodes env vs [] = vs"
| "eval_nodes env vs (nd # nds) = eval_nodes env (vs @ [eval_node env vs nd]) nds"

definition eval_graph :: "(nat \<Rightarrow> 32 word option) \<Rightarrow> TFNode list \<Rightarrow> 32 word option list" where
  "eval_graph env g = eval_nodes env [] g"

text \<open>
  The number of trailing zero bits of a 32-bit value: the number of bits, from bit 0
  upwards, before the first bit that is set; 32 when no bit is set.
\<close>

definition count_trailing_zeros32 :: "32 word \<Rightarrow> nat" where
  "count_trailing_zeros32 x = length (takeWhile (\<lambda>i. \<not> bit x i) [0..<32])"

text \<open>
  The C code that the comments of \<open>MakeI32Ctz\<close> and \<open>MakeI32Popcnt\<close> give: the bit smear
  and \<open>CountPopulation32\<close>.
\<close>

definition smear32 :: "32 word \<Rightarrow> 32 word" where
  "smear32 x =
     (let v1 = x OR push_bit 1 x;
          v2 = v1 OR push_bit 2 v1;
          v4 = v2 OR push_bit 4 v2;
          v8 = v4 OR push_bit 8 v4;
          v16 = v8 OR push_bit 16 v8
      in v16)"

definition popcnt32_step :: "nat \<Rightarrow> 32 word \<Rightarrow> 32 word \<Rightarrow> 32 word" where
  "popcnt32_step c m v = (drop_bit c v AND m) + (v AND m)"

definition CountPopulation32 :: "32 word \<Rightarrow> 32 word" where
  "CountPopulation32 x =
     (let v1 = popcnt32_step 1 0x55555555 x;
          v2 = popcnt32_step 2 0x33333333 v1;
          v4 = popcnt32_step 4 0x0f0f0f0f v2;
          v8 = popcnt32_step 8 0x00ff00ff v4;
          v16 = popcnt32_step 16 0x0000ffff v8
      in v16)"

section \<open>Properties of \<open>AllocateLocal\<close>\<close>

lemma ucast_word_of_nat_byte:
  "(ucast (word_of_nat n :: 32 word) :: 8 word) = word_of_nat n"
  by (rule bit_word_eqI) (auto simp add: bit_simps)

lemma small_count_roundtrip:
  assumes "n < 256"
  shows "sint (word_of_nat n :: 32 word) = uint (ucast (word_of_nat n :: 32 word) :: 8 word)"
proof -
  have "sint (word_of_nat n :: 32 word) = int n"
    using assms by (simp add: signed_of_nat signed_take_bit_int_eq_self)
  moreover have "uint (word_of_nat n :: 8 word) = int n"
    using assms by (simp add: unsigned_of_nat take_bit_nat_eq_self)
  ultimately show ?thesis by (simp add: ucast_word_of_nat_byte)
qed

text \<open>
  C3. The claim: allocating A (i32), B (f32), C (i32) gives indices with A < C and B
  strictly above every i32 local. Evaluating the code on the one-parameter environment
  \<open>init_env sig_i_i\<close>: A gets index 1, B gets index 1 as well, C gets index 2. The f32
  local shares its index with the first i32 local and lies below the second.
\<close>

theorem AllocateLocal_mixed_types_collide:
  "(do { (a, e1) \<leftarrow> AllocateLocal kAstInt32 (init_env sig_i_i);
         (b, e2) \<leftarrow> AllocateLocal kAstFloat32 e1;
         (c, e3) \<leftarrow> AllocateLocal kAstInt32 e2;
         Some (a, b, c, local_int32_count e3, local_float32_count e3, total_locals e3) })
   = Some (1, 1, 2, 2, 1, 4)"
  by (simp add: AllocateLocal_def init_env_def sig_i_i_def parameter_count_def)

text \<open>
  C10. Allocating an i64 local increments \<open>total_locals\<close> and no per-type counter, and
  returns the parameter count whatever the counters hold; that is the index the first
  i32 local of a function with the same signature receives.
\<close>

theorem AllocateLocal_i64_returns_parameter_count:
  assumes "parameter_count (sig env) < 256"
  shows "AllocateLocal kAstInt64 env
           = Some (word_of_nat (parameter_count (sig env)),
                   env\<lparr>total_locals := total_locals env + 1\<rparr>)
         \<and> AllocateLocal kAstInt32 (init_env (sig env))
           = Some (word_of_nat (parameter_count (sig env)),
                   (init_env (sig env))\<lparr>local_int32_count := 1,
                      total_locals := word_of_nat (parameter_count (sig env)) + 1\<rparr>)"
proof -
  have r: "sint (word_of_nat (parameter_count (sig env)) :: 32 word)
             = uint (ucast (word_of_nat (parameter_count (sig env)) :: 32 word) :: 8 word)"
    using assms by (rule small_count_roundtrip)
  have c: "(ucast (word_of_nat (parameter_count (sig env)) :: 32 word) :: 8 word)
             = word_of_nat (parameter_count (sig env))"
    by (rule ucast_word_of_nat_byte)
  show ?thesis
    using r c by (simp add: AllocateLocal_def init_env_def)
qed

theorem AllocateLocal_i64_returns_parameter_count_witness:
  "AllocateLocal kAstInt64
      \<lparr> sig = sig_i_i, local_int32_count = 3, local_int64_count = 0,
        local_float32_count = 2, local_float64_count = 0, total_locals = 6 \<rparr>
     = Some (1, \<lparr> sig = sig_i_i, local_int32_count = 3, local_int64_count = 0,
                 local_float32_count = 2, local_float64_count = 0, total_locals = 7 \<rparr>)
   \<and> AllocateLocal kAstInt32 (init_env sig_i_i)
     = Some (1, \<lparr> sig = sig_i_i, local_int32_count = 1, local_int64_count = 0,
                 local_float32_count = 0, local_float64_count = 0, total_locals = 2 \<rparr>)"
  using AllocateLocal_i64_returns_parameter_count
          [of "\<lparr> sig = sig_i_i, local_int32_count = 3, local_int64_count = 0,
                local_float32_count = 2, local_float64_count = 0, total_locals = 6 \<rparr>"]
  by (simp add: sig_i_i_def parameter_count_def init_env_def)

section \<open>The trap helper keeps the builder well-formed\<close>

lemma set_all_reasons: "set all_reasons = UNIV"
proof -
  have "r \<in> set all_reasons" for r
    by (cases r) (simp_all add: all_reasons_def)
  then show ?thesis by auto
qed

lemma list_all_reasons: "list_all P all_reasons = (\<forall>r. P r)"
  by (simp add: list_all_iff set_all_reasons)

lemma is_End_iff: "is_End opr = (\<exists>k. opr = End k)"
  by (cases opr) simp_all

lemma trap_ok_iff:
  "trap_ok s r =
     (\<forall>t. traps s r = Some t \<longrightarrow>
         t < length (nodes s) \<and>
         node_op (nodes s ! t) = Merge (length (node_inputs (nodes s ! t))) \<and>
         effects s r < length (nodes s) \<and>
         node_inputs (nodes s ! effects s r) \<noteq> [] \<and>
         node_op (nodes s ! effects s r)
            = EffectPhi (length (node_inputs (nodes s ! effects s r)) - 1) \<and>
         (\<forall>r'. r' \<noteq> r \<longrightarrow> traps s r' \<noteq> None \<longrightarrow>
                 traps s r' \<noteq> Some t \<and> effects s r' \<noteq> effects s r))"
  by (cases "traps s r") (auto simp add: trap_ok_def list_all_reasons)

lemma builder_wf_iff:
  "builder_wf s = (end_ok s \<and> (\<forall>r. trap_ok s r))"
  by (simp add: builder_wf_def list_all_reasons)

lemma ConnectTrap_existing:
  assumes wf: "builder_wf s" and t: "traps s r = Some t"
  shows "ConnectTrap r s =
           Some (s\<lparr>nodes := (nodes s)
                    [t := \<lparr>node_op = Merge (Suc (length (node_inputs (nodes s ! t)))),
                           node_inputs = node_inputs (nodes s ! t) @ [control s]\<rparr>,
                     effects s r :=
                        \<lparr>node_op = EffectPhi (length (node_inputs (nodes s ! effects s r))),
                         node_inputs = butlast (node_inputs (nodes s ! effects s r))
                                        @ [effect s, last (node_inputs (nodes s ! effects s r))]\<rparr>]\<rparr>)"
proof -
  from wf t have ok: "trap_ok s r" by (simp add: builder_wf_iff)
  from ok t have a: "t < length (nodes s)"
    and b: "node_op (nodes s ! t) = Merge (length (node_inputs (nodes s ! t)))"
    and c: "effects s r < length (nodes s)"
    and d: "node_inputs (nodes s ! effects s r) \<noteq> []"
    and e: "node_op (nodes s ! effects s r)
              = EffectPhi (length (node_inputs (nodes s ! effects s r)) - 1)"
    by (simp_all add: trap_ok_iff)
  from b e have ne: "effects s r \<noteq> t" by auto
  show ?thesis
    using a b c d e ne t
    by (simp add: ConnectTrap_def AppendToMerge_def AppendToPhi_def Let_def)
qed

lemma MergeControlToEnd_Some:
  "graph_end s = Some e \<Longrightarrow> e < length (nodes s) \<Longrightarrow>
   MergeControlToEnd n s =
     Some (s\<lparr>nodes := (nodes s)[e := \<lparr>node_op = End (Suc (length (node_inputs (nodes s ! e)))),
                                     node_inputs = node_inputs (nodes s ! e) @ [n]\<rparr>]\<rparr>)"
  by (simp add: MergeControlToEnd_def Let_def)

lemma MergeControlToEnd_None:
  "graph_end s = None \<Longrightarrow>
   MergeControlToEnd n s =
     Some (s\<lparr>nodes := nodes s @ [\<lparr>node_op = End 1, node_inputs = [n]\<rparr>],
             graph_end := Some (length (nodes s))\<rparr>)"
  by (simp add: MergeControlToEnd_def NewNode_def)

lemma BuildTrapCode_closed:
  assumes e: "end_ok s"
  shows "BuildTrapCode r s =
     (case graph_end s of
        None \<Rightarrow>
          Some (s\<lparr>nodes :=
                    nodes s @ trap_block (has_context s) r (length (nodes s)) (control s) (effect s)
                      @ [\<lparr>node_op = End 1,
                           node_inputs = [trap_block_ret (has_context s) (length (nodes s))]\<rparr>],
                  graph_end := Some (Suc (trap_block_ret (has_context s) (length (nodes s)))),
                  control := fst (trap_block_cursor (has_context s) (length (nodes s))),
                  effect := snd (trap_block_cursor (has_context s) (length (nodes s))),
                  traps := (traps s)(r := Some (length (nodes s) + 1)),
                  effects := (effects s)(r := length (nodes s) + 2)\<rparr>)
      | Some en \<Rightarrow>
          Some (s\<lparr>nodes :=
                    (nodes s @ trap_block (has_context s) r (length (nodes s)) (control s) (effect s))
                      [en := \<lparr>node_op = End (Suc (length (node_inputs (nodes s ! en)))),
                             node_inputs = node_inputs (nodes s ! en)
                                @ [trap_block_ret (has_context s) (length (nodes s))]\<rparr>],
                  control := fst (trap_block_cursor (has_context s) (length (nodes s))),
                  effect := snd (trap_block_cursor (has_context s) (length (nodes s))),
                  traps := (traps s)(r := Some (length (nodes s) + 1)),
                  effects := (effects s)(r := length (nodes s) + 2)\<rparr>))"
proof -
  have en: "graph_end s = None \<or> (\<exists>en. graph_end s = Some en \<and> en < length (nodes s))"
    using e by (cases "graph_end s") (simp_all add: end_ok_def)
  have md: "(module s = None \<and> \<not> has_context s)
            \<or> (\<exists>mdl. module s = Some mdl \<and> context_is_null mdl \<and> \<not> has_context s)
            \<or> (\<exists>mdl. module s = Some mdl \<and> \<not> context_is_null mdl \<and> has_context s)"
    by (cases "module s") (auto simp add: has_context_def)
  note defs = BuildTrapCode_def String_def NewNode_def Int32Constant_node_def
          MergeControlToEnd_Some MergeControlToEnd_None Let_def trap_block_def
          trap_block_ret_def trap_block_cursor_def nth_append eval_nat_numeral
  from en md show ?thesis
    apply (elim disjE exE conjE)
         apply (simp add: defs)
        apply (simp add: defs)
       apply (simp add: defs)
      apply (simp add: defs)
     apply (simp add: defs)
    apply (simp add: defs)
    done
qed

lemma trap_block_length: "3 \<le> length (trap_block ctx r l c e)"
  by (simp add: trap_block_def)

lemma trap_block_nth1: "trap_block ctx r l c e ! Suc 0 = \<lparr>node_op = Merge 1, node_inputs = [c]\<rparr>"
  by (simp add: trap_block_def)

lemma trap_block_nth2:
  "trap_block ctx r l c e ! 2 = \<lparr>node_op = EffectPhi 1, node_inputs = [e, l + 1]\<rparr>"
  by (simp add: trap_block_def)

lemma builder_wf_D:
  assumes "builder_wf s" "traps s r = Some t"
  shows "t < length (nodes s)"
    and "node_op (nodes s ! t) = Merge (length (node_inputs (nodes s ! t)))"
    and "effects s r < length (nodes s)"
    and "node_inputs (nodes s ! effects s r) \<noteq> []"
    and "node_op (nodes s ! effects s r)
           = EffectPhi (length (node_inputs (nodes s ! effects s r)) - 1)"
    and "\<And>r' t'. r' \<noteq> r \<Longrightarrow> traps s r' = Some t' \<Longrightarrow> t' \<noteq> t \<and> effects s r' \<noteq> effects s r"
  using assms by (auto simp add: builder_wf_iff trap_ok_iff)

lemma builder_wf_end:
  assumes "builder_wf s" "graph_end s = Some en"
  shows "en < length (nodes s)" and "is_End (node_op (nodes s ! en))"
  using assms by (auto simp add: builder_wf_iff end_ok_def)

lemma ConnectTrap_first:
  assumes wf: "builder_wf s" and t: "traps s r = None"
  shows "\<exists>s'. ConnectTrap r s = Some s' \<and> builder_wf s' \<and>
           length (nodes s) + 3 \<le> length (nodes s') \<and>
           (\<forall>n<length (nodes s). \<not> is_variadic (node_op (nodes s ! n)) \<longrightarrow>
               nodes s' ! n = nodes s ! n) \<and>
           traps s' = (traps s)(r := Some (length (nodes s) + 1)) \<and>
           effects s' = (effects s)(r := length (nodes s) + 2) \<and>
           nodes s' ! (length (nodes s) + 1) = \<lparr>node_op = Merge 1, node_inputs = [control s]\<rparr> \<and>
           nodes s' ! (length (nodes s) + 2)
              = \<lparr>node_op = EffectPhi 1, node_inputs = [effect s, length (nodes s) + 1]\<rparr> \<and>
           (\<forall>r' t'. traps s r' = Some t' \<longrightarrow>
               nodes s' ! t' = nodes s ! t' \<and> nodes s' ! effects s r' = nodes s ! effects s r') \<and>
           graph_start s' = graph_start s \<and> target s' = target s \<and> module s' = module s \<and>
           mem_buffer s' = mem_buffer s \<and> mem_size s' = mem_size s"
proof -
  let ?L = "length (nodes s)"
  let ?blk = "trap_block (has_context s) r ?L (control s) (effect s)"
  from wf have eo: "end_ok s" by (simp add: builder_wf_iff)
  have old: "t' < ?L \<and> effects s r' < ?L \<and>
             node_op (nodes s ! t') = Merge (length (node_inputs (nodes s ! t'))) \<and>
             node_inputs (nodes s ! effects s r') \<noteq> [] \<and>
             node_op (nodes s ! effects s r')
               = EffectPhi (length (node_inputs (nodes s ! effects s r')) - 1)"
    if "traps s r' = Some t'" for r' t'
    using builder_wf_D [OF wf that] by simp
  have olddist: "t'' \<noteq> t' \<and> effects s r'' \<noteq> effects s r'"
    if "traps s r' = Some t'" "r'' \<noteq> r'" "traps s r'' = Some t''" for r' t' r'' t''
    using builder_wf_D(6) [OF wf that(1) that(2) that(3)] .
  show ?thesis
  proof (cases "graph_end s")
    case None
    define s' where "s' = s\<lparr>nodes := nodes s @ ?blk
                      @ [\<lparr>node_op = End 1,
                           node_inputs = [trap_block_ret (has_context s) ?L]\<rparr>],
                  graph_end := Some (Suc (trap_block_ret (has_context s) ?L)),
                  control := fst (trap_block_cursor (has_context s) ?L),
                  effect := snd (trap_block_cursor (has_context s) ?L),
                  traps := (traps s)(r := Some (?L + 1)),
                  effects := (effects s)(r := ?L + 2)\<rparr>"
    have run: "ConnectTrap r s = Some s'"
      using t None by (simp add: ConnectTrap_def BuildTrapCode_closed [OF eo] s'_def)
    have nodes': "nodes s' = nodes s @ ?blk
                      @ [\<lparr>node_op = End 1,
                           node_inputs = [trap_block_ret (has_context s) ?L]\<rparr>]"
      by (simp add: s'_def)
    have len: "length (nodes s') = ?L + length ?blk + 1" by (simp add: nodes')
    have blk3: "3 \<le> length ?blk" by (rule trap_block_length)
    have keep: "nodes s' ! n = nodes s ! n" if "n < ?L" for n
      using that by (simp add: nodes' nth_append)
    have n1: "nodes s' ! (?L + 1) = \<lparr>node_op = Merge 1, node_inputs = [control s]\<rparr>"
      using blk3 trap_block_nth1 [of "has_context s" r ?L "control s" "effect s"]
      by (simp add: nodes' nth_append)
    have n2: "nodes s' ! (?L + 2)
                = \<lparr>node_op = EffectPhi 1, node_inputs = [effect s, ?L + 1]\<rparr>"
      using blk3 trap_block_nth2 [of "has_context s" r ?L "control s" "effect s"]
      by (simp add: nodes' nth_append)
    have tr: "traps s' = (traps s)(r := Some (?L + 1))"
      and ef: "effects s' = (effects s)(r := ?L + 2)"
      by (simp_all add: s'_def)
    have eo': "end_ok s'"
      by (simp add: end_ok_def s'_def trap_block_ret_def trap_block_def nth_append)
    have ok: "trap_ok s' r'" for r'
    proof (cases "r' = r")
      case True
      have "\<And>r'' t''. r'' \<noteq> r \<Longrightarrow> traps s r'' = Some t''
               \<Longrightarrow> t'' \<noteq> ?L + 1 \<and> effects s r'' \<noteq> ?L + 2"
        using old by fastforce
      then show ?thesis
        using True blk3 n1 n2 by (auto simp add: trap_ok_iff tr ef len)
    next
      case False
      show ?thesis
        unfolding trap_ok_iff
      proof (intro allI impI)
        fix t' assume "traps s' r' = Some t'"
        with False have a: "traps s r' = Some t'" by (simp add: tr)
        from old [OF a] have b: "t' < ?L" "effects s r' < ?L" by simp_all
        have c: "nodes s' ! t' = nodes s ! t'" "nodes s' ! effects s r' = nodes s ! effects s r'"
          using b keep by simp_all
        have d: "effects s' r' = effects s r'" using False by (simp add: ef)
        have e: "traps s' r'' \<noteq> Some t' \<and> effects s' r'' \<noteq> effects s' r'"
          if "r'' \<noteq> r'" "traps s' r'' \<noteq> None" for r''
        proof (cases "r'' = r")
          case True
          then show ?thesis using b d by (simp add: tr ef)
        next
          case False
          with that obtain t'' where "traps s r'' = Some t''" by (auto simp add: tr)
          from olddist [OF a that(1) this] False \<open>traps s r'' = Some t''\<close> d
          show ?thesis by (simp add: tr ef)
        qed
        show "t' < length (nodes s') \<and>
              node_op (nodes s' ! t') = Merge (length (node_inputs (nodes s' ! t'))) \<and>
              effects s' r' < length (nodes s') \<and>
              node_inputs (nodes s' ! effects s' r') \<noteq> [] \<and>
              node_op (nodes s' ! effects s' r')
                = EffectPhi (length (node_inputs (nodes s' ! effects s' r')) - 1) \<and>
              (\<forall>r''. r'' \<noteq> r' \<longrightarrow> traps s' r'' \<noteq> None \<longrightarrow>
                  traps s' r'' \<noteq> Some t' \<and> effects s' r'' \<noteq> effects s' r')"
          using old [OF a] b c d e len by simp
      qed
    qed
    have wf': "builder_wf s'" using eo' ok by (simp add: builder_wf_iff)
    have oldn: "nodes s' ! t' = nodes s ! t' \<and> nodes s' ! effects s r' = nodes s ! effects s r'"
      if "traps s r' = Some t'" for r' t'
      using old [OF that] keep by simp
    have rest: "graph_start s' = graph_start s \<and> target s' = target s \<and> module s' = module s \<and>
           mem_buffer s' = mem_buffer s \<and> mem_size s' = mem_size s"
      by (simp add: s'_def)
    show ?thesis
      using run wf' len blk3 keep tr ef n1 n2 oldn rest by (intro exI [of _ s']) simp
  next
    case (Some en)
    from builder_wf_end [OF wf Some] have en: "en < ?L" "is_End (node_op (nodes s ! en))"
      by simp_all
    define s' where "s' = s\<lparr>nodes := (nodes s @ ?blk)
                      [en := \<lparr>node_op = End (Suc (length (node_inputs (nodes s ! en)))),
                             node_inputs = node_inputs (nodes s ! en)
                                @ [trap_block_ret (has_context s) ?L]\<rparr>],
                  control := fst (trap_block_cursor (has_context s) ?L),
                  effect := snd (trap_block_cursor (has_context s) ?L),
                  traps := (traps s)(r := Some (?L + 1)),
                  effects := (effects s)(r := ?L + 2)\<rparr>"
    have run: "ConnectTrap r s = Some s'"
      using t Some by (simp add: ConnectTrap_def BuildTrapCode_closed [OF eo] s'_def)
    have nodes': "nodes s' = (nodes s @ ?blk)
                      [en := \<lparr>node_op = End (Suc (length (node_inputs (nodes s ! en)))),
                             node_inputs = node_inputs (nodes s ! en)
                                @ [trap_block_ret (has_context s) ?L]\<rparr>]"
      by (simp add: s'_def)
    have len: "length (nodes s') = ?L + length ?blk" by (simp add: nodes')
    have blk3: "3 \<le> length ?blk" by (rule trap_block_length)
    have keep: "nodes s' ! n = nodes s ! n" if "n < ?L" "n \<noteq> en" for n
      using that by (simp add: nodes' nth_append)
    have n1: "nodes s' ! (?L + 1) = \<lparr>node_op = Merge 1, node_inputs = [control s]\<rparr>"
      using blk3 en trap_block_nth1 [of "has_context s" r ?L "control s" "effect s"]
      by (simp add: nodes' nth_append)
    have n2: "nodes s' ! (?L + 2)
                = \<lparr>node_op = EffectPhi 1, node_inputs = [effect s, ?L + 1]\<rparr>"
      using blk3 en trap_block_nth2 [of "has_context s" r ?L "control s" "effect s"]
      by (simp add: nodes' nth_append)
    have tr: "traps s' = (traps s)(r := Some (?L + 1))"
      and ef: "effects s' = (effects s)(r := ?L + 2)"
      and ge: "graph_end s' = Some en"
      using Some by (simp_all add: s'_def)
    have eo': "end_ok s'"
      using en by (simp add: end_ok_def ge nodes')
    have notend: "t' \<noteq> en \<and> effects s r' \<noteq> en" if "traps s r' = Some t'" for r' t'
      using old [OF that] en by (auto simp add: is_End_iff)
    have oldn: "nodes s' ! t' = nodes s ! t' \<and> nodes s' ! effects s r' = nodes s ! effects s r'"
      if "traps s r' = Some t'" for r' t'
      using old [OF that] notend [OF that] keep by simp
    have ok: "trap_ok s' r'" for r'
    proof (cases "r' = r")
      case True
      have "\<And>r'' t''. r'' \<noteq> r \<Longrightarrow> traps s r'' = Some t''
               \<Longrightarrow> t'' \<noteq> ?L + 1 \<and> effects s r'' \<noteq> ?L + 2"
        using old by fastforce
      then show ?thesis
        using True blk3 n1 n2 by (auto simp add: trap_ok_iff tr ef len)
    next
      case False
      show ?thesis
        unfolding trap_ok_iff
      proof (intro allI impI)
        fix t' assume "traps s' r' = Some t'"
        with False have a: "traps s r' = Some t'" by (simp add: tr)
        from old [OF a] have b: "t' < ?L" "effects s r' < ?L" by simp_all
        have c: "nodes s' ! t' = nodes s ! t'" "nodes s' ! effects s r' = nodes s ! effects s r'"
          using oldn [OF a] by simp_all
        have d: "effects s' r' = effects s r'" using False by (simp add: ef)
        have e: "traps s' r'' \<noteq> Some t' \<and> effects s' r'' \<noteq> effects s' r'"
          if "r'' \<noteq> r'" "traps s' r'' \<noteq> None" for r''
        proof (cases "r'' = r")
          case True
          then show ?thesis using b d by (simp add: tr ef)
        next
          case False
          with that obtain t'' where "traps s r'' = Some t''" by (auto simp add: tr)
          from olddist [OF a that(1) this] False \<open>traps s r'' = Some t''\<close> d
          show ?thesis by (simp add: tr ef)
        qed
        show "t' < length (nodes s') \<and>
              node_op (nodes s' ! t') = Merge (length (node_inputs (nodes s' ! t'))) \<and>
              effects s' r' < length (nodes s') \<and>
              node_inputs (nodes s' ! effects s' r') \<noteq> [] \<and>
              node_op (nodes s' ! effects s' r')
                = EffectPhi (length (node_inputs (nodes s' ! effects s' r')) - 1) \<and>
              (\<forall>r''. r'' \<noteq> r' \<longrightarrow> traps s' r'' \<noteq> None \<longrightarrow>
                  traps s' r'' \<noteq> Some t' \<and> effects s' r'' \<noteq> effects s' r')"
          using old [OF a] b c d e len by simp
      qed
    qed
    have wf': "builder_wf s'" using eo' ok by (simp add: builder_wf_iff)
    have keepv: "nodes s' ! n = nodes s ! n"
      if "n < ?L" "\<not> is_variadic (node_op (nodes s ! n))" for n
    proof -
      from that en have "n \<noteq> en" by (auto simp add: is_End_iff)
      with that show ?thesis using keep by simp
    qed
    have rest: "graph_start s' = graph_start s \<and> target s' = target s \<and> module s' = module s \<and>
           mem_buffer s' = mem_buffer s \<and> mem_size s' = mem_size s"
      by (simp add: s'_def)
    show ?thesis
      using run wf' len blk3 keepv tr ef n1 n2 oldn rest by (intro exI [of _ s']) simp
  qed
qed

lemma ConnectTrap_later:
  assumes wf: "builder_wf s" and t: "traps s r = Some t"
  shows "\<exists>s'. ConnectTrap r s = Some s' \<and> builder_wf s' \<and>
           length (nodes s') = length (nodes s) \<and>
           (\<forall>n. n \<noteq> t \<longrightarrow> n \<noteq> effects s r \<longrightarrow> nodes s' ! n = nodes s ! n) \<and>
           traps s' = traps s \<and> effects s' = effects s \<and>
           nodes s' ! t = \<lparr>node_op = Merge (Suc (length (node_inputs (nodes s ! t)))),
                           node_inputs = node_inputs (nodes s ! t) @ [control s]\<rparr> \<and>
           nodes s' ! effects s r
              = \<lparr>node_op = EffectPhi (length (node_inputs (nodes s ! effects s r))),
                 node_inputs = butlast (node_inputs (nodes s ! effects s r))
                                @ [effect s, last (node_inputs (nodes s ! effects s r))]\<rparr> \<and>
           graph_end s' = graph_end s \<and>
           graph_start s' = graph_start s \<and> target s' = target s \<and> module s' = module s \<and>
           mem_buffer s' = mem_buffer s \<and> mem_size s' = mem_size s"
proof -
  let ?e = "effects s r"
  let ?mn = "\<lparr>node_op = Merge (Suc (length (node_inputs (nodes s ! t)))),
                           node_inputs = node_inputs (nodes s ! t) @ [control s]\<rparr>"
  let ?pn = "\<lparr>node_op = EffectPhi (length (node_inputs (nodes s ! ?e))),
                 node_inputs = butlast (node_inputs (nodes s ! ?e))
                                @ [effect s, last (node_inputs (nodes s ! ?e))]\<rparr>"
  define s' where "s' = s\<lparr>nodes := (nodes s)[t := ?mn, ?e := ?pn]\<rparr>"
  have run: "ConnectTrap r s = Some s'"
    by (simp add: ConnectTrap_existing [OF wf t] s'_def)
  note D = builder_wf_D [OF wf t]
  from D(2) D(5) have ne: "?e \<noteq> t" by auto
  have nodes': "nodes s' = (nodes s)[t := ?mn, ?e := ?pn]" by (simp add: s'_def)
  have len: "length (nodes s') = length (nodes s)" by (simp add: nodes')
  have keep: "nodes s' ! n = nodes s ! n" if "n \<noteq> t" "n \<noteq> ?e" for n
    using that by (simp add: nodes')
  have nt: "nodes s' ! t = ?mn" using D(1) ne by (simp add: nodes')
  have np: "nodes s' ! ?e = ?pn" using D(3) by (simp add: nodes')
  have same: "traps s' = traps s" "effects s' = effects s" "graph_end s' = graph_end s"
    "graph_start s' = graph_start s" "target s' = target s" "module s' = module s"
    "mem_buffer s' = mem_buffer s" "mem_size s' = mem_size s"
    by (simp_all add: s'_def)
  from wf have eo: "end_ok s" by (simp add: builder_wf_iff)
  have eo': "end_ok s'"
  proof (cases "graph_end s")
    case None
    then show ?thesis by (simp add: end_ok_def same)
  next
    case (Some en)
    from builder_wf_end [OF wf Some] have en: "en < length (nodes s)"
      "is_End (node_op (nodes s ! en))" by simp_all
    from en D(2) D(5) have "en \<noteq> t" "en \<noteq> ?e" by (auto simp add: is_End_iff)
    with en Some keep show ?thesis by (simp add: end_ok_def same len)
  qed
  have ok: "trap_ok s' r'" for r'
    unfolding trap_ok_iff
  proof (intro allI impI)
    fix t' assume "traps s' r' = Some t'"
    then have a: "traps s r' = Some t'" by (simp add: same)
    note D' = builder_wf_D [OF wf a]
    have dist: "\<forall>r''. r'' \<noteq> r' \<longrightarrow> traps s' r'' \<noteq> None \<longrightarrow>
                  traps s' r'' \<noteq> Some t' \<and> effects s' r'' \<noteq> effects s' r'"
      using D'(6) by (auto simp add: same)
    show "t' < length (nodes s') \<and>
          node_op (nodes s' ! t') = Merge (length (node_inputs (nodes s' ! t'))) \<and>
          effects s' r' < length (nodes s') \<and>
          node_inputs (nodes s' ! effects s' r') \<noteq> [] \<and>
          node_op (nodes s' ! effects s' r')
            = EffectPhi (length (node_inputs (nodes s' ! effects s' r')) - 1) \<and>
          (\<forall>r''. r'' \<noteq> r' \<longrightarrow> traps s' r'' \<noteq> None \<longrightarrow>
              traps s' r'' \<noteq> Some t' \<and> effects s' r'' \<noteq> effects s' r')"
    proof (cases "r' = r")
      case True
      with a t have "t' = t" by simp
      with True D nt np dist show ?thesis by (simp add: same len)
    next
      case False
      from D(6) [OF False a] have x: "t' \<noteq> t" "effects s r' \<noteq> ?e" by simp_all
      from D'(2) D(5) have y: "t' \<noteq> ?e" by auto
      from D'(5) D(2) have z: "effects s r' \<noteq> t" by auto
      from x y z keep have "nodes s' ! t' = nodes s ! t'"
        "nodes s' ! effects s r' = nodes s ! effects s r'" by simp_all
      with D' dist show ?thesis by (simp add: same len)
    qed
  qed
  have wf': "builder_wf s'" using eo' ok by (simp add: builder_wf_iff)
  show ?thesis
    using run wf' len keep nt np same by (intro exI [of _ s']) simp
qed

lemma trap_inputs_Some:
  "traps s r = Some t \<Longrightarrow> trap_inputs s r = node_inputs (nodes s ! t)"
  by (simp add: trap_inputs_def)

lemma trap_effects_Some:
  "traps s r = Some t \<Longrightarrow> trap_effects s r = butlast (node_inputs (nodes s ! effects s r))"
  by (simp add: trap_effects_def)

lemma ConnectTrap_spec:
  assumes wf: "builder_wf s"
  shows "\<exists>s'. ConnectTrap r s = Some s' \<and> builder_wf s' \<and>
           length (nodes s) \<le> length (nodes s') \<and>
           (\<forall>n<length (nodes s). \<not> is_variadic (node_op (nodes s ! n)) \<longrightarrow>
               nodes s' ! n = nodes s ! n) \<and>
           trap_inputs s' r = trap_inputs s r @ [control s] \<and>
           trap_effects s' r = trap_effects s r @ [effect s] \<and>
           (\<forall>r'. r' \<noteq> r \<longrightarrow> traps s' r' = traps s r' \<and>
                 trap_inputs s' r' = trap_inputs s r' \<and>
                 trap_effects s' r' = trap_effects s r') \<and>
           (\<forall>t. traps s r = Some t \<longrightarrow>
                 traps s' r = Some t \<and> length (nodes s') = length (nodes s)) \<and>
           (traps s r = None \<longrightarrow> traps s' r = Some (length (nodes s) + 1)) \<and>
           graph_start s' = graph_start s \<and> target s' = target s \<and> module s' = module s \<and>
           mem_buffer s' = mem_buffer s \<and> mem_size s' = mem_size s"
proof (cases "traps s r")
  case None
  from ConnectTrap_first [OF wf None] obtain s' where
    run: "ConnectTrap r s = Some s'" and wf': "builder_wf s'"
    and len: "length (nodes s) + 3 \<le> length (nodes s')"
    and keep: "\<forall>n<length (nodes s). \<not> is_variadic (node_op (nodes s ! n)) \<longrightarrow>
               nodes s' ! n = nodes s ! n"
    and tr: "traps s' = (traps s)(r := Some (length (nodes s) + 1))"
    and ef: "effects s' = (effects s)(r := length (nodes s) + 2)"
    and n1: "nodes s' ! (length (nodes s) + 1) = \<lparr>node_op = Merge 1, node_inputs = [control s]\<rparr>"
    and n2: "nodes s' ! (length (nodes s) + 2)
              = \<lparr>node_op = EffectPhi 1, node_inputs = [effect s, length (nodes s) + 1]\<rparr>"
    and old: "\<forall>r' t'. traps s r' = Some t' \<longrightarrow>
               nodes s' ! t' = nodes s ! t' \<and> nodes s' ! effects s r' = nodes s ! effects s r'"
    and rest: "graph_start s' = graph_start s" "target s' = target s" "module s' = module s"
           "mem_buffer s' = mem_buffer s" "mem_size s' = mem_size s"
    by blast
  have a: "trap_inputs s' r = trap_inputs s r @ [control s]"
    using None n1 by (simp add: trap_inputs_def tr)
  have b: "trap_effects s' r = trap_effects s r @ [effect s]"
    using None n2 by (simp add: trap_effects_def tr ef)
  have c: "traps s' r' = traps s r' \<and> trap_inputs s' r' = trap_inputs s r' \<and>
           trap_effects s' r' = trap_effects s r'" if "r' \<noteq> r" for r'
    using that old by (cases "traps s r'") (simp_all add: trap_inputs_def trap_effects_def tr ef)
  show ?thesis
    using run wf' len keep a b c None rest tr by (intro exI [of _ s']) simp
next
  case (Some t)
  from ConnectTrap_later [OF wf Some] obtain s' where
    run: "ConnectTrap r s = Some s'" and wf': "builder_wf s'"
    and len: "length (nodes s') = length (nodes s)"
    and keep: "\<forall>n. n \<noteq> t \<longrightarrow> n \<noteq> effects s r \<longrightarrow> nodes s' ! n = nodes s ! n"
    and tr: "traps s' = traps s" and ef: "effects s' = effects s"
    and nt: "nodes s' ! t = \<lparr>node_op = Merge (Suc (length (node_inputs (nodes s ! t)))),
                           node_inputs = node_inputs (nodes s ! t) @ [control s]\<rparr>"
    and np: "nodes s' ! effects s r
              = \<lparr>node_op = EffectPhi (length (node_inputs (nodes s ! effects s r))),
                 node_inputs = butlast (node_inputs (nodes s ! effects s r))
                                @ [effect s, last (node_inputs (nodes s ! effects s r))]\<rparr>"
    and rest: "graph_start s' = graph_start s" "target s' = target s" "module s' = module s"
           "mem_buffer s' = mem_buffer s" "mem_size s' = mem_size s"
    by blast
  note D = builder_wf_D [OF wf Some]
  have a: "trap_inputs s' r = trap_inputs s r @ [control s]"
    using Some nt by (simp add: trap_inputs_def tr)
  have "butlast (butlast (node_inputs (nodes s ! effects s r))
          @ [effect s, last (node_inputs (nodes s ! effects s r))])
        = butlast (node_inputs (nodes s ! effects s r)) @ [effect s]"
    by (simp add: butlast_append)
  then have b: "trap_effects s' r = trap_effects s r @ [effect s]"
    using Some np by (simp add: trap_effects_def tr ef)
  have c: "traps s' r' = traps s r' \<and> trap_inputs s' r' = trap_inputs s r' \<and>
           trap_effects s' r' = trap_effects s r'" if "r' \<noteq> r" for r'
  proof (cases "traps s r'")
    case None
    then show ?thesis by (simp add: trap_inputs_def trap_effects_def tr)
  next
    case (Some t')
    note D' = builder_wf_D [OF wf Some]
    from D(6) [OF that Some] have x: "t' \<noteq> t" "effects s r' \<noteq> effects s r" by simp_all
    from D'(2) D(5) have y: "t' \<noteq> effects s r" by auto
    from D'(5) D(2) have z: "effects s r' \<noteq> t" by auto
    from x y z keep have "nodes s' ! t' = nodes s ! t'"
        "nodes s' ! effects s r' = nodes s ! effects s r'" by simp_all
    with Some show ?thesis by (simp add: trap_inputs_def trap_effects_def tr ef)
  qed
  have keepv: "nodes s' ! n = nodes s ! n"
    if "n < length (nodes s)" "\<not> is_variadic (node_op (nodes s ! n))" for n
  proof -
    from that D(2) D(5) have "n \<noteq> t" "n \<noteq> effects s r" by auto
    with keep show ?thesis by simp
  qed
  show ?thesis
    using run wf' len keepv a b c Some rest tr by (intro exI [of _ s']) simp
qed

lemma builder_wf_extend:
  assumes wf: "builder_wf s"
    and n: "nodes s' = nodes s @ xs" and tr: "traps s' = traps s"
    and ef: "effects s' = effects s" and ge: "graph_end s' = graph_end s"
  shows "builder_wf s'"
proof -
  have eo: "end_ok s'"
  proof (cases "graph_end s")
    case None
    then show ?thesis by (simp add: end_ok_def ge)
  next
    case (Some en)
    from builder_wf_end [OF wf Some] Some show ?thesis
      by (simp add: end_ok_def ge n nth_append)
  qed
  have ok: "trap_ok s' r" for r
    unfolding trap_ok_iff
  proof (intro allI impI)
    fix t assume "traps s' r = Some t"
    then have a: "traps s r = Some t" by (simp add: tr)
    note D = builder_wf_D [OF wf a]
    have "\<forall>r'. r' \<noteq> r \<longrightarrow> traps s' r' \<noteq> None \<longrightarrow>
              traps s' r' \<noteq> Some t \<and> effects s' r' \<noteq> effects s' r"
      using D(6) by (auto simp add: tr ef)
    with D show "t < length (nodes s') \<and>
          node_op (nodes s' ! t) = Merge (length (node_inputs (nodes s' ! t))) \<and>
          effects s' r < length (nodes s') \<and>
          node_inputs (nodes s' ! effects s' r) \<noteq> [] \<and>
          node_op (nodes s' ! effects s' r)
            = EffectPhi (length (node_inputs (nodes s' ! effects s' r)) - 1) \<and>
          (\<forall>r'. r' \<noteq> r \<longrightarrow> traps s' r' \<noteq> None \<longrightarrow>
              traps s' r' \<noteq> Some t \<and> effects s' r' \<noteq> effects s' r)"
      by (simp add: n ef nth_append)
  qed
  show ?thesis using eo ok by (simp add: builder_wf_iff)
qed

lemma trap_inputs_extend:
  assumes wf: "builder_wf s"
    and n: "nodes s' = nodes s @ xs" and tr: "traps s' = traps s" and ef: "effects s' = effects s"
  shows "trap_inputs s' r = trap_inputs s r" and "trap_effects s' r = trap_effects s r"
proof -
  show "trap_inputs s' r = trap_inputs s r"
  proof (cases "traps s r")
    case None
    then show ?thesis by (simp add: trap_inputs_def tr)
  next
    case (Some t)
    from builder_wf_D(1) [OF wf Some] Some show ?thesis
      by (simp add: trap_inputs_def tr n nth_append)
  qed
  show "trap_effects s' r = trap_effects s r"
  proof (cases "traps s r")
    case None
    then show ?thesis by (simp add: trap_effects_def tr)
  next
    case (Some t)
    from builder_wf_D(3) [OF wf Some] Some show ?thesis
      by (simp add: trap_effects_def tr ef n nth_append)
  qed
qed

lemma AddTrapIf_spec:
  assumes wf: "builder_wf s"
  shows "\<exists>s'. AddTrapIf r c b s = Some s' \<and> builder_wf s' \<and>
           length (nodes s) + 3 \<le> length (nodes s') \<and>
           control s' = length (nodes s) + (if b then 2 else 1) \<and>
           effect s' = effect s \<and>
           nodes s' ! length (nodes s)
             = \<lparr>node_op = Branch (if b then kFalse else kTrue), node_inputs = [c, control s]\<rparr> \<and>
           nodes s' ! (length (nodes s) + 1)
             = \<lparr>node_op = IfTrue, node_inputs = [length (nodes s)]\<rparr> \<and>
           nodes s' ! (length (nodes s) + 2)
             = \<lparr>node_op = IfFalse, node_inputs = [length (nodes s)]\<rparr> \<and>
           (\<forall>n<length (nodes s). \<not> is_variadic (node_op (nodes s ! n)) \<longrightarrow>
               nodes s' ! n = nodes s ! n) \<and>
           trap_inputs s' r = trap_inputs s r @ [length (nodes s) + (if b then 1 else 2)] \<and>
           trap_effects s' r = trap_effects s r @ [effect s] \<and>
           (\<forall>r'. r' \<noteq> r \<longrightarrow> traps s' r' = traps s r' \<and>
                 trap_inputs s' r' = trap_inputs s r' \<and>
                 trap_effects s' r' = trap_effects s r') \<and>
           (\<forall>t. traps s r = Some t \<longrightarrow>
                 traps s' r = Some t \<and> length (nodes s') = length (nodes s) + 3) \<and>
           (traps s r = None \<longrightarrow> traps s' r = Some (length (nodes s) + 4)) \<and>
           graph_start s' = graph_start s \<and> target s' = target s \<and> module s' = module s \<and>
           mem_buffer s' = mem_buffer s \<and> mem_size s' = mem_size s"
proof -
  let ?L = "length (nodes s)"
  let ?new = "[\<lparr>node_op = Branch (if b then kFalse else kTrue), node_inputs = [c, control s]\<rparr>,
               \<lparr>node_op = IfTrue, node_inputs = [?L]\<rparr>,
               \<lparr>node_op = IfFalse, node_inputs = [?L]\<rparr>]"
  define s4 where "s4 = s\<lparr>nodes := nodes s @ ?new, control := ?L + (if b then 1 else 2)\<rparr>"
  have n4: "nodes s4 = nodes s @ ?new" and f4: "traps s4 = traps s" "effects s4 = effects s"
    "graph_end s4 = graph_end s" "control s4 = ?L + (if b then 1 else 2)" "effect s4 = effect s"
    "graph_start s4 = graph_start s" "target s4 = target s" "module s4 = module s"
    "mem_buffer s4 = mem_buffer s" "mem_size s4 = mem_size s"
    by (simp_all add: s4_def)
  have wf4: "builder_wf s4"
    using wf n4 f4(1) f4(2) f4(3) by (rule builder_wf_extend)
  have ti4: "trap_inputs s4 r' = trap_inputs s r'" "trap_effects s4 r' = trap_effects s r'" for r'
    using trap_inputs_extend [OF wf n4 f4(1) f4(2)] by simp_all
  have unfold: "AddTrapIf r c b s =
      do { s5 \<leftarrow> ConnectTrap r s4;
           Some (s5\<lparr>control := ?L + (if b then 2 else 1), effect := effect s\<rparr>) }"
    by (simp add: AddTrapIf_def NewNode_def Let_def s4_def)
  from ConnectTrap_spec [OF wf4, of r] obtain s5 where H:
    "ConnectTrap r s4 = Some s5 \<and> builder_wf s5 \<and>
     length (nodes s4) \<le> length (nodes s5) \<and>
     (\<forall>n<length (nodes s4). \<not> is_variadic (node_op (nodes s4 ! n)) \<longrightarrow>
               nodes s5 ! n = nodes s4 ! n) \<and>
     trap_inputs s5 r = trap_inputs s4 r @ [control s4] \<and>
     trap_effects s5 r = trap_effects s4 r @ [effect s4] \<and>
     (\<forall>r'. r' \<noteq> r \<longrightarrow> traps s5 r' = traps s4 r' \<and>
                 trap_inputs s5 r' = trap_inputs s4 r' \<and>
                 trap_effects s5 r' = trap_effects s4 r') \<and>
     (\<forall>t. traps s4 r = Some t \<longrightarrow>
                 traps s5 r = Some t \<and> length (nodes s5) = length (nodes s4)) \<and>
     (traps s4 r = None \<longrightarrow> traps s5 r = Some (length (nodes s4) + 1)) \<and>
     graph_start s5 = graph_start s4 \<and> target s5 = target s4 \<and> module s5 = module s4 \<and>
     mem_buffer s5 = mem_buffer s4 \<and> mem_size s5 = mem_size s4"
    by (erule exE)
  from H have run: "ConnectTrap r s4 = Some s5" and wf5: "builder_wf s5"
    and len: "length (nodes s4) \<le> length (nodes s5)"
    and keep: "\<forall>n<length (nodes s4). \<not> is_variadic (node_op (nodes s4 ! n)) \<longrightarrow>
               nodes s5 ! n = nodes s4 ! n"
    and a: "trap_inputs s5 r = trap_inputs s4 r @ [control s4]"
    and b': "trap_effects s5 r = trap_effects s4 r @ [effect s4]"
    and c': "\<forall>r'. r' \<noteq> r \<longrightarrow> traps s5 r' = traps s4 r' \<and>
                 trap_inputs s5 r' = trap_inputs s4 r' \<and>
                 trap_effects s5 r' = trap_effects s4 r'"
    and d: "\<forall>t. traps s4 r = Some t \<longrightarrow>
                 traps s5 r = Some t \<and> length (nodes s5) = length (nodes s4)"
    and e: "traps s4 r = None \<longrightarrow> traps s5 r = Some (length (nodes s4) + 1)"
    and rest: "graph_start s5 = graph_start s4" "target s5 = target s4" "module s5 = module s4"
           "mem_buffer s5 = mem_buffer s4" "mem_size s5 = mem_size s4"
    by blast+
  define s' where "s' = s5\<lparr>control := ?L + (if b then 2 else 1), effect := effect s\<rparr>"
  have res: "AddTrapIf r c b s = Some s'"
    by (simp add: unfold run s'_def)
  have n': "nodes s' = nodes s5 @ []" and f': "traps s' = traps s5" "effects s' = effects s5"
    "graph_end s' = graph_end s5"
    by (simp_all add: s'_def)
  have wf': "builder_wf s'"
    using wf5 n' f' by (rule builder_wf_extend)
  have ti': "trap_inputs s' r' = trap_inputs s5 r'" "trap_effects s' r' = trap_effects s5 r'" for r'
    using trap_inputs_extend [OF wf5 n' f'(1) f'(2)] by simp_all
  have len4: "length (nodes s4) = ?L + 3" by (simp add: n4)
  have k0: "nodes s5 ! ?L = ?new ! 0"
    using keep len4 by (simp add: n4 nth_append)
  have k1: "nodes s5 ! (?L + 1) = ?new ! 1"
    using keep len4 by (simp add: n4 nth_append)
  have k2: "nodes s5 ! (?L + 2) = ?new ! 2"
    using keep len4 by (simp add: n4 nth_append)
  have kv: "nodes s5 ! n = nodes s ! n"
    if "n < ?L" "\<not> is_variadic (node_op (nodes s ! n))" for n
    using keep that len4 by (simp add: n4 nth_append)
  have p1: "control s' = ?L + (if b then 2 else 1)" "effect s' = effect s"
    "nodes s' = nodes s5" "traps s' = traps s5"
    "graph_start s' = graph_start s" "target s' = target s" "module s' = module s"
    "mem_buffer s' = mem_buffer s" "mem_size s' = mem_size s"
    by (simp_all add: s'_def rest f4)
  have q1: "trap_inputs s' r = trap_inputs s r @ [?L + (if b then 1 else 2)]"
    by (simp add: ti' a ti4 f4)
  have q2: "trap_effects s' r = trap_effects s r @ [effect s]"
    by (simp add: ti' b' ti4 f4)
  have q3: "traps s' r' = traps s r' \<and> trap_inputs s' r' = trap_inputs s r' \<and>
                 trap_effects s' r' = trap_effects s r'" if "r' \<noteq> r" for r'
    using c' that by (simp add: ti' ti4 f4 p1)
  have q4: "traps s' r = Some t \<and> length (nodes s') = ?L + 3" if "traps s r = Some t" for t
    using d that by (simp add: p1 f4 len4)
  have q5: "traps s' r = Some (?L + 4)" if "traps s r = None"
    using e that by (simp add: p1 f4 len4)
  show ?thesis
    using res wf' len len4 p1 k0 k1 k2 kv q1 q2 q3 q4 q5
    by (intro exI [of _ s']) simp
qed

section \<open>Trap sites\<close>




lemma trap_sites_append: "trap_sites r (xs @ ys) = trap_sites r xs + trap_sites r ys"
  by (simp add: trap_sites_def)


lemma example_builder_wf: "builder_wf example_builder"
  by (simp add: builder_wf_def end_ok_def trap_ok_def all_reasons_def example_builder_def)



text \<open>
  C8. On a well-formed builder \<open>AddTrapIf\<close> returns; the node it adds first is the
  branch on \<open>cond\<close> at the old control; the control cursor is then the projection of
  that branch that does not trap (\<open>IfFalse\<close> when \<open>iftrue\<close>, \<open>IfTrue\<close> otherwise), and the
  effect cursor is what it was before the call.
\<close>

theorem AddTrapIf_cursors:
  assumes wf: "builder_wf s"
  shows "\<exists>s'. AddTrapIf reason cond iftrue s = Some s' \<and>
           nodes s' ! length (nodes s)
             = \<lparr>node_op = Branch (if iftrue then kFalse else kTrue),
                node_inputs = [cond, control s]\<rparr> \<and>
           control s' = length (nodes s) + (if iftrue then 2 else 1) \<and>
           nodes s' ! control s'
             = \<lparr>node_op = (if iftrue then IfFalse else IfTrue),
                node_inputs = [length (nodes s)]\<rparr> \<and>
           effect s' = effect s"
proof -
  from AddTrapIf_spec [OF wf, of reason cond iftrue] obtain s' where
    H: "AddTrapIf reason cond iftrue s = Some s' \<and>
        control s' = length (nodes s) + (if iftrue then 2 else 1) \<and>
        effect s' = effect s \<and>
        nodes s' ! length (nodes s)
          = \<lparr>node_op = Branch (if iftrue then kFalse else kTrue),
             node_inputs = [cond, control s]\<rparr> \<and>
        nodes s' ! (length (nodes s) + 1)
          = \<lparr>node_op = IfTrue, node_inputs = [length (nodes s)]\<rparr> \<and>
        nodes s' ! (length (nodes s) + 2)
          = \<lparr>node_op = IfFalse, node_inputs = [length (nodes s)]\<rparr>"
    by blast
  then show ?thesis by (intro exI [of _ s']) simp
qed

theorem AddTrapIf_cursors_witness:
  "builder_wf example_builder \<and>
   (\<exists>s'. AddTrapIf kTrapDivByZero 1 False example_builder = Some s' \<and>
      nodes s' ! 5 = \<lparr>node_op = Branch kTrue, node_inputs = [1, 0]\<rparr> \<and>
      control s' = 6 \<and>
      nodes s' ! 6 = \<lparr>node_op = IfTrue, node_inputs = [5]\<rparr> \<and>
      effect s' = 0)"
proof -
  have l: "length (nodes example_builder) = 5" "control example_builder = 0"
    "effect example_builder = 0"
    by (simp_all add: example_builder_def)
  from AddTrapIf_cursors [OF example_builder_wf, of kTrapDivByZero 1 False]
  obtain s' where "AddTrapIf kTrapDivByZero 1 False example_builder = Some s' \<and>
      nodes s' ! 5 = \<lparr>node_op = Branch kTrue, node_inputs = [1, 0]\<rparr> \<and>
      control s' = 6 \<and>
      nodes s' ! control s' = \<lparr>node_op = IfTrue, node_inputs = [5]\<rparr> \<and>
      effect s' = 0"
    unfolding l by auto
  then show ?thesis using example_builder_wf by auto
qed

text \<open>
  C9. When the node is an integer constant that differs from the compared value,
  \<open>TrapIfEq32\<close> (and so \<open>ZeroCheck32\<close> for a constant other than 0) returns the start
  node of the graph and leaves the whole builder as it was: no node is added, no trap
  block is made or widened, and both cursors keep their values. \<open>TrapIfEq64\<close> and
  \<open>ZeroCheck64\<close> do the same for 64-bit constants.
\<close>

theorem TrapIfEq_folded_constant:
  "(Int32Matcher s node = Some v \<and> v \<noteq> val \<longrightarrow>
      TrapIfEq32 reason node val s = Some (graph_start s, s)) \<and>
   (Int32Matcher s node = Some v \<and> v \<noteq> 0 \<longrightarrow>
      ZeroCheck32 reason node s = Some (graph_start s, s)) \<and>
   (Int64Matcher s node = Some w \<and> w \<noteq> val64 \<longrightarrow>
      TrapIfEq64 reason node val64 s = Some (graph_start s, s)) \<and>
   (Int64Matcher s node = Some w \<and> w \<noteq> 0 \<longrightarrow>
      ZeroCheck64 reason node s = Some (graph_start s, s))"
  by (simp add: TrapIfEq32_def ZeroCheck32_def TrapIfEq64_def ZeroCheck64_def)

theorem TrapIfEq_folded_constant_witness:
  "Int32Matcher example_builder 3 = Some 7 \<and>
   TrapIfEq32 kTrapDivUnrepresentable 3 kMinInt example_builder = Some (0, example_builder) \<and>
   ZeroCheck32 kTrapDivByZero 3 example_builder = Some (0, example_builder) \<and>
   Int64Matcher example_builder 4 = Some 7 \<and>
   TrapIfEq64 kTrapDivUnrepresentable 4 kMinInt64 example_builder = Some (0, example_builder) \<and>
   ZeroCheck64 kTrapDivByZero 4 example_builder = Some (0, example_builder)"
proof -
  have a: "Int32Matcher example_builder 3 = Some 7"
    and b: "Int64Matcher example_builder 4 = Some 7"
    and c: "graph_start example_builder = 0"
    by (simp_all add: Int32Matcher_def Int64Matcher_def example_builder_def)
  have d: "(7 :: 32 word) \<noteq> kMinInt" "(7 :: 64 word) \<noteq> kMinInt64"
    by (simp_all add: kMinInt_def kMinInt64_def)
  from TrapIfEq_folded_constant
         [of example_builder 3 7 kMinInt kTrapDivUnrepresentable 7 kMinInt64]
       TrapIfEq_folded_constant
         [of example_builder 3 7 0 kTrapDivByZero 7 0]
       TrapIfEq_folded_constant
         [of example_builder 4 7 0 kTrapDivUnrepresentable 7 kMinInt64]
       TrapIfEq_folded_constant
         [of example_builder 4 7 0 kTrapDivByZero 7 0]
  show ?thesis using a b c d by simp
qed

section \<open>The bounds check of a memory access\<close>

text \<open>
  C1. A 32-bit load at static offset 28 of the 32-byte memory of \<open>example_module\<close>, with
  the dynamic index node 1. The access of index 0 covers the bytes 28 to 31 and lies
  within the memory: the specification's condition for a constant false check does not
  hold (\<open>28 + 4 > 32\<close> is false) and its check would be \<open>index \<le> 0\<close>. \<open>BoundsCheckMem\<close>
  tests \<open>(offset + memsize) >= size\<close>: the condition it emits is the constant 0 (node 5),
  the branch of the check (node 6) is on that constant, and the load (base pointer node
  15, index node 1) follows a check that always traps.
\<close>

theorem BoundsCheckMem_last_word_always_traps:
  "\<not> spec_check_is_constant_false 32 28 4 \<and>
   map_option (\<lambda>(n, s'). (nodes s' ! 5, nodes s' ! 6, nodes s' ! 15, nodes s' ! n))
     (LoadMem kAstI32 kMemI32 1 28 example_memory_builder)
   = Some (\<lparr>node_op = Int32Constant 0, node_inputs = []\<rparr>,
           \<lparr>node_op = Branch kTrue, node_inputs = [5, 0]\<rparr>,
           \<lparr>node_op = IntPtrConstant 0x101c, node_inputs = []\<rparr>,
           \<lparr>node_op = Load kMachInt32, node_inputs = [15, 1, 0, 7]\<rparr>)"
proof -
  have "\<not> spec_check_is_constant_false 32 28 4"
    by (simp add: spec_check_is_constant_false_def)
  moreover have
    "map_option (\<lambda>(n, s'). (nodes s' ! 5, nodes s' ! 6, nodes s' ! 15, nodes s' ! n))
       (LoadMem kAstI32 kMemI32 1 28 example_memory_builder)
     = Some (\<lparr>node_op = Int32Constant 0, node_inputs = []\<rparr>,
             \<lparr>node_op = Branch kTrue, node_inputs = [5, 0]\<rparr>,
             \<lparr>node_op = IntPtrConstant 0x101c, node_inputs = []\<rparr>,
             \<lparr>node_op = Load kMachInt32, node_inputs = [15, 1, 0, 7]\<rparr>)"
    by code_simp
  ultimately show ?thesis by (rule conjI)
qed

section \<open>Checked division\<close>

lemma builder_extends_iff:
  "builder_extends s s' =
     (length (nodes s) \<le> length (nodes s') \<and>
      (\<forall>n<length (nodes s).
          (is_variadic (node_op (nodes s ! n)) \<longrightarrow> is_variadic (node_op (nodes s' ! n))) \<and>
          (\<not> is_variadic (node_op (nodes s ! n)) \<longrightarrow> nodes s' ! n = nodes s ! n)) \<and>
      (\<forall>r. set (trap_inputs s r) \<subseteq> set (trap_inputs s' r)) \<and>
      graph_start s' = graph_start s \<and> target s' = target s \<and> module s' = module s)"
proof -
  have A: "list_all (\<lambda>n. if is_variadic (node_op (nodes s ! n))
                     then is_variadic (node_op (nodes s' ! n))
                     else nodes s' ! n = nodes s ! n) [0..<length (nodes s)] =
     (\<forall>n<length (nodes s).
          (is_variadic (node_op (nodes s ! n)) \<longrightarrow> is_variadic (node_op (nodes s' ! n))) \<and>
          (\<not> is_variadic (node_op (nodes s ! n)) \<longrightarrow> nodes s' ! n = nodes s ! n))"
    by (auto simp add: list_all_iff)
  show ?thesis
    by (simp only: builder_extends_def A list_all_reasons)
qed

lemma builder_extends_refl: "builder_extends s s"
  by (simp add: builder_extends_iff)

lemma builder_extends_trans:
  assumes "builder_extends s1 s2" "builder_extends s2 s3"
  shows "builder_extends s1 s3"
  unfolding builder_extends_iff
proof (intro conjI allI impI)
  show "length (nodes s1) \<le> length (nodes s3)"
    using assms by (simp add: builder_extends_iff)
next
  fix n assume n: "n < length (nodes s1)" and v: "is_variadic (node_op (nodes s1 ! n))"
  from assms(1) n v have "is_variadic (node_op (nodes s2 ! n))" "n < length (nodes s2)"
    by (simp_all add: builder_extends_iff)
  with assms(2) show "is_variadic (node_op (nodes s3 ! n))"
    by (simp add: builder_extends_iff)
next
  fix n assume n: "n < length (nodes s1)" and v: "\<not> is_variadic (node_op (nodes s1 ! n))"
  from assms(1) n v have "nodes s2 ! n = nodes s1 ! n" "n < length (nodes s2)"
    by (simp_all add: builder_extends_iff)
  with assms(2) v show "nodes s3 ! n = nodes s1 ! n"
    by (simp add: builder_extends_iff)
next
  fix r show "set (trap_inputs s1 r) \<subseteq> set (trap_inputs s3 r)"
  proof -
    from assms have "set (trap_inputs s1 r) \<subseteq> set (trap_inputs s2 r)"
      "set (trap_inputs s2 r) \<subseteq> set (trap_inputs s3 r)"
      by (simp_all add: builder_extends_iff)
    thus ?thesis by (rule subset_trans)
  qed
next
  show "graph_start s3 = graph_start s1" "target s3 = target s1" "module s3 = module s1"
    using assms by (simp_all add: builder_extends_iff)
qed

lemma is_node_extends:
  assumes "is_node s n opr ins" "\<not> is_variadic opr" "builder_extends s s'"
  shows "is_node s' n opr ins"
  using assms by (auto simp add: is_node_def builder_extends_iff)

lemma trap_check_extends:
  assumes "trap_check s r b c t ctl" "builder_extends s s'"
  shows "trap_check s' r b c t ctl"
proof -
  from assms(2) have "set (trap_inputs s r) \<subseteq> set (trap_inputs s' r)"
    by (simp add: builder_extends_iff)
  with assms show ?thesis
    by (auto simp add: trap_check_def intro: is_node_extends)
qed

lemma Int32Matcher_extends:
  assumes "builder_extends s s'" "n < length (nodes s)"
  shows "Int32Matcher s' n = Int32Matcher s n"
proof (cases "is_variadic (node_op (nodes s ! n))")
  case True
  with assms have "is_variadic (node_op (nodes s' ! n))" "n < length (nodes s')"
    by (simp_all add: builder_extends_iff)
  with True assms(2) show ?thesis
    by (cases "node_op (nodes s ! n)"; cases "node_op (nodes s' ! n)")
       (simp_all add: Int32Matcher_def)
next
  case False
  with assms have "nodes s' ! n = nodes s ! n" "n < length (nodes s')"
    by (simp_all add: builder_extends_iff)
  with assms(2) show ?thesis by (simp add: Int32Matcher_def)
qed

lemma Int64Matcher_extends:
  assumes "builder_extends s s'" "n < length (nodes s)"
  shows "Int64Matcher s' n = Int64Matcher s n"
proof (cases "is_variadic (node_op (nodes s ! n))")
  case True
  with assms have "is_variadic (node_op (nodes s' ! n))" "n < length (nodes s')"
    by (simp_all add: builder_extends_iff)
  with True assms(2) show ?thesis
    by (cases "node_op (nodes s ! n)"; cases "node_op (nodes s' ! n)")
       (simp_all add: Int64Matcher_def)
next
  case False
  with assms have "nodes s' ! n = nodes s ! n" "n < length (nodes s')"
    by (simp_all add: builder_extends_iff)
  with assms(2) show ?thesis by (simp add: Int64Matcher_def)
qed

lemma builder_extends_append:
  assumes wf: "builder_wf s"
    and n: "nodes s' = nodes s @ xs" and tr: "traps s' = traps s" and ef: "effects s' = effects s"
    and r: "graph_start s' = graph_start s" "target s' = target s" "module s' = module s"
  shows "builder_extends s s'"
  using trap_inputs_extend(1) [OF wf n tr ef] r
  by (simp add: builder_extends_iff n nth_append)

lemma ConnectTrap_keeps_variadic:
  assumes wf: "builder_wf s" and run: "ConnectTrap r s = Some s'"
    and n: "n < length (nodes s)" and v: "is_variadic (node_op (nodes s ! n))"
  shows "is_variadic (node_op (nodes s' ! n))"
proof (cases "traps s r")
  case None
  from wf have eo: "end_ok s" by (simp add: builder_wf_iff)
  show ?thesis
  proof (cases "graph_end s")
    case gn: None
    from run None gn have "nodes s' = nodes s
        @ trap_block (has_context s) r (length (nodes s)) (control s) (effect s)
        @ [\<lparr>node_op = End 1,
             node_inputs = [trap_block_ret (has_context s) (length (nodes s))]\<rparr>]"
      by (auto simp add: ConnectTrap_def BuildTrapCode_closed [OF eo])
    with n v show ?thesis by (simp add: nth_append)
  next
    case (Some en)
    from run None Some have "nodes s' =
        (nodes s @ trap_block (has_context s) r (length (nodes s)) (control s) (effect s))
          [en := \<lparr>node_op = End (Suc (length (node_inputs (nodes s ! en)))),
                 node_inputs = node_inputs (nodes s ! en)
                    @ [trap_block_ret (has_context s) (length (nodes s))]\<rparr>]"
      by (auto simp add: ConnectTrap_def BuildTrapCode_closed [OF eo])
    with n v show ?thesis by (cases "n = en") (simp_all add: nth_append nth_list_update)
  qed
next
  case (Some t)
  from run ConnectTrap_existing [OF wf Some] have "nodes s' = (nodes s)
      [t := \<lparr>node_op = Merge (Suc (length (node_inputs (nodes s ! t)))),
             node_inputs = node_inputs (nodes s ! t) @ [control s]\<rparr>,
       effects s r :=
          \<lparr>node_op = EffectPhi (length (node_inputs (nodes s ! effects s r))),
           node_inputs = butlast (node_inputs (nodes s ! effects s r))
                          @ [effect s, last (node_inputs (nodes s ! effects s r))]\<rparr>]"
    by auto
  with n v show ?thesis
    by (cases "n = effects s r"; cases "n = t") (simp_all add: nth_list_update)
qed

lemma AddTrapIf_keeps_variadic:
  assumes wf: "builder_wf s" and run: "AddTrapIf r c b s = Some s'"
    and n: "n < length (nodes s)" and v: "is_variadic (node_op (nodes s ! n))"
  shows "is_variadic (node_op (nodes s' ! n))"
proof -
  let ?L = "length (nodes s)"
  let ?new = "[\<lparr>node_op = Branch (if b then kFalse else kTrue), node_inputs = [c, control s]\<rparr>,
               \<lparr>node_op = IfTrue, node_inputs = [?L]\<rparr>,
               \<lparr>node_op = IfFalse, node_inputs = [?L]\<rparr>]"
  define s4 where "s4 = s\<lparr>nodes := nodes s @ ?new, control := ?L + (if b then 1 else 2)\<rparr>"
  have n4: "nodes s4 = nodes s @ ?new" and f4: "traps s4 = traps s" "effects s4 = effects s"
    "graph_end s4 = graph_end s"
    by (simp_all add: s4_def)
  have wf4: "builder_wf s4"
    using wf n4 f4(1) f4(2) f4(3) by (rule builder_wf_extend)
  have unfold: "AddTrapIf r c b s =
      do { s5 \<leftarrow> ConnectTrap r s4;
           Some (s5\<lparr>control := ?L + (if b then 2 else 1), effect := effect s\<rparr>) }"
    by (simp add: AddTrapIf_def NewNode_def Let_def s4_def)
  from run obtain s5 where c5: "ConnectTrap r s4 = Some s5"
    and s': "s' = s5\<lparr>control := ?L + (if b then 2 else 1), effect := effect s\<rparr>"
    unfolding unfold by (cases "ConnectTrap r s4") auto
  from n v have "n < length (nodes s4)" "is_variadic (node_op (nodes s4 ! n))"
    by (simp_all add: n4 nth_append)
  with ConnectTrap_keeps_variadic [OF wf4 c5] have "is_variadic (node_op (nodes s5 ! n))"
    by simp
  then show ?thesis by (simp add: s')
qed

lemma AddTrapIf_extends:
  assumes wf: "builder_wf s"
  shows "\<exists>s'. AddTrapIf r c b s = Some s' \<and> builder_wf s' \<and> builder_extends s s' \<and>
           trap_check s' r (length (nodes s)) c b (control s) \<and>
           control s' = length (nodes s) + (if b then 2 else 1) \<and>
           effect s' = effect s \<and>
           length (nodes s) + 3 \<le> length (nodes s')"
proof -
  from AddTrapIf_spec [OF wf, of r c b] obtain s' where
    H: "AddTrapIf r c b s = Some s' \<and> builder_wf s' \<and>
           length (nodes s) + 3 \<le> length (nodes s') \<and>
           control s' = length (nodes s) + (if b then 2 else 1) \<and>
           effect s' = effect s \<and>
           nodes s' ! length (nodes s)
             = \<lparr>node_op = Branch (if b then kFalse else kTrue), node_inputs = [c, control s]\<rparr> \<and>
           nodes s' ! (length (nodes s) + 1)
             = \<lparr>node_op = IfTrue, node_inputs = [length (nodes s)]\<rparr> \<and>
           nodes s' ! (length (nodes s) + 2)
             = \<lparr>node_op = IfFalse, node_inputs = [length (nodes s)]\<rparr> \<and>
           (\<forall>n<length (nodes s). \<not> is_variadic (node_op (nodes s ! n)) \<longrightarrow>
               nodes s' ! n = nodes s ! n) \<and>
           trap_inputs s' r = trap_inputs s r @ [length (nodes s) + (if b then 1 else 2)] \<and>
           (\<forall>r'. r' \<noteq> r \<longrightarrow> trap_inputs s' r' = trap_inputs s r') \<and>
           graph_start s' = graph_start s \<and> target s' = target s \<and> module s' = module s"
    by blast
  have ti: "set (trap_inputs s x) \<subseteq> set (trap_inputs s' x)" for x
    using H by (cases "x = r") auto
  have kv: "is_variadic (node_op (nodes s' ! n))"
    if "n < length (nodes s)" "is_variadic (node_op (nodes s ! n))" for n
    using AddTrapIf_keeps_variadic [OF wf _ that] H by blast
  have ext: "builder_extends s s'"
    unfolding builder_extends_iff using H ti kv by auto
  have tc: "trap_check s' r (length (nodes s)) c b (control s)"
    using H by (simp add: trap_check_def is_node_def)
  from H ext tc show ?thesis by blast
qed

lemma NewNode_extends:
  assumes wf: "builder_wf s" and s': "s' = snd (NewNode opr ins s)"
  shows "builder_wf s'" "builder_extends s s'" "is_node s' (length (nodes s)) opr ins"
    "length (nodes s') = Suc (length (nodes s))" "control s' = control s" "effect s' = effect s"
proof -
  have n: "nodes s' = nodes s @ [\<lparr>node_op = opr, node_inputs = ins\<rparr>]"
    and f: "traps s' = traps s" "effects s' = effects s" "graph_end s' = graph_end s"
      "graph_start s' = graph_start s" "target s' = target s" "module s' = module s"
    by (simp_all add: s' NewNode_def)
  show "builder_wf s'" using wf n f(1) f(2) f(3) by (rule builder_wf_extend)
  show "builder_extends s s'" using wf n f(1) f(2) f(4) f(5) f(6) by (rule builder_extends_append)
  show "is_node s' (length (nodes s)) opr ins" by (simp add: is_node_def n)
  show "length (nodes s') = Suc (length (nodes s))" by (simp add: n)
  show "control s' = control s" "effect s' = effect s" by (simp_all add: s' NewNode_def)
qed

lemma set_control_extends:
  assumes wf: "builder_wf s"
  shows "builder_wf (s\<lparr>control := c\<rparr>)" "builder_extends s (s\<lparr>control := c\<rparr>)"
proof -
  have n: "nodes (s\<lparr>control := c\<rparr>) = nodes s @ []" by simp
  show "builder_wf (s\<lparr>control := c\<rparr>)" using wf n by (rule builder_wf_extend) simp_all
  show "builder_extends s (s\<lparr>control := c\<rparr>)"
    using wf n by (rule builder_extends_append) simp_all
qed

lemma TrapIfEq32_checked:
  assumes wf: "builder_wf s"
    and nofold: "Int32Matcher s node = None \<or> Int32Matcher s node = Some val"
  shows "\<exists>s' b c. TrapIfEq32 r node val s = Some (control s', s') \<and>
           builder_wf s' \<and> builder_extends s s' \<and>
           trap_check s' r b c (val \<noteq> 0) (control s) \<and>
           control s' = b + (if val = 0 then 1 else 2) \<and>
           effect s' = effect s \<and>
           length (nodes s) \<le> b \<and> b + 3 \<le> length (nodes s') \<and>
           (if val = 0 then c = node
            else is_node s' (c - 1) (Int32Constant val) [] \<and> 0 < c \<and> c < b \<and>
                 length (nodes s) < c \<and>
                 is_node s' c (W32 Word32Equal) [node, c - 1])"
proof (cases "val = 0")
  case True
  from AddTrapIf_extends [OF wf, of r node False] obtain s' where
    H: "AddTrapIf r node False s = Some s' \<and> builder_wf s' \<and> builder_extends s s' \<and>
           trap_check s' r (length (nodes s)) node False (control s) \<and>
           control s' = length (nodes s) + 1 \<and>
           effect s' = effect s \<and>
           length (nodes s) + 3 \<le> length (nodes s')"
    by auto
  from nofold True H have "TrapIfEq32 r node val s = Some (control s', s')"
    by (auto simp add: TrapIfEq32_def AddTrapIfFalse_def)
  with H True show ?thesis
    by (intro exI [of _ s'] exI [of _ "length (nodes s)"] exI [of _ node]) simp
next
  case False
  let ?L = "length (nodes s)"
  define s1 where "s1 = snd (NewNode (Int32Constant val) [] s)"
  define s2 where "s2 = snd (NewNode (W32 Word32Equal) [node, ?L] s1)"
  note n1 = NewNode_extends [OF wf s1_def]
  note n2 = NewNode_extends [OF n1(1) s2_def]
  from AddTrapIf_extends [OF n2(1), of r "?L + 1" True] obtain s' where
    H: "AddTrapIf r (?L + 1) True s2 = Some s' \<and> builder_wf s' \<and> builder_extends s2 s' \<and>
           trap_check s' r (length (nodes s2)) (?L + 1) True (control s2) \<and>
           control s' = length (nodes s2) + 2 \<and>
           effect s' = effect s2 \<and>
           length (nodes s2) + 3 \<le> length (nodes s')"
    by auto
  have l2: "length (nodes s2) = ?L + 2" "control s2 = control s" "effect s2 = effect s"
    using n1 n2 by simp_all
  have ext: "builder_extends s s'"
    using builder_extends_trans [OF builder_extends_trans [OF n1(2) n2(2)]] H by blast
  have c: "is_node s' ?L (Int32Constant val) []"
    using is_node_extends [OF is_node_extends [OF n1(3) _ n2(2)]] H by auto
  have e: "is_node s' (?L + 1) (W32 Word32Equal) [node, ?L]"
    using is_node_extends [OF _ _ conjunct1 [OF conjunct2 [OF conjunct2 [OF H]]]] n2(3) n1(4)
    by auto
  from nofold False have "TrapIfEq32 r node val s =
      do { s3 \<leftarrow> AddTrapIfTrue r (?L + 1) s2; Some (control s3, s3) }"
    by (auto simp add: TrapIfEq32_def Int32Constant_node_def NewNode_def s1_def s2_def)
  with H have run: "TrapIfEq32 r node val s = Some (control s', s')"
    by (simp add: AddTrapIfTrue_def)
  from H False run ext c e l2 show ?thesis
    by (intro exI [of _ s'] exI [of _ "?L + 2"] exI [of _ "?L + 1"]) simp
qed

lemma Binop_I32DivS:
  "Binop (I32 kExprI32DivS) left right s =
     do { (zc, s1) \<leftarrow> ZeroCheck32 kTrapDivByZero right s;
          let before = control s1;
          let (m1, s2) = Int32Constant_node (- 1) s1;
          let (eq, s3) = NewNode (W32 Word32Equal) [right, m1] s2;
          let (branch, denom_is_m1, denom_is_not_m1, s4) = Branch_node eq s3;
          let s5 = s4\<lparr>control := denom_is_m1\<rparr>;
          (tc, s6) \<leftarrow> TrapIfEq32 kTrapDivUnrepresentable left kMinInt s5;
          let s7 = (if control s6 \<noteq> denom_is_m1
                    then (let (mrg, a1) = NewNode (Merge 2) [denom_is_not_m1, control s6] s6
                          in a1\<lparr>control := mrg\<rparr>)
                    else s6\<lparr>control := before\<rparr>);
          Some (NewNode (W32 Int32Div) [left, right, control s7] s7) }"
  by (simp add: Binop_def eval_nat_numeral)

lemma kMinInt_nonzero: "kMinInt \<noteq> 0"
  by (simp add: kMinInt_def)

lemma Binop_I32DivS_checked:
  assumes wf: "builder_wf s"
    and l: "left < length (nodes s)" and r: "right < length (nodes s)"
    and nr: "Int32Matcher s right = None \<or> Int32Matcher s right = Some 0"
    and nl: "Int32Matcher s left = None \<or> Int32Matcher s left = Some kMinInt"
  shows "\<exists>d s' zb m1 eq mb c eq2 ub mrg.
           Binop (I32 kExprI32DivS) left right s = Some (d, s') \<and> builder_wf s' \<and>
           trap_check s' kTrapDivByZero zb right False (control s) \<and>
           is_node s' m1 (Int32Constant (- 1)) [] \<and>
           is_node s' eq (W32 Word32Equal) [right, m1] \<and>
           is_node s' mb (Branch kNone) [eq, zb + 1] \<and>
           is_node s' (mb + 1) IfTrue [mb] \<and>
           is_node s' (mb + 2) IfFalse [mb] \<and>
           is_node s' c (Int32Constant kMinInt) [] \<and>
           is_node s' eq2 (W32 Word32Equal) [left, c] \<and>
           trap_check s' kTrapDivUnrepresentable ub eq2 True (mb + 1) \<and>
           is_node s' mrg (Merge 2) [mb + 2, ub + 2] \<and>
           is_node s' d (W32 Int32Div) [left, right, mrg] \<and>
           control s' = mrg \<and> effect s' = effect s \<and>
           length (nodes s) \<le> zb \<and> zb < mb \<and> mb < ub \<and> ub < mrg \<and> mrg < d"
proof -
  from TrapIfEq32_checked [OF wf, of right 0 kTrapDivByZero] nr
  obtain s1 zb where Z:
    "TrapIfEq32 kTrapDivByZero right 0 s = Some (control s1, s1) \<and>
     builder_wf s1 \<and> builder_extends s s1 \<and>
     trap_check s1 kTrapDivByZero zb right False (control s) \<and>
     control s1 = zb + 1 \<and> effect s1 = effect s \<and>
     length (nodes s) \<le> zb \<and> zb + 3 \<le> length (nodes s1)"
    by auto
  define L1 where "L1 = length (nodes s1)"
  let ?new = "[\<lparr>node_op = Int32Constant (- 1), node_inputs = []\<rparr>,
               \<lparr>node_op = W32 Word32Equal, node_inputs = [right, L1]\<rparr>,
               \<lparr>node_op = Branch kNone, node_inputs = [L1 + 1, zb + 1]\<rparr>,
               \<lparr>node_op = IfTrue, node_inputs = [L1 + 2]\<rparr>,
               \<lparr>node_op = IfFalse, node_inputs = [L1 + 2]\<rparr>]"
  define s5 where "s5 = s1\<lparr>nodes := nodes s1 @ ?new, control := L1 + 3\<rparr>"
  have n5: "nodes s5 = nodes s1 @ ?new" and f5: "traps s5 = traps s1" "effects s5 = effects s1"
    "graph_end s5 = graph_end s1" "graph_start s5 = graph_start s1" "target s5 = target s1"
    "module s5 = module s1" "control s5 = L1 + 3" "effect s5 = effect s1"
    by (simp_all add: s5_def)
  have wf1: "builder_wf s1" and e01: "builder_extends s s1" using Z by simp_all
  have wf5: "builder_wf s5"
    using wf1 n5 f5(1) f5(2) f5(3) by (rule builder_wf_extend)
  have e15: "builder_extends s1 s5"
    using wf1 n5 f5(1) f5(2) f5(4) f5(5) f5(6) by (rule builder_extends_append)
  have e05: "builder_extends s s5" using e01 e15 by (rule builder_extends_trans)
  have l5: "length (nodes s5) = L1 + 5" by (simp add: n5 L1_def)
  have nl5: "Int32Matcher s5 left = None \<or> Int32Matcher s5 left = Some kMinInt"
    using nl Int32Matcher_extends [OF e05 l] by simp
  from TrapIfEq32_checked [OF wf5 nl5, of kTrapDivUnrepresentable] kMinInt_nonzero
  obtain s6 ub eq2 where U:
    "TrapIfEq32 kTrapDivUnrepresentable left kMinInt s5 = Some (control s6, s6) \<and>
     builder_wf s6 \<and> builder_extends s5 s6 \<and>
     trap_check s6 kTrapDivUnrepresentable ub eq2 True (L1 + 3) \<and>
     control s6 = ub + 2 \<and> effect s6 = effect s5 \<and>
     length (nodes s5) \<le> ub \<and> ub + 3 \<le> length (nodes s6) \<and>
     is_node s6 (eq2 - 1) (Int32Constant kMinInt) [] \<and>
     is_node s6 eq2 (W32 Word32Equal) [left, eq2 - 1]"
    unfolding f5 by auto
  define L6 where "L6 = length (nodes s6)"
  let ?fin = "[\<lparr>node_op = Merge 2, node_inputs = [L1 + 4, ub + 2]\<rparr>,
               \<lparr>node_op = W32 Int32Div, node_inputs = [left, right, L6]\<rparr>]"
  define s' where "s' = s6\<lparr>nodes := nodes s6 @ ?fin, control := L6\<rparr>"
  have n': "nodes s' = nodes s6 @ ?fin" and f': "traps s' = traps s6" "effects s' = effects s6"
    "graph_end s' = graph_end s6" "graph_start s' = graph_start s6" "target s' = target s6"
    "module s' = module s6" "control s' = L6" "effect s' = effect s6"
    by (simp_all add: s'_def)
  have wf6: "builder_wf s6" and e56: "builder_extends s5 s6" using U by simp_all
  have wf': "builder_wf s'"
    using wf6 n' f'(1) f'(2) f'(3) by (rule builder_wf_extend)
  have e6': "builder_extends s6 s'"
    using wf6 n' f'(1) f'(2) f'(4) f'(5) f'(6) by (rule builder_extends_append)
  have e5': "builder_extends s5 s'" using e56 e6' by (rule builder_extends_trans)
  have e1': "builder_extends s1 s'" using e15 e5' by (rule builder_extends_trans)
  have Z1: "ZeroCheck32 kTrapDivByZero right s = Some (zb + 1, s1)"
    using Z by (simp add: ZeroCheck32_def)
  have U1: "TrapIfEq32 kTrapDivUnrepresentable left kMinInt s5 = Some (ub + 2, s6)"
    and U2: "control s6 = ub + 2"
    using U by simp_all
  have ne: "ub + 2 \<noteq> length (nodes s1) + 3" using U l5 by (simp add: L1_def)
  have c1: "control s1 = zb + 1" using Z by simp
  have run: "Binop (I32 kExprI32DivS) left right s = Some (L6 + 1, s')"
    using U1 U2 ne c1 unfolding s5_def s'_def L6_def L1_def
    by (simp add: Binop_I32DivS Z1 Int32Constant_node_def NewNode_def Branch_node_def Let_def
        eval_nat_numeral)
  have z': "trap_check s' kTrapDivByZero zb right False (control s)"
    using Z e1' by (blast intro: trap_check_extends)
  have u': "trap_check s' kTrapDivUnrepresentable ub eq2 True (L1 + 3)"
    using U e6' by (blast intro: trap_check_extends)
  have m5: "is_node s5 L1 (Int32Constant (- 1)) []"
    "is_node s5 (L1 + 1) (W32 Word32Equal) [right, L1]"
    "is_node s5 (L1 + 2) (Branch kNone) [L1 + 1, zb + 1]"
    "is_node s5 (L1 + 3) IfTrue [L1 + 2]"
    "is_node s5 (L1 + 4) IfFalse [L1 + 2]"
    by (simp_all add: is_node_def n5 L1_def nth_append)
  have m': "is_node s' L1 (Int32Constant (- 1)) []"
    "is_node s' (L1 + 1) (W32 Word32Equal) [right, L1]"
    "is_node s' (L1 + 2) (Branch kNone) [L1 + 1, zb + 1]"
    "is_node s' (L1 + 2 + 1) IfTrue [L1 + 2]"
    "is_node s' (L1 + 2 + 2) IfFalse [L1 + 2]"
    using m5 [THEN is_node_extends, OF _ e5'] by (simp_all add: eval_nat_numeral)
  have c': "is_node s' (eq2 - 1) (Int32Constant kMinInt) []"
    "is_node s' eq2 (W32 Word32Equal) [left, eq2 - 1]"
    using U is_node_extends [OF _ _ e6'] by simp_all
  have fin: "is_node s' L6 (Merge 2) [L1 + 2 + 2, ub + 2]"
    "is_node s' (L6 + 1) (W32 Int32Div) [left, right, L6]"
    by (simp_all add: is_node_def n' L6_def nth_append)
  have ord: "length (nodes s) \<le> zb" "zb < L1 + 2" "L1 + 2 < ub" "ub < L6" "L6 < L6 + 1"
    using Z U l5 by (simp_all add: L1_def L6_def)
  have eff: "effect s' = effect s" using Z U f5 f' by simp
  have u'': "trap_check s' kTrapDivUnrepresentable ub eq2 True (L1 + 2 + 1)"
    using u' by (simp add: eval_nat_numeral)
  from run wf' z' m' c' u'' fin f'(7) eff ord show ?thesis
    by blast
qed

lemma TrapIfEq64_checked:
  assumes wf: "builder_wf s"
    and nofold: "Int64Matcher s node = None \<or> Int64Matcher s node = Some val"
  shows "\<exists>s' b c. TrapIfEq64 r node val s = Some (control s', s') \<and>
           builder_wf s' \<and> builder_extends s s' \<and>
           trap_check s' r b c True (control s) \<and>
           control s' = b + 2 \<and>
           effect s' = effect s \<and>
           length (nodes s) \<le> b \<and> b + 3 \<le> length (nodes s') \<and>
           is_node s' (c - 1) (Int64Constant val) [] \<and>
           is_node s' c (W64 Word64Equal) [node, c - 1]"
proof -
  let ?L = "length (nodes s)"
  define s1 where "s1 = snd (NewNode (Int64Constant val) [] s)"
  define s2 where "s2 = snd (NewNode (W64 Word64Equal) [node, ?L] s1)"
  note n1 = NewNode_extends [OF wf s1_def]
  note n2 = NewNode_extends [OF n1(1) s2_def]
  from AddTrapIf_extends [OF n2(1), of r "?L + 1" True] obtain s' where
    H: "AddTrapIf r (?L + 1) True s2 = Some s' \<and> builder_wf s' \<and> builder_extends s2 s' \<and>
           trap_check s' r (length (nodes s2)) (?L + 1) True (control s2) \<and>
           control s' = length (nodes s2) + 2 \<and>
           effect s' = effect s2 \<and>
           length (nodes s2) + 3 \<le> length (nodes s')"
    by auto
  have l2: "length (nodes s2) = ?L + 2" "control s2 = control s" "effect s2 = effect s"
    using n1 n2 by simp_all
  have ext: "builder_extends s s'"
    using builder_extends_trans [OF builder_extends_trans [OF n1(2) n2(2)]] H by blast
  have c: "is_node s' ?L (Int64Constant val) []"
    using is_node_extends [OF is_node_extends [OF n1(3) _ n2(2)]] H by auto
  have e: "is_node s' (?L + 1) (W64 Word64Equal) [node, ?L]"
    using is_node_extends [OF _ _ conjunct1 [OF conjunct2 [OF conjunct2 [OF H]]]] n2(3) n1(4)
    by auto
  from nofold have "TrapIfEq64 r node val s =
      do { s3 \<leftarrow> AddTrapIfTrue r (?L + 1) s2; Some (control s3, s3) }"
    by (auto simp add: TrapIfEq64_def Int64Constant_node_def NewNode_def s1_def s2_def)
  with H have run: "TrapIfEq64 r node val s = Some (control s', s')"
    by (simp add: AddTrapIfTrue_def)
  from H run ext c e l2 show ?thesis
    by (intro exI [of _ s'] exI [of _ "?L + 2"] exI [of _ "?L + 1"]) simp
qed

lemma Binop_I64DivS:
  "WASM_64 (target s) \<Longrightarrow>
   Binop (I64 kExprI64DivS) left right s =
     do { (zc, s1) \<leftarrow> ZeroCheck64 kTrapDivByZero right s;
          let before = control s1;
          let (m1, s2) = Int64Constant_node (- 1) s1;
          let (eq, s3) = NewNode (W64 Word64Equal) [right, m1] s2;
          let (branch, denom_is_m1, denom_is_not_m1, s4) = Branch_node eq s3;
          let s5 = s4\<lparr>control := denom_is_m1\<rparr>;
          (tc, s6) \<leftarrow> TrapIfEq64 kTrapDivUnrepresentable left kMinInt64 s5;
          let s7 = (if control s6 \<noteq> denom_is_m1
                    then (let (mrg, a1) = NewNode (Merge 2) [denom_is_not_m1, control s6] s6
                          in a1\<lparr>control := mrg\<rparr>)
                    else s6\<lparr>control := before\<rparr>);
          Some (NewNode (W64 Int64Div) [left, right, control s7] s7) }"
  by (simp add: Binop_def eval_nat_numeral)

lemma Binop_I64DivS_checked:
  assumes wf: "builder_wf s" and w64: "WASM_64 (target s)"
    and l: "left < length (nodes s)" and r: "right < length (nodes s)"
    and nr: "Int64Matcher s right = None \<or> Int64Matcher s right = Some 0"
    and nl: "Int64Matcher s left = None \<or> Int64Matcher s left = Some kMinInt64"
  shows "\<exists>d s' zc ze zb m1 eq mb c eq2 ub mrg.
           Binop (I64 kExprI64DivS) left right s = Some (d, s') \<and> builder_wf s' \<and>
           is_node s' zc (Int64Constant 0) [] \<and>
           is_node s' ze (W64 Word64Equal) [right, zc] \<and>
           trap_check s' kTrapDivByZero zb ze True (control s) \<and>
           is_node s' m1 (Int64Constant (- 1)) [] \<and>
           is_node s' eq (W64 Word64Equal) [right, m1] \<and>
           is_node s' mb (Branch kNone) [eq, zb + 2] \<and>
           is_node s' (mb + 1) IfTrue [mb] \<and>
           is_node s' (mb + 2) IfFalse [mb] \<and>
           is_node s' c (Int64Constant kMinInt64) [] \<and>
           is_node s' eq2 (W64 Word64Equal) [left, c] \<and>
           trap_check s' kTrapDivUnrepresentable ub eq2 True (mb + 1) \<and>
           is_node s' mrg (Merge 2) [mb + 2, ub + 2] \<and>
           is_node s' d (W64 Int64Div) [left, right, mrg] \<and>
           control s' = mrg \<and> effect s' = effect s \<and>
           length (nodes s) \<le> zb \<and> zb < mb \<and> mb < ub \<and> ub < mrg \<and> mrg < d"
proof -
  from TrapIfEq64_checked [OF wf, of right 0 kTrapDivByZero] nr
  obtain s1 zb ze where Z:
    "TrapIfEq64 kTrapDivByZero right 0 s = Some (control s1, s1) \<and>
     builder_wf s1 \<and> builder_extends s s1 \<and>
     trap_check s1 kTrapDivByZero zb ze True (control s) \<and>
     control s1 = zb + 2 \<and> effect s1 = effect s \<and>
     length (nodes s) \<le> zb \<and> zb + 3 \<le> length (nodes s1) \<and>
     is_node s1 (ze - 1) (Int64Constant 0) [] \<and>
     is_node s1 ze (W64 Word64Equal) [right, ze - 1]"
    by auto
  define L1 where "L1 = length (nodes s1)"
  let ?new = "[\<lparr>node_op = Int64Constant (- 1), node_inputs = []\<rparr>,
               \<lparr>node_op = W64 Word64Equal, node_inputs = [right, L1]\<rparr>,
               \<lparr>node_op = Branch kNone, node_inputs = [L1 + 1, zb + 2]\<rparr>,
               \<lparr>node_op = IfTrue, node_inputs = [L1 + 2]\<rparr>,
               \<lparr>node_op = IfFalse, node_inputs = [L1 + 2]\<rparr>]"
  define s5 where "s5 = s1\<lparr>nodes := nodes s1 @ ?new, control := L1 + 3\<rparr>"
  have n5: "nodes s5 = nodes s1 @ ?new" and f5: "traps s5 = traps s1" "effects s5 = effects s1"
    "graph_end s5 = graph_end s1" "graph_start s5 = graph_start s1" "target s5 = target s1"
    "module s5 = module s1" "control s5 = L1 + 3" "effect s5 = effect s1"
    by (simp_all add: s5_def)
  have wf1: "builder_wf s1" and e01: "builder_extends s s1" using Z by simp_all
  have wf5: "builder_wf s5"
    using wf1 n5 f5(1) f5(2) f5(3) by (rule builder_wf_extend)
  have e15: "builder_extends s1 s5"
    using wf1 n5 f5(1) f5(2) f5(4) f5(5) f5(6) by (rule builder_extends_append)
  have e05: "builder_extends s s5" using e01 e15 by (rule builder_extends_trans)
  have l5: "length (nodes s5) = L1 + 5" by (simp add: n5 L1_def)
  have nl5: "Int64Matcher s5 left = None \<or> Int64Matcher s5 left = Some kMinInt64"
    using nl Int64Matcher_extends [OF e05 l] by simp
  from TrapIfEq64_checked [OF wf5 nl5, of kTrapDivUnrepresentable]
  obtain s6 ub eq2 where U:
    "TrapIfEq64 kTrapDivUnrepresentable left kMinInt64 s5 = Some (control s6, s6) \<and>
     builder_wf s6 \<and> builder_extends s5 s6 \<and>
     trap_check s6 kTrapDivUnrepresentable ub eq2 True (L1 + 3) \<and>
     control s6 = ub + 2 \<and> effect s6 = effect s5 \<and>
     length (nodes s5) \<le> ub \<and> ub + 3 \<le> length (nodes s6) \<and>
     is_node s6 (eq2 - 1) (Int64Constant kMinInt64) [] \<and>
     is_node s6 eq2 (W64 Word64Equal) [left, eq2 - 1]"
    unfolding f5 by auto
  define L6 where "L6 = length (nodes s6)"
  let ?fin = "[\<lparr>node_op = Merge 2, node_inputs = [L1 + 4, ub + 2]\<rparr>,
               \<lparr>node_op = W64 Int64Div, node_inputs = [left, right, L6]\<rparr>]"
  define s' where "s' = s6\<lparr>nodes := nodes s6 @ ?fin, control := L6\<rparr>"
  have n': "nodes s' = nodes s6 @ ?fin" and f': "traps s' = traps s6" "effects s' = effects s6"
    "graph_end s' = graph_end s6" "graph_start s' = graph_start s6" "target s' = target s6"
    "module s' = module s6" "control s' = L6" "effect s' = effect s6"
    by (simp_all add: s'_def)
  have wf6: "builder_wf s6" and e56: "builder_extends s5 s6" using U by simp_all
  have wf': "builder_wf s'"
    using wf6 n' f'(1) f'(2) f'(3) by (rule builder_wf_extend)
  have e6': "builder_extends s6 s'"
    using wf6 n' f'(1) f'(2) f'(4) f'(5) f'(6) by (rule builder_extends_append)
  have e5': "builder_extends s5 s'" using e56 e6' by (rule builder_extends_trans)
  have e1': "builder_extends s1 s'" using e15 e5' by (rule builder_extends_trans)
  have Z1: "ZeroCheck64 kTrapDivByZero right s = Some (zb + 2, s1)"
    using Z by (simp add: ZeroCheck64_def)
  have U1: "TrapIfEq64 kTrapDivUnrepresentable left kMinInt64 s5 = Some (ub + 2, s6)"
    and U2: "control s6 = ub + 2"
    using U by simp_all
  have ne: "ub + 2 \<noteq> length (nodes s1) + 3" using U l5 by (simp add: L1_def)
  have c1: "control s1 = zb + 2" using Z by simp
  have run: "Binop (I64 kExprI64DivS) left right s = Some (L6 + 1, s')"
    using U1 U2 ne c1 unfolding s5_def s'_def L6_def L1_def
    by (simp add: Binop_I64DivS [OF w64] Z1 Int64Constant_node_def NewNode_def Branch_node_def
        Let_def eval_nat_numeral)
  have z': "trap_check s' kTrapDivByZero zb ze True (control s)"
    using Z e1' by (blast intro: trap_check_extends)
  have zc': "is_node s' (ze - 1) (Int64Constant 0) []"
    "is_node s' ze (W64 Word64Equal) [right, ze - 1]"
    using Z is_node_extends [OF _ _ e1'] by simp_all
  have u': "trap_check s' kTrapDivUnrepresentable ub eq2 True (L1 + 3)"
    using U e6' by (blast intro: trap_check_extends)
  have m5: "is_node s5 L1 (Int64Constant (- 1)) []"
    "is_node s5 (L1 + 1) (W64 Word64Equal) [right, L1]"
    "is_node s5 (L1 + 2) (Branch kNone) [L1 + 1, zb + 2]"
    "is_node s5 (L1 + 3) IfTrue [L1 + 2]"
    "is_node s5 (L1 + 4) IfFalse [L1 + 2]"
    by (simp_all add: is_node_def n5 L1_def nth_append)
  have m': "is_node s' L1 (Int64Constant (- 1)) []"
    "is_node s' (L1 + 1) (W64 Word64Equal) [right, L1]"
    "is_node s' (L1 + 2) (Branch kNone) [L1 + 1, zb + 2]"
    "is_node s' (L1 + 2 + 1) IfTrue [L1 + 2]"
    "is_node s' (L1 + 2 + 2) IfFalse [L1 + 2]"
    using m5 [THEN is_node_extends, OF _ e5'] by (simp_all add: eval_nat_numeral)
  have c': "is_node s' (eq2 - 1) (Int64Constant kMinInt64) []"
    "is_node s' eq2 (W64 Word64Equal) [left, eq2 - 1]"
    using U is_node_extends [OF _ _ e6'] by simp_all
  have fin: "is_node s' L6 (Merge 2) [L1 + 2 + 2, ub + 2]"
    "is_node s' (L6 + 1) (W64 Int64Div) [left, right, L6]"
    by (simp_all add: is_node_def n' L6_def nth_append)
  have ord: "length (nodes s) \<le> zb" "zb < L1 + 2" "L1 + 2 < ub" "ub < L6" "L6 < L6 + 1"
    using Z U l5 by (simp_all add: L1_def L6_def)
  have eff: "effect s' = effect s" using Z U f5 f' by simp
  have u'': "trap_check s' kTrapDivUnrepresentable ub eq2 True (L1 + 2 + 1)"
    using u' by (simp add: eval_nat_numeral)
  from run wf' z' zc' m' c' u'' fin f'(7) eff ord show ?thesis
    by blast
qed

lemma control_paths_pass_step:
  assumes "is_node s n opr ins"
    and "control_inputs \<lparr>node_op = opr, node_inputs = ins\<rparr> \<noteq> [] \<and>
         list_all (control_paths_pass s d k) (control_inputs \<lparr>node_op = opr, node_inputs = ins\<rparr>)"
  shows "control_paths_pass s d (Suc k) n"
  using assms by (simp add: is_node_def)

lemma control_paths_pass_refl: "control_paths_pass s d k d"
  by (cases k) simp_all

lemma guarded_division_dominated:
  assumes mb: "is_node s mb (Branch kNone) [eq, p]"
    and t: "is_node s (mb + 1) IfTrue [mb]"
    and f: "is_node s (mb + 2) IfFalse [mb]"
    and u: "trap_check s reason ub eq2 True (mb + 1)"
    and m: "is_node s mrg (Merge 2) [mb + 2, ub + 2]"
    and d: "is_node s d opr [left, right, mrg]"
    and w: "(\<exists>w. opr = W32 w) \<or> (\<exists>w. opr = W64 w)"
  shows "control_paths_pass s p 6 d"
proof -
  have p1: "control_paths_pass s p (Suc k) mb" for k
    using mb by (rule control_paths_pass_step) (simp add: control_inputs_def control_paths_pass_refl)
  have p2: "control_paths_pass s p (Suc (Suc k)) (mb + 1)" for k
    using t by (rule control_paths_pass_step) (use p1 in \<open>simp add: control_inputs_def del: control_paths_pass.simps\<close>)
  have p3: "control_paths_pass s p (Suc (Suc k)) (mb + 2)" for k
    using f by (rule control_paths_pass_step) (use p1 in \<open>simp add: control_inputs_def del: control_paths_pass.simps\<close>)
  from u have ub: "is_node s ub (Branch kFalse) [eq2, mb + 1]" "is_node s (ub + 2) IfFalse [ub]"
    by (simp_all add: trap_check_def)
  have p4: "control_paths_pass s p (Suc (Suc (Suc k))) ub" for k
    using ub(1) by (rule control_paths_pass_step) (use p2 in \<open>simp add: control_inputs_def del: control_paths_pass.simps\<close>)
  have p5: "control_paths_pass s p (Suc (Suc (Suc (Suc k)))) (ub + 2)" for k
    using ub(2) by (rule control_paths_pass_step) (use p4 in \<open>simp add: control_inputs_def del: control_paths_pass.simps\<close>)
  have p6: "control_paths_pass s p (Suc (Suc (Suc (Suc (Suc 0))))) mrg"
    using m by (rule control_paths_pass_step) (use p3 p5 in \<open>simp add: control_inputs_def del: control_paths_pass.simps\<close>)
  have p7: "control_paths_pass s p (Suc (Suc (Suc (Suc (Suc (Suc 0)))))) d"
    using d by (rule control_paths_pass_step) (use w p6 in \<open>auto simp add: control_inputs_def simp del: control_paths_pass.simps\<close>)
  then show ?thesis by (simp add: eval_nat_numeral)
qed

lemma TrapIfEq32_folded:
  assumes "Int32Matcher s node = Some v" "v \<noteq> val"
  shows "TrapIfEq32 r node val s = Some (graph_start s, s)"
  using assms by (simp add: TrapIfEq32_def)

lemma TrapIfEq64_folded:
  assumes "Int64Matcher s node = Some v" "v \<noteq> val"
  shows "TrapIfEq64 r node val s = Some (graph_start s, s)"
  using assms by (simp add: TrapIfEq64_def)

lemma AddTrapIf_others:
  assumes wf: "builder_wf s" and run: "AddTrapIf r c b s = Some s'" and ne: "r' \<noteq> r"
  shows "traps s' r' = traps s r'" and "trap_inputs s' r' = trap_inputs s r'"
proof -
  from AddTrapIf_spec [OF wf, of r c b] obtain s'' where
    H: "AddTrapIf r c b s = Some s'' \<and>
        (\<forall>r'. r' \<noteq> r \<longrightarrow> traps s'' r' = traps s r' \<and>
                 trap_inputs s'' r' = trap_inputs s r' \<and>
                 trap_effects s'' r' = trap_effects s r')"
    by blast
  with run have "s'' = s'" by simp
  with H ne show "traps s' r' = traps s r'" and "trap_inputs s' r' = trap_inputs s r'"
    by simp_all
qed

lemma TrapIfEq32_others:
  assumes wf: "builder_wf s" and run: "TrapIfEq32 r node val s = Some (c, s')"
    and ne: "r' \<noteq> r"
  shows "traps s' r' = traps s r'" and "trap_inputs s' r' = trap_inputs s r'"
proof -
  have "traps s' r' = traps s r' \<and> trap_inputs s' r' = trap_inputs s r'"
  proof (cases "case Int32Matcher s node of Some v \<Rightarrow> v \<noteq> val | None \<Rightarrow> False")
    case True
    with run have "s' = s" by (simp add: TrapIfEq32_def)
    then show ?thesis by simp
  next
    case nf: False
    show ?thesis
    proof (cases "val = 0")
      case True
      with nf run have "AddTrapIf r node False s = Some s'"
        by (auto simp add: TrapIfEq32_def AddTrapIfFalse_def split: bind_splits)
      from AddTrapIf_others [OF wf this ne] show ?thesis by simp
    next
      case False
      define s1 where "s1 = snd (NewNode (Int32Constant val) [] s)"
      define s2 where "s2 = snd (NewNode (W32 Word32Equal) [node, length (nodes s)] s1)"
      note n1 = NewNode_extends [OF wf s1_def]
      note n2 = NewNode_extends [OF n1(1) s2_def]
      have n: "nodes s2 = nodes s @ [\<lparr>node_op = Int32Constant val, node_inputs = []\<rparr>,
                 \<lparr>node_op = W32 Word32Equal, node_inputs = [node, length (nodes s)]\<rparr>]"
        and tr: "traps s2 = traps s" and ef: "effects s2 = effects s"
        by (simp_all add: s1_def s2_def NewNode_def)
      from nf False run have "AddTrapIf r (length (nodes s) + 1) True s2 = Some s'"
        by (auto simp add: TrapIfEq32_def AddTrapIfTrue_def Int32Constant_node_def NewNode_def
            s1_def s2_def split: bind_splits)
      from AddTrapIf_others [OF n2(1) this ne] trap_inputs_extend(1) [OF wf n tr ef, of r'] tr
      show ?thesis by simp
    qed
  qed
  then show "traps s' r' = traps s r'" and "trap_inputs s' r' = trap_inputs s r'"
    by simp_all
qed

lemma TrapIfEq64_others:
  assumes wf: "builder_wf s" and run: "TrapIfEq64 r node val s = Some (c, s')"
    and ne: "r' \<noteq> r"
  shows "traps s' r' = traps s r'" and "trap_inputs s' r' = trap_inputs s r'"
proof -
  have "traps s' r' = traps s r' \<and> trap_inputs s' r' = trap_inputs s r'"
  proof (cases "case Int64Matcher s node of Some v \<Rightarrow> v \<noteq> val | None \<Rightarrow> False")
    case True
    with run have "s' = s" by (simp add: TrapIfEq64_def)
    then show ?thesis by simp
  next
    case nf: False
    define s1 where "s1 = snd (NewNode (Int64Constant val) [] s)"
    define s2 where "s2 = snd (NewNode (W64 Word64Equal) [node, length (nodes s)] s1)"
    note n1 = NewNode_extends [OF wf s1_def]
    note n2 = NewNode_extends [OF n1(1) s2_def]
    have n: "nodes s2 = nodes s @ [\<lparr>node_op = Int64Constant val, node_inputs = []\<rparr>,
               \<lparr>node_op = W64 Word64Equal, node_inputs = [node, length (nodes s)]\<rparr>]"
      and tr: "traps s2 = traps s" and ef: "effects s2 = effects s"
      by (simp_all add: s1_def s2_def NewNode_def)
    from nf run have "AddTrapIf r (length (nodes s) + 1) True s2 = Some s'"
      by (auto simp add: TrapIfEq64_def AddTrapIfTrue_def Int64Constant_node_def NewNode_def
          s1_def s2_def split: bind_splits)
    from AddTrapIf_others [OF n2(1) this ne] trap_inputs_extend(1) [OF wf n tr ef, of r'] tr
    show ?thesis by simp
  qed
  then show "traps s' r' = traps s r'" and "trap_inputs s' r' = trap_inputs s r'"
    by simp_all
qed

text \<open>Zero check made, second check folded.\<close>

lemma Binop_I32DivS_dividend_constant:
  assumes wf: "builder_wf s"
    and l: "left < length (nodes s)" and r: "right < length (nodes s)"
    and nr: "Int32Matcher s right = None \<or> Int32Matcher s right = Some 0"
    and cl: "Int32Matcher s left = Some v" "v \<noteq> kMinInt"
  shows "\<exists>d s' zb m1 eq mb.
           Binop (I32 kExprI32DivS) left right s = Some (d, s') \<and> builder_wf s' \<and>
           trap_check s' kTrapDivByZero zb right False (control s) \<and>
           is_node s' m1 (Int32Constant (- 1)) [] \<and>
           is_node s' eq (W32 Word32Equal) [right, m1] \<and>
           is_node s' mb (Branch kNone) [eq, zb + 1] \<and>
           is_node s' (mb + 1) IfTrue [mb] \<and>
           is_node s' (mb + 2) IfFalse [mb] \<and>
           d = mb + 3 \<and> length (nodes s') = mb + 4 \<and>
           is_node s' d (W32 Int32Div) [left, right, zb + 1] \<and>
           control s' = zb + 1 \<and> effect s' = effect s \<and>
           traps s' kTrapDivUnrepresentable = traps s kTrapDivUnrepresentable \<and>
           trap_inputs s' kTrapDivUnrepresentable = trap_inputs s kTrapDivUnrepresentable \<and>
           length (nodes s) \<le> zb \<and> zb < mb"
proof -
  from TrapIfEq32_checked [OF wf, of right 0 kTrapDivByZero] nr
  obtain s1 zb where Z:
    "TrapIfEq32 kTrapDivByZero right 0 s = Some (control s1, s1) \<and>
     builder_wf s1 \<and> builder_extends s s1 \<and>
     trap_check s1 kTrapDivByZero zb right False (control s) \<and>
     control s1 = zb + 1 \<and> effect s1 = effect s \<and>
     length (nodes s) \<le> zb \<and> zb + 3 \<le> length (nodes s1)"
    by auto
  define L1 where "L1 = length (nodes s1)"
  let ?new = "[\<lparr>node_op = Int32Constant (- 1), node_inputs = []\<rparr>,
               \<lparr>node_op = W32 Word32Equal, node_inputs = [right, L1]\<rparr>,
               \<lparr>node_op = Branch kNone, node_inputs = [L1 + 1, zb + 1]\<rparr>,
               \<lparr>node_op = IfTrue, node_inputs = [L1 + 2]\<rparr>,
               \<lparr>node_op = IfFalse, node_inputs = [L1 + 2]\<rparr>]"
  define s5 where "s5 = s1\<lparr>nodes := nodes s1 @ ?new, control := L1 + 3\<rparr>"
  have n5: "nodes s5 = nodes s1 @ ?new" and f5: "traps s5 = traps s1" "effects s5 = effects s1"
    "graph_end s5 = graph_end s1" "graph_start s5 = graph_start s1" "target s5 = target s1"
    "module s5 = module s1" "control s5 = L1 + 3" "effect s5 = effect s1"
    by (simp_all add: s5_def)
  have wf1: "builder_wf s1" and e01: "builder_extends s s1" using Z by simp_all
  have e15: "builder_extends s1 s5"
    using wf1 n5 f5(1) f5(2) f5(4) f5(5) f5(6) by (rule builder_extends_append)
  have e05: "builder_extends s s5" using e01 e15 by (rule builder_extends_trans)
  have cl5: "Int32Matcher s5 left = Some v"
    using cl(1) Int32Matcher_extends [OF e05 l] by simp
  have U1: "TrapIfEq32 kTrapDivUnrepresentable left kMinInt s5 = Some (graph_start s5, s5)"
    using cl5 cl(2) by (rule TrapIfEq32_folded)
  let ?fin = "?new @ [\<lparr>node_op = W32 Int32Div, node_inputs = [left, right, zb + 1]\<rparr>]"
  define s' where "s' = s1\<lparr>nodes := nodes s1 @ ?fin, control := zb + 1\<rparr>"
  have n': "nodes s' = nodes s1 @ ?fin" and f': "traps s' = traps s1" "effects s' = effects s1"
    "graph_end s' = graph_end s1" "graph_start s' = graph_start s1" "target s' = target s1"
    "module s' = module s1" "control s' = zb + 1" "effect s' = effect s1"
    by (simp_all add: s'_def)
  have wf': "builder_wf s'"
    using wf1 n' f'(1) f'(2) f'(3) by (rule builder_wf_extend)
  have e1': "builder_extends s1 s'"
    using wf1 n' f'(1) f'(2) f'(4) f'(5) f'(6) by (rule builder_extends_append)
  have Z1: "ZeroCheck32 kTrapDivByZero right s = Some (zb + 1, s1)"
    using Z by (simp add: ZeroCheck32_def)
  have c1: "control s1 = zb + 1" using Z by simp
  have run: "Binop (I32 kExprI32DivS) left right s = Some (L1 + 5, s')"
    using U1 c1 unfolding s5_def s'_def L1_def
    by (simp add: Binop_I32DivS Z1 Int32Constant_node_def NewNode_def Branch_node_def Let_def
        eval_nat_numeral)
  have z': "trap_check s' kTrapDivByZero zb right False (control s)"
    using Z e1' by (blast intro: trap_check_extends)
  have m': "is_node s' L1 (Int32Constant (- 1)) []"
    "is_node s' (L1 + 1) (W32 Word32Equal) [right, L1]"
    "is_node s' (L1 + 2) (Branch kNone) [L1 + 1, zb + 1]"
    "is_node s' (L1 + 2 + 1) IfTrue [L1 + 2]"
    "is_node s' (L1 + 2 + 2) IfFalse [L1 + 2]"
    "is_node s' (L1 + 5) (W32 Int32Div) [left, right, zb + 1]"
    "L1 + 5 = L1 + 2 + 3" "length (nodes s') = L1 + 2 + 4"
    by (simp_all add: is_node_def n' L1_def nth_append)
  have Zrun: "TrapIfEq32 kTrapDivByZero right 0 s = Some (control s1, s1)" using Z by simp
  have o1: "traps s1 kTrapDivUnrepresentable = traps s kTrapDivUnrepresentable"
    "trap_inputs s1 kTrapDivUnrepresentable = trap_inputs s kTrapDivUnrepresentable"
    using TrapIfEq32_others [OF wf Zrun, of kTrapDivUnrepresentable] by simp_all
  have o': "traps s' kTrapDivUnrepresentable = traps s kTrapDivUnrepresentable"
    "trap_inputs s' kTrapDivUnrepresentable = trap_inputs s kTrapDivUnrepresentable"
    using o1 trap_inputs_extend(1) [OF wf1 n' f'(1) f'(2), of kTrapDivUnrepresentable] f'(1)
    by simp_all
  have ord: "length (nodes s) \<le> zb" "zb < L1 + 2" "effect s' = effect s"
    using Z f'(8) by (simp_all add: L1_def)
  from run wf' z' m' f'(7) o' ord show ?thesis by blast
qed

text \<open>Zero check folded, second check made.\<close>

lemma Binop_I32DivS_divisor_constant:
  assumes wf: "builder_wf s"
    and l: "left < length (nodes s)" and r: "right < length (nodes s)"
    and cr: "Int32Matcher s right = Some v" "v \<noteq> 0"
    and nl: "Int32Matcher s left = None \<or> Int32Matcher s left = Some kMinInt"
  shows "\<exists>d s' mb c eq2 ub mrg.
           Binop (I32 kExprI32DivS) left right s = Some (d, s') \<and> builder_wf s' \<and>
           mb = length (nodes s) + 2 \<and>
           is_node s' (length (nodes s)) (Int32Constant (- 1)) [] \<and>
           is_node s' (length (nodes s) + 1) (W32 Word32Equal) [right, length (nodes s)] \<and>
           is_node s' mb (Branch kNone) [length (nodes s) + 1, control s] \<and>
           is_node s' (mb + 1) IfTrue [mb] \<and>
           is_node s' (mb + 2) IfFalse [mb] \<and>
           is_node s' c (Int32Constant kMinInt) [] \<and>
           is_node s' eq2 (W32 Word32Equal) [left, c] \<and>
           trap_check s' kTrapDivUnrepresentable ub eq2 True (mb + 1) \<and>
           is_node s' mrg (Merge 2) [mb + 2, ub + 2] \<and>
           is_node s' d (W32 Int32Div) [left, right, mrg] \<and>
           control s' = mrg \<and> effect s' = effect s \<and>
           traps s' kTrapDivByZero = traps s kTrapDivByZero \<and>
           trap_inputs s' kTrapDivByZero = trap_inputs s kTrapDivByZero \<and>
           mb < ub \<and> ub < mrg \<and> mrg < d"
proof -
  have Z1: "ZeroCheck32 kTrapDivByZero right s = Some (graph_start s, s)"
    unfolding ZeroCheck32_def using cr by (rule TrapIfEq32_folded)
  define L1 where "L1 = length (nodes s)"
  let ?new = "[\<lparr>node_op = Int32Constant (- 1), node_inputs = []\<rparr>,
               \<lparr>node_op = W32 Word32Equal, node_inputs = [right, L1]\<rparr>,
               \<lparr>node_op = Branch kNone, node_inputs = [L1 + 1, control s]\<rparr>,
               \<lparr>node_op = IfTrue, node_inputs = [L1 + 2]\<rparr>,
               \<lparr>node_op = IfFalse, node_inputs = [L1 + 2]\<rparr>]"
  define s5 where "s5 = s\<lparr>nodes := nodes s @ ?new, control := L1 + 3\<rparr>"
  have n5: "nodes s5 = nodes s @ ?new" and f5: "traps s5 = traps s" "effects s5 = effects s"
    "graph_end s5 = graph_end s" "graph_start s5 = graph_start s" "target s5 = target s"
    "module s5 = module s" "control s5 = L1 + 3" "effect s5 = effect s"
    by (simp_all add: s5_def)
  have wf5: "builder_wf s5"
    using wf n5 f5(1) f5(2) f5(3) by (rule builder_wf_extend)
  have e05: "builder_extends s s5"
    using wf n5 f5(1) f5(2) f5(4) f5(5) f5(6) by (rule builder_extends_append)
  have l5: "length (nodes s5) = L1 + 5" by (simp add: n5 L1_def)
  have nl5: "Int32Matcher s5 left = None \<or> Int32Matcher s5 left = Some kMinInt"
    using nl Int32Matcher_extends [OF e05 l] by simp
  from TrapIfEq32_checked [OF wf5 nl5, of kTrapDivUnrepresentable] kMinInt_nonzero
  obtain s6 ub eq2 where U:
    "TrapIfEq32 kTrapDivUnrepresentable left kMinInt s5 = Some (control s6, s6) \<and>
     builder_wf s6 \<and> builder_extends s5 s6 \<and>
     trap_check s6 kTrapDivUnrepresentable ub eq2 True (L1 + 3) \<and>
     control s6 = ub + 2 \<and> effect s6 = effect s5 \<and>
     length (nodes s5) \<le> ub \<and> ub + 3 \<le> length (nodes s6) \<and>
     is_node s6 (eq2 - 1) (Int32Constant kMinInt) [] \<and>
     is_node s6 eq2 (W32 Word32Equal) [left, eq2 - 1]"
    unfolding f5 by auto
  define L6 where "L6 = length (nodes s6)"
  let ?fin = "[\<lparr>node_op = Merge 2, node_inputs = [L1 + 4, ub + 2]\<rparr>,
               \<lparr>node_op = W32 Int32Div, node_inputs = [left, right, L6]\<rparr>]"
  define s' where "s' = s6\<lparr>nodes := nodes s6 @ ?fin, control := L6\<rparr>"
  have n': "nodes s' = nodes s6 @ ?fin" and f': "traps s' = traps s6" "effects s' = effects s6"
    "graph_end s' = graph_end s6" "graph_start s' = graph_start s6" "target s' = target s6"
    "module s' = module s6" "control s' = L6" "effect s' = effect s6"
    by (simp_all add: s'_def)
  have wf6: "builder_wf s6" and e56: "builder_extends s5 s6" using U by simp_all
  have wf': "builder_wf s'"
    using wf6 n' f'(1) f'(2) f'(3) by (rule builder_wf_extend)
  have e6': "builder_extends s6 s'"
    using wf6 n' f'(1) f'(2) f'(4) f'(5) f'(6) by (rule builder_extends_append)
  have e5': "builder_extends s5 s'" using e56 e6' by (rule builder_extends_trans)
  have U1: "TrapIfEq32 kTrapDivUnrepresentable left kMinInt s5 = Some (ub + 2, s6)"
    and U2: "control s6 = ub + 2"
    using U by simp_all
  have ne: "ub + 2 \<noteq> length (nodes s) + 3" using U l5 by (simp add: L1_def)
  have run: "Binop (I32 kExprI32DivS) left right s = Some (L6 + 1, s')"
    using U1 U2 ne unfolding s5_def s'_def L6_def L1_def
    by (simp add: Binop_I32DivS Z1 Int32Constant_node_def NewNode_def Branch_node_def Let_def
        eval_nat_numeral)
  have u': "trap_check s' kTrapDivUnrepresentable ub eq2 True (L1 + 3)"
    using U e6' by (blast intro: trap_check_extends)
  have m5: "is_node s5 L1 (Int32Constant (- 1)) []"
    "is_node s5 (L1 + 1) (W32 Word32Equal) [right, L1]"
    "is_node s5 (L1 + 2) (Branch kNone) [L1 + 1, control s]"
    "is_node s5 (L1 + 3) IfTrue [L1 + 2]"
    "is_node s5 (L1 + 4) IfFalse [L1 + 2]"
    by (simp_all add: is_node_def n5 L1_def nth_append)
  have m': "is_node s' L1 (Int32Constant (- 1)) []"
    "is_node s' (L1 + 1) (W32 Word32Equal) [right, L1]"
    "is_node s' (L1 + 2) (Branch kNone) [L1 + 1, control s]"
    "is_node s' (L1 + 2 + 1) IfTrue [L1 + 2]"
    "is_node s' (L1 + 2 + 2) IfFalse [L1 + 2]"
    using m5 [THEN is_node_extends, OF _ e5'] by (simp_all add: eval_nat_numeral)
  have c': "is_node s' (eq2 - 1) (Int32Constant kMinInt) []"
    "is_node s' eq2 (W32 Word32Equal) [left, eq2 - 1]"
    using U is_node_extends [OF _ _ e6'] by simp_all
  have fin: "is_node s' L6 (Merge 2) [L1 + 2 + 2, ub + 2]"
    "is_node s' (L6 + 1) (W32 Int32Div) [left, right, L6]"
    by (simp_all add: is_node_def n' L6_def nth_append)
  have ord: "L1 + 2 < ub" "ub < L6" "L6 < L6 + 1"
    using U l5 by (simp_all add: L6_def)
  have eff: "effect s' = effect s" using U f5 f' by simp
  have u'': "trap_check s' kTrapDivUnrepresentable ub eq2 True (L1 + 2 + 1)"
    using u' by (simp add: eval_nat_numeral)
  have Urun: "TrapIfEq32 kTrapDivUnrepresentable left kMinInt s5 = Some (control s6, s6)"
    using U by simp
  have o5: "trap_inputs s5 kTrapDivByZero = trap_inputs s kTrapDivByZero"
    using trap_inputs_extend(1) [OF wf n5 f5(1) f5(2)] .
  have o6: "traps s6 kTrapDivByZero = traps s kTrapDivByZero"
    "trap_inputs s6 kTrapDivByZero = trap_inputs s kTrapDivByZero"
    using TrapIfEq32_others [OF wf5 Urun, of kTrapDivByZero] o5 f5(1) by simp_all
  have o': "traps s' kTrapDivByZero = traps s kTrapDivByZero"
    "trap_inputs s' kTrapDivByZero = trap_inputs s kTrapDivByZero"
    using o6 trap_inputs_extend(1) [OF wf6 n' f'(1) f'(2), of kTrapDivByZero] f'(1)
    by simp_all
  have mb: "L1 + 2 = length (nodes s) + 2" by (simp add: L1_def)
  from run wf' m' c' u'' fin f'(7) eff o' ord mb show ?thesis
    unfolding L1_def by blast
qed

text \<open>Both checks folded.\<close>

lemma Binop_I32DivS_both_constant:
  assumes cr: "Int32Matcher s right = Some v" "v \<noteq> 0"
    and cl: "Int32Matcher s left = Some w" "w \<noteq> kMinInt"
  shows "Binop (I32 kExprI32DivS) left right s =
           Some (length (nodes s) + 5,
                 s\<lparr>nodes := nodes s @
                    [\<lparr>node_op = Int32Constant (- 1), node_inputs = []\<rparr>,
                     \<lparr>node_op = W32 Word32Equal, node_inputs = [right, length (nodes s)]\<rparr>,
                     \<lparr>node_op = Branch kNone,
                        node_inputs = [length (nodes s) + 1, control s]\<rparr>,
                     \<lparr>node_op = IfTrue, node_inputs = [length (nodes s) + 2]\<rparr>,
                     \<lparr>node_op = IfFalse, node_inputs = [length (nodes s) + 2]\<rparr>,
                     \<lparr>node_op = W32 Int32Div, node_inputs = [left, right, control s]\<rparr>]\<rparr>)"
proof -
  have Z1: "ZeroCheck32 kTrapDivByZero right s = Some (graph_start s, s)"
    unfolding ZeroCheck32_def using cr by (rule TrapIfEq32_folded)
  let ?new = "[\<lparr>node_op = Int32Constant (- 1), node_inputs = []\<rparr>,
               \<lparr>node_op = W32 Word32Equal, node_inputs = [right, length (nodes s)]\<rparr>,
               \<lparr>node_op = Branch kNone, node_inputs = [length (nodes s) + 1, control s]\<rparr>,
               \<lparr>node_op = IfTrue, node_inputs = [length (nodes s) + 2]\<rparr>,
               \<lparr>node_op = IfFalse, node_inputs = [length (nodes s) + 2]\<rparr>]"
  define s5 where "s5 = s\<lparr>nodes := nodes s @ ?new, control := length (nodes s) + 3\<rparr>"
  have "left < length (nodes s)"
    using cl(1) by (simp add: Int32Matcher_def split: if_splits)
  then have cl5: "Int32Matcher s5 left = Some w"
    using cl(1) by (simp add: Int32Matcher_def s5_def nth_append)
  have U1: "TrapIfEq32 kTrapDivUnrepresentable left kMinInt s5 = Some (graph_start s5, s5)"
    using cl5 cl(2) by (rule TrapIfEq32_folded)
  show ?thesis
    using U1 unfolding s5_def
    by (simp add: Binop_I32DivS Z1 Int32Constant_node_def NewNode_def Branch_node_def Let_def
        eval_nat_numeral)
qed

text \<open>Zero check made, second check folded.\<close>

lemma Binop_I64DivS_dividend_constant:
  assumes wf: "builder_wf s" and w64: "WASM_64 (target s)"
    and l: "left < length (nodes s)" and r: "right < length (nodes s)"
    and nr: "Int64Matcher s right = None \<or> Int64Matcher s right = Some 0"
    and cl: "Int64Matcher s left = Some v" "v \<noteq> kMinInt64"
  shows "\<exists>d s' zc ze zb m1 eq mb.
           Binop (I64 kExprI64DivS) left right s = Some (d, s') \<and> builder_wf s' \<and>
           is_node s' zc (Int64Constant 0) [] \<and>
           is_node s' ze (W64 Word64Equal) [right, zc] \<and>
           trap_check s' kTrapDivByZero zb ze True (control s) \<and>
           is_node s' m1 (Int64Constant (- 1)) [] \<and>
           is_node s' eq (W64 Word64Equal) [right, m1] \<and>
           is_node s' mb (Branch kNone) [eq, zb + 2] \<and>
           is_node s' (mb + 1) IfTrue [mb] \<and>
           is_node s' (mb + 2) IfFalse [mb] \<and>
           d = mb + 3 \<and> length (nodes s') = mb + 4 \<and>
           is_node s' d (W64 Int64Div) [left, right, zb + 2] \<and>
           control s' = zb + 2 \<and> effect s' = effect s \<and>
           traps s' kTrapDivUnrepresentable = traps s kTrapDivUnrepresentable \<and>
           trap_inputs s' kTrapDivUnrepresentable = trap_inputs s kTrapDivUnrepresentable \<and>
           length (nodes s) \<le> zb \<and> zb < mb"
proof -
  from TrapIfEq64_checked [OF wf, of right 0 kTrapDivByZero] nr
  obtain s1 zb ze where Z:
    "TrapIfEq64 kTrapDivByZero right 0 s = Some (control s1, s1) \<and>
     builder_wf s1 \<and> builder_extends s s1 \<and>
     trap_check s1 kTrapDivByZero zb ze True (control s) \<and>
     control s1 = zb + 2 \<and> effect s1 = effect s \<and>
     length (nodes s) \<le> zb \<and> zb + 3 \<le> length (nodes s1) \<and>
     is_node s1 (ze - 1) (Int64Constant 0) [] \<and>
     is_node s1 ze (W64 Word64Equal) [right, ze - 1]"
    by auto
  define L1 where "L1 = length (nodes s1)"
  let ?new = "[\<lparr>node_op = Int64Constant (- 1), node_inputs = []\<rparr>,
               \<lparr>node_op = W64 Word64Equal, node_inputs = [right, L1]\<rparr>,
               \<lparr>node_op = Branch kNone, node_inputs = [L1 + 1, zb + 2]\<rparr>,
               \<lparr>node_op = IfTrue, node_inputs = [L1 + 2]\<rparr>,
               \<lparr>node_op = IfFalse, node_inputs = [L1 + 2]\<rparr>]"
  define s5 where "s5 = s1\<lparr>nodes := nodes s1 @ ?new, control := L1 + 3\<rparr>"
  have n5: "nodes s5 = nodes s1 @ ?new" and f5: "traps s5 = traps s1" "effects s5 = effects s1"
    "graph_end s5 = graph_end s1" "graph_start s5 = graph_start s1" "target s5 = target s1"
    "module s5 = module s1" "control s5 = L1 + 3" "effect s5 = effect s1"
    by (simp_all add: s5_def)
  have wf1: "builder_wf s1" and e01: "builder_extends s s1" using Z by simp_all
  have e15: "builder_extends s1 s5"
    using wf1 n5 f5(1) f5(2) f5(4) f5(5) f5(6) by (rule builder_extends_append)
  have e05: "builder_extends s s5" using e01 e15 by (rule builder_extends_trans)
  have cl5: "Int64Matcher s5 left = Some v"
    using cl(1) Int64Matcher_extends [OF e05 l] by simp
  have U1: "TrapIfEq64 kTrapDivUnrepresentable left kMinInt64 s5 = Some (graph_start s5, s5)"
    using cl5 cl(2) by (rule TrapIfEq64_folded)
  let ?fin = "?new @ [\<lparr>node_op = W64 Int64Div, node_inputs = [left, right, zb + 2]\<rparr>]"
  define s' where "s' = s1\<lparr>nodes := nodes s1 @ ?fin, control := zb + 2\<rparr>"
  have n': "nodes s' = nodes s1 @ ?fin" and f': "traps s' = traps s1" "effects s' = effects s1"
    "graph_end s' = graph_end s1" "graph_start s' = graph_start s1" "target s' = target s1"
    "module s' = module s1" "control s' = zb + 2" "effect s' = effect s1"
    by (simp_all add: s'_def)
  have wf': "builder_wf s'"
    using wf1 n' f'(1) f'(2) f'(3) by (rule builder_wf_extend)
  have e1': "builder_extends s1 s'"
    using wf1 n' f'(1) f'(2) f'(4) f'(5) f'(6) by (rule builder_extends_append)
  have Z1: "ZeroCheck64 kTrapDivByZero right s = Some (zb + 2, s1)"
    using Z by (simp add: ZeroCheck64_def)
  have c1: "control s1 = zb + 2" using Z by simp
  have run: "Binop (I64 kExprI64DivS) left right s = Some (L1 + 5, s')"
    using U1 c1 unfolding s5_def s'_def L1_def
    by (simp add: Binop_I64DivS [OF w64] Z1 Int64Constant_node_def NewNode_def Branch_node_def Let_def
        eval_nat_numeral)
  have z': "trap_check s' kTrapDivByZero zb ze True (control s)"
    using Z e1' by (blast intro: trap_check_extends)
  have zc': "is_node s' (ze - 1) (Int64Constant 0) []"
    "is_node s' ze (W64 Word64Equal) [right, ze - 1]"
    using Z is_node_extends [OF _ _ e1'] by simp_all
  have m': "is_node s' L1 (Int64Constant (- 1)) []"
    "is_node s' (L1 + 1) (W64 Word64Equal) [right, L1]"
    "is_node s' (L1 + 2) (Branch kNone) [L1 + 1, zb + 2]"
    "is_node s' (L1 + 2 + 1) IfTrue [L1 + 2]"
    "is_node s' (L1 + 2 + 2) IfFalse [L1 + 2]"
    "is_node s' (L1 + 5) (W64 Int64Div) [left, right, zb + 2]"
    "L1 + 5 = L1 + 2 + 3" "length (nodes s') = L1 + 2 + 4"
    by (simp_all add: is_node_def n' L1_def nth_append)
  have Zrun: "TrapIfEq64 kTrapDivByZero right 0 s = Some (control s1, s1)" using Z by simp
  have o1: "traps s1 kTrapDivUnrepresentable = traps s kTrapDivUnrepresentable"
    "trap_inputs s1 kTrapDivUnrepresentable = trap_inputs s kTrapDivUnrepresentable"
    using TrapIfEq64_others [OF wf Zrun, of kTrapDivUnrepresentable] by simp_all
  have o': "traps s' kTrapDivUnrepresentable = traps s kTrapDivUnrepresentable"
    "trap_inputs s' kTrapDivUnrepresentable = trap_inputs s kTrapDivUnrepresentable"
    using o1 trap_inputs_extend(1) [OF wf1 n' f'(1) f'(2), of kTrapDivUnrepresentable] f'(1)
    by simp_all
  have ord: "length (nodes s) \<le> zb" "zb < L1 + 2" "effect s' = effect s"
    using Z f'(8) by (simp_all add: L1_def)
  from run wf' z' zc' m' f'(7) o' ord show ?thesis by blast
qed

text \<open>Zero check folded, second check made.\<close>

lemma Binop_I64DivS_divisor_constant:
  assumes wf: "builder_wf s" and w64: "WASM_64 (target s)"
    and l: "left < length (nodes s)" and r: "right < length (nodes s)"
    and cr: "Int64Matcher s right = Some v" "v \<noteq> 0"
    and nl: "Int64Matcher s left = None \<or> Int64Matcher s left = Some kMinInt64"
  shows "\<exists>d s' mb c eq2 ub mrg.
           Binop (I64 kExprI64DivS) left right s = Some (d, s') \<and> builder_wf s' \<and>
           mb = length (nodes s) + 2 \<and>
           is_node s' (length (nodes s)) (Int64Constant (- 1)) [] \<and>
           is_node s' (length (nodes s) + 1) (W64 Word64Equal) [right, length (nodes s)] \<and>
           is_node s' mb (Branch kNone) [length (nodes s) + 1, control s] \<and>
           is_node s' (mb + 1) IfTrue [mb] \<and>
           is_node s' (mb + 2) IfFalse [mb] \<and>
           is_node s' c (Int64Constant kMinInt64) [] \<and>
           is_node s' eq2 (W64 Word64Equal) [left, c] \<and>
           trap_check s' kTrapDivUnrepresentable ub eq2 True (mb + 1) \<and>
           is_node s' mrg (Merge 2) [mb + 2, ub + 2] \<and>
           is_node s' d (W64 Int64Div) [left, right, mrg] \<and>
           control s' = mrg \<and> effect s' = effect s \<and>
           traps s' kTrapDivByZero = traps s kTrapDivByZero \<and>
           trap_inputs s' kTrapDivByZero = trap_inputs s kTrapDivByZero \<and>
           mb < ub \<and> ub < mrg \<and> mrg < d"
proof -
  have Z1: "ZeroCheck64 kTrapDivByZero right s = Some (graph_start s, s)"
    unfolding ZeroCheck64_def using cr by (rule TrapIfEq64_folded)
  define L1 where "L1 = length (nodes s)"
  let ?new = "[\<lparr>node_op = Int64Constant (- 1), node_inputs = []\<rparr>,
               \<lparr>node_op = W64 Word64Equal, node_inputs = [right, L1]\<rparr>,
               \<lparr>node_op = Branch kNone, node_inputs = [L1 + 1, control s]\<rparr>,
               \<lparr>node_op = IfTrue, node_inputs = [L1 + 2]\<rparr>,
               \<lparr>node_op = IfFalse, node_inputs = [L1 + 2]\<rparr>]"
  define s5 where "s5 = s\<lparr>nodes := nodes s @ ?new, control := L1 + 3\<rparr>"
  have n5: "nodes s5 = nodes s @ ?new" and f5: "traps s5 = traps s" "effects s5 = effects s"
    "graph_end s5 = graph_end s" "graph_start s5 = graph_start s" "target s5 = target s"
    "module s5 = module s" "control s5 = L1 + 3" "effect s5 = effect s"
    by (simp_all add: s5_def)
  have wf5: "builder_wf s5"
    using wf n5 f5(1) f5(2) f5(3) by (rule builder_wf_extend)
  have e05: "builder_extends s s5"
    using wf n5 f5(1) f5(2) f5(4) f5(5) f5(6) by (rule builder_extends_append)
  have l5: "length (nodes s5) = L1 + 5" by (simp add: n5 L1_def)
  have nl5: "Int64Matcher s5 left = None \<or> Int64Matcher s5 left = Some kMinInt64"
    using nl Int64Matcher_extends [OF e05 l] by simp
  from TrapIfEq64_checked [OF wf5 nl5, of kTrapDivUnrepresentable]
  obtain s6 ub eq2 where U:
    "TrapIfEq64 kTrapDivUnrepresentable left kMinInt64 s5 = Some (control s6, s6) \<and>
     builder_wf s6 \<and> builder_extends s5 s6 \<and>
     trap_check s6 kTrapDivUnrepresentable ub eq2 True (L1 + 3) \<and>
     control s6 = ub + 2 \<and> effect s6 = effect s5 \<and>
     length (nodes s5) \<le> ub \<and> ub + 3 \<le> length (nodes s6) \<and>
     is_node s6 (eq2 - 1) (Int64Constant kMinInt64) [] \<and>
     is_node s6 eq2 (W64 Word64Equal) [left, eq2 - 1]"
    unfolding f5 by auto
  define L6 where "L6 = length (nodes s6)"
  let ?fin = "[\<lparr>node_op = Merge 2, node_inputs = [L1 + 4, ub + 2]\<rparr>,
               \<lparr>node_op = W64 Int64Div, node_inputs = [left, right, L6]\<rparr>]"
  define s' where "s' = s6\<lparr>nodes := nodes s6 @ ?fin, control := L6\<rparr>"
  have n': "nodes s' = nodes s6 @ ?fin" and f': "traps s' = traps s6" "effects s' = effects s6"
    "graph_end s' = graph_end s6" "graph_start s' = graph_start s6" "target s' = target s6"
    "module s' = module s6" "control s' = L6" "effect s' = effect s6"
    by (simp_all add: s'_def)
  have wf6: "builder_wf s6" and e56: "builder_extends s5 s6" using U by simp_all
  have wf': "builder_wf s'"
    using wf6 n' f'(1) f'(2) f'(3) by (rule builder_wf_extend)
  have e6': "builder_extends s6 s'"
    using wf6 n' f'(1) f'(2) f'(4) f'(5) f'(6) by (rule builder_extends_append)
  have e5': "builder_extends s5 s'" using e56 e6' by (rule builder_extends_trans)
  have U1: "TrapIfEq64 kTrapDivUnrepresentable left kMinInt64 s5 = Some (ub + 2, s6)"
    and U2: "control s6 = ub + 2"
    using U by simp_all
  have ne: "ub + 2 \<noteq> length (nodes s) + 3" using U l5 by (simp add: L1_def)
  have run: "Binop (I64 kExprI64DivS) left right s = Some (L6 + 1, s')"
    using U1 U2 ne unfolding s5_def s'_def L6_def L1_def
    by (simp add: Binop_I64DivS [OF w64] Z1 Int64Constant_node_def NewNode_def Branch_node_def Let_def
        eval_nat_numeral)
  have u': "trap_check s' kTrapDivUnrepresentable ub eq2 True (L1 + 3)"
    using U e6' by (blast intro: trap_check_extends)
  have m5: "is_node s5 L1 (Int64Constant (- 1)) []"
    "is_node s5 (L1 + 1) (W64 Word64Equal) [right, L1]"
    "is_node s5 (L1 + 2) (Branch kNone) [L1 + 1, control s]"
    "is_node s5 (L1 + 3) IfTrue [L1 + 2]"
    "is_node s5 (L1 + 4) IfFalse [L1 + 2]"
    by (simp_all add: is_node_def n5 L1_def nth_append)
  have m': "is_node s' L1 (Int64Constant (- 1)) []"
    "is_node s' (L1 + 1) (W64 Word64Equal) [right, L1]"
    "is_node s' (L1 + 2) (Branch kNone) [L1 + 1, control s]"
    "is_node s' (L1 + 2 + 1) IfTrue [L1 + 2]"
    "is_node s' (L1 + 2 + 2) IfFalse [L1 + 2]"
    using m5 [THEN is_node_extends, OF _ e5'] by (simp_all add: eval_nat_numeral)
  have c': "is_node s' (eq2 - 1) (Int64Constant kMinInt64) []"
    "is_node s' eq2 (W64 Word64Equal) [left, eq2 - 1]"
    using U is_node_extends [OF _ _ e6'] by simp_all
  have fin: "is_node s' L6 (Merge 2) [L1 + 2 + 2, ub + 2]"
    "is_node s' (L6 + 1) (W64 Int64Div) [left, right, L6]"
    by (simp_all add: is_node_def n' L6_def nth_append)
  have ord: "L1 + 2 < ub" "ub < L6" "L6 < L6 + 1"
    using U l5 by (simp_all add: L6_def)
  have eff: "effect s' = effect s" using U f5 f' by simp
  have u'': "trap_check s' kTrapDivUnrepresentable ub eq2 True (L1 + 2 + 1)"
    using u' by (simp add: eval_nat_numeral)
  have Urun: "TrapIfEq64 kTrapDivUnrepresentable left kMinInt64 s5 = Some (control s6, s6)"
    using U by simp
  have o5: "trap_inputs s5 kTrapDivByZero = trap_inputs s kTrapDivByZero"
    using trap_inputs_extend(1) [OF wf n5 f5(1) f5(2)] .
  have o6: "traps s6 kTrapDivByZero = traps s kTrapDivByZero"
    "trap_inputs s6 kTrapDivByZero = trap_inputs s kTrapDivByZero"
    using TrapIfEq64_others [OF wf5 Urun, of kTrapDivByZero] o5 f5(1) by simp_all
  have o': "traps s' kTrapDivByZero = traps s kTrapDivByZero"
    "trap_inputs s' kTrapDivByZero = trap_inputs s kTrapDivByZero"
    using o6 trap_inputs_extend(1) [OF wf6 n' f'(1) f'(2), of kTrapDivByZero] f'(1)
    by simp_all
  have mb: "L1 + 2 = length (nodes s) + 2" by (simp add: L1_def)
  from run wf' m' c' u'' fin f'(7) eff o' ord mb show ?thesis
    unfolding L1_def by blast
qed

text \<open>Both checks folded.\<close>

lemma Binop_I64DivS_both_constant:
  assumes w64: "WASM_64 (target s)"
    and cr: "Int64Matcher s right = Some v" "v \<noteq> 0"
    and cl: "Int64Matcher s left = Some w" "w \<noteq> kMinInt64"
  shows "Binop (I64 kExprI64DivS) left right s =
           Some (length (nodes s) + 5,
                 s\<lparr>nodes := nodes s @
                    [\<lparr>node_op = Int64Constant (- 1), node_inputs = []\<rparr>,
                     \<lparr>node_op = W64 Word64Equal, node_inputs = [right, length (nodes s)]\<rparr>,
                     \<lparr>node_op = Branch kNone,
                        node_inputs = [length (nodes s) + 1, control s]\<rparr>,
                     \<lparr>node_op = IfTrue, node_inputs = [length (nodes s) + 2]\<rparr>,
                     \<lparr>node_op = IfFalse, node_inputs = [length (nodes s) + 2]\<rparr>,
                     \<lparr>node_op = W64 Int64Div, node_inputs = [left, right, control s]\<rparr>]\<rparr>)"
proof -
  have Z1: "ZeroCheck64 kTrapDivByZero right s = Some (graph_start s, s)"
    unfolding ZeroCheck64_def using cr by (rule TrapIfEq64_folded)
  let ?new = "[\<lparr>node_op = Int64Constant (- 1), node_inputs = []\<rparr>,
               \<lparr>node_op = W64 Word64Equal, node_inputs = [right, length (nodes s)]\<rparr>,
               \<lparr>node_op = Branch kNone, node_inputs = [length (nodes s) + 1, control s]\<rparr>,
               \<lparr>node_op = IfTrue, node_inputs = [length (nodes s) + 2]\<rparr>,
               \<lparr>node_op = IfFalse, node_inputs = [length (nodes s) + 2]\<rparr>]"
  define s5 where "s5 = s\<lparr>nodes := nodes s @ ?new, control := length (nodes s) + 3\<rparr>"
  have "left < length (nodes s)"
    using cl(1) by (simp add: Int64Matcher_def split: if_splits)
  then have cl5: "Int64Matcher s5 left = Some w"
    using cl(1) by (simp add: Int64Matcher_def s5_def nth_append)
  have U1: "TrapIfEq64 kTrapDivUnrepresentable left kMinInt64 s5 = Some (graph_start s5, s5)"
    using cl5 cl(2) by (rule TrapIfEq64_folded)
  show ?thesis
    using U1 unfolding s5_def
    by (simp add: Binop_I64DivS [OF w64] Z1 Int64Constant_node_def NewNode_def Branch_node_def Let_def
        eval_nat_numeral)
qed

lemma direct_control_dominated:
  assumes d: "is_node s d opr [left, right, p]"
    and w: "(\<exists>w. opr = W32 w) \<or> (\<exists>w. opr = W64 w)"
  shows "control_paths_pass s p 1 d"
proof -
  have "control_paths_pass s p (Suc 0) d"
    using d by (rule control_paths_pass_step) (use w in \<open>auto simp add: control_inputs_def\<close>)
  then show ?thesis by simp
qed

text \<open>
  C2. Signed division (\<open>kExprI32DivS\<close>, and \<open>kExprI64DivS\<close> on a 64-bit target) on a
  well-formed builder, for operands that are nodes of the graph. \<open>Binop\<close> returns in each
  of four cases, set apart by what the constant matcher finds in the two operands.

  Both checks made (the divisor is not a constant other than 0, the dividend is not a
  constant other than the least integer). The graph then holds: a check with reason
  \<open>kTrapDivByZero\<close> under the old control that fires when the divisor is 0 (32 bits: a
  branch on the divisor itself that traps on its false side; 64 bits: a branch on the
  comparison of the divisor with 0 that traps on its true side); a branch on the
  comparison of the divisor with -1 under the side of that check that goes on; on the
  true side of this branch a check with reason \<open>kTrapDivUnrepresentable\<close> that fires when
  the dividend equals the least integer; and the division, whose control input is the
  merge of the false side of the branch with the side of the second check that goes on.
  Every one of these nodes is made before the division node, and every control path back
  from the division comes to the zero check's projection.

  Second check left out (the dividend is a constant other than the least integer). The
  zero check and the branch on the comparison with -1 are made as before, no trap block
  and no trap input of \<open>kTrapDivUnrepresentable\<close> is added, and the division is the last
  node made; its control input is the side of the zero check that goes on.

  Zero check left out (the divisor is a constant other than 0). No trap block and no trap
  input of \<open>kTrapDivByZero\<close> is added; the branch on the comparison with -1 is under the
  old control, the second check is on its true side, the division is under the merge, and
  every control path back from the division comes to the old control.

  Both left out. The builder gains exactly six nodes and changes in nothing else: the
  constant -1, the comparison, the branch under the old control, its two projections, and
  the division, whose control input is the old control.
\<close>

theorem Binop_DivS_checks:
  assumes wf: "builder_wf s"
    and l: "left < length (nodes s)" and r: "right < length (nodes s)"
  shows "((Int32Matcher s right = None \<or> Int32Matcher s right = Some 0) \<and>
          (Int32Matcher s left = None \<or> Int32Matcher s left = Some kMinInt) \<longrightarrow>
          (\<exists>d s' zb m1 eq mb c eq2 ub mrg.
             Binop (I32 kExprI32DivS) left right s = Some (d, s') \<and>
             trap_check s' kTrapDivByZero zb right False (control s) \<and>
             is_node s' m1 (Int32Constant (- 1)) [] \<and>
             is_node s' eq (W32 Word32Equal) [right, m1] \<and>
             is_node s' mb (Branch kNone) [eq, zb + 1] \<and>
             is_node s' (mb + 1) IfTrue [mb] \<and>
             is_node s' (mb + 2) IfFalse [mb] \<and>
             is_node s' c (Int32Constant kMinInt) [] \<and>
             is_node s' eq2 (W32 Word32Equal) [left, c] \<and>
             trap_check s' kTrapDivUnrepresentable ub eq2 True (mb + 1) \<and>
             is_node s' mrg (Merge 2) [mb + 2, ub + 2] \<and>
             is_node s' d (W32 Int32Div) [left, right, mrg] \<and>
             control_paths_pass s' (zb + 1) 6 d \<and>
             length (nodes s) \<le> zb \<and> zb < mb \<and> mb < ub \<and> ub < d)) \<and>
         ((Int32Matcher s right = None \<or> Int32Matcher s right = Some 0) \<and>
          Int32Matcher s left = Some w \<and> w \<noteq> kMinInt \<longrightarrow>
          (\<exists>d s' zb m1 eq mb.
             Binop (I32 kExprI32DivS) left right s = Some (d, s') \<and>
             trap_check s' kTrapDivByZero zb right False (control s) \<and>
             is_node s' m1 (Int32Constant (- 1)) [] \<and>
             is_node s' eq (W32 Word32Equal) [right, m1] \<and>
             is_node s' mb (Branch kNone) [eq, zb + 1] \<and>
             is_node s' (mb + 1) IfTrue [mb] \<and>
             is_node s' (mb + 2) IfFalse [mb] \<and>
             d = mb + 3 \<and> length (nodes s') = mb + 4 \<and>
             is_node s' d (W32 Int32Div) [left, right, zb + 1] \<and>
             control_paths_pass s' (zb + 1) 1 d \<and>
             traps s' kTrapDivUnrepresentable = traps s kTrapDivUnrepresentable \<and>
             trap_inputs s' kTrapDivUnrepresentable = trap_inputs s kTrapDivUnrepresentable \<and>
             length (nodes s) \<le> zb \<and> zb < mb)) \<and>
         (Int32Matcher s right = Some v \<and> v \<noteq> 0 \<and>
          (Int32Matcher s left = None \<or> Int32Matcher s left = Some kMinInt) \<longrightarrow>
          (\<exists>d s' mb c eq2 ub mrg.
             Binop (I32 kExprI32DivS) left right s = Some (d, s') \<and>
             mb = length (nodes s) + 2 \<and>
             is_node s' (length (nodes s)) (Int32Constant (- 1)) [] \<and>
             is_node s' (length (nodes s) + 1) (W32 Word32Equal) [right, length (nodes s)] \<and>
             is_node s' mb (Branch kNone) [length (nodes s) + 1, control s] \<and>
             is_node s' (mb + 1) IfTrue [mb] \<and>
             is_node s' (mb + 2) IfFalse [mb] \<and>
             is_node s' c (Int32Constant kMinInt) [] \<and>
             is_node s' eq2 (W32 Word32Equal) [left, c] \<and>
             trap_check s' kTrapDivUnrepresentable ub eq2 True (mb + 1) \<and>
             is_node s' mrg (Merge 2) [mb + 2, ub + 2] \<and>
             is_node s' d (W32 Int32Div) [left, right, mrg] \<and>
             control_paths_pass s' (control s) 6 d \<and>
             traps s' kTrapDivByZero = traps s kTrapDivByZero \<and>
             trap_inputs s' kTrapDivByZero = trap_inputs s kTrapDivByZero \<and>
             mb < ub \<and> ub < d)) \<and>
         (Int32Matcher s right = Some v \<and> v \<noteq> 0 \<and>
          Int32Matcher s left = Some w \<and> w \<noteq> kMinInt \<longrightarrow>
          Binop (I32 kExprI32DivS) left right s =
             Some (length (nodes s) + 5,
                   s\<lparr>nodes := nodes s @
                      [\<lparr>node_op = Int32Constant (- 1), node_inputs = []\<rparr>,
                       \<lparr>node_op = W32 Word32Equal, node_inputs = [right, length (nodes s)]\<rparr>,
                       \<lparr>node_op = Branch kNone,
                          node_inputs = [length (nodes s) + 1, control s]\<rparr>,
                       \<lparr>node_op = IfTrue, node_inputs = [length (nodes s) + 2]\<rparr>,
                       \<lparr>node_op = IfFalse, node_inputs = [length (nodes s) + 2]\<rparr>,
                       \<lparr>node_op = W32 Int32Div, node_inputs = [left, right, control s]\<rparr>]\<rparr>)) \<and>
         (WASM_64 (target s) \<and>
          (Int64Matcher s right = None \<or> Int64Matcher s right = Some 0) \<and>
          (Int64Matcher s left = None \<or> Int64Matcher s left = Some kMinInt64) \<longrightarrow>
          (\<exists>d s' zc ze zb m1 eq mb c eq2 ub mrg.
             Binop (I64 kExprI64DivS) left right s = Some (d, s') \<and>
             is_node s' zc (Int64Constant 0) [] \<and>
             is_node s' ze (W64 Word64Equal) [right, zc] \<and>
             trap_check s' kTrapDivByZero zb ze True (control s) \<and>
             is_node s' m1 (Int64Constant (- 1)) [] \<and>
             is_node s' eq (W64 Word64Equal) [right, m1] \<and>
             is_node s' mb (Branch kNone) [eq, zb + 2] \<and>
             is_node s' (mb + 1) IfTrue [mb] \<and>
             is_node s' (mb + 2) IfFalse [mb] \<and>
             is_node s' c (Int64Constant kMinInt64) [] \<and>
             is_node s' eq2 (W64 Word64Equal) [left, c] \<and>
             trap_check s' kTrapDivUnrepresentable ub eq2 True (mb + 1) \<and>
             is_node s' mrg (Merge 2) [mb + 2, ub + 2] \<and>
             is_node s' d (W64 Int64Div) [left, right, mrg] \<and>
             control_paths_pass s' (zb + 2) 6 d \<and>
             length (nodes s) \<le> zb \<and> zb < mb \<and> mb < ub \<and> ub < d)) \<and>
         (WASM_64 (target s) \<and>
          (Int64Matcher s right = None \<or> Int64Matcher s right = Some 0) \<and>
          Int64Matcher s left = Some y \<and> y \<noteq> kMinInt64 \<longrightarrow>
          (\<exists>d s' zc ze zb m1 eq mb.
             Binop (I64 kExprI64DivS) left right s = Some (d, s') \<and>
             is_node s' zc (Int64Constant 0) [] \<and>
             is_node s' ze (W64 Word64Equal) [right, zc] \<and>
             trap_check s' kTrapDivByZero zb ze True (control s) \<and>
             is_node s' m1 (Int64Constant (- 1)) [] \<and>
             is_node s' eq (W64 Word64Equal) [right, m1] \<and>
             is_node s' mb (Branch kNone) [eq, zb + 2] \<and>
             is_node s' (mb + 1) IfTrue [mb] \<and>
             is_node s' (mb + 2) IfFalse [mb] \<and>
             d = mb + 3 \<and> length (nodes s') = mb + 4 \<and>
             is_node s' d (W64 Int64Div) [left, right, zb + 2] \<and>
             control_paths_pass s' (zb + 2) 1 d \<and>
             traps s' kTrapDivUnrepresentable = traps s kTrapDivUnrepresentable \<and>
             trap_inputs s' kTrapDivUnrepresentable = trap_inputs s kTrapDivUnrepresentable \<and>
             length (nodes s) \<le> zb \<and> zb < mb)) \<and>
         (WASM_64 (target s) \<and>
          Int64Matcher s right = Some x \<and> x \<noteq> 0 \<and>
          (Int64Matcher s left = None \<or> Int64Matcher s left = Some kMinInt64) \<longrightarrow>
          (\<exists>d s' mb c eq2 ub mrg.
             Binop (I64 kExprI64DivS) left right s = Some (d, s') \<and>
             mb = length (nodes s) + 2 \<and>
             is_node s' (length (nodes s)) (Int64Constant (- 1)) [] \<and>
             is_node s' (length (nodes s) + 1) (W64 Word64Equal) [right, length (nodes s)] \<and>
             is_node s' mb (Branch kNone) [length (nodes s) + 1, control s] \<and>
             is_node s' (mb + 1) IfTrue [mb] \<and>
             is_node s' (mb + 2) IfFalse [mb] \<and>
             is_node s' c (Int64Constant kMinInt64) [] \<and>
             is_node s' eq2 (W64 Word64Equal) [left, c] \<and>
             trap_check s' kTrapDivUnrepresentable ub eq2 True (mb + 1) \<and>
             is_node s' mrg (Merge 2) [mb + 2, ub + 2] \<and>
             is_node s' d (W64 Int64Div) [left, right, mrg] \<and>
             control_paths_pass s' (control s) 6 d \<and>
             traps s' kTrapDivByZero = traps s kTrapDivByZero \<and>
             trap_inputs s' kTrapDivByZero = trap_inputs s kTrapDivByZero \<and>
             mb < ub \<and> ub < d)) \<and>
         (WASM_64 (target s) \<and>
          Int64Matcher s right = Some x \<and> x \<noteq> 0 \<and>
          Int64Matcher s left = Some y \<and> y \<noteq> kMinInt64 \<longrightarrow>
          Binop (I64 kExprI64DivS) left right s =
             Some (length (nodes s) + 5,
                   s\<lparr>nodes := nodes s @
                      [\<lparr>node_op = Int64Constant (- 1), node_inputs = []\<rparr>,
                       \<lparr>node_op = W64 Word64Equal, node_inputs = [right, length (nodes s)]\<rparr>,
                       \<lparr>node_op = Branch kNone,
                          node_inputs = [length (nodes s) + 1, control s]\<rparr>,
                       \<lparr>node_op = IfTrue, node_inputs = [length (nodes s) + 2]\<rparr>,
                       \<lparr>node_op = IfFalse, node_inputs = [length (nodes s) + 2]\<rparr>,
                       \<lparr>node_op = W64 Int64Div, node_inputs = [left, right, control s]\<rparr>]\<rparr>))"
proof -
  have A32: "(Int32Matcher s right = None \<or> Int32Matcher s right = Some 0) \<and>
          (Int32Matcher s left = None \<or> Int32Matcher s left = Some kMinInt) \<longrightarrow>
          (\<exists>d s' zb m1 eq mb c eq2 ub mrg.
             Binop (I32 kExprI32DivS) left right s = Some (d, s') \<and>
             trap_check s' kTrapDivByZero zb right False (control s) \<and>
             is_node s' m1 (Int32Constant (- 1)) [] \<and>
             is_node s' eq (W32 Word32Equal) [right, m1] \<and>
             is_node s' mb (Branch kNone) [eq, zb + 1] \<and>
             is_node s' (mb + 1) IfTrue [mb] \<and>
             is_node s' (mb + 2) IfFalse [mb] \<and>
             is_node s' c (Int32Constant kMinInt) [] \<and>
             is_node s' eq2 (W32 Word32Equal) [left, c] \<and>
             trap_check s' kTrapDivUnrepresentable ub eq2 True (mb + 1) \<and>
             is_node s' mrg (Merge 2) [mb + 2, ub + 2] \<and>
             is_node s' d (W32 Int32Div) [left, right, mrg] \<and>
             control_paths_pass s' (zb + 1) 6 d \<and>
             length (nodes s) \<le> zb \<and> zb < mb \<and> mb < ub \<and> ub < d)"
  proof
    assume a: "(Int32Matcher s right = None \<or> Int32Matcher s right = Some 0) \<and>
          (Int32Matcher s left = None \<or> Int32Matcher s left = Some kMinInt)"
    from a Binop_I32DivS_checked [OF wf l r]
    obtain d s' zb m1 eq mb c eq2 ub mrg where H:
      "Binop (I32 kExprI32DivS) left right s = Some (d, s')"
      "trap_check s' kTrapDivByZero zb right False (control s)"
      "is_node s' m1 (Int32Constant (- 1)) []"
      "is_node s' eq (W32 Word32Equal) [right, m1]"
      "is_node s' mb (Branch kNone) [eq, zb + 1]"
      "is_node s' (mb + 1) IfTrue [mb]"
      "is_node s' (mb + 2) IfFalse [mb]"
      "is_node s' c (Int32Constant kMinInt) []"
      "is_node s' eq2 (W32 Word32Equal) [left, c]"
      "trap_check s' kTrapDivUnrepresentable ub eq2 True (mb + 1)"
      "is_node s' mrg (Merge 2) [mb + 2, ub + 2]"
      "is_node s' d (W32 Int32Div) [left, right, mrg]"
      "length (nodes s) \<le> zb"
      "zb < mb"
      "mb < ub"
      "ub < mrg"
      "mrg < d"
      by blast
    have dom: "control_paths_pass s' (zb + 1) 6 d"
      using H(5) H(6) H(7) H(10) H(11) H(12) by (rule guarded_division_dominated) simp
    from H have "ub < d" by simp
    with H dom show "(\<exists>d s' zb m1 eq mb c eq2 ub mrg.
             Binop (I32 kExprI32DivS) left right s = Some (d, s') \<and>
             trap_check s' kTrapDivByZero zb right False (control s) \<and>
             is_node s' m1 (Int32Constant (- 1)) [] \<and>
             is_node s' eq (W32 Word32Equal) [right, m1] \<and>
             is_node s' mb (Branch kNone) [eq, zb + 1] \<and>
             is_node s' (mb + 1) IfTrue [mb] \<and>
             is_node s' (mb + 2) IfFalse [mb] \<and>
             is_node s' c (Int32Constant kMinInt) [] \<and>
             is_node s' eq2 (W32 Word32Equal) [left, c] \<and>
             trap_check s' kTrapDivUnrepresentable ub eq2 True (mb + 1) \<and>
             is_node s' mrg (Merge 2) [mb + 2, ub + 2] \<and>
             is_node s' d (W32 Int32Div) [left, right, mrg] \<and>
             control_paths_pass s' (zb + 1) 6 d \<and>
             length (nodes s) \<le> zb \<and> zb < mb \<and> mb < ub \<and> ub < d)"
      by blast
  qed
  have B32: "(Int32Matcher s right = None \<or> Int32Matcher s right = Some 0) \<and>
          Int32Matcher s left = Some w \<and> w \<noteq> kMinInt \<longrightarrow>
          (\<exists>d s' zb m1 eq mb.
             Binop (I32 kExprI32DivS) left right s = Some (d, s') \<and>
             trap_check s' kTrapDivByZero zb right False (control s) \<and>
             is_node s' m1 (Int32Constant (- 1)) [] \<and>
             is_node s' eq (W32 Word32Equal) [right, m1] \<and>
             is_node s' mb (Branch kNone) [eq, zb + 1] \<and>
             is_node s' (mb + 1) IfTrue [mb] \<and>
             is_node s' (mb + 2) IfFalse [mb] \<and>
             d = mb + 3 \<and> length (nodes s') = mb + 4 \<and>
             is_node s' d (W32 Int32Div) [left, right, zb + 1] \<and>
             control_paths_pass s' (zb + 1) 1 d \<and>
             traps s' kTrapDivUnrepresentable = traps s kTrapDivUnrepresentable \<and>
             trap_inputs s' kTrapDivUnrepresentable = trap_inputs s kTrapDivUnrepresentable \<and>
             length (nodes s) \<le> zb \<and> zb < mb)"
  proof
    assume a: "(Int32Matcher s right = None \<or> Int32Matcher s right = Some 0) \<and>
          Int32Matcher s left = Some w \<and> w \<noteq> kMinInt"
    from a Binop_I32DivS_dividend_constant [OF wf l r]
    obtain d s' zb m1 eq mb where H:
      "Binop (I32 kExprI32DivS) left right s = Some (d, s')"
      "trap_check s' kTrapDivByZero zb right False (control s)"
      "is_node s' m1 (Int32Constant (- 1)) []"
      "is_node s' eq (W32 Word32Equal) [right, m1]"
      "is_node s' mb (Branch kNone) [eq, zb + 1]"
      "is_node s' (mb + 1) IfTrue [mb]"
      "is_node s' (mb + 2) IfFalse [mb]"
      "d = mb + 3"
      "length (nodes s') = mb + 4"
      "is_node s' d (W32 Int32Div) [left, right, zb + 1]"
      "traps s' kTrapDivUnrepresentable = traps s kTrapDivUnrepresentable"
      "trap_inputs s' kTrapDivUnrepresentable = trap_inputs s kTrapDivUnrepresentable"
      "length (nodes s) \<le> zb"
      "zb < mb"
      by blast
    have dom: "control_paths_pass s' (zb + 1) 1 d"
      using H(10) by (rule direct_control_dominated) simp
    from H dom show "(\<exists>d s' zb m1 eq mb.
             Binop (I32 kExprI32DivS) left right s = Some (d, s') \<and>
             trap_check s' kTrapDivByZero zb right False (control s) \<and>
             is_node s' m1 (Int32Constant (- 1)) [] \<and>
             is_node s' eq (W32 Word32Equal) [right, m1] \<and>
             is_node s' mb (Branch kNone) [eq, zb + 1] \<and>
             is_node s' (mb + 1) IfTrue [mb] \<and>
             is_node s' (mb + 2) IfFalse [mb] \<and>
             d = mb + 3 \<and> length (nodes s') = mb + 4 \<and>
             is_node s' d (W32 Int32Div) [left, right, zb + 1] \<and>
             control_paths_pass s' (zb + 1) 1 d \<and>
             traps s' kTrapDivUnrepresentable = traps s kTrapDivUnrepresentable \<and>
             trap_inputs s' kTrapDivUnrepresentable = trap_inputs s kTrapDivUnrepresentable \<and>
             length (nodes s) \<le> zb \<and> zb < mb)"
      by blast
  qed
  have C32: "Int32Matcher s right = Some v \<and> v \<noteq> 0 \<and>
          (Int32Matcher s left = None \<or> Int32Matcher s left = Some kMinInt) \<longrightarrow>
          (\<exists>d s' mb c eq2 ub mrg.
             Binop (I32 kExprI32DivS) left right s = Some (d, s') \<and>
             mb = length (nodes s) + 2 \<and>
             is_node s' (length (nodes s)) (Int32Constant (- 1)) [] \<and>
             is_node s' (length (nodes s) + 1) (W32 Word32Equal) [right, length (nodes s)] \<and>
             is_node s' mb (Branch kNone) [length (nodes s) + 1, control s] \<and>
             is_node s' (mb + 1) IfTrue [mb] \<and>
             is_node s' (mb + 2) IfFalse [mb] \<and>
             is_node s' c (Int32Constant kMinInt) [] \<and>
             is_node s' eq2 (W32 Word32Equal) [left, c] \<and>
             trap_check s' kTrapDivUnrepresentable ub eq2 True (mb + 1) \<and>
             is_node s' mrg (Merge 2) [mb + 2, ub + 2] \<and>
             is_node s' d (W32 Int32Div) [left, right, mrg] \<and>
             control_paths_pass s' (control s) 6 d \<and>
             traps s' kTrapDivByZero = traps s kTrapDivByZero \<and>
             trap_inputs s' kTrapDivByZero = trap_inputs s kTrapDivByZero \<and>
             mb < ub \<and> ub < d)"
  proof
    assume a: "Int32Matcher s right = Some v \<and> v \<noteq> 0 \<and>
          (Int32Matcher s left = None \<or> Int32Matcher s left = Some kMinInt)"
    from a Binop_I32DivS_divisor_constant [OF wf l r]
    obtain d s' mb c eq2 ub mrg where H:
      "Binop (I32 kExprI32DivS) left right s = Some (d, s')"
      "mb = length (nodes s) + 2"
      "is_node s' (length (nodes s)) (Int32Constant (- 1)) []"
      "is_node s' (length (nodes s) + 1) (W32 Word32Equal) [right, length (nodes s)]"
      "is_node s' mb (Branch kNone) [length (nodes s) + 1, control s]"
      "is_node s' (mb + 1) IfTrue [mb]"
      "is_node s' (mb + 2) IfFalse [mb]"
      "is_node s' c (Int32Constant kMinInt) []"
      "is_node s' eq2 (W32 Word32Equal) [left, c]"
      "trap_check s' kTrapDivUnrepresentable ub eq2 True (mb + 1)"
      "is_node s' mrg (Merge 2) [mb + 2, ub + 2]"
      "is_node s' d (W32 Int32Div) [left, right, mrg]"
      "traps s' kTrapDivByZero = traps s kTrapDivByZero"
      "trap_inputs s' kTrapDivByZero = trap_inputs s kTrapDivByZero"
      "mb < ub"
      "ub < mrg"
      "mrg < d"
      by blast
    have dom: "control_paths_pass s' (control s) 6 d"
      using H(5) H(6) H(7) H(10) H(11) H(12) by (rule guarded_division_dominated) simp
    from H have "ub < d" by simp
    with H dom show "(\<exists>d s' mb c eq2 ub mrg.
             Binop (I32 kExprI32DivS) left right s = Some (d, s') \<and>
             mb = length (nodes s) + 2 \<and>
             is_node s' (length (nodes s)) (Int32Constant (- 1)) [] \<and>
             is_node s' (length (nodes s) + 1) (W32 Word32Equal) [right, length (nodes s)] \<and>
             is_node s' mb (Branch kNone) [length (nodes s) + 1, control s] \<and>
             is_node s' (mb + 1) IfTrue [mb] \<and>
             is_node s' (mb + 2) IfFalse [mb] \<and>
             is_node s' c (Int32Constant kMinInt) [] \<and>
             is_node s' eq2 (W32 Word32Equal) [left, c] \<and>
             trap_check s' kTrapDivUnrepresentable ub eq2 True (mb + 1) \<and>
             is_node s' mrg (Merge 2) [mb + 2, ub + 2] \<and>
             is_node s' d (W32 Int32Div) [left, right, mrg] \<and>
             control_paths_pass s' (control s) 6 d \<and>
             traps s' kTrapDivByZero = traps s kTrapDivByZero \<and>
             trap_inputs s' kTrapDivByZero = trap_inputs s kTrapDivByZero \<and>
             mb < ub \<and> ub < d)"
      by blast
  qed
  have D32: "Int32Matcher s right = Some v \<and> v \<noteq> 0 \<and>
          Int32Matcher s left = Some w \<and> w \<noteq> kMinInt \<longrightarrow>
          Binop (I32 kExprI32DivS) left right s =
             Some (length (nodes s) + 5,
                   s\<lparr>nodes := nodes s @
                      [\<lparr>node_op = Int32Constant (- 1), node_inputs = []\<rparr>,
                       \<lparr>node_op = W32 Word32Equal, node_inputs = [right, length (nodes s)]\<rparr>,
                       \<lparr>node_op = Branch kNone,
                          node_inputs = [length (nodes s) + 1, control s]\<rparr>,
                       \<lparr>node_op = IfTrue, node_inputs = [length (nodes s) + 2]\<rparr>,
                       \<lparr>node_op = IfFalse, node_inputs = [length (nodes s) + 2]\<rparr>,
                       \<lparr>node_op = W32 Int32Div, node_inputs = [left, right, control s]\<rparr>]\<rparr>)"
  proof
    assume a: "Int32Matcher s right = Some v \<and> v \<noteq> 0 \<and>
          Int32Matcher s left = Some w \<and> w \<noteq> kMinInt"
    from a show "Binop (I32 kExprI32DivS) left right s =
             Some (length (nodes s) + 5,
                   s\<lparr>nodes := nodes s @
                      [\<lparr>node_op = Int32Constant (- 1), node_inputs = []\<rparr>,
                       \<lparr>node_op = W32 Word32Equal, node_inputs = [right, length (nodes s)]\<rparr>,
                       \<lparr>node_op = Branch kNone,
                          node_inputs = [length (nodes s) + 1, control s]\<rparr>,
                       \<lparr>node_op = IfTrue, node_inputs = [length (nodes s) + 2]\<rparr>,
                       \<lparr>node_op = IfFalse, node_inputs = [length (nodes s) + 2]\<rparr>,
                       \<lparr>node_op = W32 Int32Div, node_inputs = [left, right, control s]\<rparr>]\<rparr>)"
      by (elim conjE) (rule Binop_I32DivS_both_constant; assumption)
  qed
  have A64: "WASM_64 (target s) \<and>
          (Int64Matcher s right = None \<or> Int64Matcher s right = Some 0) \<and>
          (Int64Matcher s left = None \<or> Int64Matcher s left = Some kMinInt64) \<longrightarrow>
          (\<exists>d s' zc ze zb m1 eq mb c eq2 ub mrg.
             Binop (I64 kExprI64DivS) left right s = Some (d, s') \<and>
             is_node s' zc (Int64Constant 0) [] \<and>
             is_node s' ze (W64 Word64Equal) [right, zc] \<and>
             trap_check s' kTrapDivByZero zb ze True (control s) \<and>
             is_node s' m1 (Int64Constant (- 1)) [] \<and>
             is_node s' eq (W64 Word64Equal) [right, m1] \<and>
             is_node s' mb (Branch kNone) [eq, zb + 2] \<and>
             is_node s' (mb + 1) IfTrue [mb] \<and>
             is_node s' (mb + 2) IfFalse [mb] \<and>
             is_node s' c (Int64Constant kMinInt64) [] \<and>
             is_node s' eq2 (W64 Word64Equal) [left, c] \<and>
             trap_check s' kTrapDivUnrepresentable ub eq2 True (mb + 1) \<and>
             is_node s' mrg (Merge 2) [mb + 2, ub + 2] \<and>
             is_node s' d (W64 Int64Div) [left, right, mrg] \<and>
             control_paths_pass s' (zb + 2) 6 d \<and>
             length (nodes s) \<le> zb \<and> zb < mb \<and> mb < ub \<and> ub < d)"
  proof
    assume a: "WASM_64 (target s) \<and>
          (Int64Matcher s right = None \<or> Int64Matcher s right = Some 0) \<and>
          (Int64Matcher s left = None \<or> Int64Matcher s left = Some kMinInt64)"
    from a Binop_I64DivS_checked [OF wf _ l r]
    obtain d s' zc ze zb m1 eq mb c eq2 ub mrg where H:
      "Binop (I64 kExprI64DivS) left right s = Some (d, s')"
      "is_node s' zc (Int64Constant 0) []"
      "is_node s' ze (W64 Word64Equal) [right, zc]"
      "trap_check s' kTrapDivByZero zb ze True (control s)"
      "is_node s' m1 (Int64Constant (- 1)) []"
      "is_node s' eq (W64 Word64Equal) [right, m1]"
      "is_node s' mb (Branch kNone) [eq, zb + 2]"
      "is_node s' (mb + 1) IfTrue [mb]"
      "is_node s' (mb + 2) IfFalse [mb]"
      "is_node s' c (Int64Constant kMinInt64) []"
      "is_node s' eq2 (W64 Word64Equal) [left, c]"
      "trap_check s' kTrapDivUnrepresentable ub eq2 True (mb + 1)"
      "is_node s' mrg (Merge 2) [mb + 2, ub + 2]"
      "is_node s' d (W64 Int64Div) [left, right, mrg]"
      "length (nodes s) \<le> zb"
      "zb < mb"
      "mb < ub"
      "ub < mrg"
      "mrg < d"
      by blast
    have dom: "control_paths_pass s' (zb + 2) 6 d"
      using H(7) H(8) H(9) H(12) H(13) H(14) by (rule guarded_division_dominated) simp
    from H have "ub < d" by simp
    with H dom show "(\<exists>d s' zc ze zb m1 eq mb c eq2 ub mrg.
             Binop (I64 kExprI64DivS) left right s = Some (d, s') \<and>
             is_node s' zc (Int64Constant 0) [] \<and>
             is_node s' ze (W64 Word64Equal) [right, zc] \<and>
             trap_check s' kTrapDivByZero zb ze True (control s) \<and>
             is_node s' m1 (Int64Constant (- 1)) [] \<and>
             is_node s' eq (W64 Word64Equal) [right, m1] \<and>
             is_node s' mb (Branch kNone) [eq, zb + 2] \<and>
             is_node s' (mb + 1) IfTrue [mb] \<and>
             is_node s' (mb + 2) IfFalse [mb] \<and>
             is_node s' c (Int64Constant kMinInt64) [] \<and>
             is_node s' eq2 (W64 Word64Equal) [left, c] \<and>
             trap_check s' kTrapDivUnrepresentable ub eq2 True (mb + 1) \<and>
             is_node s' mrg (Merge 2) [mb + 2, ub + 2] \<and>
             is_node s' d (W64 Int64Div) [left, right, mrg] \<and>
             control_paths_pass s' (zb + 2) 6 d \<and>
             length (nodes s) \<le> zb \<and> zb < mb \<and> mb < ub \<and> ub < d)"
      by blast
  qed
  have B64: "WASM_64 (target s) \<and>
          (Int64Matcher s right = None \<or> Int64Matcher s right = Some 0) \<and>
          Int64Matcher s left = Some y \<and> y \<noteq> kMinInt64 \<longrightarrow>
          (\<exists>d s' zc ze zb m1 eq mb.
             Binop (I64 kExprI64DivS) left right s = Some (d, s') \<and>
             is_node s' zc (Int64Constant 0) [] \<and>
             is_node s' ze (W64 Word64Equal) [right, zc] \<and>
             trap_check s' kTrapDivByZero zb ze True (control s) \<and>
             is_node s' m1 (Int64Constant (- 1)) [] \<and>
             is_node s' eq (W64 Word64Equal) [right, m1] \<and>
             is_node s' mb (Branch kNone) [eq, zb + 2] \<and>
             is_node s' (mb + 1) IfTrue [mb] \<and>
             is_node s' (mb + 2) IfFalse [mb] \<and>
             d = mb + 3 \<and> length (nodes s') = mb + 4 \<and>
             is_node s' d (W64 Int64Div) [left, right, zb + 2] \<and>
             control_paths_pass s' (zb + 2) 1 d \<and>
             traps s' kTrapDivUnrepresentable = traps s kTrapDivUnrepresentable \<and>
             trap_inputs s' kTrapDivUnrepresentable = trap_inputs s kTrapDivUnrepresentable \<and>
             length (nodes s) \<le> zb \<and> zb < mb)"
  proof
    assume a: "WASM_64 (target s) \<and>
          (Int64Matcher s right = None \<or> Int64Matcher s right = Some 0) \<and>
          Int64Matcher s left = Some y \<and> y \<noteq> kMinInt64"
    from a Binop_I64DivS_dividend_constant [OF wf _ l r]
    obtain d s' zc ze zb m1 eq mb where H:
      "Binop (I64 kExprI64DivS) left right s = Some (d, s')"
      "is_node s' zc (Int64Constant 0) []"
      "is_node s' ze (W64 Word64Equal) [right, zc]"
      "trap_check s' kTrapDivByZero zb ze True (control s)"
      "is_node s' m1 (Int64Constant (- 1)) []"
      "is_node s' eq (W64 Word64Equal) [right, m1]"
      "is_node s' mb (Branch kNone) [eq, zb + 2]"
      "is_node s' (mb + 1) IfTrue [mb]"
      "is_node s' (mb + 2) IfFalse [mb]"
      "d = mb + 3"
      "length (nodes s') = mb + 4"
      "is_node s' d (W64 Int64Div) [left, right, zb + 2]"
      "traps s' kTrapDivUnrepresentable = traps s kTrapDivUnrepresentable"
      "trap_inputs s' kTrapDivUnrepresentable = trap_inputs s kTrapDivUnrepresentable"
      "length (nodes s) \<le> zb"
      "zb < mb"
      by blast
    have dom: "control_paths_pass s' (zb + 2) 1 d"
      using H(12) by (rule direct_control_dominated) simp
    from H dom show "(\<exists>d s' zc ze zb m1 eq mb.
             Binop (I64 kExprI64DivS) left right s = Some (d, s') \<and>
             is_node s' zc (Int64Constant 0) [] \<and>
             is_node s' ze (W64 Word64Equal) [right, zc] \<and>
             trap_check s' kTrapDivByZero zb ze True (control s) \<and>
             is_node s' m1 (Int64Constant (- 1)) [] \<and>
             is_node s' eq (W64 Word64Equal) [right, m1] \<and>
             is_node s' mb (Branch kNone) [eq, zb + 2] \<and>
             is_node s' (mb + 1) IfTrue [mb] \<and>
             is_node s' (mb + 2) IfFalse [mb] \<and>
             d = mb + 3 \<and> length (nodes s') = mb + 4 \<and>
             is_node s' d (W64 Int64Div) [left, right, zb + 2] \<and>
             control_paths_pass s' (zb + 2) 1 d \<and>
             traps s' kTrapDivUnrepresentable = traps s kTrapDivUnrepresentable \<and>
             trap_inputs s' kTrapDivUnrepresentable = trap_inputs s kTrapDivUnrepresentable \<and>
             length (nodes s) \<le> zb \<and> zb < mb)"
      by blast
  qed
  have C64: "WASM_64 (target s) \<and>
          Int64Matcher s right = Some x \<and> x \<noteq> 0 \<and>
          (Int64Matcher s left = None \<or> Int64Matcher s left = Some kMinInt64) \<longrightarrow>
          (\<exists>d s' mb c eq2 ub mrg.
             Binop (I64 kExprI64DivS) left right s = Some (d, s') \<and>
             mb = length (nodes s) + 2 \<and>
             is_node s' (length (nodes s)) (Int64Constant (- 1)) [] \<and>
             is_node s' (length (nodes s) + 1) (W64 Word64Equal) [right, length (nodes s)] \<and>
             is_node s' mb (Branch kNone) [length (nodes s) + 1, control s] \<and>
             is_node s' (mb + 1) IfTrue [mb] \<and>
             is_node s' (mb + 2) IfFalse [mb] \<and>
             is_node s' c (Int64Constant kMinInt64) [] \<and>
             is_node s' eq2 (W64 Word64Equal) [left, c] \<and>
             trap_check s' kTrapDivUnrepresentable ub eq2 True (mb + 1) \<and>
             is_node s' mrg (Merge 2) [mb + 2, ub + 2] \<and>
             is_node s' d (W64 Int64Div) [left, right, mrg] \<and>
             control_paths_pass s' (control s) 6 d \<and>
             traps s' kTrapDivByZero = traps s kTrapDivByZero \<and>
             trap_inputs s' kTrapDivByZero = trap_inputs s kTrapDivByZero \<and>
             mb < ub \<and> ub < d)"
  proof
    assume a: "WASM_64 (target s) \<and>
          Int64Matcher s right = Some x \<and> x \<noteq> 0 \<and>
          (Int64Matcher s left = None \<or> Int64Matcher s left = Some kMinInt64)"
    from a Binop_I64DivS_divisor_constant [OF wf _ l r]
    obtain d s' mb c eq2 ub mrg where H:
      "Binop (I64 kExprI64DivS) left right s = Some (d, s')"
      "mb = length (nodes s) + 2"
      "is_node s' (length (nodes s)) (Int64Constant (- 1)) []"
      "is_node s' (length (nodes s) + 1) (W64 Word64Equal) [right, length (nodes s)]"
      "is_node s' mb (Branch kNone) [length (nodes s) + 1, control s]"
      "is_node s' (mb + 1) IfTrue [mb]"
      "is_node s' (mb + 2) IfFalse [mb]"
      "is_node s' c (Int64Constant kMinInt64) []"
      "is_node s' eq2 (W64 Word64Equal) [left, c]"
      "trap_check s' kTrapDivUnrepresentable ub eq2 True (mb + 1)"
      "is_node s' mrg (Merge 2) [mb + 2, ub + 2]"
      "is_node s' d (W64 Int64Div) [left, right, mrg]"
      "traps s' kTrapDivByZero = traps s kTrapDivByZero"
      "trap_inputs s' kTrapDivByZero = trap_inputs s kTrapDivByZero"
      "mb < ub"
      "ub < mrg"
      "mrg < d"
      by blast
    have dom: "control_paths_pass s' (control s) 6 d"
      using H(5) H(6) H(7) H(10) H(11) H(12) by (rule guarded_division_dominated) simp
    from H have "ub < d" by simp
    with H dom show "(\<exists>d s' mb c eq2 ub mrg.
             Binop (I64 kExprI64DivS) left right s = Some (d, s') \<and>
             mb = length (nodes s) + 2 \<and>
             is_node s' (length (nodes s)) (Int64Constant (- 1)) [] \<and>
             is_node s' (length (nodes s) + 1) (W64 Word64Equal) [right, length (nodes s)] \<and>
             is_node s' mb (Branch kNone) [length (nodes s) + 1, control s] \<and>
             is_node s' (mb + 1) IfTrue [mb] \<and>
             is_node s' (mb + 2) IfFalse [mb] \<and>
             is_node s' c (Int64Constant kMinInt64) [] \<and>
             is_node s' eq2 (W64 Word64Equal) [left, c] \<and>
             trap_check s' kTrapDivUnrepresentable ub eq2 True (mb + 1) \<and>
             is_node s' mrg (Merge 2) [mb + 2, ub + 2] \<and>
             is_node s' d (W64 Int64Div) [left, right, mrg] \<and>
             control_paths_pass s' (control s) 6 d \<and>
             traps s' kTrapDivByZero = traps s kTrapDivByZero \<and>
             trap_inputs s' kTrapDivByZero = trap_inputs s kTrapDivByZero \<and>
             mb < ub \<and> ub < d)"
      by blast
  qed
  have D64: "WASM_64 (target s) \<and>
          Int64Matcher s right = Some x \<and> x \<noteq> 0 \<and>
          Int64Matcher s left = Some y \<and> y \<noteq> kMinInt64 \<longrightarrow>
          Binop (I64 kExprI64DivS) left right s =
             Some (length (nodes s) + 5,
                   s\<lparr>nodes := nodes s @
                      [\<lparr>node_op = Int64Constant (- 1), node_inputs = []\<rparr>,
                       \<lparr>node_op = W64 Word64Equal, node_inputs = [right, length (nodes s)]\<rparr>,
                       \<lparr>node_op = Branch kNone,
                          node_inputs = [length (nodes s) + 1, control s]\<rparr>,
                       \<lparr>node_op = IfTrue, node_inputs = [length (nodes s) + 2]\<rparr>,
                       \<lparr>node_op = IfFalse, node_inputs = [length (nodes s) + 2]\<rparr>,
                       \<lparr>node_op = W64 Int64Div, node_inputs = [left, right, control s]\<rparr>]\<rparr>)"
  proof
    assume a: "WASM_64 (target s) \<and>
          Int64Matcher s right = Some x \<and> x \<noteq> 0 \<and>
          Int64Matcher s left = Some y \<and> y \<noteq> kMinInt64"
    from a show "Binop (I64 kExprI64DivS) left right s =
             Some (length (nodes s) + 5,
                   s\<lparr>nodes := nodes s @
                      [\<lparr>node_op = Int64Constant (- 1), node_inputs = []\<rparr>,
                       \<lparr>node_op = W64 Word64Equal, node_inputs = [right, length (nodes s)]\<rparr>,
                       \<lparr>node_op = Branch kNone,
                          node_inputs = [length (nodes s) + 1, control s]\<rparr>,
                       \<lparr>node_op = IfTrue, node_inputs = [length (nodes s) + 2]\<rparr>,
                       \<lparr>node_op = IfFalse, node_inputs = [length (nodes s) + 2]\<rparr>,
                       \<lparr>node_op = W64 Int64Div, node_inputs = [left, right, control s]\<rparr>]\<rparr>)"
      by (elim conjE) (rule Binop_I64DivS_both_constant; assumption)
  qed
  from A32 B32 C32 D32 A64 B64 C64 D64 show ?thesis by (intro conjI)
qed

theorem Binop_DivS_checks_witness:
  "builder_wf example_builder \<and>
   (\<exists>d s' zb m1 eq mb c eq2 ub mrg.
             Binop (I32 kExprI32DivS) 1 2 example_builder = Some (d, s') \<and>
             trap_check s' kTrapDivByZero zb 2 False 0 \<and>
             is_node s' m1 (Int32Constant (- 1)) [] \<and>
             is_node s' eq (W32 Word32Equal) [2, m1] \<and>
             is_node s' mb (Branch kNone) [eq, zb + 1] \<and>
             is_node s' (mb + 1) IfTrue [mb] \<and>
             is_node s' (mb + 2) IfFalse [mb] \<and>
             is_node s' c (Int32Constant kMinInt) [] \<and>
             is_node s' eq2 (W32 Word32Equal) [1, c] \<and>
             trap_check s' kTrapDivUnrepresentable ub eq2 True (mb + 1) \<and>
             is_node s' mrg (Merge 2) [mb + 2, ub + 2] \<and>
             is_node s' d (W32 Int32Div) [1, 2, mrg] \<and>
             control_paths_pass s' (zb + 1) 6 d \<and>
             5 \<le> zb \<and> zb < mb \<and> mb < ub \<and> ub < d) \<and>
   (\<exists>d s' zb m1 eq mb.
             Binop (I32 kExprI32DivS) 3 2 example_builder = Some (d, s') \<and>
             trap_check s' kTrapDivByZero zb 2 False 0 \<and>
             is_node s' m1 (Int32Constant (- 1)) [] \<and>
             is_node s' eq (W32 Word32Equal) [2, m1] \<and>
             is_node s' mb (Branch kNone) [eq, zb + 1] \<and>
             is_node s' (mb + 1) IfTrue [mb] \<and>
             is_node s' (mb + 2) IfFalse [mb] \<and>
             d = mb + 3 \<and> length (nodes s') = mb + 4 \<and>
             is_node s' d (W32 Int32Div) [3, 2, zb + 1] \<and>
             control_paths_pass s' (zb + 1) 1 d \<and>
             traps s' kTrapDivUnrepresentable = None \<and>
             trap_inputs s' kTrapDivUnrepresentable = [] \<and>
             5 \<le> zb \<and> zb < mb) \<and>
   (\<exists>d s' mb c eq2 ub mrg.
             Binop (I32 kExprI32DivS) 1 3 example_builder = Some (d, s') \<and>
             mb = 7 \<and>
             is_node s' (5) (Int32Constant (- 1)) [] \<and>
             is_node s' (6) (W32 Word32Equal) [3, 5] \<and>
             is_node s' mb (Branch kNone) [6, 0] \<and>
             is_node s' (mb + 1) IfTrue [mb] \<and>
             is_node s' (mb + 2) IfFalse [mb] \<and>
             is_node s' c (Int32Constant kMinInt) [] \<and>
             is_node s' eq2 (W32 Word32Equal) [1, c] \<and>
             trap_check s' kTrapDivUnrepresentable ub eq2 True (mb + 1) \<and>
             is_node s' mrg (Merge 2) [mb + 2, ub + 2] \<and>
             is_node s' d (W32 Int32Div) [1, 3, mrg] \<and>
             control_paths_pass s' 0 6 d \<and>
             traps s' kTrapDivByZero = None \<and>
             trap_inputs s' kTrapDivByZero = [] \<and>
             mb < ub \<and> ub < d) \<and>
   (Binop (I32 kExprI32DivS) 3 3 example_builder =
             Some (10,
                   example_builder\<lparr>nodes := nodes example_builder @
                      [\<lparr>node_op = Int32Constant (- 1), node_inputs = []\<rparr>,
                       \<lparr>node_op = W32 Word32Equal, node_inputs = [3, 5]\<rparr>,
                       \<lparr>node_op = Branch kNone,
                          node_inputs = [6, 0]\<rparr>,
                       \<lparr>node_op = IfTrue, node_inputs = [7]\<rparr>,
                       \<lparr>node_op = IfFalse, node_inputs = [7]\<rparr>,
                       \<lparr>node_op = W32 Int32Div, node_inputs = [3, 3, 0]\<rparr>]\<rparr>)) \<and>
   (\<exists>d s' zc ze zb m1 eq mb c eq2 ub mrg.
             Binop (I64 kExprI64DivS) 1 2 example_builder = Some (d, s') \<and>
             is_node s' zc (Int64Constant 0) [] \<and>
             is_node s' ze (W64 Word64Equal) [2, zc] \<and>
             trap_check s' kTrapDivByZero zb ze True 0 \<and>
             is_node s' m1 (Int64Constant (- 1)) [] \<and>
             is_node s' eq (W64 Word64Equal) [2, m1] \<and>
             is_node s' mb (Branch kNone) [eq, zb + 2] \<and>
             is_node s' (mb + 1) IfTrue [mb] \<and>
             is_node s' (mb + 2) IfFalse [mb] \<and>
             is_node s' c (Int64Constant kMinInt64) [] \<and>
             is_node s' eq2 (W64 Word64Equal) [1, c] \<and>
             trap_check s' kTrapDivUnrepresentable ub eq2 True (mb + 1) \<and>
             is_node s' mrg (Merge 2) [mb + 2, ub + 2] \<and>
             is_node s' d (W64 Int64Div) [1, 2, mrg] \<and>
             control_paths_pass s' (zb + 2) 6 d \<and>
             5 \<le> zb \<and> zb < mb \<and> mb < ub \<and> ub < d) \<and>
   (\<exists>d s' zc ze zb m1 eq mb.
             Binop (I64 kExprI64DivS) 4 2 example_builder = Some (d, s') \<and>
             is_node s' zc (Int64Constant 0) [] \<and>
             is_node s' ze (W64 Word64Equal) [2, zc] \<and>
             trap_check s' kTrapDivByZero zb ze True 0 \<and>
             is_node s' m1 (Int64Constant (- 1)) [] \<and>
             is_node s' eq (W64 Word64Equal) [2, m1] \<and>
             is_node s' mb (Branch kNone) [eq, zb + 2] \<and>
             is_node s' (mb + 1) IfTrue [mb] \<and>
             is_node s' (mb + 2) IfFalse [mb] \<and>
             d = mb + 3 \<and> length (nodes s') = mb + 4 \<and>
             is_node s' d (W64 Int64Div) [4, 2, zb + 2] \<and>
             control_paths_pass s' (zb + 2) 1 d \<and>
             traps s' kTrapDivUnrepresentable = None \<and>
             trap_inputs s' kTrapDivUnrepresentable = [] \<and>
             5 \<le> zb \<and> zb < mb) \<and>
   (\<exists>d s' mb c eq2 ub mrg.
             Binop (I64 kExprI64DivS) 1 4 example_builder = Some (d, s') \<and>
             mb = 7 \<and>
             is_node s' (5) (Int64Constant (- 1)) [] \<and>
             is_node s' (6) (W64 Word64Equal) [4, 5] \<and>
             is_node s' mb (Branch kNone) [6, 0] \<and>
             is_node s' (mb + 1) IfTrue [mb] \<and>
             is_node s' (mb + 2) IfFalse [mb] \<and>
             is_node s' c (Int64Constant kMinInt64) [] \<and>
             is_node s' eq2 (W64 Word64Equal) [1, c] \<and>
             trap_check s' kTrapDivUnrepresentable ub eq2 True (mb + 1) \<and>
             is_node s' mrg (Merge 2) [mb + 2, ub + 2] \<and>
             is_node s' d (W64 Int64Div) [1, 4, mrg] \<and>
             control_paths_pass s' 0 6 d \<and>
             traps s' kTrapDivByZero = None \<and>
             trap_inputs s' kTrapDivByZero = [] \<and>
             mb < ub \<and> ub < d) \<and>
   (Binop (I64 kExprI64DivS) 4 4 example_builder =
             Some (10,
                   example_builder\<lparr>nodes := nodes example_builder @
                      [\<lparr>node_op = Int64Constant (- 1), node_inputs = []\<rparr>,
                       \<lparr>node_op = W64 Word64Equal, node_inputs = [4, 5]\<rparr>,
                       \<lparr>node_op = Branch kNone,
                          node_inputs = [6, 0]\<rparr>,
                       \<lparr>node_op = IfTrue, node_inputs = [7]\<rparr>,
                       \<lparr>node_op = IfFalse, node_inputs = [7]\<rparr>,
                       \<lparr>node_op = W64 Int64Div, node_inputs = [4, 4, 0]\<rparr>]\<rparr>))"
proof -
  have f: "length (nodes example_builder) = 5" "control example_builder = 0"
    "Int32Matcher example_builder 1 = None" "Int32Matcher example_builder 2 = None"
    "Int32Matcher example_builder 3 = Some 7" "Int32Matcher example_builder 4 = None"
    "Int64Matcher example_builder 1 = None" "Int64Matcher example_builder 2 = None"
    "Int64Matcher example_builder 4 = Some 7" "WASM_64 (target example_builder)"
    "traps example_builder r = None" "trap_inputs example_builder r = []"
    "(7 :: 32 word) \<noteq> kMinInt" "(7 :: 64 word) \<noteq> kMinInt64"
    for r
    by (simp_all add: example_builder_def Int32Matcher_def Int64Matcher_def target64_def
        trap_inputs_def kMinInt_def kMinInt64_def)
  have A32: "(\<exists>d s' zb m1 eq mb c eq2 ub mrg.
             Binop (I32 kExprI32DivS) 1 2 example_builder = Some (d, s') \<and>
             trap_check s' kTrapDivByZero zb 2 False 0 \<and>
             is_node s' m1 (Int32Constant (- 1)) [] \<and>
             is_node s' eq (W32 Word32Equal) [2, m1] \<and>
             is_node s' mb (Branch kNone) [eq, zb + 1] \<and>
             is_node s' (mb + 1) IfTrue [mb] \<and>
             is_node s' (mb + 2) IfFalse [mb] \<and>
             is_node s' c (Int32Constant kMinInt) [] \<and>
             is_node s' eq2 (W32 Word32Equal) [1, c] \<and>
             trap_check s' kTrapDivUnrepresentable ub eq2 True (mb + 1) \<and>
             is_node s' mrg (Merge 2) [mb + 2, ub + 2] \<and>
             is_node s' d (W32 Int32Div) [1, 2, mrg] \<and>
             control_paths_pass s' (zb + 1) 6 d \<and>
             5 \<le> zb \<and> zb < mb \<and> mb < ub \<and> ub < d)"
    using Binop_DivS_checks [OF example_builder_wf, where left = 1 and right = 2] f
    by simp
  have B32: "(\<exists>d s' zb m1 eq mb.
             Binop (I32 kExprI32DivS) 3 2 example_builder = Some (d, s') \<and>
             trap_check s' kTrapDivByZero zb 2 False 0 \<and>
             is_node s' m1 (Int32Constant (- 1)) [] \<and>
             is_node s' eq (W32 Word32Equal) [2, m1] \<and>
             is_node s' mb (Branch kNone) [eq, zb + 1] \<and>
             is_node s' (mb + 1) IfTrue [mb] \<and>
             is_node s' (mb + 2) IfFalse [mb] \<and>
             d = mb + 3 \<and> length (nodes s') = mb + 4 \<and>
             is_node s' d (W32 Int32Div) [3, 2, zb + 1] \<and>
             control_paths_pass s' (zb + 1) 1 d \<and>
             traps s' kTrapDivUnrepresentable = None \<and>
             trap_inputs s' kTrapDivUnrepresentable = [] \<and>
             5 \<le> zb \<and> zb < mb)"
    using Binop_DivS_checks [OF example_builder_wf, where left = 3 and right = 2 and w = 7] f
    by simp
  have C32: "(\<exists>d s' mb c eq2 ub mrg.
             Binop (I32 kExprI32DivS) 1 3 example_builder = Some (d, s') \<and>
             mb = 7 \<and>
             is_node s' (5) (Int32Constant (- 1)) [] \<and>
             is_node s' (6) (W32 Word32Equal) [3, 5] \<and>
             is_node s' mb (Branch kNone) [6, 0] \<and>
             is_node s' (mb + 1) IfTrue [mb] \<and>
             is_node s' (mb + 2) IfFalse [mb] \<and>
             is_node s' c (Int32Constant kMinInt) [] \<and>
             is_node s' eq2 (W32 Word32Equal) [1, c] \<and>
             trap_check s' kTrapDivUnrepresentable ub eq2 True (mb + 1) \<and>
             is_node s' mrg (Merge 2) [mb + 2, ub + 2] \<and>
             is_node s' d (W32 Int32Div) [1, 3, mrg] \<and>
             control_paths_pass s' 0 6 d \<and>
             traps s' kTrapDivByZero = None \<and>
             trap_inputs s' kTrapDivByZero = [] \<and>
             mb < ub \<and> ub < d)"
    using Binop_DivS_checks [OF example_builder_wf, where left = 1 and right = 3 and v = 7] f
    by simp
  have D32: "Binop (I32 kExprI32DivS) 3 3 example_builder =
             Some (10,
                   example_builder\<lparr>nodes := nodes example_builder @
                      [\<lparr>node_op = Int32Constant (- 1), node_inputs = []\<rparr>,
                       \<lparr>node_op = W32 Word32Equal, node_inputs = [3, 5]\<rparr>,
                       \<lparr>node_op = Branch kNone,
                          node_inputs = [6, 0]\<rparr>,
                       \<lparr>node_op = IfTrue, node_inputs = [7]\<rparr>,
                       \<lparr>node_op = IfFalse, node_inputs = [7]\<rparr>,
                       \<lparr>node_op = W32 Int32Div, node_inputs = [3, 3, 0]\<rparr>]\<rparr>)"
    using Binop_DivS_checks [OF example_builder_wf, where left = 3 and right = 3 and v = 7 and w = 7] f
    by simp
  have A64: "(\<exists>d s' zc ze zb m1 eq mb c eq2 ub mrg.
             Binop (I64 kExprI64DivS) 1 2 example_builder = Some (d, s') \<and>
             is_node s' zc (Int64Constant 0) [] \<and>
             is_node s' ze (W64 Word64Equal) [2, zc] \<and>
             trap_check s' kTrapDivByZero zb ze True 0 \<and>
             is_node s' m1 (Int64Constant (- 1)) [] \<and>
             is_node s' eq (W64 Word64Equal) [2, m1] \<and>
             is_node s' mb (Branch kNone) [eq, zb + 2] \<and>
             is_node s' (mb + 1) IfTrue [mb] \<and>
             is_node s' (mb + 2) IfFalse [mb] \<and>
             is_node s' c (Int64Constant kMinInt64) [] \<and>
             is_node s' eq2 (W64 Word64Equal) [1, c] \<and>
             trap_check s' kTrapDivUnrepresentable ub eq2 True (mb + 1) \<and>
             is_node s' mrg (Merge 2) [mb + 2, ub + 2] \<and>
             is_node s' d (W64 Int64Div) [1, 2, mrg] \<and>
             control_paths_pass s' (zb + 2) 6 d \<and>
             5 \<le> zb \<and> zb < mb \<and> mb < ub \<and> ub < d)"
    using Binop_DivS_checks [OF example_builder_wf, where left = 1 and right = 2] f
    by simp
  have B64: "(\<exists>d s' zc ze zb m1 eq mb.
             Binop (I64 kExprI64DivS) 4 2 example_builder = Some (d, s') \<and>
             is_node s' zc (Int64Constant 0) [] \<and>
             is_node s' ze (W64 Word64Equal) [2, zc] \<and>
             trap_check s' kTrapDivByZero zb ze True 0 \<and>
             is_node s' m1 (Int64Constant (- 1)) [] \<and>
             is_node s' eq (W64 Word64Equal) [2, m1] \<and>
             is_node s' mb (Branch kNone) [eq, zb + 2] \<and>
             is_node s' (mb + 1) IfTrue [mb] \<and>
             is_node s' (mb + 2) IfFalse [mb] \<and>
             d = mb + 3 \<and> length (nodes s') = mb + 4 \<and>
             is_node s' d (W64 Int64Div) [4, 2, zb + 2] \<and>
             control_paths_pass s' (zb + 2) 1 d \<and>
             traps s' kTrapDivUnrepresentable = None \<and>
             trap_inputs s' kTrapDivUnrepresentable = [] \<and>
             5 \<le> zb \<and> zb < mb)"
    using Binop_DivS_checks [OF example_builder_wf, where left = 4 and right = 2 and y = 7] f
    by simp
  have C64: "(\<exists>d s' mb c eq2 ub mrg.
             Binop (I64 kExprI64DivS) 1 4 example_builder = Some (d, s') \<and>
             mb = 7 \<and>
             is_node s' (5) (Int64Constant (- 1)) [] \<and>
             is_node s' (6) (W64 Word64Equal) [4, 5] \<and>
             is_node s' mb (Branch kNone) [6, 0] \<and>
             is_node s' (mb + 1) IfTrue [mb] \<and>
             is_node s' (mb + 2) IfFalse [mb] \<and>
             is_node s' c (Int64Constant kMinInt64) [] \<and>
             is_node s' eq2 (W64 Word64Equal) [1, c] \<and>
             trap_check s' kTrapDivUnrepresentable ub eq2 True (mb + 1) \<and>
             is_node s' mrg (Merge 2) [mb + 2, ub + 2] \<and>
             is_node s' d (W64 Int64Div) [1, 4, mrg] \<and>
             control_paths_pass s' 0 6 d \<and>
             traps s' kTrapDivByZero = None \<and>
             trap_inputs s' kTrapDivByZero = [] \<and>
             mb < ub \<and> ub < d)"
    using Binop_DivS_checks [OF example_builder_wf, where left = 1 and right = 4 and x = 7] f
    by simp
  have D64: "Binop (I64 kExprI64DivS) 4 4 example_builder =
             Some (10,
                   example_builder\<lparr>nodes := nodes example_builder @
                      [\<lparr>node_op = Int64Constant (- 1), node_inputs = []\<rparr>,
                       \<lparr>node_op = W64 Word64Equal, node_inputs = [4, 5]\<rparr>,
                       \<lparr>node_op = Branch kNone,
                          node_inputs = [6, 0]\<rparr>,
                       \<lparr>node_op = IfTrue, node_inputs = [7]\<rparr>,
                       \<lparr>node_op = IfFalse, node_inputs = [7]\<rparr>,
                       \<lparr>node_op = W64 Int64Div, node_inputs = [4, 4, 0]\<rparr>]\<rparr>)"
    using Binop_DivS_checks [OF example_builder_wf, where left = 4 and right = 4 and x = 7 and y = 7] f
    by simp
  from example_builder_wf A32 B32 C32 D32 A64 B64 C64 D64 show ?thesis by (intro conjI)
qed

text \<open>
  The division of parameter 0 by the constant 7 on the example builder: the whole graph
  afterwards and the trap block of every reason. No check with reason \<open>kTrapDivByZero\<close>
  is in it (the only trap block is the one of \<open>kTrapDivUnrepresentable\<close>, node 16), and
  the branch on the comparison with -1 hangs off the start node.
\<close>

theorem Binop_DivS_constant_divisor_unchecked:
  "map_option (\<lambda>(d, s'). (d, nodes s', map (traps s') all_reasons))
     (Binop (I32 kExprI32DivS) 1 3 example_builder)
   = Some (22,
       [\<lparr>node_op = Start 2, node_inputs = []\<rparr>,
        \<lparr>node_op = Parameter 0, node_inputs = [0]\<rparr>,
        \<lparr>node_op = Parameter 1, node_inputs = [0]\<rparr>,
        \<lparr>node_op = Int32Constant 7, node_inputs = []\<rparr>,
        \<lparr>node_op = Int64Constant 7, node_inputs = []\<rparr>,
        \<lparr>node_op = Int32Constant (- 1), node_inputs = []\<rparr>,
        \<lparr>node_op = W32 Word32Equal, node_inputs = [3, 5]\<rparr>,
        \<lparr>node_op = Branch kNone, node_inputs = [6, 0]\<rparr>,
        \<lparr>node_op = IfTrue, node_inputs = [7]\<rparr>,
        \<lparr>node_op = IfFalse, node_inputs = [7]\<rparr>,
        \<lparr>node_op = Int32Constant kMinInt, node_inputs = []\<rparr>,
        \<lparr>node_op = W32 Word32Equal, node_inputs = [1, 10]\<rparr>,
        \<lparr>node_op = Branch kFalse, node_inputs = [11, 8]\<rparr>,
        \<lparr>node_op = IfTrue, node_inputs = [12]\<rparr>,
        \<lparr>node_op = IfFalse, node_inputs = [12]\<rparr>,
        \<lparr>node_op = HeapConstant ''divide result unrepresentable'', node_inputs = []\<rparr>,
        \<lparr>node_op = Merge 1, node_inputs = [13]\<rparr>,
        \<lparr>node_op = EffectPhi 1, node_inputs = [0, 16]\<rparr>,
        \<lparr>node_op = Int32Constant 0xdeadbeef, node_inputs = []\<rparr>,
        \<lparr>node_op = Return, node_inputs = [18, 17, 16]\<rparr>,
        \<lparr>node_op = End 1, node_inputs = [19]\<rparr>,
        \<lparr>node_op = Merge 2, node_inputs = [9, 14]\<rparr>,
        \<lparr>node_op = W32 Int32Div, node_inputs = [1, 3, 21]\<rparr>],
       [None, None, None, Some 16, None, None, None, None])"
  by code_simp

section \<open>Checked remainder\<close>

lemma Binop_I32RemS:
  "Binop (I32 kExprI32RemS) left right s =
     do { (zc, s1) \<leftarrow> ZeroCheck32 kTrapRemByZero right s;
          let (m1, s2) = Int32Constant_node (- 1) s1;
          let (eq, s3) = NewNode (W32 Word32Equal) [right, m1] s2;
          let (d, s4) = Diamond eq s3;
          let (rem, s5) = NewNode (W32 Int32Mod) [left, right, if_false d] s4;
          let (zero, s6) = Int32Constant_node 0 s5;
          Some (Diamond_Phi d kMachInt32 zero rem s6) }"
  by (simp add: Binop_def eval_nat_numeral)

lemma Binop_I32RemU:
  "Binop (I32 kExprI32RemU) left right s =
     do { (zc, s1) \<leftarrow> ZeroCheck32 kTrapRemByZero right s;
          Some (NewNode (W32 Uint32Mod) [left, right, zc] s1) }"
  by (simp add: Binop_def eval_nat_numeral)

lemma Binop_I64RemS:
  "WASM_64 (target s) \<Longrightarrow>
   Binop (I64 kExprI64RemS) left right s =
     do { (zc, s1) \<leftarrow> ZeroCheck64 kTrapRemByZero right s;
          let (m1, s2) = Int64Constant_node (- 1) s1;
          let (eq, s3) = NewNode (W64 Word64Equal) [right, m1] s2;
          let (d, s4) = Diamond eq s3;
          let (rem, s5) = NewNode (W64 Int64Mod) [left, right, if_false d] s4;
          let (zero, s6) = Int64Constant_node 0 s5;
          Some (Diamond_Phi d kMachInt64 zero rem s6) }"
  by (simp add: Binop_def eval_nat_numeral)

lemma Binop_I64RemU:
  "WASM_64 (target s) \<Longrightarrow>
   Binop (I64 kExprI64RemU) left right s =
     do { (zc, s1) \<leftarrow> ZeroCheck64 kTrapRemByZero right s;
          Some (NewNode (W64 Uint64Mod) [left, right, zc] s1) }"
  by (simp add: Binop_def eval_nat_numeral)

lemma Binop_I32RemU_checked:
  assumes wf: "builder_wf s"
    and nr: "Int32Matcher s right = None \<or> Int32Matcher s right = Some 0"
  shows "\<exists>rem s' zb.
           Binop (I32 kExprI32RemU) left right s = Some (rem, s') \<and> builder_wf s' \<and>
           trap_check s' kTrapRemByZero zb right False (control s) \<and>
           is_node s' rem (W32 Uint32Mod) [left, right, zb + 1] \<and>
           length (nodes s) \<le> zb \<and> zb < rem"
proof -
  from TrapIfEq32_checked [OF wf, of right 0 kTrapRemByZero] nr
  obtain s1 zb where Z:
    "TrapIfEq32 kTrapRemByZero right 0 s = Some (control s1, s1) \<and>
     builder_wf s1 \<and> builder_extends s s1 \<and>
     trap_check s1 kTrapRemByZero zb right False (control s) \<and>
     control s1 = zb + 1 \<and> effect s1 = effect s \<and>
     length (nodes s) \<le> zb \<and> zb + 3 \<le> length (nodes s1)"
    by auto
  define s' where "s' = snd (NewNode (W32 Uint32Mod) [left, right, zb + 1] s1)"
  have wf1: "builder_wf s1" using Z by simp
  note n = NewNode_extends [OF wf1 s'_def]
  have run: "Binop (I32 kExprI32RemU) left right s = Some (length (nodes s1), s')"
    using Z by (simp add: Binop_I32RemU ZeroCheck32_def s'_def NewNode_def)
  have z': "trap_check s' kTrapRemByZero zb right False (control s)"
    using Z n(2) by (blast intro: trap_check_extends)
  from run n(1) z' n(3) Z show ?thesis
    by (intro exI [of _ "length (nodes s1)"] exI [of _ s'] exI [of _ zb]) simp
qed

lemma Binop_I64RemU_checked:
  assumes wf: "builder_wf s" and w64: "WASM_64 (target s)"
    and nr: "Int64Matcher s right = None \<or> Int64Matcher s right = Some 0"
  shows "\<exists>rem s' zc ze zb.
           Binop (I64 kExprI64RemU) left right s = Some (rem, s') \<and> builder_wf s' \<and>
           is_node s' zc (Int64Constant 0) [] \<and>
           is_node s' ze (W64 Word64Equal) [right, zc] \<and>
           trap_check s' kTrapRemByZero zb ze True (control s) \<and>
           is_node s' rem (W64 Uint64Mod) [left, right, zb + 2] \<and>
           length (nodes s) \<le> zb \<and> zb < rem"
proof -
  from TrapIfEq64_checked [OF wf, of right 0 kTrapRemByZero] nr
  obtain s1 zb ze where Z:
    "TrapIfEq64 kTrapRemByZero right 0 s = Some (control s1, s1) \<and>
     builder_wf s1 \<and> builder_extends s s1 \<and>
     trap_check s1 kTrapRemByZero zb ze True (control s) \<and>
     control s1 = zb + 2 \<and> effect s1 = effect s \<and>
     length (nodes s) \<le> zb \<and> zb + 3 \<le> length (nodes s1) \<and>
     is_node s1 (ze - 1) (Int64Constant 0) [] \<and>
     is_node s1 ze (W64 Word64Equal) [right, ze - 1]"
    by auto
  define s' where "s' = snd (NewNode (W64 Uint64Mod) [left, right, zb + 2] s1)"
  have wf1: "builder_wf s1" using Z by simp
  note n = NewNode_extends [OF wf1 s'_def]
  have run: "Binop (I64 kExprI64RemU) left right s = Some (length (nodes s1), s')"
    using Z by (simp add: Binop_I64RemU [OF w64] ZeroCheck64_def s'_def NewNode_def)
  have z': "trap_check s' kTrapRemByZero zb ze True (control s)"
    using Z n(2) by (blast intro: trap_check_extends)
  have zc': "is_node s' (ze - 1) (Int64Constant 0) []"
    "is_node s' ze (W64 Word64Equal) [right, ze - 1]"
    using Z is_node_extends [OF _ _ n(2)] by simp_all
  from run n(1) z' zc' n(3) Z show ?thesis
    by (intro exI [of _ "length (nodes s1)"] exI [of _ s'] exI [of _ "ze - 1"] exI [of _ ze]
        exI [of _ zb]) simp
qed

lemma Binop_I32RemS_checked:
  assumes wf: "builder_wf s"
    and nr: "Int32Matcher s right = None \<or> Int32Matcher s right = Some 0"
  shows "\<exists>phi s' zb m1 eq b mrg rem zero.
           Binop (I32 kExprI32RemS) left right s = Some (phi, s') \<and> builder_wf s' \<and>
           builder_extends s s' \<and>
           trap_check s' kTrapRemByZero zb right False (control s) \<and>
           is_node s' m1 (Int32Constant (- 1)) [] \<and>
           is_node s' eq (W32 Word32Equal) [right, m1] \<and>
           is_node s' b (Branch kNone) [eq, graph_start s] \<and>
           is_node s' (b + 1) IfTrue [b] \<and>
           is_node s' (b + 2) IfFalse [b] \<and>
           is_node s' mrg (Merge 2) [b + 1, b + 2] \<and>
           is_node s' rem (W32 Int32Mod) [left, right, b + 2] \<and>
           is_node s' zero (Int32Constant 0) [] \<and>
           is_node s' phi (Phi kMachInt32 2) [zero, rem, mrg] \<and>
           control s' = zb + 1 \<and>
           length (nodes s) \<le> zb \<and> zb < b \<and> b < rem \<and> rem < phi"
proof -
  from TrapIfEq32_checked [OF wf, of right 0 kTrapRemByZero] nr
  obtain s1 zb where Z:
    "TrapIfEq32 kTrapRemByZero right 0 s = Some (control s1, s1) \<and>
     builder_wf s1 \<and> builder_extends s s1 \<and>
     trap_check s1 kTrapRemByZero zb right False (control s) \<and>
     control s1 = zb + 1 \<and> effect s1 = effect s \<and>
     length (nodes s) \<le> zb \<and> zb + 3 \<le> length (nodes s1)"
    by auto
  define L1 where "L1 = length (nodes s1)"
  let ?new = "[\<lparr>node_op = Int32Constant (- 1), node_inputs = []\<rparr>,
               \<lparr>node_op = W32 Word32Equal, node_inputs = [right, L1]\<rparr>,
               \<lparr>node_op = Branch kNone, node_inputs = [L1 + 1, graph_start s]\<rparr>,
               \<lparr>node_op = IfTrue, node_inputs = [L1 + 2]\<rparr>,
               \<lparr>node_op = IfFalse, node_inputs = [L1 + 2]\<rparr>,
               \<lparr>node_op = Merge 2, node_inputs = [L1 + 3, L1 + 4]\<rparr>,
               \<lparr>node_op = W32 Int32Mod, node_inputs = [left, right, L1 + 4]\<rparr>,
               \<lparr>node_op = Int32Constant 0, node_inputs = []\<rparr>,
               \<lparr>node_op = Phi kMachInt32 2, node_inputs = [L1 + 7, L1 + 6, L1 + 5]\<rparr>]"
  define s' where "s' = s1\<lparr>nodes := nodes s1 @ ?new\<rparr>"
  have n': "nodes s' = nodes s1 @ ?new" and f': "traps s' = traps s1" "effects s' = effects s1"
    "graph_end s' = graph_end s1" "graph_start s' = graph_start s1" "target s' = target s1"
    "module s' = module s1" "control s' = control s1"
    by (simp_all add: s'_def)
  have wf1: "builder_wf s1" and gs: "graph_start s1 = graph_start s"
    using Z by (simp_all add: builder_extends_iff)
  have wf': "builder_wf s'"
    using wf1 n' f'(1) f'(2) f'(3) by (rule builder_wf_extend)
  have e1': "builder_extends s1 s'"
    using wf1 n' f'(1) f'(2) f'(4) f'(5) f'(6) by (rule builder_extends_append)
  have Z1: "ZeroCheck32 kTrapRemByZero right s = Some (zb + 1, s1)"
    using Z by (simp add: ZeroCheck32_def)
  have run: "Binop (I32 kExprI32RemS) left right s = Some (L1 + 8, s')"
    unfolding s'_def L1_def
    by (simp add: Binop_I32RemS Z1 Int32Constant_node_def NewNode_def Diamond_def Diamond_Phi_def
        Let_def gs eval_nat_numeral)
  have z': "trap_check s' kTrapRemByZero zb right False (control s)"
    using Z e1' by (blast intro: trap_check_extends)
  have m': "is_node s' L1 (Int32Constant (- 1)) []"
    "is_node s' (L1 + 1) (W32 Word32Equal) [right, L1]"
    "is_node s' (L1 + 2) (Branch kNone) [L1 + 1, graph_start s]"
    "is_node s' (L1 + 2 + 1) IfTrue [L1 + 2]"
    "is_node s' (L1 + 2 + 2) IfFalse [L1 + 2]"
    "is_node s' (L1 + 5) (Merge 2) [L1 + 2 + 1, L1 + 2 + 2]"
    "is_node s' (L1 + 6) (W32 Int32Mod) [left, right, L1 + 2 + 2]"
    "is_node s' (L1 + 7) (Int32Constant 0) []"
    "is_node s' (L1 + 8) (Phi kMachInt32 2) [L1 + 7, L1 + 6, L1 + 5]"
    by (simp_all add: is_node_def n' L1_def nth_append)
  have ord: "control s' = zb + 1" "length (nodes s) \<le> zb" "zb < L1 + 2" "L1 + 2 < L1 + 6"
    "L1 + 6 < L1 + 8"
    using Z f'(7) by (simp_all add: L1_def)
  have e0': "builder_extends s s'"
    using Z e1' by (blast intro: builder_extends_trans)
  from run wf' e0' z' m' ord show ?thesis by blast
qed

lemma Binop_I64RemS_checked:
  assumes wf: "builder_wf s" and w64: "WASM_64 (target s)"
    and nr: "Int64Matcher s right = None \<or> Int64Matcher s right = Some 0"
  shows "\<exists>phi s' zc ze zb m1 eq b mrg rem zero.
           Binop (I64 kExprI64RemS) left right s = Some (phi, s') \<and> builder_wf s' \<and>
           builder_extends s s' \<and>
           is_node s' zc (Int64Constant 0) [] \<and>
           is_node s' ze (W64 Word64Equal) [right, zc] \<and>
           trap_check s' kTrapRemByZero zb ze True (control s) \<and>
           is_node s' m1 (Int64Constant (- 1)) [] \<and>
           is_node s' eq (W64 Word64Equal) [right, m1] \<and>
           is_node s' b (Branch kNone) [eq, graph_start s] \<and>
           is_node s' (b + 1) IfTrue [b] \<and>
           is_node s' (b + 2) IfFalse [b] \<and>
           is_node s' mrg (Merge 2) [b + 1, b + 2] \<and>
           is_node s' rem (W64 Int64Mod) [left, right, b + 2] \<and>
           is_node s' zero (Int64Constant 0) [] \<and>
           is_node s' phi (Phi kMachInt64 2) [zero, rem, mrg] \<and>
           control s' = zb + 2 \<and>
           length (nodes s) \<le> zb \<and> zb < b \<and> b < rem \<and> rem < phi"
proof -
  from TrapIfEq64_checked [OF wf, of right 0 kTrapRemByZero] nr
  obtain s1 zb ze where Z:
    "TrapIfEq64 kTrapRemByZero right 0 s = Some (control s1, s1) \<and>
     builder_wf s1 \<and> builder_extends s s1 \<and>
     trap_check s1 kTrapRemByZero zb ze True (control s) \<and>
     control s1 = zb + 2 \<and> effect s1 = effect s \<and>
     length (nodes s) \<le> zb \<and> zb + 3 \<le> length (nodes s1) \<and>
     is_node s1 (ze - 1) (Int64Constant 0) [] \<and>
     is_node s1 ze (W64 Word64Equal) [right, ze - 1]"
    by auto
  define L1 where "L1 = length (nodes s1)"
  let ?new = "[\<lparr>node_op = Int64Constant (- 1), node_inputs = []\<rparr>,
               \<lparr>node_op = W64 Word64Equal, node_inputs = [right, L1]\<rparr>,
               \<lparr>node_op = Branch kNone, node_inputs = [L1 + 1, graph_start s]\<rparr>,
               \<lparr>node_op = IfTrue, node_inputs = [L1 + 2]\<rparr>,
               \<lparr>node_op = IfFalse, node_inputs = [L1 + 2]\<rparr>,
               \<lparr>node_op = Merge 2, node_inputs = [L1 + 3, L1 + 4]\<rparr>,
               \<lparr>node_op = W64 Int64Mod, node_inputs = [left, right, L1 + 4]\<rparr>,
               \<lparr>node_op = Int64Constant 0, node_inputs = []\<rparr>,
               \<lparr>node_op = Phi kMachInt64 2, node_inputs = [L1 + 7, L1 + 6, L1 + 5]\<rparr>]"
  define s' where "s' = s1\<lparr>nodes := nodes s1 @ ?new\<rparr>"
  have n': "nodes s' = nodes s1 @ ?new" and f': "traps s' = traps s1" "effects s' = effects s1"
    "graph_end s' = graph_end s1" "graph_start s' = graph_start s1" "target s' = target s1"
    "module s' = module s1" "control s' = control s1"
    by (simp_all add: s'_def)
  have wf1: "builder_wf s1" and gs: "graph_start s1 = graph_start s"
    using Z by (simp_all add: builder_extends_iff)
  have wf': "builder_wf s'"
    using wf1 n' f'(1) f'(2) f'(3) by (rule builder_wf_extend)
  have e1': "builder_extends s1 s'"
    using wf1 n' f'(1) f'(2) f'(4) f'(5) f'(6) by (rule builder_extends_append)
  have Z1: "ZeroCheck64 kTrapRemByZero right s = Some (zb + 2, s1)"
    using Z by (simp add: ZeroCheck64_def)
  have run: "Binop (I64 kExprI64RemS) left right s = Some (L1 + 8, s')"
    unfolding s'_def L1_def
    by (simp add: Binop_I64RemS [OF w64] Z1 Int64Constant_node_def NewNode_def Diamond_def
        Diamond_Phi_def Let_def gs eval_nat_numeral)
  have z': "trap_check s' kTrapRemByZero zb ze True (control s)"
    using Z e1' by (blast intro: trap_check_extends)
  have zc': "is_node s' (ze - 1) (Int64Constant 0) []"
    "is_node s' ze (W64 Word64Equal) [right, ze - 1]"
    using Z is_node_extends [OF _ _ e1'] by simp_all
  have m': "is_node s' L1 (Int64Constant (- 1)) []"
    "is_node s' (L1 + 1) (W64 Word64Equal) [right, L1]"
    "is_node s' (L1 + 2) (Branch kNone) [L1 + 1, graph_start s]"
    "is_node s' (L1 + 2 + 1) IfTrue [L1 + 2]"
    "is_node s' (L1 + 2 + 2) IfFalse [L1 + 2]"
    "is_node s' (L1 + 5) (Merge 2) [L1 + 2 + 1, L1 + 2 + 2]"
    "is_node s' (L1 + 6) (W64 Int64Mod) [left, right, L1 + 2 + 2]"
    "is_node s' (L1 + 7) (Int64Constant 0) []"
    "is_node s' (L1 + 8) (Phi kMachInt64 2) [L1 + 7, L1 + 6, L1 + 5]"
    by (simp_all add: is_node_def n' L1_def nth_append)
  have ord: "control s' = zb + 2" "length (nodes s) \<le> zb" "zb < L1 + 2" "L1 + 2 < L1 + 6"
    "L1 + 6 < L1 + 8"
    using Z f'(7) by (simp_all add: L1_def)
  have e0': "builder_extends s s'"
    using Z e1' by (blast intro: builder_extends_trans)
  from run wf' e0' z' zc' m' ord show ?thesis by blast
qed

lemma control_paths_pass_none:
  assumes "control_inputs (nodes s ! n) = []" "n \<noteq> d"
  shows "\<not> control_paths_pass s d k n"
  using assms by (cases k) simp_all

lemma control_paths_pass_single:
  assumes "control_inputs (nodes s ! n) = [p]" "n \<noteq> d"
    and "\<And>j. \<not> control_paths_pass s d j p"
  shows "\<not> control_paths_pass s d k n"
  using assms by (cases k) simp_all

lemma diamond_false_side_floats:
  assumes g: "is_node s g (Start n) ins"
    and b: "is_node s b (Branch kNone) [eq, g]"
    and f: "is_node s (b + 2) IfFalse [b]"
    and m: "is_node s rem opr [left, right, b + 2]"
    and w: "(\<exists>w. opr = W32 w) \<or> (\<exists>w. opr = W64 w)"
    and d: "d \<noteq> g" "d \<noteq> b" "d \<noteq> b + 2" "d \<noteq> rem"
  shows "control_paths_pass s g 3 rem" and "\<not> control_paths_pass s d k rem"
proof -
  have cg: "control_inputs (nodes s ! g) = []"
    using g by (simp add: is_node_def control_inputs_def)
  have cb: "control_inputs (nodes s ! b) = [g]"
    using b by (simp add: is_node_def control_inputs_def)
  have cf: "control_inputs (nodes s ! (b + 2)) = [b]"
    using f by (simp add: is_node_def control_inputs_def)
  have cm: "control_inputs (nodes s ! rem) = [b + 2]"
    using m w by (auto simp add: is_node_def control_inputs_def)
  have n0: "\<not> control_paths_pass s d j g" for j
    using cg d(1) by (intro control_paths_pass_none) simp_all
  have n1: "\<not> control_paths_pass s d j b" for j
    using cb _ n0 by (rule control_paths_pass_single) (use d in simp)
  have n2: "\<not> control_paths_pass s d j (b + 2)" for j
    using cf _ n1 by (rule control_paths_pass_single) (use d in simp)
  show "\<not> control_paths_pass s d k rem"
    using cm _ n2 by (rule control_paths_pass_single) (use d in simp)
  have lt: "b < length (nodes s)" "b + 2 < length (nodes s)" "rem < length (nodes s)"
    using b f m by (simp_all add: is_node_def)
  have "control_paths_pass s g (Suc (Suc (Suc 0))) rem"
    using cg cb cf cm lt by simp
  then show "control_paths_pass s g 3 rem" by (simp add: eval_nat_numeral)
qed

lemma Binop_I32RemU_folded:
  assumes "Int32Matcher s right = Some v" "v \<noteq> 0"
  shows "Binop (I32 kExprI32RemU) left right s
           = Some (NewNode (W32 Uint32Mod) [left, right, graph_start s] s)"
  using TrapIfEq32_folded [OF assms, of kTrapRemByZero]
  by (simp add: Binop_I32RemU ZeroCheck32_def)

lemma Binop_I64RemU_folded:
  assumes "WASM_64 (target s)" "Int64Matcher s right = Some v" "v \<noteq> 0"
  shows "Binop (I64 kExprI64RemU) left right s
           = Some (NewNode (W64 Uint64Mod) [left, right, graph_start s] s)"
  using TrapIfEq64_folded [OF assms(2) assms(3), of kTrapRemByZero]
  by (simp add: Binop_I64RemU [OF assms(1)] ZeroCheck64_def)

lemma Binop_I32RemS_folded:
  assumes "Int32Matcher s right = Some v" "v \<noteq> 0"
  shows "Binop (I32 kExprI32RemS) left right s =
           Some (length (nodes s) + 8,
                 s\<lparr>nodes := nodes s @
                    [\<lparr>node_op = Int32Constant (- 1), node_inputs = []\<rparr>,
                     \<lparr>node_op = W32 Word32Equal, node_inputs = [right, length (nodes s)]\<rparr>,
                     \<lparr>node_op = Branch kNone,
                        node_inputs = [length (nodes s) + 1, graph_start s]\<rparr>,
                     \<lparr>node_op = IfTrue, node_inputs = [length (nodes s) + 2]\<rparr>,
                     \<lparr>node_op = IfFalse, node_inputs = [length (nodes s) + 2]\<rparr>,
                     \<lparr>node_op = Merge 2,
                        node_inputs = [length (nodes s) + 3, length (nodes s) + 4]\<rparr>,
                     \<lparr>node_op = W32 Int32Mod,
                        node_inputs = [left, right, length (nodes s) + 4]\<rparr>,
                     \<lparr>node_op = Int32Constant 0, node_inputs = []\<rparr>,
                     \<lparr>node_op = Phi kMachInt32 2,
                        node_inputs = [length (nodes s) + 7, length (nodes s) + 6,
                                       length (nodes s) + 5]\<rparr>]\<rparr>)"
  using TrapIfEq32_folded [OF assms, of kTrapRemByZero]
  by (simp add: Binop_I32RemS ZeroCheck32_def Int32Constant_node_def NewNode_def Diamond_def
      Diamond_Phi_def Let_def eval_nat_numeral)

lemma Binop_I64RemS_folded:
  assumes "WASM_64 (target s)" "Int64Matcher s right = Some v" "v \<noteq> 0"
  shows "Binop (I64 kExprI64RemS) left right s =
           Some (length (nodes s) + 8,
                 s\<lparr>nodes := nodes s @
                    [\<lparr>node_op = Int64Constant (- 1), node_inputs = []\<rparr>,
                     \<lparr>node_op = W64 Word64Equal, node_inputs = [right, length (nodes s)]\<rparr>,
                     \<lparr>node_op = Branch kNone,
                        node_inputs = [length (nodes s) + 1, graph_start s]\<rparr>,
                     \<lparr>node_op = IfTrue, node_inputs = [length (nodes s) + 2]\<rparr>,
                     \<lparr>node_op = IfFalse, node_inputs = [length (nodes s) + 2]\<rparr>,
                     \<lparr>node_op = Merge 2,
                        node_inputs = [length (nodes s) + 3, length (nodes s) + 4]\<rparr>,
                     \<lparr>node_op = W64 Int64Mod,
                        node_inputs = [left, right, length (nodes s) + 4]\<rparr>,
                     \<lparr>node_op = Int64Constant 0, node_inputs = []\<rparr>,
                     \<lparr>node_op = Phi kMachInt64 2,
                        node_inputs = [length (nodes s) + 7, length (nodes s) + 6,
                                       length (nodes s) + 5]\<rparr>]\<rparr>)"
  using TrapIfEq64_folded [OF assms(2) assms(3), of kTrapRemByZero]
  by (simp add: Binop_I64RemS [OF assms(1)] ZeroCheck64_def Int64Constant_node_def NewNode_def
      Diamond_def Diamond_Phi_def Let_def eval_nat_numeral)

text \<open>
  C5. Integer remainder (\<open>kExprI32RemU\<close>, \<open>kExprI32RemS\<close>, and the 64-bit opcodes on a
  64-bit target) on a well-formed builder whose graph has its start node.

  When the divisor is not a constant other than 0, \<open>Binop\<close> returns and the graph holds a
  check under the old control that fires when the divisor is 0; its reason is
  \<open>kTrapRemByZero\<close> (32 bits: a branch on the divisor itself that traps on its false side;
  64 bits: a branch on the comparison of the divisor with 0 that traps on its true side).
  The unsigned remainder has the side of the check that goes on as its control input. For
  the signed remainder there is a branch on the comparison of the divisor with -1 with
  its two projections and their merge; the remainder operator has the false projection as
  its control input, and the result is the phi over that merge of the constant 0 (true
  side) and the remainder (false side). The value returned by the zero check is dropped
  and the diamond is not chained to it: the branch of the diamond has the start node as
  its control input, so the control path back from the signed remainder operator comes to
  the start node in three steps and never comes to the side of the zero check that goes
  on, which is the builder's control afterwards. The signed remainder is made after the
  zero check, but it does not depend on it.

  When the divisor is a constant other than 0, no check is made: the unsigned forms add
  the remainder operator alone, under the start node, and the signed forms add exactly
  the nine nodes of the diamond, the remainder and the phi.
\<close>

theorem Binop_Rem_zero_check_placement:
  assumes wf: "builder_wf s" and start: "is_node s (graph_start s) (Start n) ins"
  shows "((Int32Matcher s right = None \<or> Int32Matcher s right = Some 0) \<longrightarrow>
          (\<exists>rem s' zb.
             Binop (I32 kExprI32RemU) left right s = Some (rem, s') \<and>
             trap_check s' kTrapRemByZero zb right False (control s) \<and>
             is_node s' rem (W32 Uint32Mod) [left, right, zb + 1] \<and>
             control_paths_pass s' (zb + 1) 1 rem \<and>
             length (nodes s) \<le> zb \<and> zb < rem)) \<and>
         ((Int32Matcher s right = None \<or> Int32Matcher s right = Some 0) \<longrightarrow>
          (\<exists>phi s' zb m1 eq b mrg rem zero.
             Binop (I32 kExprI32RemS) left right s = Some (phi, s') \<and>
             trap_check s' kTrapRemByZero zb right False (control s) \<and>
             is_node s' m1 (Int32Constant (- 1)) [] \<and>
             is_node s' eq (W32 Word32Equal) [right, m1] \<and>
             is_node s' b (Branch kNone) [eq, graph_start s] \<and>
             is_node s' (b + 1) IfTrue [b] \<and>
             is_node s' (b + 2) IfFalse [b] \<and>
             is_node s' mrg (Merge 2) [b + 1, b + 2] \<and>
             is_node s' rem (W32 Int32Mod) [left, right, b + 2] \<and>
             is_node s' zero (Int32Constant 0) [] \<and>
             is_node s' phi (Phi kMachInt32 2) [zero, rem, mrg] \<and>
             control s' = zb + 1 \<and>
             control_paths_pass s' (graph_start s) 3 rem \<and>
             (\<forall>k. \<not> control_paths_pass s' (zb + 1) k rem) \<and>
             length (nodes s) \<le> zb \<and> zb < b \<and> b < rem \<and> rem < phi)) \<and>
         (Int32Matcher s right = Some v \<and> v \<noteq> 0 \<longrightarrow>
          Binop (I32 kExprI32RemU) left right s
             = Some (NewNode (W32 Uint32Mod) [left, right, graph_start s] s)) \<and>
         (Int32Matcher s right = Some v \<and> v \<noteq> 0 \<longrightarrow>
          Binop (I32 kExprI32RemS) left right s =
             Some (length (nodes s) + 8,
                   s\<lparr>nodes := nodes s @
                      [\<lparr>node_op = Int32Constant (- 1), node_inputs = []\<rparr>,
                       \<lparr>node_op = W32 Word32Equal, node_inputs = [right, length (nodes s)]\<rparr>,
                       \<lparr>node_op = Branch kNone,
                          node_inputs = [length (nodes s) + 1, graph_start s]\<rparr>,
                       \<lparr>node_op = IfTrue, node_inputs = [length (nodes s) + 2]\<rparr>,
                       \<lparr>node_op = IfFalse, node_inputs = [length (nodes s) + 2]\<rparr>,
                       \<lparr>node_op = Merge 2,
                          node_inputs = [length (nodes s) + 3, length (nodes s) + 4]\<rparr>,
                       \<lparr>node_op = W32 Int32Mod,
                          node_inputs = [left, right, length (nodes s) + 4]\<rparr>,
                       \<lparr>node_op = Int32Constant 0, node_inputs = []\<rparr>,
                       \<lparr>node_op = Phi kMachInt32 2,
                          node_inputs = [length (nodes s) + 7, length (nodes s) + 6,
                                         length (nodes s) + 5]\<rparr>]\<rparr>)) \<and>
         (WASM_64 (target s) \<and>
          (Int64Matcher s right = None \<or> Int64Matcher s right = Some 0) \<longrightarrow>
          (\<exists>rem s' zc ze zb.
             Binop (I64 kExprI64RemU) left right s = Some (rem, s') \<and>
             is_node s' zc (Int64Constant 0) [] \<and>
             is_node s' ze (W64 Word64Equal) [right, zc] \<and>
             trap_check s' kTrapRemByZero zb ze True (control s) \<and>
             is_node s' rem (W64 Uint64Mod) [left, right, zb + 2] \<and>
             control_paths_pass s' (zb + 2) 1 rem \<and>
             length (nodes s) \<le> zb \<and> zb < rem)) \<and>
         (WASM_64 (target s) \<and>
          (Int64Matcher s right = None \<or> Int64Matcher s right = Some 0) \<longrightarrow>
          (\<exists>phi s' zc ze zb m1 eq b mrg rem zero.
             Binop (I64 kExprI64RemS) left right s = Some (phi, s') \<and>
             is_node s' zc (Int64Constant 0) [] \<and>
             is_node s' ze (W64 Word64Equal) [right, zc] \<and>
             trap_check s' kTrapRemByZero zb ze True (control s) \<and>
             is_node s' m1 (Int64Constant (- 1)) [] \<and>
             is_node s' eq (W64 Word64Equal) [right, m1] \<and>
             is_node s' b (Branch kNone) [eq, graph_start s] \<and>
             is_node s' (b + 1) IfTrue [b] \<and>
             is_node s' (b + 2) IfFalse [b] \<and>
             is_node s' mrg (Merge 2) [b + 1, b + 2] \<and>
             is_node s' rem (W64 Int64Mod) [left, right, b + 2] \<and>
             is_node s' zero (Int64Constant 0) [] \<and>
             is_node s' phi (Phi kMachInt64 2) [zero, rem, mrg] \<and>
             control s' = zb + 2 \<and>
             control_paths_pass s' (graph_start s) 3 rem \<and>
             (\<forall>k. \<not> control_paths_pass s' (zb + 2) k rem) \<and>
             length (nodes s) \<le> zb \<and> zb < b \<and> b < rem \<and> rem < phi)) \<and>
         (WASM_64 (target s) \<and>
          Int64Matcher s right = Some x \<and> x \<noteq> 0 \<longrightarrow>
          Binop (I64 kExprI64RemU) left right s
             = Some (NewNode (W64 Uint64Mod) [left, right, graph_start s] s)) \<and>
         (WASM_64 (target s) \<and>
          Int64Matcher s right = Some x \<and> x \<noteq> 0 \<longrightarrow>
          Binop (I64 kExprI64RemS) left right s =
             Some (length (nodes s) + 8,
                   s\<lparr>nodes := nodes s @
                      [\<lparr>node_op = Int64Constant (- 1), node_inputs = []\<rparr>,
                       \<lparr>node_op = W64 Word64Equal, node_inputs = [right, length (nodes s)]\<rparr>,
                       \<lparr>node_op = Branch kNone,
                          node_inputs = [length (nodes s) + 1, graph_start s]\<rparr>,
                       \<lparr>node_op = IfTrue, node_inputs = [length (nodes s) + 2]\<rparr>,
                       \<lparr>node_op = IfFalse, node_inputs = [length (nodes s) + 2]\<rparr>,
                       \<lparr>node_op = Merge 2,
                          node_inputs = [length (nodes s) + 3, length (nodes s) + 4]\<rparr>,
                       \<lparr>node_op = W64 Int64Mod,
                          node_inputs = [left, right, length (nodes s) + 4]\<rparr>,
                       \<lparr>node_op = Int64Constant 0, node_inputs = []\<rparr>,
                       \<lparr>node_op = Phi kMachInt64 2,
                          node_inputs = [length (nodes s) + 7, length (nodes s) + 6,
                                         length (nodes s) + 5]\<rparr>]\<rparr>))"
proof -
  have U32: "(Int32Matcher s right = None \<or> Int32Matcher s right = Some 0) \<longrightarrow>
          (\<exists>rem s' zb.
             Binop (I32 kExprI32RemU) left right s = Some (rem, s') \<and>
             trap_check s' kTrapRemByZero zb right False (control s) \<and>
             is_node s' rem (W32 Uint32Mod) [left, right, zb + 1] \<and>
             control_paths_pass s' (zb + 1) 1 rem \<and>
             length (nodes s) \<le> zb \<and> zb < rem)"
  proof
    assume a: "(Int32Matcher s right = None \<or> Int32Matcher s right = Some 0)"
    from Binop_I32RemU_checked [OF wf a, where left = left]
    obtain rem s' zb where H:
      "Binop (I32 kExprI32RemU) left right s = Some (rem, s')"
      "trap_check s' kTrapRemByZero zb right False (control s)"
      "is_node s' rem (W32 Uint32Mod) [left, right, zb + 1]"
      "length (nodes s) \<le> zb"
      "zb < rem"
      by (elim exE conjE) (rule that; assumption)
    have dom: "control_paths_pass s' (zb + 1) 1 rem"
      using H(3) by (rule direct_control_dominated) simp
    from H dom show "(\<exists>rem s' zb.
             Binop (I32 kExprI32RemU) left right s = Some (rem, s') \<and>
             trap_check s' kTrapRemByZero zb right False (control s) \<and>
             is_node s' rem (W32 Uint32Mod) [left, right, zb + 1] \<and>
             control_paths_pass s' (zb + 1) 1 rem \<and>
             length (nodes s) \<le> zb \<and> zb < rem)"
      by blast
  qed
  have S32: "(Int32Matcher s right = None \<or> Int32Matcher s right = Some 0) \<longrightarrow>
          (\<exists>phi s' zb m1 eq b mrg rem zero.
             Binop (I32 kExprI32RemS) left right s = Some (phi, s') \<and>
             trap_check s' kTrapRemByZero zb right False (control s) \<and>
             is_node s' m1 (Int32Constant (- 1)) [] \<and>
             is_node s' eq (W32 Word32Equal) [right, m1] \<and>
             is_node s' b (Branch kNone) [eq, graph_start s] \<and>
             is_node s' (b + 1) IfTrue [b] \<and>
             is_node s' (b + 2) IfFalse [b] \<and>
             is_node s' mrg (Merge 2) [b + 1, b + 2] \<and>
             is_node s' rem (W32 Int32Mod) [left, right, b + 2] \<and>
             is_node s' zero (Int32Constant 0) [] \<and>
             is_node s' phi (Phi kMachInt32 2) [zero, rem, mrg] \<and>
             control s' = zb + 1 \<and>
             control_paths_pass s' (graph_start s) 3 rem \<and>
             (\<forall>k. \<not> control_paths_pass s' (zb + 1) k rem) \<and>
             length (nodes s) \<le> zb \<and> zb < b \<and> b < rem \<and> rem < phi)"
  proof
    assume a: "(Int32Matcher s right = None \<or> Int32Matcher s right = Some 0)"
    from Binop_I32RemS_checked [OF wf a, where left = left]
    obtain phi s' zb m1 eq b mrg rem zero where H:
      "Binop (I32 kExprI32RemS) left right s = Some (phi, s')"
      "trap_check s' kTrapRemByZero zb right False (control s)"
      "is_node s' m1 (Int32Constant (- 1)) []"
      "is_node s' eq (W32 Word32Equal) [right, m1]"
      "is_node s' b (Branch kNone) [eq, graph_start s]"
      "is_node s' (b + 1) IfTrue [b]"
      "is_node s' (b + 2) IfFalse [b]"
      "is_node s' mrg (Merge 2) [b + 1, b + 2]"
      "is_node s' rem (W32 Int32Mod) [left, right, b + 2]"
      "is_node s' zero (Int32Constant 0) []"
      "is_node s' phi (Phi kMachInt32 2) [zero, rem, mrg]"
      "control s' = zb + 1"
      "length (nodes s) \<le> zb"
      "zb < b"
      "b < rem"
      "rem < phi"
      "builder_extends s s'"
      by (elim exE conjE) (rule that; assumption)
    have g: "is_node s' (graph_start s) (Start n) ins"
      using start _ H(17) by (rule is_node_extends) simp
    have p: "is_node s' (zb + 1) IfTrue [zb]"
      using H(2) by (simp add: trap_check_def)
    have ne: "zb + 1 \<noteq> graph_start s" "zb + 1 \<noteq> b" "zb + 1 \<noteq> b + 2" "zb + 1 \<noteq> rem"
      using p g H(5) H(7) H(9) \<open>zb < b\<close> by (auto simp add: is_node_def)
    note fl = diamond_false_side_floats [OF g H(5) H(7) H(9) _ ne]
    have d1: "control_paths_pass s' (graph_start s) 3 rem"
      by (rule fl(1)) simp
    have d2: "\<forall>k. \<not> control_paths_pass s' (zb + 1) k rem"
      by (intro allI fl(2)) simp
    from H d1 d2 show "(\<exists>phi s' zb m1 eq b mrg rem zero.
             Binop (I32 kExprI32RemS) left right s = Some (phi, s') \<and>
             trap_check s' kTrapRemByZero zb right False (control s) \<and>
             is_node s' m1 (Int32Constant (- 1)) [] \<and>
             is_node s' eq (W32 Word32Equal) [right, m1] \<and>
             is_node s' b (Branch kNone) [eq, graph_start s] \<and>
             is_node s' (b + 1) IfTrue [b] \<and>
             is_node s' (b + 2) IfFalse [b] \<and>
             is_node s' mrg (Merge 2) [b + 1, b + 2] \<and>
             is_node s' rem (W32 Int32Mod) [left, right, b + 2] \<and>
             is_node s' zero (Int32Constant 0) [] \<and>
             is_node s' phi (Phi kMachInt32 2) [zero, rem, mrg] \<and>
             control s' = zb + 1 \<and>
             control_paths_pass s' (graph_start s) 3 rem \<and>
             (\<forall>k. \<not> control_paths_pass s' (zb + 1) k rem) \<and>
             length (nodes s) \<le> zb \<and> zb < b \<and> b < rem \<and> rem < phi)"
      by blast
  qed
  have UF32: "Int32Matcher s right = Some v \<and> v \<noteq> 0 \<longrightarrow>
          Binop (I32 kExprI32RemU) left right s
             = Some (NewNode (W32 Uint32Mod) [left, right, graph_start s] s)"
  proof
    assume a: "Int32Matcher s right = Some v \<and> v \<noteq> 0"
    from a show "Binop (I32 kExprI32RemU) left right s
             = Some (NewNode (W32 Uint32Mod) [left, right, graph_start s] s)"
      by (elim conjE) (rule Binop_I32RemU_folded; assumption)
  qed
  have SF32: "Int32Matcher s right = Some v \<and> v \<noteq> 0 \<longrightarrow>
          Binop (I32 kExprI32RemS) left right s =
             Some (length (nodes s) + 8,
                   s\<lparr>nodes := nodes s @
                      [\<lparr>node_op = Int32Constant (- 1), node_inputs = []\<rparr>,
                       \<lparr>node_op = W32 Word32Equal, node_inputs = [right, length (nodes s)]\<rparr>,
                       \<lparr>node_op = Branch kNone,
                          node_inputs = [length (nodes s) + 1, graph_start s]\<rparr>,
                       \<lparr>node_op = IfTrue, node_inputs = [length (nodes s) + 2]\<rparr>,
                       \<lparr>node_op = IfFalse, node_inputs = [length (nodes s) + 2]\<rparr>,
                       \<lparr>node_op = Merge 2,
                          node_inputs = [length (nodes s) + 3, length (nodes s) + 4]\<rparr>,
                       \<lparr>node_op = W32 Int32Mod,
                          node_inputs = [left, right, length (nodes s) + 4]\<rparr>,
                       \<lparr>node_op = Int32Constant 0, node_inputs = []\<rparr>,
                       \<lparr>node_op = Phi kMachInt32 2,
                          node_inputs = [length (nodes s) + 7, length (nodes s) + 6,
                                         length (nodes s) + 5]\<rparr>]\<rparr>)"
  proof
    assume a: "Int32Matcher s right = Some v \<and> v \<noteq> 0"
    from a show "Binop (I32 kExprI32RemS) left right s =
             Some (length (nodes s) + 8,
                   s\<lparr>nodes := nodes s @
                      [\<lparr>node_op = Int32Constant (- 1), node_inputs = []\<rparr>,
                       \<lparr>node_op = W32 Word32Equal, node_inputs = [right, length (nodes s)]\<rparr>,
                       \<lparr>node_op = Branch kNone,
                          node_inputs = [length (nodes s) + 1, graph_start s]\<rparr>,
                       \<lparr>node_op = IfTrue, node_inputs = [length (nodes s) + 2]\<rparr>,
                       \<lparr>node_op = IfFalse, node_inputs = [length (nodes s) + 2]\<rparr>,
                       \<lparr>node_op = Merge 2,
                          node_inputs = [length (nodes s) + 3, length (nodes s) + 4]\<rparr>,
                       \<lparr>node_op = W32 Int32Mod,
                          node_inputs = [left, right, length (nodes s) + 4]\<rparr>,
                       \<lparr>node_op = Int32Constant 0, node_inputs = []\<rparr>,
                       \<lparr>node_op = Phi kMachInt32 2,
                          node_inputs = [length (nodes s) + 7, length (nodes s) + 6,
                                         length (nodes s) + 5]\<rparr>]\<rparr>)"
      by (elim conjE) (rule Binop_I32RemS_folded; assumption)
  qed
  have U64: "WASM_64 (target s) \<and>
          (Int64Matcher s right = None \<or> Int64Matcher s right = Some 0) \<longrightarrow>
          (\<exists>rem s' zc ze zb.
             Binop (I64 kExprI64RemU) left right s = Some (rem, s') \<and>
             is_node s' zc (Int64Constant 0) [] \<and>
             is_node s' ze (W64 Word64Equal) [right, zc] \<and>
             trap_check s' kTrapRemByZero zb ze True (control s) \<and>
             is_node s' rem (W64 Uint64Mod) [left, right, zb + 2] \<and>
             control_paths_pass s' (zb + 2) 1 rem \<and>
             length (nodes s) \<le> zb \<and> zb < rem)"
  proof
    assume a: "WASM_64 (target s) \<and>
          (Int64Matcher s right = None \<or> Int64Matcher s right = Some 0)"
    from a have aw: "WASM_64 (target s)"
      and am: "Int64Matcher s right = None \<or> Int64Matcher s right = Some 0"
      by simp_all
    from Binop_I64RemU_checked [OF wf aw am, where left = left]
    obtain rem s' zc ze zb where H:
      "Binop (I64 kExprI64RemU) left right s = Some (rem, s')"
      "is_node s' zc (Int64Constant 0) []"
      "is_node s' ze (W64 Word64Equal) [right, zc]"
      "trap_check s' kTrapRemByZero zb ze True (control s)"
      "is_node s' rem (W64 Uint64Mod) [left, right, zb + 2]"
      "length (nodes s) \<le> zb"
      "zb < rem"
      by (elim exE conjE) (rule that; assumption)
    have dom: "control_paths_pass s' (zb + 2) 1 rem"
      using H(5) by (rule direct_control_dominated) simp
    from H dom show "(\<exists>rem s' zc ze zb.
             Binop (I64 kExprI64RemU) left right s = Some (rem, s') \<and>
             is_node s' zc (Int64Constant 0) [] \<and>
             is_node s' ze (W64 Word64Equal) [right, zc] \<and>
             trap_check s' kTrapRemByZero zb ze True (control s) \<and>
             is_node s' rem (W64 Uint64Mod) [left, right, zb + 2] \<and>
             control_paths_pass s' (zb + 2) 1 rem \<and>
             length (nodes s) \<le> zb \<and> zb < rem)"
      by blast
  qed
  have S64: "WASM_64 (target s) \<and>
          (Int64Matcher s right = None \<or> Int64Matcher s right = Some 0) \<longrightarrow>
          (\<exists>phi s' zc ze zb m1 eq b mrg rem zero.
             Binop (I64 kExprI64RemS) left right s = Some (phi, s') \<and>
             is_node s' zc (Int64Constant 0) [] \<and>
             is_node s' ze (W64 Word64Equal) [right, zc] \<and>
             trap_check s' kTrapRemByZero zb ze True (control s) \<and>
             is_node s' m1 (Int64Constant (- 1)) [] \<and>
             is_node s' eq (W64 Word64Equal) [right, m1] \<and>
             is_node s' b (Branch kNone) [eq, graph_start s] \<and>
             is_node s' (b + 1) IfTrue [b] \<and>
             is_node s' (b + 2) IfFalse [b] \<and>
             is_node s' mrg (Merge 2) [b + 1, b + 2] \<and>
             is_node s' rem (W64 Int64Mod) [left, right, b + 2] \<and>
             is_node s' zero (Int64Constant 0) [] \<and>
             is_node s' phi (Phi kMachInt64 2) [zero, rem, mrg] \<and>
             control s' = zb + 2 \<and>
             control_paths_pass s' (graph_start s) 3 rem \<and>
             (\<forall>k. \<not> control_paths_pass s' (zb + 2) k rem) \<and>
             length (nodes s) \<le> zb \<and> zb < b \<and> b < rem \<and> rem < phi)"
  proof
    assume a: "WASM_64 (target s) \<and>
          (Int64Matcher s right = None \<or> Int64Matcher s right = Some 0)"
    from a have aw: "WASM_64 (target s)"
      and am: "Int64Matcher s right = None \<or> Int64Matcher s right = Some 0"
      by simp_all
    from Binop_I64RemS_checked [OF wf aw am, where left = left]
    obtain phi s' zc ze zb m1 eq b mrg rem zero where H:
      "Binop (I64 kExprI64RemS) left right s = Some (phi, s')"
      "is_node s' zc (Int64Constant 0) []"
      "is_node s' ze (W64 Word64Equal) [right, zc]"
      "trap_check s' kTrapRemByZero zb ze True (control s)"
      "is_node s' m1 (Int64Constant (- 1)) []"
      "is_node s' eq (W64 Word64Equal) [right, m1]"
      "is_node s' b (Branch kNone) [eq, graph_start s]"
      "is_node s' (b + 1) IfTrue [b]"
      "is_node s' (b + 2) IfFalse [b]"
      "is_node s' mrg (Merge 2) [b + 1, b + 2]"
      "is_node s' rem (W64 Int64Mod) [left, right, b + 2]"
      "is_node s' zero (Int64Constant 0) []"
      "is_node s' phi (Phi kMachInt64 2) [zero, rem, mrg]"
      "control s' = zb + 2"
      "length (nodes s) \<le> zb"
      "zb < b"
      "b < rem"
      "rem < phi"
      "builder_extends s s'"
      by (elim exE conjE) (rule that; assumption)
    have g: "is_node s' (graph_start s) (Start n) ins"
      using start _ H(19) by (rule is_node_extends) simp
    have p: "is_node s' (zb + 2) IfFalse [zb]"
      using H(4) by (simp add: trap_check_def)
    have ne: "zb + 2 \<noteq> graph_start s" "zb + 2 \<noteq> b" "zb + 2 \<noteq> b + 2" "zb + 2 \<noteq> rem"
      using p g H(7) H(9) H(11) \<open>zb < b\<close> by (auto simp add: is_node_def)
    note fl = diamond_false_side_floats [OF g H(7) H(9) H(11) _ ne]
    have d1: "control_paths_pass s' (graph_start s) 3 rem"
      by (rule fl(1)) simp
    have d2: "\<forall>k. \<not> control_paths_pass s' (zb + 2) k rem"
      by (intro allI fl(2)) simp
    from H d1 d2 show "(\<exists>phi s' zc ze zb m1 eq b mrg rem zero.
             Binop (I64 kExprI64RemS) left right s = Some (phi, s') \<and>
             is_node s' zc (Int64Constant 0) [] \<and>
             is_node s' ze (W64 Word64Equal) [right, zc] \<and>
             trap_check s' kTrapRemByZero zb ze True (control s) \<and>
             is_node s' m1 (Int64Constant (- 1)) [] \<and>
             is_node s' eq (W64 Word64Equal) [right, m1] \<and>
             is_node s' b (Branch kNone) [eq, graph_start s] \<and>
             is_node s' (b + 1) IfTrue [b] \<and>
             is_node s' (b + 2) IfFalse [b] \<and>
             is_node s' mrg (Merge 2) [b + 1, b + 2] \<and>
             is_node s' rem (W64 Int64Mod) [left, right, b + 2] \<and>
             is_node s' zero (Int64Constant 0) [] \<and>
             is_node s' phi (Phi kMachInt64 2) [zero, rem, mrg] \<and>
             control s' = zb + 2 \<and>
             control_paths_pass s' (graph_start s) 3 rem \<and>
             (\<forall>k. \<not> control_paths_pass s' (zb + 2) k rem) \<and>
             length (nodes s) \<le> zb \<and> zb < b \<and> b < rem \<and> rem < phi)"
      by blast
  qed
  have UF64: "WASM_64 (target s) \<and>
          Int64Matcher s right = Some x \<and> x \<noteq> 0 \<longrightarrow>
          Binop (I64 kExprI64RemU) left right s
             = Some (NewNode (W64 Uint64Mod) [left, right, graph_start s] s)"
  proof
    assume a: "WASM_64 (target s) \<and>
          Int64Matcher s right = Some x \<and> x \<noteq> 0"
    from a show "Binop (I64 kExprI64RemU) left right s
             = Some (NewNode (W64 Uint64Mod) [left, right, graph_start s] s)"
      by (elim conjE) (rule Binop_I64RemU_folded; assumption)
  qed
  have SF64: "WASM_64 (target s) \<and>
          Int64Matcher s right = Some x \<and> x \<noteq> 0 \<longrightarrow>
          Binop (I64 kExprI64RemS) left right s =
             Some (length (nodes s) + 8,
                   s\<lparr>nodes := nodes s @
                      [\<lparr>node_op = Int64Constant (- 1), node_inputs = []\<rparr>,
                       \<lparr>node_op = W64 Word64Equal, node_inputs = [right, length (nodes s)]\<rparr>,
                       \<lparr>node_op = Branch kNone,
                          node_inputs = [length (nodes s) + 1, graph_start s]\<rparr>,
                       \<lparr>node_op = IfTrue, node_inputs = [length (nodes s) + 2]\<rparr>,
                       \<lparr>node_op = IfFalse, node_inputs = [length (nodes s) + 2]\<rparr>,
                       \<lparr>node_op = Merge 2,
                          node_inputs = [length (nodes s) + 3, length (nodes s) + 4]\<rparr>,
                       \<lparr>node_op = W64 Int64Mod,
                          node_inputs = [left, right, length (nodes s) + 4]\<rparr>,
                       \<lparr>node_op = Int64Constant 0, node_inputs = []\<rparr>,
                       \<lparr>node_op = Phi kMachInt64 2,
                          node_inputs = [length (nodes s) + 7, length (nodes s) + 6,
                                         length (nodes s) + 5]\<rparr>]\<rparr>)"
  proof
    assume a: "WASM_64 (target s) \<and>
          Int64Matcher s right = Some x \<and> x \<noteq> 0"
    from a show "Binop (I64 kExprI64RemS) left right s =
             Some (length (nodes s) + 8,
                   s\<lparr>nodes := nodes s @
                      [\<lparr>node_op = Int64Constant (- 1), node_inputs = []\<rparr>,
                       \<lparr>node_op = W64 Word64Equal, node_inputs = [right, length (nodes s)]\<rparr>,
                       \<lparr>node_op = Branch kNone,
                          node_inputs = [length (nodes s) + 1, graph_start s]\<rparr>,
                       \<lparr>node_op = IfTrue, node_inputs = [length (nodes s) + 2]\<rparr>,
                       \<lparr>node_op = IfFalse, node_inputs = [length (nodes s) + 2]\<rparr>,
                       \<lparr>node_op = Merge 2,
                          node_inputs = [length (nodes s) + 3, length (nodes s) + 4]\<rparr>,
                       \<lparr>node_op = W64 Int64Mod,
                          node_inputs = [left, right, length (nodes s) + 4]\<rparr>,
                       \<lparr>node_op = Int64Constant 0, node_inputs = []\<rparr>,
                       \<lparr>node_op = Phi kMachInt64 2,
                          node_inputs = [length (nodes s) + 7, length (nodes s) + 6,
                                         length (nodes s) + 5]\<rparr>]\<rparr>)"
      by (elim conjE) (rule Binop_I64RemS_folded; assumption)
  qed
  from U32 S32 UF32 SF32 U64 S64 UF64 SF64 show ?thesis by (intro conjI)
qed

theorem Binop_Rem_zero_check_placement_witness:
  "builder_wf example_builder \<and> is_node example_builder 0 (Start 2) [] \<and>
   (\<exists>rem s' zb.
             Binop (I32 kExprI32RemU) 1 2 example_builder = Some (rem, s') \<and>
             trap_check s' kTrapRemByZero zb 2 False 0 \<and>
             is_node s' rem (W32 Uint32Mod) [1, 2, zb + 1] \<and>
             control_paths_pass s' (zb + 1) 1 rem \<and>
             5 \<le> zb \<and> zb < rem) \<and>
   (\<exists>phi s' zb m1 eq b mrg rem zero.
             Binop (I32 kExprI32RemS) 1 2 example_builder = Some (phi, s') \<and>
             trap_check s' kTrapRemByZero zb 2 False 0 \<and>
             is_node s' m1 (Int32Constant (- 1)) [] \<and>
             is_node s' eq (W32 Word32Equal) [2, m1] \<and>
             is_node s' b (Branch kNone) [eq, 0] \<and>
             is_node s' (b + 1) IfTrue [b] \<and>
             is_node s' (b + 2) IfFalse [b] \<and>
             is_node s' mrg (Merge 2) [b + 1, b + 2] \<and>
             is_node s' rem (W32 Int32Mod) [1, 2, b + 2] \<and>
             is_node s' zero (Int32Constant 0) [] \<and>
             is_node s' phi (Phi kMachInt32 2) [zero, rem, mrg] \<and>
             control s' = zb + 1 \<and>
             control_paths_pass s' 0 3 rem \<and>
             (\<forall>k. \<not> control_paths_pass s' (zb + 1) k rem) \<and>
             5 \<le> zb \<and> zb < b \<and> b < rem \<and> rem < phi) \<and>
   (Binop (I32 kExprI32RemU) 1 3 example_builder
             = Some (NewNode (W32 Uint32Mod) [1, 3, 0] example_builder)) \<and>
   (Binop (I32 kExprI32RemS) 1 3 example_builder =
             Some (13,
                   example_builder\<lparr>nodes := nodes example_builder @
                      [\<lparr>node_op = Int32Constant (- 1), node_inputs = []\<rparr>,
                       \<lparr>node_op = W32 Word32Equal, node_inputs = [3, 5]\<rparr>,
                       \<lparr>node_op = Branch kNone,
                          node_inputs = [6, 0]\<rparr>,
                       \<lparr>node_op = IfTrue, node_inputs = [7]\<rparr>,
                       \<lparr>node_op = IfFalse, node_inputs = [7]\<rparr>,
                       \<lparr>node_op = Merge 2,
                          node_inputs = [8, 9]\<rparr>,
                       \<lparr>node_op = W32 Int32Mod,
                          node_inputs = [1, 3, 9]\<rparr>,
                       \<lparr>node_op = Int32Constant 0, node_inputs = []\<rparr>,
                       \<lparr>node_op = Phi kMachInt32 2,
                          node_inputs = [12, 11,
                                         10]\<rparr>]\<rparr>)) \<and>
   (\<exists>rem s' zc ze zb.
             Binop (I64 kExprI64RemU) 1 2 example_builder = Some (rem, s') \<and>
             is_node s' zc (Int64Constant 0) [] \<and>
             is_node s' ze (W64 Word64Equal) [2, zc] \<and>
             trap_check s' kTrapRemByZero zb ze True 0 \<and>
             is_node s' rem (W64 Uint64Mod) [1, 2, zb + 2] \<and>
             control_paths_pass s' (zb + 2) 1 rem \<and>
             5 \<le> zb \<and> zb < rem) \<and>
   (\<exists>phi s' zc ze zb m1 eq b mrg rem zero.
             Binop (I64 kExprI64RemS) 1 2 example_builder = Some (phi, s') \<and>
             is_node s' zc (Int64Constant 0) [] \<and>
             is_node s' ze (W64 Word64Equal) [2, zc] \<and>
             trap_check s' kTrapRemByZero zb ze True 0 \<and>
             is_node s' m1 (Int64Constant (- 1)) [] \<and>
             is_node s' eq (W64 Word64Equal) [2, m1] \<and>
             is_node s' b (Branch kNone) [eq, 0] \<and>
             is_node s' (b + 1) IfTrue [b] \<and>
             is_node s' (b + 2) IfFalse [b] \<and>
             is_node s' mrg (Merge 2) [b + 1, b + 2] \<and>
             is_node s' rem (W64 Int64Mod) [1, 2, b + 2] \<and>
             is_node s' zero (Int64Constant 0) [] \<and>
             is_node s' phi (Phi kMachInt64 2) [zero, rem, mrg] \<and>
             control s' = zb + 2 \<and>
             control_paths_pass s' 0 3 rem \<and>
             (\<forall>k. \<not> control_paths_pass s' (zb + 2) k rem) \<and>
             5 \<le> zb \<and> zb < b \<and> b < rem \<and> rem < phi) \<and>
   (Binop (I64 kExprI64RemU) 1 4 example_builder
             = Some (NewNode (W64 Uint64Mod) [1, 4, 0] example_builder)) \<and>
   (Binop (I64 kExprI64RemS) 1 4 example_builder =
             Some (13,
                   example_builder\<lparr>nodes := nodes example_builder @
                      [\<lparr>node_op = Int64Constant (- 1), node_inputs = []\<rparr>,
                       \<lparr>node_op = W64 Word64Equal, node_inputs = [4, 5]\<rparr>,
                       \<lparr>node_op = Branch kNone,
                          node_inputs = [6, 0]\<rparr>,
                       \<lparr>node_op = IfTrue, node_inputs = [7]\<rparr>,
                       \<lparr>node_op = IfFalse, node_inputs = [7]\<rparr>,
                       \<lparr>node_op = Merge 2,
                          node_inputs = [8, 9]\<rparr>,
                       \<lparr>node_op = W64 Int64Mod,
                          node_inputs = [1, 4, 9]\<rparr>,
                       \<lparr>node_op = Int64Constant 0, node_inputs = []\<rparr>,
                       \<lparr>node_op = Phi kMachInt64 2,
                          node_inputs = [12, 11,
                                         10]\<rparr>]\<rparr>))"
proof -
  have st: "is_node example_builder (graph_start example_builder) (Start 2) []"
    by (simp add: is_node_def example_builder_def)
  have f: "length (nodes example_builder) = 5" "control example_builder = 0"
    "graph_start example_builder = 0"
    "Int32Matcher example_builder 2 = None" "Int32Matcher example_builder 3 = Some 7"
    "Int64Matcher example_builder 2 = None" "Int64Matcher example_builder 4 = Some 7"
    "WASM_64 (target example_builder)"
    by (simp_all add: example_builder_def Int32Matcher_def Int64Matcher_def target64_def)
  have U32: "(\<exists>rem s' zb.
             Binop (I32 kExprI32RemU) 1 2 example_builder = Some (rem, s') \<and>
             trap_check s' kTrapRemByZero zb 2 False 0 \<and>
             is_node s' rem (W32 Uint32Mod) [1, 2, zb + 1] \<and>
             control_paths_pass s' (zb + 1) 1 rem \<and>
             5 \<le> zb \<and> zb < rem)"
    using Binop_Rem_zero_check_placement [OF example_builder_wf st, where left = 1 and right = 2] f
    by simp
  have S32: "(\<exists>phi s' zb m1 eq b mrg rem zero.
             Binop (I32 kExprI32RemS) 1 2 example_builder = Some (phi, s') \<and>
             trap_check s' kTrapRemByZero zb 2 False 0 \<and>
             is_node s' m1 (Int32Constant (- 1)) [] \<and>
             is_node s' eq (W32 Word32Equal) [2, m1] \<and>
             is_node s' b (Branch kNone) [eq, 0] \<and>
             is_node s' (b + 1) IfTrue [b] \<and>
             is_node s' (b + 2) IfFalse [b] \<and>
             is_node s' mrg (Merge 2) [b + 1, b + 2] \<and>
             is_node s' rem (W32 Int32Mod) [1, 2, b + 2] \<and>
             is_node s' zero (Int32Constant 0) [] \<and>
             is_node s' phi (Phi kMachInt32 2) [zero, rem, mrg] \<and>
             control s' = zb + 1 \<and>
             control_paths_pass s' 0 3 rem \<and>
             (\<forall>k. \<not> control_paths_pass s' (zb + 1) k rem) \<and>
             5 \<le> zb \<and> zb < b \<and> b < rem \<and> rem < phi)"
    using Binop_Rem_zero_check_placement [OF example_builder_wf st, where left = 1 and right = 2] f
    by simp
  have UF32: "Binop (I32 kExprI32RemU) 1 3 example_builder
             = Some (NewNode (W32 Uint32Mod) [1, 3, 0] example_builder)"
    using Binop_Rem_zero_check_placement [OF example_builder_wf st, where left = 1 and right = 3 and v = 7] f
    by simp
  have SF32: "Binop (I32 kExprI32RemS) 1 3 example_builder =
             Some (13,
                   example_builder\<lparr>nodes := nodes example_builder @
                      [\<lparr>node_op = Int32Constant (- 1), node_inputs = []\<rparr>,
                       \<lparr>node_op = W32 Word32Equal, node_inputs = [3, 5]\<rparr>,
                       \<lparr>node_op = Branch kNone,
                          node_inputs = [6, 0]\<rparr>,
                       \<lparr>node_op = IfTrue, node_inputs = [7]\<rparr>,
                       \<lparr>node_op = IfFalse, node_inputs = [7]\<rparr>,
                       \<lparr>node_op = Merge 2,
                          node_inputs = [8, 9]\<rparr>,
                       \<lparr>node_op = W32 Int32Mod,
                          node_inputs = [1, 3, 9]\<rparr>,
                       \<lparr>node_op = Int32Constant 0, node_inputs = []\<rparr>,
                       \<lparr>node_op = Phi kMachInt32 2,
                          node_inputs = [12, 11,
                                         10]\<rparr>]\<rparr>)"
    using Binop_Rem_zero_check_placement [OF example_builder_wf st, where left = 1 and right = 3 and v = 7] f
    by simp
  have U64: "(\<exists>rem s' zc ze zb.
             Binop (I64 kExprI64RemU) 1 2 example_builder = Some (rem, s') \<and>
             is_node s' zc (Int64Constant 0) [] \<and>
             is_node s' ze (W64 Word64Equal) [2, zc] \<and>
             trap_check s' kTrapRemByZero zb ze True 0 \<and>
             is_node s' rem (W64 Uint64Mod) [1, 2, zb + 2] \<and>
             control_paths_pass s' (zb + 2) 1 rem \<and>
             5 \<le> zb \<and> zb < rem)"
    using Binop_Rem_zero_check_placement [OF example_builder_wf st, where left = 1 and right = 2] f
    by simp
  have S64: "(\<exists>phi s' zc ze zb m1 eq b mrg rem zero.
             Binop (I64 kExprI64RemS) 1 2 example_builder = Some (phi, s') \<and>
             is_node s' zc (Int64Constant 0) [] \<and>
             is_node s' ze (W64 Word64Equal) [2, zc] \<and>
             trap_check s' kTrapRemByZero zb ze True 0 \<and>
             is_node s' m1 (Int64Constant (- 1)) [] \<and>
             is_node s' eq (W64 Word64Equal) [2, m1] \<and>
             is_node s' b (Branch kNone) [eq, 0] \<and>
             is_node s' (b + 1) IfTrue [b] \<and>
             is_node s' (b + 2) IfFalse [b] \<and>
             is_node s' mrg (Merge 2) [b + 1, b + 2] \<and>
             is_node s' rem (W64 Int64Mod) [1, 2, b + 2] \<and>
             is_node s' zero (Int64Constant 0) [] \<and>
             is_node s' phi (Phi kMachInt64 2) [zero, rem, mrg] \<and>
             control s' = zb + 2 \<and>
             control_paths_pass s' 0 3 rem \<and>
             (\<forall>k. \<not> control_paths_pass s' (zb + 2) k rem) \<and>
             5 \<le> zb \<and> zb < b \<and> b < rem \<and> rem < phi)"
    using Binop_Rem_zero_check_placement [OF example_builder_wf st, where left = 1 and right = 2] f
    by simp
  have UF64: "Binop (I64 kExprI64RemU) 1 4 example_builder
             = Some (NewNode (W64 Uint64Mod) [1, 4, 0] example_builder)"
    using Binop_Rem_zero_check_placement [OF example_builder_wf st, where left = 1 and right = 4 and x = 7] f
    by simp
  have SF64: "Binop (I64 kExprI64RemS) 1 4 example_builder =
             Some (13,
                   example_builder\<lparr>nodes := nodes example_builder @
                      [\<lparr>node_op = Int64Constant (- 1), node_inputs = []\<rparr>,
                       \<lparr>node_op = W64 Word64Equal, node_inputs = [4, 5]\<rparr>,
                       \<lparr>node_op = Branch kNone,
                          node_inputs = [6, 0]\<rparr>,
                       \<lparr>node_op = IfTrue, node_inputs = [7]\<rparr>,
                       \<lparr>node_op = IfFalse, node_inputs = [7]\<rparr>,
                       \<lparr>node_op = Merge 2,
                          node_inputs = [8, 9]\<rparr>,
                       \<lparr>node_op = W64 Int64Mod,
                          node_inputs = [1, 4, 9]\<rparr>,
                       \<lparr>node_op = Int64Constant 0, node_inputs = []\<rparr>,
                       \<lparr>node_op = Phi kMachInt64 2,
                          node_inputs = [12, 11,
                                         10]\<rparr>]\<rparr>)"
    using Binop_Rem_zero_check_placement [OF example_builder_wf st, where left = 1 and right = 4 and x = 7] f
    by simp
  from example_builder_wf st f(3) U32 S32 UF32 SF32 U64 S64 UF64 SF64 show ?thesis by simp
qed

text \<open>
  The signed remainder of parameter 0 by parameter 1 on the example builder: the whole
  graph afterwards. The check on the divisor (nodes 5 to 7) leads to the trap block of
  \<open>kTrapRemByZero\<close> (merge node 9, message \<open>remainder by zero\<close>); there is no trap block
  for \<open>kTrapDivByZero\<close>. The builder's control is node 6, the side of the check that goes
  on, but the remainder operator (node 20) is under the false projection 18 of the branch
  16, whose control input is the start node 0: no control path back from node 20 comes to
  node 6.
\<close>

theorem Binop_RemS_mod_not_under_zero_check:
  "\<exists>s'. Binop (I32 kExprI32RemS) 1 2 example_builder = Some (22, s') \<and>
      nodes s' =
        [\<lparr>node_op = Start 2, node_inputs = []\<rparr>,
         \<lparr>node_op = Parameter 0, node_inputs = [0]\<rparr>,
         \<lparr>node_op = Parameter 1, node_inputs = [0]\<rparr>,
         \<lparr>node_op = Int32Constant 7, node_inputs = []\<rparr>,
         \<lparr>node_op = Int64Constant 7, node_inputs = []\<rparr>,
         \<lparr>node_op = Branch kTrue, node_inputs = [2, 0]\<rparr>,
         \<lparr>node_op = IfTrue, node_inputs = [5]\<rparr>,
         \<lparr>node_op = IfFalse, node_inputs = [5]\<rparr>,
         \<lparr>node_op = HeapConstant ''remainder by zero'', node_inputs = []\<rparr>,
         \<lparr>node_op = Merge 1, node_inputs = [7]\<rparr>,
         \<lparr>node_op = EffectPhi 1, node_inputs = [0, 9]\<rparr>,
         \<lparr>node_op = Int32Constant 0xdeadbeef, node_inputs = []\<rparr>,
         \<lparr>node_op = Return, node_inputs = [11, 10, 9]\<rparr>,
         \<lparr>node_op = End 1, node_inputs = [12]\<rparr>,
         \<lparr>node_op = Int32Constant (- 1), node_inputs = []\<rparr>,
         \<lparr>node_op = W32 Word32Equal, node_inputs = [2, 14]\<rparr>,
         \<lparr>node_op = Branch kNone, node_inputs = [15, 0]\<rparr>,
         \<lparr>node_op = IfTrue, node_inputs = [16]\<rparr>,
         \<lparr>node_op = IfFalse, node_inputs = [16]\<rparr>,
         \<lparr>node_op = Merge 2, node_inputs = [17, 18]\<rparr>,
         \<lparr>node_op = W32 Int32Mod, node_inputs = [1, 2, 18]\<rparr>,
         \<lparr>node_op = Int32Constant 0, node_inputs = []\<rparr>,
         \<lparr>node_op = Phi kMachInt32 2, node_inputs = [21, 20, 19]\<rparr>] \<and>
      control s' = 6 \<and>
      traps s' kTrapRemByZero = Some 9 \<and> traps s' kTrapDivByZero = None \<and>
      control_paths_pass s' 0 3 20 \<and>
      (\<forall>k. \<not> control_paths_pass s' 6 k 20)"
proof -
  let ?g = "[\<lparr>node_op = Start 2, node_inputs = []\<rparr>,
         \<lparr>node_op = Parameter 0, node_inputs = [0]\<rparr>,
         \<lparr>node_op = Parameter 1, node_inputs = [0]\<rparr>,
         \<lparr>node_op = Int32Constant 7, node_inputs = []\<rparr>,
         \<lparr>node_op = Int64Constant 7, node_inputs = []\<rparr>,
         \<lparr>node_op = Branch kTrue, node_inputs = [2, 0]\<rparr>,
         \<lparr>node_op = IfTrue, node_inputs = [5]\<rparr>,
         \<lparr>node_op = IfFalse, node_inputs = [5]\<rparr>,
         \<lparr>node_op = HeapConstant ''remainder by zero'', node_inputs = []\<rparr>,
         \<lparr>node_op = Merge 1, node_inputs = [7]\<rparr>,
         \<lparr>node_op = EffectPhi 1, node_inputs = [0, 9]\<rparr>,
         \<lparr>node_op = Int32Constant 0xdeadbeef, node_inputs = []\<rparr>,
         \<lparr>node_op = Return, node_inputs = [11, 10, 9]\<rparr>,
         \<lparr>node_op = End 1, node_inputs = [12]\<rparr>,
         \<lparr>node_op = Int32Constant (- 1), node_inputs = []\<rparr>,
         \<lparr>node_op = W32 Word32Equal, node_inputs = [2, 14]\<rparr>,
         \<lparr>node_op = Branch kNone, node_inputs = [15, 0]\<rparr>,
         \<lparr>node_op = IfTrue, node_inputs = [16]\<rparr>,
         \<lparr>node_op = IfFalse, node_inputs = [16]\<rparr>,
         \<lparr>node_op = Merge 2, node_inputs = [17, 18]\<rparr>,
         \<lparr>node_op = W32 Int32Mod, node_inputs = [1, 2, 18]\<rparr>,
         \<lparr>node_op = Int32Constant 0, node_inputs = []\<rparr>,
         \<lparr>node_op = Phi kMachInt32 2, node_inputs = [21, 20, 19]\<rparr>]"
  have ev: "map_option (\<lambda>(d, s'). (d, nodes s', control s', traps s' kTrapRemByZero,
                                    traps s' kTrapDivByZero))
              (Binop (I32 kExprI32RemS) 1 2 example_builder)
            = Some (22, ?g, 6, Some 9, None)"
    by code_simp
  then obtain s' where run: "Binop (I32 kExprI32RemS) 1 2 example_builder = Some (22, s')"
    and n: "nodes s' = ?g" and c: "control s' = 6"
    and t: "traps s' kTrapRemByZero = Some 9" "traps s' kTrapDivByZero = None"
    by (cases "Binop (I32 kExprI32RemS) 1 2 example_builder") auto
  have g: "is_node s' 0 (Start 2) []" and b: "is_node s' 16 (Branch kNone) [15, 0]"
    and f: "is_node s' (16 + 2) IfFalse [16]"
    and m: "is_node s' 20 (W32 Int32Mod) [1, 2, 16 + 2]"
    by (simp_all add: is_node_def n)
  have ne: "(6 :: nat) \<noteq> 0" "(6 :: nat) \<noteq> 16" "(6 :: nat) \<noteq> 16 + 2" "(6 :: nat) \<noteq> 20"
    by simp_all
  note fl = diamond_false_side_floats [OF g b f m _ ne]
  have d1: "control_paths_pass s' 0 3 20" by (rule fl(1)) simp
  have d2: "\<forall>k. \<not> control_paths_pass s' 6 k 20" by (intro allI fl(2)) simp
  from run n c t d1 d2 show ?thesis by blast
qed

section \<open>Opcodes reported as unsupported\<close>

lemma Build_Binop_word32:
  "Build (Suc n) (Call_Binop (I32 kExprI32Shl) l r) s = Some (NewNode (W32 Word32Shl) [l, r] s)"
  "Build (Suc n) (Call_Binop (I32 kExprI32ShrU) l r) s = Some (NewNode (W32 Word32Shr) [l, r] s)"
  "Build (Suc n) (Call_Binop (I32 kExprI32And) l r) s = Some (NewNode (W32 Word32And) [l, r] s)"
  "Build (Suc n) (Call_Binop (I32 kExprI32Ior) l r) s = Some (NewNode (W32 Word32Or) [l, r] s)"
  "Build (Suc n) (Call_Binop (I32 kExprI32Xor) l r) s = Some (NewNode (W32 Word32Xor) [l, r] s)"
  "Build (Suc n) (Call_Binop (I32 kExprI32Add) l r) s = Some (NewNode (W32 Int32Add) [l, r] s)"
  by simp_all

lemma Build_MakeI32Popcnt:
  "Build (Suc (Suc n)) (Call_MakeI32Popcnt x) s =
     Some (length (nodes s) + 34,
           s\<lparr>nodes := nodes s @ MakeI32Popcnt_nodes (length (nodes s)) x\<rparr>)"
  apply (subst Build.simps)
  apply (simp add: Build_Binop_word32 Int32Constant_node_def NewNode_def MakeI32Popcnt_nodes_def
      popcnt32_round_def eval_nat_numeral del: Build.simps)
  done

lemma Build_MakeI32Ctz:
  "Build (Suc (Suc (Suc n))) (Call_MakeI32Ctz x) s =
     Some (length (nodes s) + 51,
           s\<lparr>nodes := nodes s @ MakeI32Ctz_nodes (length (nodes s)) x\<rparr>)"
  apply (subst Build.simps)
  apply (simp add: Build_Binop_word32 Build_MakeI32Popcnt Int32Constant_node_def NewNode_def
      MakeI32Ctz_nodes_def smear32_round_def eval_nat_numeral del: Build.simps)
  done

lemma Build_Binop_word64:
  assumes "WASM_64 (target s)"
  shows
  "Build (Suc n) (Call_Binop (I64 kExprI64Shl) l r) s = Some (NewNode (W64 Word64Shl) [l, r] s)"
  "Build (Suc n) (Call_Binop (I64 kExprI64ShrU) l r) s = Some (NewNode (W64 Word64Shr) [l, r] s)"
  "Build (Suc n) (Call_Binop (I64 kExprI64And) l r) s = Some (NewNode (W64 Word64And) [l, r] s)"
  "Build (Suc n) (Call_Binop (I64 kExprI64Ior) l r) s = Some (NewNode (W64 Word64Or) [l, r] s)"
  "Build (Suc n) (Call_Binop (I64 kExprI64Xor) l r) s = Some (NewNode (W64 Word64Xor) [l, r] s)"
  "Build (Suc n) (Call_Binop (I64 kExprI64Add) l r) s = Some (NewNode (W64 Int64Add) [l, r] s)"
  using assms by simp_all

lemma Build_Unop_bitcast:
  "Build (Suc n) (Call_Unop (Cnv kExprI32ReinterpretF32) x) s
     = Some (NewNode (Conv BitcastFloat32ToInt32) [x] s)"
  "Build (Suc n) (Call_Unop (Cnv kExprF32ReinterpretI32) x) s
     = Some (NewNode (Conv BitcastInt32ToFloat32) [x] s)"
  "WASM_64 (target s) \<Longrightarrow> Build (Suc n) (Call_Unop (Cnv kExprI64ReinterpretF64) x) s
     = Some (NewNode (Conv BitcastFloat64ToInt64) [x] s)"
  "WASM_64 (target s) \<Longrightarrow> Build (Suc n) (Call_Unop (Cnv kExprF64ReinterpretI64) x) s
     = Some (NewNode (Conv BitcastInt64ToFloat64) [x] s)"
  by simp_all

lemma target_nodes_update: "target (s\<lparr>nodes := ns\<rparr>) = target s"
  by simp

lemma Build_MakeI64Popcnt:
  assumes "WASM_64 (target s)"
  shows "Build (Suc (Suc n)) (Call_MakeI64Popcnt x) s =
     Some (length (nodes s) + 41,
           s\<lparr>nodes := nodes s @ MakeI64Popcnt_nodes (length (nodes s)) x\<rparr>)"
  apply (subst Build.simps)
  using assms
  apply (simp add: Build_Binop_word64 Int64Constant_node_def NewNode_def MakeI64Popcnt_nodes_def
      popcnt64_round_def eval_nat_numeral del: Build.simps)
  done

lemma Build_MakeI64Ctz:
  assumes "WASM_64 (target s)"
  shows "Build (Suc (Suc (Suc n))) (Call_MakeI64Ctz x) s =
     Some (length (nodes s) + 61,
           s\<lparr>nodes := nodes s @ MakeI64Ctz_nodes (length (nodes s)) x\<rparr>)"
  apply (subst Build.simps)
  using assms
  apply (simp add: Build_Binop_word64 Build_MakeI64Popcnt Int64Constant_node_def NewNode_def
      MakeI64Ctz_nodes_def smear64_round_def eval_nat_numeral del: Build.simps)
  done

lemma Build_MakeF32CopySign:
  "Build (Suc (Suc n)) (Call_MakeF32CopySign l r) s =
     Some (length (nodes s) + 7,
           s\<lparr>nodes := nodes s @ MakeF32CopySign_nodes (length (nodes s)) l r\<rparr>)"
  apply (subst Build.simps)
  apply (simp add: Build_Binop_word32 Build_Unop_bitcast Int32Constant_node_def NewNode_def
      MakeF32CopySign_nodes_def eval_nat_numeral del: Build.simps)
  done

lemma Build_MakeF64CopySign:
  "Build (Suc (Suc n)) (Call_MakeF64CopySign l r) s =
     Some (length (nodes s) + 7,
           s\<lparr>nodes := nodes s
              @ MakeF64CopySign_nodes (WASM_64 (target s)) (length (nodes s)) l r\<rparr>)"
  apply (subst Build.simps)
  apply (simp add: Build_Binop_word32 Build_Binop_word64 Build_Unop_bitcast
      Int32Constant_node_def Int64Constant_node_def NewNode_def
      MakeF64CopySign_nodes_def eval_nat_numeral del: Build.simps)
  done

lemma lowered_from_append:
  assumes "new \<noteq> []" "list_all (\<lambda>nd. is_lowering_op (node_op nd)) new"
  shows "lowered_from s (Some (n, s\<lparr>nodes := nodes s @ new\<rparr>))"
  using assms by (simp add: lowered_from_def)

lemma lowering_nodes:
  "list_all (\<lambda>nd. is_lowering_op (node_op nd)) (MakeI32Popcnt_nodes L x)"
  "list_all (\<lambda>nd. is_lowering_op (node_op nd)) (MakeI32Ctz_nodes L x)"
  "list_all (\<lambda>nd. is_lowering_op (node_op nd)) (MakeI64Popcnt_nodes L x)"
  "list_all (\<lambda>nd. is_lowering_op (node_op nd)) (MakeI64Ctz_nodes L x)"
  "list_all (\<lambda>nd. is_lowering_op (node_op nd)) (MakeF32CopySign_nodes L l r)"
  "list_all (\<lambda>nd. is_lowering_op (node_op nd)) (MakeF64CopySign_nodes w L l r)"
  "MakeI32Popcnt_nodes L x \<noteq> []" "MakeI32Ctz_nodes L x \<noteq> []"
  "MakeI64Popcnt_nodes L x \<noteq> []" "MakeI64Ctz_nodes L x \<noteq> []"
  "MakeF32CopySign_nodes L l r \<noteq> []" "MakeF64CopySign_nodes w L l r \<noteq> []"
  by (simp_all add: MakeI32Popcnt_nodes_def MakeI32Ctz_nodes_def MakeI64Popcnt_nodes_def
      MakeI64Ctz_nodes_def MakeF32CopySign_nodes_def MakeF64CopySign_nodes_def
      popcnt32_round_def smear32_round_def popcnt64_round_def smear64_round_def)

lemma Unop_lowered:
  "\<not> Word32Ctz_IsSupported (target s) \<Longrightarrow>
     lowered_from s (Unop (I32 kExprI32Ctz) x s)"
  "\<not> Word32Popcnt_IsSupported (target s) \<Longrightarrow>
     lowered_from s (Unop (I32 kExprI32Popcnt) x s)"
  "WASM_64 (target s) \<Longrightarrow> \<not> Word64Ctz_IsSupported (target s) \<Longrightarrow>
     lowered_from s (Unop (I64 kExprI64Ctz) x s)"
  "WASM_64 (target s) \<Longrightarrow> \<not> Word64Popcnt_IsSupported (target s) \<Longrightarrow>
     lowered_from s (Unop (I64 kExprI64Popcnt) x s)"
proof -
  have u: "Unop opcode x s = Build (Suc (Suc (Suc (Suc 0)))) (Call_Unop opcode x) s" for opcode
    by (simp add: Unop_def eval_nat_numeral)
  show "\<not> Word32Ctz_IsSupported (target s) \<Longrightarrow> lowered_from s (Unop (I32 kExprI32Ctz) x s)"
    unfolding u by (subst Build.simps)
      (simp add: Build_MakeI32Ctz lowered_from_append lowering_nodes del: Build.simps)
  show "\<not> Word32Popcnt_IsSupported (target s) \<Longrightarrow>
      lowered_from s (Unop (I32 kExprI32Popcnt) x s)"
    unfolding u by (subst Build.simps)
      (simp add: Build_MakeI32Popcnt lowered_from_append lowering_nodes del: Build.simps)
  show "WASM_64 (target s) \<Longrightarrow> \<not> Word64Ctz_IsSupported (target s) \<Longrightarrow>
      lowered_from s (Unop (I64 kExprI64Ctz) x s)"
    unfolding u by (subst Build.simps)
      (simp add: Build_MakeI64Ctz lowered_from_append lowering_nodes del: Build.simps)
  show "WASM_64 (target s) \<Longrightarrow> \<not> Word64Popcnt_IsSupported (target s) \<Longrightarrow>
      lowered_from s (Unop (I64 kExprI64Popcnt) x s)"
    unfolding u by (subst Build.simps)
      (simp add: Build_MakeI64Popcnt lowered_from_append lowering_nodes del: Build.simps)
qed

lemma Binop_lowered:
  "lowered_from s (Binop (F32op kExprF32CopySign) l r s)"
  "lowered_from s (Binop (F64op kExprF64CopySign) l r s)"
proof -
  have u: "Binop opcode l r s = Build (Suc (Suc (Suc (Suc 0)))) (Call_Binop opcode l r) s"
    for opcode
    by (simp add: Binop_def eval_nat_numeral)
  show "lowered_from s (Binop (F32op kExprF32CopySign) l r s)"
    unfolding u by (subst Build.simps)
      (simp add: Build_MakeF32CopySign lowered_from_append lowering_nodes del: Build.simps)
  show "lowered_from s (Binop (F64op kExprF64CopySign) l r s)"
    unfolding u by (subst Build.simps)
      (simp add: Build_MakeF64CopySign lowered_from_append lowering_nodes del: Build.simps)
qed

lemma Unop_unsupported_I32:
  assumes "\<not> IsSupported (target s) (I32 x)"
  shows "outcome_holds (Unop_outcome (target s) (I32 x)) s [input] (Unop (I32 x) input s)"
  using assms
  by (cases x)
     (simp_all add: IsSupported_def Unop_outcome_def outcome_holds_def Unop_lowered,
      simp_all add: Unop_def eval_nat_numeral)

lemma Binop_unsupported_I32:
  assumes "\<not> IsSupported (target s) (I32 x)"
  shows "outcome_holds (Binop_outcome (target s) (I32 x)) s [l, r] (Binop (I32 x) l r s)"
  using assms
  by (cases x)
     (simp_all add: IsSupported_def Binop_outcome_def outcome_holds_def UnsupportedOpcode_def
        Binop_def eval_nat_numeral)

lemma Unop_unsupported_I64:
  assumes "\<not> IsSupported (target s) (I64 x)"
  shows "outcome_holds (Unop_outcome (target s) (I64 x)) s [input] (Unop (I64 x) input s)"
  using assms
  by (cases x; cases "WASM_64 (target s)")
     (simp_all add: IsSupported_def Unop_outcome_def outcome_holds_def Unop_lowered
        UnsupportedOpcode_def,
      simp_all add: Unop_def eval_nat_numeral UnsupportedOpcode_def)

lemma Binop_unsupported_I64:
  assumes "\<not> IsSupported (target s) (I64 x)"
  shows "outcome_holds (Binop_outcome (target s) (I64 x)) s [l, r] (Binop (I64 x) l r s)"
  using assms
  by (cases x; cases "WASM_64 (target s)")
     (simp_all add: IsSupported_def Binop_outcome_def outcome_holds_def Binop_lowered
        UnsupportedOpcode_def,
      simp_all add: Binop_def eval_nat_numeral UnsupportedOpcode_def)

lemma Unop_unsupported_F32:
  assumes "\<not> IsSupported (target s) (F32op x)"
  shows "outcome_holds (Unop_outcome (target s) (F32op x)) s [input] (Unop (F32op x) input s)"
  using assms
  by (cases x; cases "WASM_64 (target s)")
     (simp_all add: IsSupported_def Unop_outcome_def outcome_holds_def Unop_lowered
        UnsupportedOpcode_def,
      simp_all add: Unop_def eval_nat_numeral UnsupportedOpcode_def)

lemma Binop_unsupported_F32:
  assumes "\<not> IsSupported (target s) (F32op x)"
  shows "outcome_holds (Binop_outcome (target s) (F32op x)) s [l, r] (Binop (F32op x) l r s)"
  using assms
  by (cases x; cases "WASM_64 (target s)")
     (simp_all add: IsSupported_def Binop_outcome_def outcome_holds_def Binop_lowered
        UnsupportedOpcode_def,
      simp_all add: Binop_def eval_nat_numeral UnsupportedOpcode_def)

lemma Unop_unsupported_F64:
  assumes "\<not> IsSupported (target s) (F64op x)"
  shows "outcome_holds (Unop_outcome (target s) (F64op x)) s [input] (Unop (F64op x) input s)"
  using assms
  by (cases x; cases "WASM_64 (target s)")
     (simp_all add: IsSupported_def Unop_outcome_def outcome_holds_def Unop_lowered
        UnsupportedOpcode_def,
      simp_all add: Unop_def eval_nat_numeral UnsupportedOpcode_def)

lemma Binop_unsupported_F64:
  assumes "\<not> IsSupported (target s) (F64op x)"
  shows "outcome_holds (Binop_outcome (target s) (F64op x)) s [l, r] (Binop (F64op x) l r s)"
  using assms
  by (cases x; cases "WASM_64 (target s)")
     (simp_all add: IsSupported_def Binop_outcome_def outcome_holds_def Binop_lowered
        UnsupportedOpcode_def,
      simp_all add: Binop_def eval_nat_numeral UnsupportedOpcode_def)

lemma Unop_unsupported_Cnv:
  assumes "\<not> IsSupported (target s) (Cnv x)"
  shows "outcome_holds (Unop_outcome (target s) (Cnv x)) s [input] (Unop (Cnv x) input s)"
  using assms
  by (cases x; cases "WASM_64 (target s)")
     (simp_all add: IsSupported_def Unop_outcome_def outcome_holds_def Unop_lowered
        UnsupportedOpcode_def,
      simp_all add: Unop_def eval_nat_numeral UnsupportedOpcode_def)

lemma Binop_unsupported_Cnv:
  assumes "\<not> IsSupported (target s) (Cnv x)"
  shows "outcome_holds (Binop_outcome (target s) (Cnv x)) s [l, r] (Binop (Cnv x) l r s)"
  using assms
  by (cases x; cases "WASM_64 (target s)")
     (simp_all add: IsSupported_def Binop_outcome_def outcome_holds_def Binop_lowered
        UnsupportedOpcode_def,
      simp_all add: Binop_def eval_nat_numeral UnsupportedOpcode_def)

lemma unsupported_Other: "IsSupported tg (kExprOther k)"
  by (simp add: IsSupported_def)

text \<open>
  C4. For an opcode that \<open>IsSupported\<close> reports as unsupported on the target, the result
  of \<open>Unop\<close> and of \<open>Binop\<close> is the entry of the table: \<open>Unop\<close> makes the one node with
  the opcode's machine operator for \<open>I32Clz\<close>, on a 64-bit target for \<open>I64Clz\<close> and the four
  conversions from i64 to a float, and for count-trailing-zeros, population count and
  the four roundings when the machine offers the operator; \<open>Binop\<close> does so for minimum
  and maximum when the machine offers them. Count-trailing-zeros and population count
  without the machine operator, and copy-sign always, become a lowered sequence made of
  constants, bitwise operators, shifts, additions and bit casts only. In every other
  case the process ends.
\<close>

theorem unsupported_opcode_outcome:
  assumes "\<not> IsSupported (target s) opcode"
  shows "outcome_holds (Unop_outcome (target s) opcode) s [input] (Unop opcode input s) \<and>
         outcome_holds (Binop_outcome (target s) opcode) s [left, right]
           (Binop opcode left right s)"
proof (cases opcode)
  case (I32 x)
  with assms Unop_unsupported_I32 [of s x input] Binop_unsupported_I32 [of s x left right]
  show ?thesis by simp
next
  case (I64 x)
  with assms Unop_unsupported_I64 [of s x input] Binop_unsupported_I64 [of s x left right]
  show ?thesis by simp
next
  case (F32op x)
  with assms Unop_unsupported_F32 [of s x input] Binop_unsupported_F32 [of s x left right]
  show ?thesis by simp
next
  case (F64op x)
  with assms Unop_unsupported_F64 [of s x input] Binop_unsupported_F64 [of s x left right]
  show ?thesis by simp
next
  case (Cnv x)
  with assms Unop_unsupported_Cnv [of s x input] Binop_unsupported_Cnv [of s x left right]
  show ?thesis by simp
next
  case (kExprOther k)
  with assms unsupported_Other show ?thesis by simp
qed

theorem unsupported_opcode_outcome_witness:
  "\<not> IsSupported (target example_builder) (I32 kExprI32Ctz) \<and>
   Unop_outcome (target example_builder) (I32 kExprI32Ctz) = Lowered \<and>
   lowered_from example_builder (Unop (I32 kExprI32Ctz) 1 example_builder) \<and>
   Binop (I32 kExprI32Ctz) 1 2 example_builder = None"
proof -
  have a: "\<not> IsSupported (target example_builder) (I32 kExprI32Ctz)"
    by (simp add: IsSupported_def)
  have b: "Unop_outcome (target example_builder) (I32 kExprI32Ctz) = Lowered"
    "Binop_outcome (target example_builder) (I32 kExprI32Ctz) = Fatal"
    by (simp_all add: Unop_outcome_def Binop_outcome_def example_builder_def target64_def)
  from unsupported_opcode_outcome [OF a, of 1 1 2] a b show ?thesis
    by (simp add: outcome_holds_def)
qed

text \<open>
  \<open>I32Clz\<close> on the example builder: the table of opcodes reports it unsupported, and
  \<open>Unop\<close> adds one node whose operator is \<open>Word32Clz\<close>.
\<close>

theorem Unop_I32Clz_emits_primitive:
  "IsSupported (target example_builder) (I32 kExprI32Clz) = False \<and>
   map_option (\<lambda>(n, s'). (n, drop 5 (nodes s'))) (Unop (I32 kExprI32Clz) 1 example_builder)
     = Some (5, [\<lparr>node_op = W32 Word32Clz, node_inputs = [1]\<rparr>])"
  by code_simp

section \<open>Count trailing zeros\<close>

lemma smear_step:
  fixes v x :: "32 word"
  assumes v: "\<And>i. bit v i \<longleftrightarrow> i < 32 \<and> (\<exists>k<K. k \<le> i \<and> bit x (i - k))"
  shows "bit (v OR push_bit K v) i \<longleftrightarrow> i < 32 \<and> (\<exists>k<2 * K. k \<le> i \<and> bit x (i - k))"
proof -
  have "bit (v OR push_bit K v) i \<longleftrightarrow> bit v i \<or> (K \<le> i \<and> i < 32 \<and> bit v (i - K))"
    by (auto simp add: bit_or_iff bit_push_bit_iff)
  also have "\<dots> \<longleftrightarrow> i < 32 \<and> (\<exists>k<2 * K. k \<le> i \<and> bit x (i - k))"
  proof (intro iffI)
    assume "bit v i \<or> (K \<le> i \<and> i < 32 \<and> bit v (i - K))"
    then show "i < 32 \<and> (\<exists>k<2 * K. k \<le> i \<and> bit x (i - k))"
    proof
      assume "bit v i"
      then obtain k where "i < 32" "k < K" "k \<le> i" "bit x (i - k)" using v by blast
      then show ?thesis by (intro conjI exI [of _ k]) simp_all
    next
      assume a: "K \<le> i \<and> i < 32 \<and> bit v (i - K)"
      then obtain k where k: "k < K" "k \<le> i - K" "bit x (i - K - k)" using v by blast
      have "i - K - k = i - (k + K)" by simp
      with a k show ?thesis by (intro conjI exI [of _ "k + K"]) auto
    qed
  next
    assume a: "i < 32 \<and> (\<exists>k<2 * K. k \<le> i \<and> bit x (i - k))"
    then obtain k where k: "k < 2 * K" "k \<le> i" "bit x (i - k)" by blast
    show "bit v i \<or> (K \<le> i \<and> i < 32 \<and> bit v (i - K))"
    proof (cases "k < K")
      case True
      with a k v show ?thesis by blast
    next
      case False
      then have "k - K < K" "k - K \<le> i - K" "i - K - (k - K) = i - k" "K \<le> i" "i - K < 32"
        using k a by auto
      with k(3) have "bit v (i - K)" using v [of "i - K"] by metis
      with \<open>K \<le> i\<close> a show ?thesis by simp
    qed
  qed
  finally show ?thesis .
qed

lemma bit_smear32:
  "bit (smear32 x) i \<longleftrightarrow> i < 32 \<and> (\<exists>j\<le>i. bit x j)"
proof -
  define v1 where "v1 = x OR push_bit 1 x"
  define v2 where "v2 = v1 OR push_bit 2 v1"
  define v4 where "v4 = v2 OR push_bit 4 v2"
  define v8 where "v8 = v4 OR push_bit 8 v4"
  define v16 where "v16 = v8 OR push_bit 16 v8"
  have b0: "bit x i \<longleftrightarrow> i < 32 \<and> (\<exists>k<1. k \<le> i \<and> bit x (i - k))" for i
    using bit_imp_le_length [of x i] by auto
  have b1: "bit v1 i \<longleftrightarrow> i < 32 \<and> (\<exists>k<2. k \<le> i \<and> bit x (i - k))" for i
    unfolding v1_def using smear_step [of x 1 x i, OF b0] by simp
  have b2: "bit v2 i \<longleftrightarrow> i < 32 \<and> (\<exists>k<4. k \<le> i \<and> bit x (i - k))" for i
    unfolding v2_def using smear_step [of v1 2 x i, OF b1] by simp
  have b4: "bit v4 i \<longleftrightarrow> i < 32 \<and> (\<exists>k<8. k \<le> i \<and> bit x (i - k))" for i
    unfolding v4_def using smear_step [of v2 4 x i, OF b2] by simp
  have b8: "bit v8 i \<longleftrightarrow> i < 32 \<and> (\<exists>k<16. k \<le> i \<and> bit x (i - k))" for i
    unfolding v8_def using smear_step [of v4 8 x i, OF b4] by simp
  have b16: "bit v16 i \<longleftrightarrow> i < 32 \<and> (\<exists>k<32. k \<le> i \<and> bit x (i - k))" for i
    unfolding v16_def using smear_step [of v8 16 x i, OF b8] by simp
  have s: "smear32 x = v16"
    by (simp add: smear32_def Let_def v1_def v2_def v4_def v8_def v16_def)
  have "(\<exists>k<32. k \<le> i \<and> bit x (i - k)) \<longleftrightarrow> (\<exists>j\<le>i. bit x j)" if "i < 32"
  proof
    assume "\<exists>k<32. k \<le> i \<and> bit x (i - k)"
    then obtain k where "k \<le> i" "bit x (i - k)" by blast
    then show "\<exists>j\<le>i. bit x j" by (intro exI [of _ "i - k"]) simp
  next
    assume "\<exists>j\<le>i. bit x j"
    then obtain j where j: "j \<le> i" "bit x j" by blast
    with that show "\<exists>k<32. k \<le> i \<and> bit x (i - k)" by (intro exI [of _ "i - j"]) simp
  qed
  with b16 [of i] s show ?thesis by auto
qed

lemma less_count_trailing_zeros32:
  "i < count_trailing_zeros32 x \<longleftrightarrow> i < 32 \<and> (\<forall>j\<le>i. \<not> bit x j)"
proof -
  let ?P = "\<lambda>i. \<not> bit x i"
  let ?tw = "takeWhile ?P [0..<32]"
  have le: "length ?tw \<le> 32"
    using length_takeWhile_le [of ?P "[0..<32]"] by simp
  show ?thesis
  proof
    assume a: "i < count_trailing_zeros32 x"
    then have i: "i < length ?tw" by (simp add: count_trailing_zeros32_def)
    have "\<not> bit x j" if "j \<le> i" for j
    proof -
      from that i have j: "j < length ?tw" by simp
      then have "?tw ! j = [0..<32] ! j" by (rule takeWhile_nth)
      moreover from j le have "j < 32" by simp
      ultimately have "?tw ! j = j" by simp
      moreover from j have "?tw ! j \<in> set ?tw" by simp
      ultimately have "j \<in> set ?tw" by simp
      then show ?thesis by (rule set_takeWhileD [THEN conjunct2])
    qed
    with i le show "i < 32 \<and> (\<forall>j\<le>i. \<not> bit x j)" by simp
  next
    assume a: "i < 32 \<and> (\<forall>j\<le>i. \<not> bit x j)"
    show "i < count_trailing_zeros32 x"
    proof (rule ccontr)
      assume "\<not> i < count_trailing_zeros32 x"
      then have n: "length ?tw \<le> i" by (simp add: count_trailing_zeros32_def)
      with a have "length ?tw < length [0..<32]" by simp
      then have "\<not> ?P ([0..<32] ! length ?tw)" by (rule nth_length_takeWhile)
      moreover from n a have "[0..<32] ! length ?tw = length ?tw" by simp
      ultimately have "bit x (length ?tw)" by simp
      with a n show False by blast
    qed
  qed
qed

lemma count_trailing_zeros32_le: "count_trailing_zeros32 x \<le> 32"
  using length_takeWhile_le [of "\<lambda>i. \<not> bit x i" "[0..<32]"]
  by (simp add: count_trailing_zeros32_def)

lemma not_smear32: "NOT (smear32 x) = mask (count_trailing_zeros32 x)"
proof (rule bit_word_eqI)
  fix i assume "i < LENGTH(32)"
  then have i: "i < 32" by simp
  have "bit (NOT (smear32 x)) i \<longleftrightarrow> \<not> (\<exists>j\<le>i. bit x j)"
    using i by (simp add: bit_not_iff bit_smear32)
  also have "\<dots> \<longleftrightarrow> i < count_trailing_zeros32 x"
    using i by (simp add: less_count_trailing_zeros32)
  also have "\<dots> \<longleftrightarrow> bit (mask (count_trailing_zeros32 x) :: 32 word) i"
    using i by (simp add: bit_mask_iff)
  finally show "bit (NOT (smear32 x)) i \<longleftrightarrow> bit (mask (count_trailing_zeros32 x) :: 32 word) i" .
qed

lemma CountPopulation32_mask:
  "\<forall>n\<in>set [0..<33]. CountPopulation32 (mask n) = word_of_nat n"
  by code_simp

lemma eval_nodes_append:
  "eval_nodes env vs (xs @ ys) = eval_nodes env (eval_nodes env vs xs) ys"
  by (induction xs arbitrary: vs) simp_all

lemma length_eval_nodes: "length (eval_nodes env vs xs) = length vs + length xs"
  by (induction xs arbitrary: vs) simp_all

lemma eval_smear32_round:
  assumes "length vs = L" "xid < L" "vs ! xid = Some v" "unat (c AND 31) = k"
  shows "eval_nodes env vs (smear32_round c L xid)
           = vs @ [Some c, Some (push_bit k v), Some (v OR push_bit k v)]"
  using assms by (simp add: smear32_round_def eval_node_def eval_W32_def nth_append)

lemma eval_popcnt32_round:
  assumes "length vs = L" "xid < L" "vs ! xid = Some v" "unat (c AND 31) = k"
  shows "eval_nodes env vs (popcnt32_round c m L xid)
           = vs @ [Some c, Some (drop_bit k v), Some m, Some (drop_bit k v AND m), Some m,
                   Some (v AND m), Some (popcnt32_step k m v)]"
  using assms
  by (simp add: popcnt32_round_def eval_node_def eval_W32_def nth_append popcnt32_step_def)

lemma eval_round_last:
  assumes "eval_nodes env vs xs = vs @ ws" "length vs = L" "length ws = Suc n" "ws ! n = Some v"
  shows "length (eval_nodes env vs xs) = L + Suc n"
    and "L + n < L + Suc n"
    and "eval_nodes env vs xs ! (L + n) = Some v"
  using assms by (simp_all add: nth_append)

lemma shift_counts:
  "unat ((1 :: 32 word) AND 31) = 1" "unat ((2 :: 32 word) AND 31) = 2"
  "unat ((4 :: 32 word) AND 31) = 4" "unat ((8 :: 32 word) AND 31) = 8"
  "unat ((16 :: 32 word) AND 31) = 16"
  by simp_all

lemma eval_smear32_round_last:
  assumes "length vs = L" "xid < L" "vs ! xid = Some v" "unat (c AND 31) = k"
  shows "length (eval_nodes env vs (smear32_round c L xid)) = L + 3"
    and "L + 2 < L + 3"
    and "eval_nodes env vs (smear32_round c L xid) ! (L + 2) = Some (v OR push_bit k v)"
  using eval_smear32_round [OF assms, of env] assms(1) by (simp_all add: nth_append)

lemma eval_popcnt32_round_last:
  assumes "length vs = L" "xid < L" "vs ! xid = Some v" "unat (c AND 31) = k"
  shows "length (eval_nodes env vs (popcnt32_round c m L xid)) = L + 7"
    and "L + 6 < L + 7"
    and "eval_nodes env vs (popcnt32_round c m L xid) ! (L + 6) = Some (popcnt32_step k m v)"
  using eval_popcnt32_round [OF assms, of env m] assms(1) by (simp_all add: nth_append)

lemma eval_MakeI32Popcnt_nodes:
  assumes len: "length vs = L" and xid: "xid < L" and x: "vs ! xid = Some y"
  shows "length (eval_nodes env vs (MakeI32Popcnt_nodes L xid)) = L + 35"
    and "eval_nodes env vs (MakeI32Popcnt_nodes L xid) ! (L + 34) = Some (CountPopulation32 y)"
proof -
  define v1 where "v1 = popcnt32_step 1 0x55555555 y"
  define v2 where "v2 = popcnt32_step 2 0x33333333 v1"
  define v4 where "v4 = popcnt32_step 4 0x0f0f0f0f v2"
  define v8 where "v8 = popcnt32_step 8 0x00ff00ff v4"
  define v16 where "v16 = popcnt32_step 16 0x0000ffff v8"
  define e1 where "e1 = eval_nodes env vs (popcnt32_round 1 0x55555555 L xid)"
  define e2 where "e2 = eval_nodes env e1 (popcnt32_round 2 0x33333333 (L + 7) (L + 6))"
  define e4 where "e4 = eval_nodes env e2 (popcnt32_round 4 0x0f0f0f0f (L + 14) (L + 13))"
  define e8 where "e8 = eval_nodes env e4 (popcnt32_round 8 0x00ff00ff (L + 21) (L + 20))"
  define e16 where "e16 = eval_nodes env e8 (popcnt32_round 16 0x0000ffff (L + 28) (L + 27))"
  have ar: "L + 7 + 7 = L + 14" "L + 7 + 6 = L + 13" "L + 14 + 7 = L + 21" "L + 14 + 6 = L + 20"
    "L + 21 + 7 = L + 28" "L + 21 + 6 = L + 27" "L + 28 + 7 = L + 35" "L + 28 + 6 = L + 34"
    by simp_all
  have r1: "length e1 = L + 7" "L + 6 < L + 7" "e1 ! (L + 6) = Some v1"
    unfolding e1_def v1_def
    by (rule eval_popcnt32_round_last [OF len xid x shift_counts(1), unfolded ar])+
  have r2: "length e2 = L + 14" "L + 13 < L + 14" "e2 ! (L + 13) = Some v2"
    unfolding e2_def v2_def
    by (rule eval_popcnt32_round_last [OF r1 shift_counts(2), unfolded ar])+
  have r4: "length e4 = L + 21" "L + 20 < L + 21" "e4 ! (L + 20) = Some v4"
    unfolding e4_def v4_def
    by (rule eval_popcnt32_round_last [OF r2 shift_counts(3), unfolded ar])+
  have r8: "length e8 = L + 28" "L + 27 < L + 28" "e8 ! (L + 27) = Some v8"
    unfolding e8_def v8_def
    by (rule eval_popcnt32_round_last [OF r4 shift_counts(4), unfolded ar])+
  have r16: "length e16 = L + 35" "L + 34 < L + 35" "e16 ! (L + 34) = Some v16"
    unfolding e16_def v16_def
    by (rule eval_popcnt32_round_last [OF r8 shift_counts(5), unfolded ar])+
  have e: "eval_nodes env vs (MakeI32Popcnt_nodes L xid) = e16"
    by (simp only: MakeI32Popcnt_nodes_def eval_nodes_append e1_def e2_def e4_def e8_def e16_def)
  have c: "CountPopulation32 y = v16"
    by (simp add: CountPopulation32_def Let_def v1_def v2_def v4_def v8_def v16_def)
  show "length (eval_nodes env vs (MakeI32Popcnt_nodes L xid)) = L + 35"
    using e r16 by simp
  show "eval_nodes env vs (MakeI32Popcnt_nodes L xid) ! (L + 34) = Some (CountPopulation32 y)"
    using e r16 c by simp
qed

lemma eval_MakeI32Ctz_nodes:
  assumes len: "length vs = L" and xid: "xid < L" and x: "vs ! xid = Some x"
  shows "length (eval_nodes env vs (MakeI32Ctz_nodes L xid)) = L + 52"
    and "eval_nodes env vs (MakeI32Ctz_nodes L xid) ! (L + 51)
           = Some (CountPopulation32 (0xffffffff XOR smear32 x))"
proof -
  define v1 where "v1 = x OR push_bit 1 x"
  define v2 where "v2 = v1 OR push_bit 2 v1"
  define v4 where "v4 = v2 OR push_bit 4 v2"
  define v8 where "v8 = v4 OR push_bit 8 v4"
  define v16 where "v16 = v8 OR push_bit 16 v8"
  define e1 where "e1 = eval_nodes env vs (smear32_round 1 L xid)"
  define e2 where "e2 = eval_nodes env e1 (smear32_round 2 (L + 3) (L + 2))"
  define e4 where "e4 = eval_nodes env e2 (smear32_round 4 (L + 6) (L + 5))"
  define e8 where "e8 = eval_nodes env e4 (smear32_round 8 (L + 9) (L + 8))"
  define e16 where "e16 = eval_nodes env e8 (smear32_round 16 (L + 12) (L + 11))"
  define ex where "ex = eval_nodes env e16
      [\<lparr>node_op = Int32Constant 0xffffffff, node_inputs = []\<rparr>,
       \<lparr>node_op = W32 Word32Xor, node_inputs = [L + 15, L + 14]\<rparr>]"
  have ar: "L + 3 + 3 = L + 6" "L + 3 + 2 = L + 5" "L + 6 + 3 = L + 9" "L + 6 + 2 = L + 8"
    "L + 9 + 3 = L + 12" "L + 9 + 2 = L + 11" "L + 12 + 3 = L + 15" "L + 12 + 2 = L + 14"
    by simp_all
  have r1: "length e1 = L + 3" "L + 2 < L + 3" "e1 ! (L + 2) = Some v1"
    unfolding e1_def v1_def
    by (rule eval_smear32_round_last [OF len xid x shift_counts(1), unfolded ar])+
  have r2: "length e2 = L + 6" "L + 5 < L + 6" "e2 ! (L + 5) = Some v2"
    unfolding e2_def v2_def
    by (rule eval_smear32_round_last [OF r1 shift_counts(2), unfolded ar])+
  have r4: "length e4 = L + 9" "L + 8 < L + 9" "e4 ! (L + 8) = Some v4"
    unfolding e4_def v4_def
    by (rule eval_smear32_round_last [OF r2 shift_counts(3), unfolded ar])+
  have r8: "length e8 = L + 12" "L + 11 < L + 12" "e8 ! (L + 11) = Some v8"
    unfolding e8_def v8_def
    by (rule eval_smear32_round_last [OF r4 shift_counts(4), unfolded ar])+
  have r16: "length e16 = L + 15" "L + 14 < L + 15" "e16 ! (L + 14) = Some v16"
    unfolding e16_def v16_def
    by (rule eval_smear32_round_last [OF r8 shift_counts(5), unfolded ar])+
  have rx: "length ex = L + 17" "L + 16 < L + 17" "ex ! (L + 16) = Some (0xffffffff XOR v16)"
    unfolding ex_def using r16
    by (simp_all add: eval_node_def eval_W32_def nth_append)
  note p = eval_MakeI32Popcnt_nodes [OF rx, of env]
  have e: "eval_nodes env vs (MakeI32Ctz_nodes L xid)
             = eval_nodes env ex (MakeI32Popcnt_nodes (L + 17) (L + 16))"
    by (simp only: MakeI32Ctz_nodes_def eval_nodes_append e1_def e2_def e4_def e8_def e16_def
        ex_def)
  have s: "smear32 x = v16"
    by (simp add: smear32_def Let_def v1_def v2_def v4_def v8_def v16_def)
  show "length (eval_nodes env vs (MakeI32Ctz_nodes L xid)) = L + 52"
    using e p(1) by simp
  show "eval_nodes env vs (MakeI32Ctz_nodes L xid) ! (L + 51)
           = Some (CountPopulation32 (0xffffffff XOR smear32 x))"
    using e p(2) s by (simp add: add.assoc)
qed

lemma xor_ones32: "(0xffffffff :: 32 word) XOR y = NOT y"
proof -
  have "(0xffffffff :: 32 word) = - 1" by simp
  then show ?thesis by (simp only: bit.xor_one_left)
qed

lemma CountPopulation32_smear32:
  "CountPopulation32 (0xffffffff XOR smear32 x) = word_of_nat (count_trailing_zeros32 x)"
proof -
  have "count_trailing_zeros32 x \<in> set [0..<33]"
    using count_trailing_zeros32_le [of x] by simp
  with CountPopulation32_mask
  have "CountPopulation32 (mask (count_trailing_zeros32 x))
          = word_of_nat (count_trailing_zeros32 x)"
    by blast
  then show ?thesis by (simp only: xor_ones32 not_smear32)
qed

text \<open>
  C6. \<open>MakeI32Ctz\<close> on an input node of the graph returns; it adds the five rounds of the
  bit smear (shifts by 1, 2, 4, 8, 16, each combined with its operand by or), the xor
  with 0xffffffff, and the nodes of \<open>MakeI32Popcnt\<close> on that xor. When the input node
  evaluates to \<open>x\<close>, the node returned evaluates to the number of trailing zero bits of
  \<open>x\<close>, and that number is 32 for \<open>x = 0\<close>.
\<close>

theorem MakeI32Ctz_counts_trailing_zeros:
  assumes i: "input < length (nodes s)"
    and x: "eval_graph env (nodes s) ! input = Some x"
  shows "\<exists>n s'. MakeI32Ctz input s = Some (n, s') \<and>
           nodes s' = nodes s @ MakeI32Ctz_nodes (length (nodes s)) input \<and>
           n < length (eval_graph env (nodes s')) \<and>
           eval_graph env (nodes s') ! n = Some (word_of_nat (count_trailing_zeros32 x)) \<and>
           count_trailing_zeros32 0 = 32"
proof -
  let ?L = "length (nodes s)"
  let ?s' = "s\<lparr>nodes := nodes s @ MakeI32Ctz_nodes ?L input\<rparr>"
  have four: "(4 :: nat) = Suc (Suc (Suc (Suc 0)))" by simp
  have run: "MakeI32Ctz input s = Some (?L + 51, ?s')"
    unfolding MakeI32Ctz_def four by (rule Build_MakeI32Ctz)
  have len: "length (eval_graph env (nodes s)) = ?L"
    by (simp add: eval_graph_def length_eval_nodes)
  note e = eval_MakeI32Ctz_nodes [OF len i x]
  have g: "eval_graph env (nodes ?s')
             = eval_nodes env (eval_graph env (nodes s)) (MakeI32Ctz_nodes ?L input)"
    by (simp add: eval_graph_def eval_nodes_append)
  have tw: "length (takeWhile (\<lambda>i. True) xs) = length xs" for xs :: "nat list"
    by (induction xs) simp_all
  have z: "count_trailing_zeros32 0 = 32"
    by (simp add: count_trailing_zeros32_def tw)
  from run g e z show ?thesis
    by (simp add: CountPopulation32_smear32)
qed

theorem MakeI32Ctz_counts_trailing_zeros_witness:
  "1 < length (nodes example_builder) \<and>
   eval_graph (\<lambda>i. if i = 1 then Some 40 else None) (nodes example_builder) ! 1 = Some 40 \<and>
   (\<exists>n s'. MakeI32Ctz 1 example_builder = Some (n, s') \<and>
      eval_graph (\<lambda>i. if i = 1 then Some 40 else None) (nodes s') ! n = Some 3)"
proof -
  let ?env = "\<lambda>i :: nat. if i = 1 then Some (40 :: 32 word) else None"
  have a: "1 < length (nodes example_builder)"
    by (simp add: example_builder_def)
  have b: "eval_graph ?env (nodes example_builder) ! 1 = Some 40"
    by (simp add: example_builder_def eval_graph_def eval_node_def)
  have c: "count_trailing_zeros32 40 = 3"
    by code_simp
  from MakeI32Ctz_counts_trailing_zeros [OF a b] a b c show ?thesis
    by auto
qed

end
